(* ===== verification/Prelude.thy ===== *)
theory Prelude
  imports Main "HOL-Library.Word" "HOL-Library.State_Monad"
begin

text \<open>
  Shared vocabulary of the development: the C integer types the sources use, the reads and
  scans of C arrays, the state monad in which stateful C code is written, and the generic
  lemmas the component theories rely on.

  \<^item> \<open>u8\<close>, \<open>u32\<close> and \<open>i32\<close> are machine words; a value of type \<open>i32\<close> is read with \<open>sint\<close>.
  \<^item> \<open>array_read\<close> is a C array read in which an access outside the array is the value
    \<open>None\<close>, so that an out-of-bounds access is visible in the model.
  \<^item> \<open>first_index\<close> is the loop \<open>for (i = 0; i < N; i++) if (P(a[i])) ...\<close> that leaves at the
    first match.
  \<^item> \<open>gets\<close>, \<open>modify\<close> and \<open>lift_call\<close> are the primitives of the state monad: reading a part of
    the state, updating it, and calling a routine that owns only a part of the state.
  \<^item> The collection \<open>run_simps\<close> holds the equations that execute monadic code symbolically;
    \<open>spec P m Q\<close> is the triple for monadic code, stepped by the collection \<open>step_rules\<close>.
\<close>

named_theorems run_simps \<open>symbolic execution of monadic code\<close>
named_theorems step_rules \<open>rules that step a specification through monadic code\<close>

type_synonym u8 = "8 word"
type_synonym u32 = "32 word"
type_synonym i32 = "32 word"

section \<open>Arrays\<close>

definition array_read :: "'a list \<Rightarrow> nat \<Rightarrow> 'a option" where
  "array_read xs i = (if i < length xs then Some (xs ! i) else None)"

primrec first_index :: "('a \<Rightarrow> bool) \<Rightarrow> 'a list \<Rightarrow> nat option" where
  "first_index P [] = None"
| "first_index P (x # xs) = (if P x then Some 0 else map_option Suc (first_index P xs))"

section \<open>Stateful code\<close>

abbreviation return :: "'a \<Rightarrow> ('s, 'a) state" where
  "return \<equiv> State_Monad.return"

definition gets :: "('s \<Rightarrow> 'a) \<Rightarrow> ('s, 'a) state" where
  "gets f = State (\<lambda>s. (f s, s))"

definition modify :: "('s \<Rightarrow> 's) \<Rightarrow> ('s, unit) state" where
  "modify f = State (\<lambda>s. ((), f s))"

definition lift_call ::
  "('s \<Rightarrow> 'w) \<Rightarrow> ('w \<Rightarrow> 's \<Rightarrow> 's) \<Rightarrow> ('w \<Rightarrow> 'a \<times> 'w) \<Rightarrow> ('s, 'a) state" where
  "lift_call get_part put_part f =
     State (\<lambda>s. (fst (f (get_part s)), put_part (snd (f (get_part s))) s))"

section \<open>Lemmas on arrays\<close>

lemma array_read_in [simp]: "i < length xs \<Longrightarrow> array_read xs i = Some (xs ! i)"
  by (simp add: array_read_def)

lemma array_read_None [simp]: "array_read xs i = None \<longleftrightarrow> length xs \<le> i"
  by (auto simp: array_read_def)

lemma array_read_Some: "array_read xs i = Some x \<longleftrightarrow> i < length xs \<and> xs ! i = x"
  by (auto simp: array_read_def)

lemma first_index_None: "first_index P xs = None \<longleftrightarrow> (\<forall>x \<in> set xs. \<not> P x)"
  by (induction xs) auto

lemma first_index_Some:
  "first_index P xs = Some i \<longleftrightarrow> i < length xs \<and> P (xs ! i) \<and> (\<forall>j < i. \<not> P (xs ! j))"
proof (induction xs arbitrary: i)
  case Nil
  then show ?case by simp
next
  case (Cons x xs)
  show ?case
  proof (cases i)
    case 0
    then show ?thesis by auto
  next
    case (Suc k)
    then show ?thesis
      using Cons.IH [of k] by (auto simp: less_Suc_eq_0_disj)
  qed
qed

lemma first_index_SomeD:
  assumes "first_index P xs = Some i"
  shows "i < length xs" and "P (xs ! i)" and "\<And>j. j < i \<Longrightarrow> \<not> P (xs ! j)"
  using assms by (auto simp: first_index_Some)

lemma first_index_unique:
  assumes "i < length xs" and "P (xs ! i)" and "\<And>j. j < length xs \<Longrightarrow> P (xs ! j) \<Longrightarrow> j = i"
  shows "first_index P xs = Some i"
  unfolding first_index_Some using assms by (metis less_trans order_less_irrefl)

lemma first_index_ex: "x \<in> set xs \<Longrightarrow> P x \<Longrightarrow> \<exists>i. first_index P xs = Some i"
  using first_index_None [of P xs] by (cases "first_index P xs") auto

section \<open>Lemmas on the state monad\<close>

lemma run_gets [simp, run_simps]: "run_state (gets f) s = (f s, s)"
  by (simp add: gets_def)

lemma run_modify [simp, run_simps]: "run_state (modify f) s = ((), f s)"
  by (simp add: modify_def)

lemma run_lift_call [simp, run_simps]:
  "run_state (lift_call g p f) s = (fst (f (g s)), p (snd (f (g s))) s)"
  by (simp add: lift_call_def)

lemma run_if [run_simps]:
  "run_state (if b then m else n) s = (if b then run_state m s else run_state n s)"
  by simp

declare run_state_bind [run_simps] run_state_return [run_simps] case_prod_beta [run_simps]
  fst_conv [run_simps] snd_conv [run_simps]

section \<open>Specifications of monadic code\<close>

text \<open>Every run from a state in \<open>P\<close> ends with a result and a state in \<open>Q\<close>.\<close>

definition spec :: "('e \<Rightarrow> bool) \<Rightarrow> ('e, 'a) state \<Rightarrow> ('a \<Rightarrow> 'e \<Rightarrow> bool) \<Rightarrow> bool" where
  "spec P m Q \<longleftrightarrow> (\<forall>e. P e \<longrightarrow> (case run_state m e of (a, e') \<Rightarrow> Q a e'))"

lemma spec_return: "(\<And>e. P e \<Longrightarrow> Q a e) \<Longrightarrow> spec P (return a) Q"
  by (simp add: spec_def)

lemma spec_bind: "spec P m (\<lambda>a e. spec (\<lambda>e'. e' = e) (f a) Q) \<Longrightarrow> spec P (State_Monad.bind m f) Q"
  by (simp add: spec_def case_prod_beta)

section \<open>Lemmas on words\<close>

lemma unat_inc_less:
  fixes x y :: "'a::len word"
  assumes "x < y"
  shows "unat (x + 1) = Suc (unat x)"
proof -
  have "unat x < unat y" using assms by (simp add: word_less_nat_alt)
  then have "Suc (unat x) < 2 ^ LENGTH('a)"
    using unsigned_less [of y, where ?'a = nat] by linarith
  then show ?thesis by (simp add: unat_word_ariths)
qed

lemma unat_word_of_int_small:
  assumes "0 \<le> k" and "k < 2 ^ 32"
  shows "unat (word_of_int k :: 32 word) = nat k"
  using assms by (simp add: unat_eq_nat_uint uint_word_of_int)

lemma unat_neg_sint:
  assumes "sint (n :: i32) < 0"
  shows "unat (- n) = nat (- sint n)"
proof -
  have "- (2 ^ 31) \<le> sint n" using sint_ge [of n] by simp
  then have "unat (word_of_int (- sint n) :: i32) = nat (- sint n)"
    using assms by (intro unat_word_of_int_small) simp_all
  then show ?thesis by simp
qed

lemma unat_nonneg_sint:
  assumes "0 \<le> sint (n :: i32)"
  shows "unat n = nat (sint n)"
proof -
  have "sint n < 2 ^ 31" using sint_lt [of n] by simp
  then have "unat (word_of_int (sint n) :: i32) = nat (sint n)"
    using assms by (intro unat_word_of_int_small) simp_all
  then show ?thesis by simp
qed

lemma unat_u32_bound: "unat (n :: u32) < 2 ^ 32"
  using unsigned_less [of n, where ?'a = nat] by simp

text \<open>A loop counter below its bound comes closer to it with every round.\<close>

lemma next_round:
  assumes "(i :: u32) < n"
  shows "unat n - unat (i + 1) < unat n - unat i"
proof -
  have "unat i + unat (1 :: u32) < 2 ^ 32"
    using assms unat_u32_bound [of n] by (simp add: word_less_nat_alt)
  then have "unat (i + 1) = unat i + 1" by (simp add: unat_add_lem [THEN iffD1])
  then show ?thesis using assms by (simp add: word_less_nat_alt)
qed

end
