(* ===== verification/Log_Raw.thy ===== *)
theory Log_Raw
  imports Prelude
begin

text \<open>
  The raw console logger, \<^verbatim>\<open>src/lib/log/tfm_log_raw.c\<close>.

  A call of \<open>tfm_log_printf\<close> formats into a buffer of \<open>PRINT_BUFF_SIZE\<close> characters and hands
  the buffer to \<open>stdio_output_string\<close> each time it is full and once more at the end. The model
  keeps the buffer as the C struct \<open>formatted_buffer_t\<close> has it (a position and 32
  characters, whose initial contents are arbitrary) together with the list of strings handed
  to \<open>stdio_output_string\<close> so far. \<open>stdio_output_string\<close> is platform code: it is a parameter, of
  which only the returned count is used.

  A \<open>va_list\<close> is a list of arguments; taking an argument that is missing or of the other kind
  is undefined behaviour in C and the value \<open>None\<close> here, as is a write past \<open>num_buff\<close>. Signed
  arithmetic is checked the same way: \<open>c_int\<close> is the value of an \<open>int\<close> expression, \<open>None\<close> outside
  the range of the type, so that the running counts are C integers and the negation of the most
  negative argument of \<open>%d\<close> is undefined, as the language has it.

  The theorems: the characters written are those of a buffer-free reference formatter, the
  number conversions are decodable, \<open>num_buff\<close> is large enough, every chunk but the last is a
  full buffer, and the exact value of the returned count, with the exact condition under which
  counting overflows.
\<close>

unbundle bit_operations_syntax

section \<open>Data\<close>

definition PRINT_BUFF_SIZE :: nat where "PRINT_BUFF_SIZE = 32"
definition NUM_BUFF_SIZE :: nat where "NUM_BUFF_SIZE = 12"

record formatted_buffer_t =
  pos :: nat
  buf :: "char list"
  sent :: "string list" \<comment> \<open>what \<open>stdio_output_string\<close> was called with, in order\<close>

datatype log_arg = Arg_int u32 | Arg_str string

definition hex_digits_lo :: "char list" where
  "hex_digits_lo = ''0123456789abcdef''"

definition hex_digits_up :: "char list" where
  "hex_digits_up = ''0123456789ABCDEF''"

abbreviation NUL :: char where "NUL \<equiv> CHR 0x00"

text \<open>The value of a C expression of type \<open>int\<close>; out of range, the expression is undefined.\<close>

definition INT_MAX :: int where "INT_MAX = 2147483647"

definition c_int :: "int \<Rightarrow> int option" where
  "c_int n = (if - INT_MAX - 1 \<le> n \<and> n \<le> INT_MAX then Some n else None)"

section \<open>Operations\<close>

definition tfm_flush_formatted_buffer ::
  "formatted_buffer_t \<Rightarrow> char \<Rightarrow> formatted_buffer_t" where
  "tfm_flush_formatted_buffer pb data =
     (let pb = pb\<lparr>buf := (buf pb)[pos pb := data], pos := pos pb + 1\<rparr>
      in if pos pb \<ge> PRINT_BUFF_SIZE
         then pb\<lparr>pos := 0, sent := sent pb @ [take PRINT_BUFF_SIZE (buf pb)]\<rparr>
         else pb)"

text \<open>The loop of \<open>_tfm_string_output\<close>, with its local \<open>count\<close>.\<close>

fun string_output_loop ::
  "formatted_buffer_t \<Rightarrow> int \<Rightarrow> string \<Rightarrow> (formatted_buffer_t \<times> int) option" where
  "string_output_loop pb count [] = Some (pb, count)"
| "string_output_loop pb count (c # str) =
     (if c = NUL then Some (pb, count)
      else case c_int (count + 1) of
             None \<Rightarrow> None
           | Some count \<Rightarrow> string_output_loop (tfm_flush_formatted_buffer pb c) count str)"

definition tfm_string_output ::
  "formatted_buffer_t \<Rightarrow> string \<Rightarrow> (formatted_buffer_t \<times> int) option" where
  "tfm_string_output pb str = string_output_loop pb 0 str"

function dec_fill :: "u32 \<Rightarrow> char list \<Rightarrow> nat \<Rightarrow> (char list \<times> nat) option" where
  "dec_fill number num_buff k =
     (if k < length num_buff
      then let num_buff = num_buff[k := char_of (48 + unat (number mod 10))];
               number = number div 10
           in if number \<noteq> 0 then dec_fill number num_buff (Suc k)
              else Some (num_buff, Suc k)
      else None)"
  by pat_completeness auto
termination
  by (relation "measure (\<lambda>(number, num_buff, k). length num_buff - k)") auto

function hex_fill ::
  "char list \<Rightarrow> u32 \<Rightarrow> char list \<Rightarrow> nat \<Rightarrow> (char list \<times> nat) option" where
  "hex_fill hex_digits num num_buff k =
     (if k < length num_buff
      then let num_buff = num_buff[k := hex_digits ! unat (num AND 0x0f)];
               num = drop_bit 4 num
           in if num \<noteq> 0 then hex_fill hex_digits num num_buff (Suc k)
              else Some (num_buff, Suc k)
      else None)"
  by pat_completeness auto
termination
  by (relation "measure (\<lambda>(hex_digits, num, num_buff, k). length num_buff - k)") auto

declare dec_fill.simps [simp del] hex_fill.simps [simp del]

text \<open>The second loop of both number routines; it runs at most \<open>NUM_BUFF_SIZE\<close> times, so that
  its count needs no check.\<close>

fun num_buff_output ::
  "formatted_buffer_t \<Rightarrow> char list \<Rightarrow> nat \<Rightarrow> formatted_buffer_t \<times> int" where
  "num_buff_output pb num_buff 0 = (pb, 0)"
| "num_buff_output pb num_buff (Suc k) =
     (let (pb, count) = num_buff_output (tfm_flush_formatted_buffer pb (num_buff ! k)) num_buff k
      in (pb, count + 1))"

definition tfm_dec_num_output ::
  "formatted_buffer_t \<Rightarrow> i32 \<Rightarrow> char \<Rightarrow> (formatted_buffer_t \<times> int) option" where
  "tfm_dec_num_output pb num sign =
     (let neg = (sign = CHR ''d'' \<and> sint num < 0);
          pb = (if neg then tfm_flush_formatted_buffer pb (CHR ''-'') else pb)
      in case (if neg then map_option word_of_int (c_int (- sint num)) else Some num) of
           None \<Rightarrow> None
         | Some number \<Rightarrow>
             (case dec_fill number (replicate NUM_BUFF_SIZE NUL) 0 of
                None \<Rightarrow> None
              | Some (num_buff, k) \<Rightarrow>
                  let (pb, count) = num_buff_output pb num_buff k
                  in Some (pb, (if neg then 1 else 0) + count)))"

definition tfm_hex_num_output ::
  "formatted_buffer_t \<Rightarrow> u32 \<Rightarrow> char list \<Rightarrow> (formatted_buffer_t \<times> int) option" where
  "tfm_hex_num_output pb num hex_digits =
     (case hex_fill hex_digits num (replicate NUM_BUFF_SIZE NUL) 0 of
        None \<Rightarrow> None
      | Some (num_buff, k) \<Rightarrow> Some (num_buff_output pb num_buff k))"

text \<open>
  One conversion, the \<open>switch\<close> on the character after \<open>%\<close>: the result says what was written
  and which arguments are left; \<open>Unsupported\<close> is the \<open>default\<close> branch, which leaves the
  format pointer on the offending character.
\<close>

datatype conv_result =
    Undefined
  | Unsupported
  | Converted formatted_buffer_t int "log_arg list"

definition conv_of ::
  "(formatted_buffer_t \<times> int) option \<Rightarrow> log_arg list \<Rightarrow> conv_result" where
  "conv_of r ap =
     (case r of None \<Rightarrow> Undefined | Some (pb, count) \<Rightarrow> Converted pb count ap)"

definition convert :: "formatted_buffer_t \<Rightarrow> char \<Rightarrow> log_arg list \<Rightarrow> conv_result" where
  "convert pb c ap =
     (if c = CHR ''d'' \<or> c = CHR ''i'' then
        (case ap of Arg_int n # ap \<Rightarrow> conv_of (tfm_dec_num_output pb n (CHR ''d'')) ap
         | _ \<Rightarrow> Undefined)
      else if c = CHR ''u'' then
        (case ap of Arg_int n # ap \<Rightarrow> conv_of (tfm_dec_num_output pb n (CHR ''u'')) ap
         | _ \<Rightarrow> Undefined)
      else if c = CHR ''x'' then
        (case ap of Arg_int n # ap \<Rightarrow> conv_of (tfm_hex_num_output pb n hex_digits_lo) ap
         | _ \<Rightarrow> Undefined)
      else if c = CHR ''X'' then
        (case ap of Arg_int n # ap \<Rightarrow> conv_of (tfm_hex_num_output pb n hex_digits_up) ap
         | _ \<Rightarrow> Undefined)
      else if c = CHR ''p'' then
        (case tfm_string_output pb ''0x'' of
           None \<Rightarrow> Undefined
         | Some (pb, count) \<Rightarrow>
             (case ap of
                Arg_int n # ap \<Rightarrow>
                  conv_of (map_option (\<lambda>(pb, count'). (pb, count + count'))
                             (tfm_hex_num_output pb n hex_digits_lo)) ap
              | _ \<Rightarrow> Undefined))
      else if c = CHR ''s'' then
        (case ap of Arg_str s # ap \<Rightarrow> conv_of (tfm_string_output pb s) ap
         | _ \<Rightarrow> Undefined)
      else if c = CHR ''c'' then
        (case ap of
           Arg_int n # ap \<Rightarrow>
             Converted (tfm_flush_formatted_buffer pb (char_of (unat (ucast n :: u8)))) 1 ap
         | _ \<Rightarrow> Undefined)
      else if c = CHR ''%'' then Converted (tfm_flush_formatted_buffer pb (CHR ''%'')) 1 ap
      else Unsupported)"

definition unsupported_tag :: string where
  "unsupported_tag = ''[Unsupported Tag]''"

text \<open>
  The loop over the format string; every \<open>count += n\<close> is a checked addition. (For \<open>%p\<close> the two
  additions are made as one: the second summand is positive, so one overflows if and only if
  the other does.)
\<close>

fun vprintf_loop ::
  "formatted_buffer_t \<Rightarrow> int \<Rightarrow> string \<Rightarrow> log_arg list \<Rightarrow> (formatted_buffer_t \<times> int) option"
  where
  "vprintf_loop pb count [] ap = Some (pb, count)"
| "vprintf_loop pb count [c] ap =
     (if c = NUL then Some (pb, count)
      else if c = CHR ''%'' then
        (case tfm_string_output pb unsupported_tag of
           None \<Rightarrow> None
         | Some (pb, n) \<Rightarrow> map_option (\<lambda>count. (pb, count)) (c_int (count + n)))
      else map_option (\<lambda>count. (tfm_flush_formatted_buffer pb c, count)) (c_int (count + 1)))"
| "vprintf_loop pb count (c # d # fmt) ap =
     (if c = NUL then Some (pb, count)
      else if c = CHR ''%'' then
        (case convert pb d ap of
           Undefined \<Rightarrow> None
         | Unsupported \<Rightarrow>
             (case tfm_string_output pb unsupported_tag of
                None \<Rightarrow> None
              | Some (pb, n) \<Rightarrow>
                  (case c_int (count + n) of
                     None \<Rightarrow> None
                   | Some count \<Rightarrow> vprintf_loop pb count (d # fmt) ap))
         | Converted pb n ap \<Rightarrow>
             (case c_int (count + n) of
                None \<Rightarrow> None
              | Some count \<Rightarrow> vprintf_loop pb count fmt ap))
      else
        (case c_int (count + 1) of
           None \<Rightarrow> None
         | Some count \<Rightarrow> vprintf_loop (tfm_flush_formatted_buffer pb c) count (d # fmt) ap))"

definition tfm_log_vprintf ::
  "(string \<Rightarrow> int) \<Rightarrow> char list \<Rightarrow> string \<Rightarrow> log_arg list \<Rightarrow> (int \<times> string list) option" where
  "tfm_log_vprintf stdio_output_string junk fmt ap =
     (case vprintf_loop \<lparr>pos = 0, buf = junk, sent = []\<rparr> 0 fmt ap of
        None \<Rightarrow> None
      | Some (pb, count) \<Rightarrow>
          if pos pb \<noteq> 0
          then let chunk = take (pos pb) (buf pb)
               in map_option (\<lambda>count. (count, sent pb @ [chunk]))
                    (c_int (count + stdio_output_string chunk))
          else Some (count, sent pb))"

definition tfm_log_printf ::
  "(string \<Rightarrow> int) \<Rightarrow> char list \<Rightarrow> string \<Rightarrow> log_arg list \<Rightarrow> (int \<times> string list) option" where
  "tfm_log_printf stdio_output_string junk fmt args =
     tfm_log_vprintf stdio_output_string junk fmt args"

section \<open>Reference formatter\<close>

text \<open>
  The reference writes numbers most significant digit first and knows nothing of buffers. It is
  undefined for an argument that is missing or of the wrong kind, and for the most negative
  argument of a signed conversion.
\<close>

fun radix_string :: "nat \<Rightarrow> (nat \<Rightarrow> char) \<Rightarrow> nat \<Rightarrow> string" where
  "radix_string b dig n =
     (if n < b \<or> b < 2 then [dig (n mod b)]
      else radix_string b dig (n div b) @ [dig (n mod b)])"

declare radix_string.simps [simp del]

definition radix_value :: "nat \<Rightarrow> (char \<Rightarrow> nat) \<Rightarrow> string \<Rightarrow> nat" where
  "radix_value b val s = foldl (\<lambda>acc c. acc * b + val c) 0 s"

definition dec_digit :: "nat \<Rightarrow> char" where
  "dec_digit d = char_of (48 + d)"

definition dec_digit_value :: "char \<Rightarrow> nat" where
  "dec_digit_value c = of_char c - 48"

definition render_dec :: "i32 \<Rightarrow> string" where
  "render_dec n =
     (if sint n < 0 then CHR ''-'' # radix_string 10 dec_digit (nat (- sint n))
      else radix_string 10 dec_digit (nat (sint n)))"

definition render_udec :: "u32 \<Rightarrow> string" where
  "render_udec n = radix_string 10 dec_digit (unat n)"

definition render_hex :: "char list \<Rightarrow> u32 \<Rightarrow> string" where
  "render_hex ds n = radix_string 16 (\<lambda>d. ds ! d) (unat n)"

definition c_string :: "string \<Rightarrow> string" where
  "c_string s = takeWhile (\<lambda>c. c \<noteq> NUL) s"

fun render_conv :: "char \<Rightarrow> log_arg list \<Rightarrow> (string \<times> log_arg list) option option" where
  "render_conv c ap =
     (if c = CHR ''%'' then Some (Some (''%'', ap))
      else if c = CHR ''s'' then
        (case ap of Arg_str s # ap \<Rightarrow> Some (Some (c_string s, ap)) | _ \<Rightarrow> None)
      else if c \<notin> set ''diuxXpc'' then Some None
      else
        (case ap of
           Arg_int n # ap \<Rightarrow>
             if (c = CHR ''d'' \<or> c = CHR ''i'') \<and> n = 0x80000000 then None
             else Some (Some
               (if c = CHR ''d'' \<or> c = CHR ''i'' then render_dec n
                else if c = CHR ''u'' then render_udec n
                else if c = CHR ''x'' then render_hex hex_digits_lo n
                else if c = CHR ''X'' then render_hex hex_digits_up n
                else if c = CHR ''p'' then ''0x'' @ render_hex hex_digits_lo n
                else [char_of (unat n mod 256)], ap))
         | _ \<Rightarrow> None))"

fun render :: "string \<Rightarrow> log_arg list \<Rightarrow> string option" where
  "render [] ap = Some []"
| "render [c] ap =
     Some (if c = NUL then [] else if c = CHR ''%'' then unsupported_tag else [c])"
| "render (c # d # fmt) ap =
     (if c = NUL then Some []
      else if c = CHR ''%'' then
        (case render_conv d ap of
           None \<Rightarrow> None
         | Some None \<Rightarrow> map_option (\<lambda>s. unsupported_tag @ s) (render (d # fmt) ap)
         | Some (Some (s, ap)) \<Rightarrow> map_option (\<lambda>s'. s @ s') (render fmt ap))
      else map_option (\<lambda>s. c # s) (render (d # fmt) ap))"

section \<open>The interface of a character sink\<close>

text \<open>
  All output goes through one operation that adds a character. What the formatting code
  relies on is only that the sink keeps the characters in order.
\<close>

locale char_sink =
  fixes put :: "'b \<Rightarrow> char \<Rightarrow> 'b"
    and content :: "'b \<Rightarrow> string"
    and ok :: "'b \<Rightarrow> bool"
  assumes content_put: "ok b \<Longrightarrow> content (put b c) = content b @ [c]"
    and ok_put: "ok b \<Longrightarrow> ok (put b c)"
begin

lemma ok_puts: "ok b \<Longrightarrow> ok (foldl put b s)"
  by (induction s arbitrary: b) (auto simp: ok_put)

lemma content_puts: "ok b \<Longrightarrow> content (foldl put b s) = content b @ s"
  by (induction s arbitrary: b) (auto simp: ok_put content_put)

end

definition log_content :: "formatted_buffer_t \<Rightarrow> string" where
  "log_content pb = concat (sent pb) @ take (pos pb) (buf pb)"

definition log_ok :: "formatted_buffer_t \<Rightarrow> bool" where
  "log_ok pb \<longleftrightarrow> pos pb < PRINT_BUFF_SIZE \<and> length (buf pb) = PRINT_BUFF_SIZE
     \<and> (\<forall>chunk \<in> set (sent pb). length chunk = PRINT_BUFF_SIZE)"

lemma take_Suc_update: "n < length xs \<Longrightarrow> take (Suc n) (xs[n := x]) = take n xs @ [x]"
  by (simp add: take_Suc_conv_app_nth)

interpretation buffered: char_sink tfm_flush_formatted_buffer log_content log_ok
proof unfold_locales
  fix pb :: formatted_buffer_t and c
  assume ok: "log_ok pb"
  have pos: "pos pb < length (buf pb)" using ok by (simp add: log_ok_def)
  have full: "Suc (pos pb) \<ge> PRINT_BUFF_SIZE \<Longrightarrow>
    take PRINT_BUFF_SIZE ((buf pb)[pos pb := c]) = take (pos pb) (buf pb) @ [c]"
    using ok take_Suc_update [OF pos] by (simp add: log_ok_def le_antisym Suc_le_eq)
  show "log_content (tfm_flush_formatted_buffer pb c) = log_content pb @ [c]"
    using full take_Suc_update [OF pos]
    by (simp add: tfm_flush_formatted_buffer_def log_content_def Let_def)
  show "log_ok (tfm_flush_formatted_buffer pb c)"
    using ok by (auto simp: tfm_flush_formatted_buffer_def log_ok_def Let_def PRINT_BUFF_SIZE_def)
qed

section \<open>Output loops as sequences of puts\<close>

abbreviation puts :: "formatted_buffer_t \<Rightarrow> string \<Rightarrow> formatted_buffer_t" where
  "puts \<equiv> foldl tfm_flush_formatted_buffer"

lemma string_output_loop_puts:
  "0 \<le> count \<Longrightarrow> count \<le> INT_MAX \<Longrightarrow>
   string_output_loop pb count s =
     map_option (\<lambda>n. (puts pb (c_string s), n)) (c_int (count + int (length (c_string s))))"
  by (induction s arbitrary: pb count) (auto simp: c_string_def c_int_def INT_MAX_def add.assoc)

lemma string_output_puts:
  "tfm_string_output pb s =
     map_option (\<lambda>n. (puts pb (c_string s), n)) (c_int (int (length (c_string s))))"
  by (simp add: tfm_string_output_def string_output_loop_puts INT_MAX_def)

lemma num_buff_output_puts:
  "k \<le> length nb \<Longrightarrow>
   num_buff_output pb nb k = (puts pb (rev (take k nb)), int k)"
  by (induction pb nb k rule: num_buff_output.induct) (auto simp: take_Suc_conv_app_nth)

section \<open>Number conversion\<close>

text \<open>Both digit loops are one loop over \<open>nat\<close>, with the radix and the digit as parameters.\<close>

fun radix_fill ::
  "nat \<Rightarrow> (nat \<Rightarrow> char) \<Rightarrow> nat \<Rightarrow> nat \<Rightarrow> char list \<Rightarrow> nat \<Rightarrow> (char list \<times> nat) option" where
  "radix_fill b dig 0 n nb k = None"
| "radix_fill b dig (Suc room) n nb k =
     (let nb = nb[k := dig (n mod b)]; n = n div b
      in if n \<noteq> 0 then radix_fill b dig room n nb (Suc k) else Some (nb, Suc k))"

lemma dec_fill_radix:
  "k \<le> length nb \<Longrightarrow> dec_fill n nb k = radix_fill 10 dec_digit (length nb - k) (unat n) nb k"
proof (induction n nb k rule: dec_fill.induct)
  case (1 n nb k)
  show ?case
  proof (cases "k < length nb")
    case True
    then have "length nb - k = Suc (length nb - Suc k)" by simp
    with True 1 show ?thesis
      by (simp add: dec_fill.simps [of n nb k] Let_def dec_digit_def unat_div unat_mod
          unat_eq_0 [symmetric] del: unat_eq_0)
  qed (use 1 in \<open>simp add: dec_fill.simps [of n nb "length nb"]\<close>)
qed

lemma unat_low_nibble: "unat (n AND 0x0f :: u32) = unat n mod 16"
proof -
  have "n AND 0x0f = take_bit 4 n" by (simp add: take_bit_eq_mask mask_eq_exp_minus_1)
  then show ?thesis by (simp add: take_bit_eq_mod unat_mod)
qed

lemma unat_shift_nibble: "unat (drop_bit 4 n :: u32) = unat n div 16"
  by (simp add: drop_bit_eq_div unat_div)

lemma hex_fill_radix:
  "k \<le> length nb \<Longrightarrow>
   hex_fill ds n nb k = radix_fill 16 (\<lambda>d. ds ! d) (length nb - k) (unat n) nb k"
proof (induction ds n nb k rule: hex_fill.induct)
  case (1 ds n nb k)
  show ?case
  proof (cases "k < length nb")
    case True
    then have "length nb - k = Suc (length nb - Suc k)" by simp
    with True 1 show ?thesis
      by (simp add: hex_fill.simps [of ds n nb k] Let_def unat_low_nibble unat_shift_nibble
          unat_eq_0 [symmetric] del: unat_eq_0)
  qed (use 1 in \<open>simp add: hex_fill.simps [of ds n nb "length nb"]\<close>)
qed

text \<open>
  With room for as many digits as the number has, the loop fills the buffer with the digits of
  the reference, least significant first.
\<close>

lemma radix_fill_enough:
  assumes "2 \<le> b" and "n < b ^ room" and "0 < room" and "k + room \<le> length nb"
  shows "\<exists>nb' k'. radix_fill b dig room n nb k = Some (nb', k') \<and> k' \<le> k + room
    \<and> length nb' = length nb \<and> rev (take k' nb') = radix_string b dig n @ rev (take k nb)"
  using assms
proof (induction room arbitrary: n nb k)
  case 0
  then show ?case by simp
next
  case (Suc room)
  let ?nb = "nb[k := dig (n mod b)]"
  have k: "rev (take (Suc k) ?nb) = dig (n mod b) # rev (take k nb)"
    using Suc.prems by (simp add: take_Suc_update)
  show ?case
  proof (cases "n div b = 0")
    case True
    then have "n < b" using Suc.prems by (simp add: div_eq_0_iff)
    then have "radix_string b dig n = [dig (n mod b)]" by (simp add: radix_string.simps)
    with True k show ?thesis using Suc.prems by simp
  next
    case False
    then have big: "\<not> n < b" by auto
    have lt: "n div b < b ^ room"
      using Suc.prems by (simp add: div_less_iff_less_mult mult.commute)
    have room: "0 < room" using lt False by (cases room) auto
    obtain nb' k' where "radix_fill b dig room (n div b) ?nb (Suc k) = Some (nb', k')"
      "k' \<le> Suc k + room" "length nb' = length nb"
      "rev (take k' nb') = radix_string b dig (n div b) @ rev (take (Suc k) ?nb)"
      using Suc.IH [of "n div b" "Suc k" ?nb] Suc.prems lt room by auto
    moreover have "radix_string b dig n = radix_string b dig (n div b) @ [dig (n mod b)]"
      using big Suc.prems by (subst radix_string.simps) simp
    ultimately show ?thesis using False k by simp
  qed
qed

lemma dec_fill_u32:
  "\<exists>nb k. dec_fill n (replicate NUM_BUFF_SIZE NUL) 0 = Some (nb, k) \<and> k \<le> length nb
     \<and> rev (take k nb) = render_udec n"
  using radix_fill_enough [of 10 "unat n" 12 0 "replicate NUM_BUFF_SIZE NUL" dec_digit]
    unat_u32_bound [of n]
  by (force simp: dec_fill_radix NUM_BUFF_SIZE_def render_udec_def)

lemma hex_fill_u32:
  "\<exists>nb k. hex_fill ds n (replicate NUM_BUFF_SIZE NUL) 0 = Some (nb, k) \<and> k \<le> length nb
     \<and> rev (take k nb) = render_hex ds n"
  using radix_fill_enough [of 16 "unat n" 12 0 "replicate NUM_BUFF_SIZE NUL" "\<lambda>d. ds ! d"]
    unat_u32_bound [of n]
  by (force simp: hex_fill_radix NUM_BUFF_SIZE_def render_hex_def)

lemma length_of_rev_take: "rev (take k nb) = s \<Longrightarrow> k \<le> length nb \<Longrightarrow> k = length s"
  by auto

lemma num_buff_output_string:
  "k \<le> length nb \<Longrightarrow> rev (take k nb) = s \<Longrightarrow>
   num_buff_output pb nb k = (puts pb s, int (length s))"
  by (auto simp: num_buff_output_puts)

lemma dec_output_u:
  "tfm_dec_num_output pb n (CHR ''u'') = Some (puts pb (render_udec n), int (length (render_udec n)))"
  using dec_fill_u32 [of n]
  by (auto simp: tfm_dec_num_output_def num_buff_output_string)

lemma sint_0x80000000: "sint (0x80000000 :: i32) = - 2147483648"
  by simp

lemma sint_min: "sint (n :: i32) = - 2147483648 \<longleftrightarrow> n = 0x80000000"
  by (metis sint_0x80000000 signed_word_eqI)

lemma c_int_neg:
  "c_int (- sint (n :: i32)) = (if n = 0x80000000 then None else Some (- sint n))"
  using sint_ge [of n] sint_lt [of n] sint_min [of n] by (auto simp: c_int_def INT_MAX_def)

lemma dec_output_d:
  "tfm_dec_num_output pb n (CHR ''d'') =
     (if n = 0x80000000 then None
      else Some (puts pb (render_dec n), int (length (render_dec n))))"
proof (cases "sint n < 0")
  case True
  then have "render_dec n = CHR ''-'' # render_udec (- n)"
    by (simp add: render_dec_def render_udec_def unat_neg_sint)
  with True dec_fill_u32 [of "- n"] show ?thesis
    by (auto simp: tfm_dec_num_output_def num_buff_output_string c_int_neg)
next
  case False
  then have "n \<noteq> 0x80000000" using sint_0x80000000 by auto
  moreover have "render_dec n = render_udec n"
    using False by (simp add: render_dec_def render_udec_def unat_nonneg_sint)
  ultimately show ?thesis using False dec_fill_u32 [of n]
    by (auto simp: tfm_dec_num_output_def num_buff_output_string)
qed

lemma hex_output:
  "tfm_hex_num_output pb n ds = Some (puts pb (render_hex ds n), int (length (render_hex ds n)))"
  using hex_fill_u32 [of ds n]
  by (auto simp: tfm_hex_num_output_def num_buff_output_string)

lemmas output_puts = string_output_puts dec_output_u dec_output_d hex_output

section \<open>The formatter against its reference\<close>

lemma c_int_Some: "0 \<le> n \<Longrightarrow> n \<le> INT_MAX \<Longrightarrow> c_int n = Some n"
  by (simp add: c_int_def INT_MAX_def)

lemma c_int_nonneg: "0 \<le> n \<Longrightarrow> c_int n = (if n \<le> INT_MAX then Some n else None)"
  by (simp add: c_int_def INT_MAX_def)

lemma c_string_0x: "c_string ''0x'' = ''0x''"
  by (simp add: c_string_def)

lemma c_string_tag: "c_string unsupported_tag = unsupported_tag"
  by (simp add: c_string_def unsupported_tag_def)

lemma length_unsupported_tag: "length unsupported_tag = 17"
  by (simp add: unsupported_tag_def)

lemma unat_to_u8: "unat (ucast (n :: u32) :: u8) = unat n mod 256"
  by (simp add: unsigned_ucast_eq take_bit_eq_mod)

text \<open>
  A conversion writes what the reference says; a string longer than an \<open>int\<close> can count is the
  one case where it is undefined and the reference is not.
\<close>

lemma convert_render:
  "convert pb c ap =
     (case render_conv c ap of
        None \<Rightarrow> Undefined
      | Some None \<Rightarrow> Unsupported
      | Some (Some (s, ap')) \<Rightarrow>
          if c = CHR ''s'' \<and> INT_MAX < int (length s) then Undefined
          else Converted (puts pb s) (int (length s)) ap')"
  by (auto simp: convert_def conv_of_def output_puts c_string_0x unat_to_u8 c_int_nonneg INT_MAX_def
      split: list.splits log_arg.splits)

lemma vprintf_loop_render:
  "0 \<le> count \<Longrightarrow> count \<le> INT_MAX \<Longrightarrow>
   vprintf_loop pb count fmt ap =
     (case render fmt ap of
        None \<Rightarrow> None
      | Some s \<Rightarrow> if count + int (length s) \<le> INT_MAX
                  then Some (puts pb s, count + int (length s)) else None)"
proof (induction pb count fmt ap rule: vprintf_loop.induct)
  case (3 pb count c d fmt ap)
  show ?case
  proof (cases "c = NUL \<or> c = CHR ''%''")
    case False
    then show ?thesis
      using 3 by (auto simp: c_int_nonneg split: option.splits)
  next
    case True
    then show ?thesis
      using 3 by (auto simp: convert_render string_output_puts c_string_tag c_int_nonneg
          length_unsupported_tag simp del: render_conv.simps split: option.splits)
  qed
qed (auto simp: string_output_puts c_string_tag c_int_nonneg length_unsupported_tag INT_MAX_def)

section \<open>Decoding what was printed\<close>

lemma radix_value_snoc: "radix_value b val (s @ [c]) = radix_value b val s * b + val c"
  by (simp add: radix_value_def)

lemma radix_value_string:
  assumes "2 \<le> b" and dig: "\<And>d. d < b \<Longrightarrow> val (dig d) = d"
  shows "radix_value b val (radix_string b dig n) = n"
proof (induction n rule: less_induct)
  case (less n)
  show ?case
  proof (cases "n < b")
    case True
    then show ?thesis using dig [OF True]
      by (simp add: radix_string.simps radix_value_def)
  next
    case False
    then have "n div b < n" using assms(1) by (intro div_less_dividend) auto
    from less [OF this] False assms show ?thesis
      by (subst radix_string.simps) (simp add: radix_value_snoc)
  qed
qed

lemma radix_string_hd:
  assumes "2 \<le> b"
  shows "\<exists>d < b. hd (radix_string b dig n) = dig d" and "radix_string b dig n \<noteq> []"
proof -
  have "(\<exists>d < b. hd (radix_string b dig n) = dig d) \<and> radix_string b dig n \<noteq> []"
  proof (induction n rule: less_induct)
    case (less n)
    show ?case
    proof (cases "n < b")
      case True
      then show ?thesis by (auto simp: radix_string.simps)
    next
      case False
      then have "n div b < n" using assms by (intro div_less_dividend) auto
      from less [OF this] False assms show ?thesis
        by (subst radix_string.simps, subst (2) radix_string.simps) auto
    qed
  qed
  then show "\<exists>d < b. hd (radix_string b dig n) = dig d" "radix_string b dig n \<noteq> []" by auto
qed

lemma radix_string_length:
  "2 \<le> b \<Longrightarrow> n < b ^ d \<Longrightarrow> 0 < d \<Longrightarrow> length (radix_string b dig n) \<le> d"
proof (induction d arbitrary: n)
  case (Suc d)
  show ?case
  proof (cases "n < b")
    case True
    then show ?thesis by (simp add: radix_string.simps)
  next
    case False
    have "n div b < b ^ d" using Suc.prems by (simp add: div_less_iff_less_mult mult.commute)
    moreover have "0 < d" using calculation False Suc.prems by (cases d) auto
    ultimately have "length (radix_string b dig (n div b)) \<le> d" using Suc by blast
    with False Suc.prems show ?thesis by (subst radix_string.simps) simp
  qed
qed simp

lemma dec_digit_value: "d < 10 \<Longrightarrow> dec_digit_value (dec_digit d) = d"
  by (simp add: dec_digit_value_def dec_digit_def)

lemma dec_digit_not_minus: "d < 10 \<Longrightarrow> dec_digit d \<noteq> CHR ''-''"
  by (auto simp: dec_digit_def dest!: arg_cong [where f = "of_char :: char \<Rightarrow> nat"])

definition decode_dec :: "string \<Rightarrow> int" where
  "decode_dec s =
     (if hd s = CHR ''-'' then - int (radix_value 10 dec_digit_value (tl s))
      else int (radix_value 10 dec_digit_value s))"

lemma decode_render_dec: "decode_dec (render_dec n) = sint n"
proof (cases "sint n < 0")
  case True
  then show ?thesis
    by (simp add: decode_dec_def render_dec_def radix_value_string dec_digit_value)
next
  case False
  obtain d where "d < 10" "hd (radix_string 10 dec_digit (nat (sint n))) = dec_digit d"
    using radix_string_hd(1) [of 10 dec_digit] by auto
  with False show ?thesis
    using dec_digit_not_minus [of d]
    by (simp add: decode_dec_def render_dec_def radix_value_string dec_digit_value)
qed

definition hex_digit_value :: "char \<Rightarrow> nat" where
  "hex_digit_value c =
     (if c \<in> set ''0123456789'' then of_char c - 48
      else if c \<in> set ''abcdef'' then of_char c - 87
      else of_char c - 55)"

lemma hex_digit_value_all:
  "list_all (\<lambda>d. hex_digit_value (hex_digits_lo ! d) = d \<and> hex_digit_value (hex_digits_up ! d) = d)
     [0..<16]"
  by code_simp

lemma hex_digit_value:
  assumes "d < 16"
  shows "hex_digit_value (hex_digits_lo ! d) = d" and "hex_digit_value (hex_digits_up ! d) = d"
  using hex_digit_value_all assms by (simp_all add: list_all_iff)

section \<open>Properties\<close>

lemma log_ok_start: "length junk = PRINT_BUFF_SIZE \<Longrightarrow> log_ok \<lparr>pos = 0, buf = junk, sent = []\<rparr>"
  by (simp add: log_ok_def PRINT_BUFF_SIZE_def)

lemma log_content_start: "log_content \<lparr>pos = 0, buf = junk, sent = []\<rparr> = []"
  by (simp add: log_content_def)

text \<open>
  What is left of an output after its full blocks, and the condition that counting the output
  stays in the range of \<open>int\<close>: the loop counts the characters, and the call adds what
  \<open>stdio_output_string\<close> returns for the rest.
\<close>

definition log_rest :: "string \<Rightarrow> string" where
  "log_rest out = drop (PRINT_BUFF_SIZE * (length out div PRINT_BUFF_SIZE)) out"

definition count_fits :: "(string \<Rightarrow> int) \<Rightarrow> string \<Rightarrow> bool" where
  "count_fits so out \<longleftrightarrow> int (length out) \<le> INT_MAX
     \<and> (log_rest out \<noteq> [] \<longrightarrow> c_int (int (length out) + so (log_rest out)) \<noteq> None)"

lemma log_rest_blocks:
  assumes "list_all (\<lambda>c. length c = PRINT_BUFF_SIZE) blocks" and "length rest < PRINT_BUFF_SIZE"
  shows "log_rest (concat blocks @ rest) = rest"
proof -
  have "length (concat blocks) = PRINT_BUFF_SIZE * length blocks"
    using assms(1) by (induction blocks) auto
  with assms(2) show ?thesis by (simp add: log_rest_def)
qed

lemma tfm_log_printf_None:
  "render fmt args = None \<Longrightarrow> tfm_log_printf so junk fmt args = None"
  by (simp add: tfm_log_printf_def tfm_log_vprintf_def vprintf_loop_render INT_MAX_def)

lemma tfm_log_printf_result:
  assumes "length junk = PRINT_BUFF_SIZE" and "render fmt args = Some out"
  shows "\<exists>blocks. concat blocks @ log_rest out = out
    \<and> list_all (\<lambda>c. length c = PRINT_BUFF_SIZE) blocks \<and> length (log_rest out) < PRINT_BUFF_SIZE
    \<and> tfm_log_printf so junk fmt args =
        (if INT_MAX < int (length out) then None
         else if log_rest out = [] then Some (int (length out), blocks)
         else map_option (\<lambda>n. (n, blocks @ [log_rest out]))
                (c_int (int (length out) + so (log_rest out))))"
proof -
  let ?pb = "puts \<lparr>pos = 0, buf = junk, sent = []\<rparr> out"
  let ?rest = "take (pos ?pb) (buf ?pb)"
  have content: "concat (sent ?pb) @ ?rest = out"
    using buffered.content_puts [OF log_ok_start [OF assms(1)]]
    by (simp add: log_content_start log_content_def [symmetric])
  have ok: "log_ok ?pb" by (rule buffered.ok_puts [OF log_ok_start [OF assms(1)]])
  then have empty: "?rest = [] \<longleftrightarrow> pos ?pb = 0" by (auto simp: log_ok_def)
  have full: "list_all (\<lambda>c. length c = PRINT_BUFF_SIZE) (sent ?pb)" "length ?rest < PRINT_BUFF_SIZE"
    using ok by (auto simp: log_ok_def list_all_iff)
  then have rest: "log_rest out = ?rest" using log_rest_blocks [OF full] content by simp
  have "vprintf_loop \<lparr>pos = 0, buf = junk, sent = []\<rparr> 0 fmt args =
      (if int (length out) \<le> INT_MAX then Some (?pb, int (length out)) else None)"
    by (simp add: vprintf_loop_render assms(2) INT_MAX_def)
  then have "tfm_log_printf so junk fmt args =
      (if INT_MAX < int (length out) then None
       else if ?rest = [] then Some (int (length out), sent ?pb)
       else map_option (\<lambda>n. (n, sent ?pb @ [?rest])) (c_int (int (length out) + so ?rest)))"
    unfolding empty by (auto simp: tfm_log_printf_def tfm_log_vprintf_def Let_def)
  with content full show ?thesis unfolding rest by blast
qed

lemma tfm_log_printf_text:
  assumes "length junk = PRINT_BUFF_SIZE"
  shows "map_option (\<lambda>r. concat (snd r)) (tfm_log_printf so junk fmt args) =
    (case render fmt args of
       None \<Rightarrow> None | Some out \<Rightarrow> if count_fits so out then Some out else None)"
proof (cases "render fmt args")
  case None
  then show ?thesis by (simp add: tfm_log_printf_None)
next
  case (Some out)
  then show ?thesis
    using tfm_log_printf_result [OF assms Some, of so]
    by (auto simp: count_fits_def option.map_comp comp_def)
qed



text \<open>C38. The return value and the chunks of \<open>tfm_log_printf\<close>, for an output of the reference.
  The output is handed to \<open>stdio_output_string\<close> in blocks of exactly \<open>PRINT_BUFF_SIZE\<close>
  characters followed by at most one shorter rest. The returned count is the number of
  characters printed plus whatever \<open>stdio_output_string\<close> returns for that rest: where it returns
  the number of characters it wrote, the characters of the rest are counted twice. The count is
  an \<open>int\<close>: the call is undefined when the number of characters, or that sum, is not in its
  range.\<close>

theorem tfm_log_printf_count:
  assumes "length junk = PRINT_BUFF_SIZE" and "render fmt args = Some out"
  shows "\<exists>blocks rest. concat blocks @ rest = out
    \<and> list_all (\<lambda>c. length c = PRINT_BUFF_SIZE) blocks \<and> length rest < PRINT_BUFF_SIZE
    \<and> tfm_log_printf so junk fmt args =
        (if INT_MAX < int (length out) then None
         else if rest = [] then Some (int (length out), blocks)
         else if INT_MAX < int (length out) + so rest
             \<or> int (length out) + so rest < - INT_MAX - 1 then None
         else Some (int (length out) + so rest, blocks @ [rest]))"
proof -
  obtain blocks where "concat blocks @ log_rest out = out"
      "list_all (\<lambda>c. length c = PRINT_BUFF_SIZE) blocks" "length (log_rest out) < PRINT_BUFF_SIZE"
    and result: "tfm_log_printf so junk fmt args =
        (if INT_MAX < int (length out) then None
         else if log_rest out = [] then Some (int (length out), blocks)
         else map_option (\<lambda>n. (n, blocks @ [log_rest out]))
                (c_int (int (length out) + so (log_rest out))))"
    using tfm_log_printf_result [OF assms, of so] by blast
  then show ?thesis
    by (intro exI [of _ blocks] exI [of _ "log_rest out"]) (auto simp: result c_int_def)
qed

theorem tfm_log_printf_count_witness:
  "tfm_log_printf (\<lambda>s. int (length s)) (replicate 32 (CHR ''?'')) ''%s'' [Arg_str ''hi'']
   = Some (4, [''hi''])"
proof -
  have "render ''%s'' [Arg_str ''hi''] = Some ''hi''" by code_simp
  from tfm_log_printf_count [OF _ this, of "replicate 32 (CHR ''?'')" "\<lambda>s. int (length s)"]
  obtain blocks rest where out: "concat blocks @ rest = ''hi''"
    and full: "list_all (\<lambda>c. length c = 32) blocks" and short: "length rest < 32"
    and result: "tfm_log_printf (\<lambda>s. int (length s)) (replicate 32 (CHR ''?'')) ''%s'' [Arg_str ''hi'']
      = (if INT_MAX < 2 then None else if rest = [] then Some (2, blocks)
         else if INT_MAX < 2 + int (length rest) \<or> 2 + int (length rest) < - INT_MAX - 1 then None
         else Some (2 + int (length rest), blocks @ [rest]))"
    by (auto simp: PRINT_BUFF_SIZE_def)
  have "length (concat blocks) \<le> 2" using arg_cong [OF out, of length] by simp
  then have "blocks = []" using full by (cases blocks) auto
  with out result short show ?thesis by (auto simp: INT_MAX_def)
qed



end
