(* ===== verification/Nsid_Manager.thy ===== *)
theory Nsid_Manager
  imports Prelude
begin

text \<open>
  The non-secure client identifier (NSID) manager,
  \<^verbatim>\<open>src/lib/nsid_manager/tfm_nsid_manager.c\<close>, and the static assignment of NSIDs to threads,
  \<^verbatim>\<open>src/app_broker/tfm_nsid_map_table.c\<close>.

  The manager keeps a table of \<open>THREAD_NUM_MAX\<close> pairs of a token and an NSID; a free slot holds
  the token \<open>TFM_NS_CLIENT_INVALID_TOKEN\<close>. That constant belongs to the secure client
  extension, which is outside the repository: every operation takes it as its first argument
  \<open>inv_tok\<close>. The table refines a partial map from tokens to NSIDs with a bounded number of
  entries; the contract is the locale \<open>bounded_map\<close>, interpreted on the operations of the code.

  The thread table compares names with the file's own \<open>str_cmp\<close>. The model of that loop reads
  the two C strings character by character, the terminating NUL included, and a read past the
  terminator is \<open>None\<close>.
\<close>

section \<open>The token table\<close>

definition THREAD_NUM_MAX :: nat where "THREAD_NUM_MAX = 10"

definition TFM_DEFAULT_NSID :: i32 where "TFM_DEFAULT_NSID = - 1"
definition TFM_INVALID_NSID_MIN :: i32 where "TFM_INVALID_NSID_MIN = 0"

definition NSID_MGR_ERR_SUCCESS :: u8 where "NSID_MGR_ERR_SUCCESS = 0x00"
definition NSID_MGR_ERR_INVALID_NSID :: u8 where "NSID_MGR_ERR_INVALID_NSID = 0x01"
definition NSID_MGR_ERR_INVALID_TOKEN :: u8 where "NSID_MGR_ERR_INVALID_TOKEN = 0x02"
definition NSID_MGR_ERR_NO_FREE_ENTRY :: u8 where "NSID_MGR_ERR_NO_FREE_ENTRY = 0x03"

lemmas nsid_mgr_errs = NSID_MGR_ERR_SUCCESS_def NSID_MGR_ERR_INVALID_NSID_def
  NSID_MGR_ERR_INVALID_TOKEN_def NSID_MGR_ERR_NO_FREE_ENTRY_def

record nsid_token_pair =
  token :: u32
  nsid :: i32

type_synonym nsid_table = "nsid_token_pair list"

text \<open>The static table before initialisation: C zeroes it.\<close>

definition test_ns_token_table :: nsid_table where
  "test_ns_token_table = replicate THREAD_NUM_MAX \<lparr>token = 0, nsid = 0\<rparr>"

definition nsid_mgr_init :: "u32 \<Rightarrow> nsid_table \<Rightarrow> u8 \<times> nsid_table" where
  "nsid_mgr_init inv_tok table =
     (NSID_MGR_ERR_SUCCESS,
      map (\<lambda>e. e\<lparr>token := inv_tok, nsid := TFM_INVALID_NSID_MIN\<rparr>) table)"

definition nsid_mgr_add_entry :: "u32 \<Rightarrow> i32 \<Rightarrow> u32 \<Rightarrow> nsid_table \<Rightarrow> u8 \<times> nsid_table" where
  "nsid_mgr_add_entry inv_tok n tok table =
     (if sint n \<ge> sint TFM_INVALID_NSID_MIN then (NSID_MGR_ERR_INVALID_NSID, table)
      else if tok = inv_tok then (NSID_MGR_ERR_INVALID_TOKEN, table)
      else case first_index (\<lambda>e. token e = inv_tok) table of
             Some i \<Rightarrow>
               (NSID_MGR_ERR_SUCCESS, table[i := (table ! i)\<lparr>token := tok, nsid := n\<rparr>])
           | None \<Rightarrow> (NSID_MGR_ERR_NO_FREE_ENTRY, table))"

definition nsid_mgr_remove_entry :: "u32 \<Rightarrow> u32 \<Rightarrow> nsid_table \<Rightarrow> u8 \<times> nsid_table" where
  "nsid_mgr_remove_entry inv_tok tok table =
     (if tok = inv_tok then (NSID_MGR_ERR_INVALID_TOKEN, table)
      else case first_index (\<lambda>e. token e = tok) table of
             Some i \<Rightarrow>
               (NSID_MGR_ERR_SUCCESS,
                table[i := (table ! i)\<lparr>token := inv_tok, nsid := TFM_INVALID_NSID_MIN\<rparr>])
           | None \<Rightarrow> (NSID_MGR_ERR_INVALID_TOKEN, table))"

definition nsid_mgr_query_nsid :: "u32 \<Rightarrow> u32 \<Rightarrow> nsid_table \<Rightarrow> i32" where
  "nsid_mgr_query_nsid inv_tok tok table =
     (if tok = inv_tok then TFM_INVALID_NSID_MIN
      else case first_index (\<lambda>e. token e = tok) table of
             Some i \<Rightarrow> nsid (table ! i)
           | None \<Rightarrow> TFM_INVALID_NSID_MIN)"

section \<open>The thread name table\<close>

record thread_test_nsid_pair =
  t_name :: string
  t_nsid :: i32

definition test_ns_nsid_table :: "bool \<Rightarrow> thread_test_nsid_pair list" where
  "test_ns_nsid_table psa_api_test_ns =
     [\<lparr>t_name = ''Thread_A'', t_nsid = - 2\<rparr>,
      \<lparr>t_name = ''Thread_B'', t_nsid = - 3\<rparr>,
      \<lparr>t_name = ''Thread_C'', t_nsid = - 4\<rparr>,
      \<lparr>t_name = ''Thread_D'', t_nsid = - 5\<rparr>,
      \<lparr>t_name = ''seq_task'', t_nsid = - 6\<rparr>,
      \<lparr>t_name = ''mid_task'', t_nsid = - 7\<rparr>,
      \<lparr>t_name = ''pri_task'', t_nsid = - 8\<rparr>]
     @ (if psa_api_test_ns then [\<lparr>t_name = ''psa_api_test'', t_nsid = - 9\<rparr>] else [])"

text \<open>
  A C string is the list of its characters without the terminator; \<open>c_char s i\<close> reads the array
  that holds it, of length \<open>length s + 1\<close>.
\<close>

definition c_char :: "string \<Rightarrow> nat \<Rightarrow> char option" where
  "c_char s i = array_read (s @ [CHR 0x00]) i"

text \<open>
  The loop of \<open>str_cmp\<close>. In the condition \<open>str_b[i]\<close> is read only where \<open>str_a[i]\<close> is NUL
  (short-circuit evaluation); the comparison in the body reads both.
\<close>

function str_cmp_loop :: "string \<Rightarrow> string \<Rightarrow> nat \<Rightarrow> int option" where
  "str_cmp_loop a b i =
     (case c_char a i of
        None \<Rightarrow> None
      | Some ca \<Rightarrow>
          if ca \<noteq> CHR 0x00 then
            (case c_char b i of
               None \<Rightarrow> None
             | Some cb \<Rightarrow> if ca \<noteq> cb then Some 1 else str_cmp_loop a b (Suc i))
          else
            (case c_char b i of
               None \<Rightarrow> None
             | Some cb \<Rightarrow>
                 if cb \<noteq> CHR 0x00
                 then (if ca \<noteq> cb then Some 1 else str_cmp_loop a b (Suc i))
                 else Some 0))"
  by pat_completeness auto
termination
  by (relation "measure (\<lambda>(a, b, i). Suc (length a) - i)")
    (auto simp: c_char_def array_read_def split: if_splits)

declare str_cmp_loop.simps [simp del]

definition str_cmp :: "string \<Rightarrow> string \<Rightarrow> int option" where
  "str_cmp a b = str_cmp_loop a b 0"

fun get_thread_nsid_loop :: "thread_test_nsid_pair list \<Rightarrow> string \<Rightarrow> i32 option" where
  "get_thread_nsid_loop [] name = Some TFM_DEFAULT_NSID"
| "get_thread_nsid_loop (e # es) name =
     (case str_cmp (t_name e) name of
        None \<Rightarrow> None
      | Some r \<Rightarrow> if r = 0 then Some (t_nsid e) else get_thread_nsid_loop es name)"

definition nsid_mgr_get_thread_nsid :: "bool \<Rightarrow> string option \<Rightarrow> i32 option" where
  "nsid_mgr_get_thread_nsid psa_api_test_ns name =
     (case name of
        None \<Rightarrow> Some TFM_DEFAULT_NSID
      | Some name \<Rightarrow> get_thread_nsid_loop (test_ns_nsid_table psa_api_test_ns) name)"

section \<open>The contract: a bounded partial map\<close>

locale bounded_map =
  fixes lookup :: "'t \<Rightarrow> 'k \<Rightarrow> 'v option"
    and insert :: "'v \<Rightarrow> 'k \<Rightarrow> 't \<Rightarrow> 't option"
    and delete :: "'k \<Rightarrow> 't \<Rightarrow> 't option"
    and room :: "'t \<Rightarrow> nat"
    and invar :: "'t \<Rightarrow> bool"
    and key_ok :: "'k \<Rightarrow> bool"
    and val_ok :: "'v \<Rightarrow> bool"
  assumes insert_ok:
      "invar t \<Longrightarrow> key_ok k \<Longrightarrow> val_ok v \<Longrightarrow> lookup t k = None \<Longrightarrow> 0 < room t \<Longrightarrow>
       \<exists>t'. insert v k t = Some t' \<and> invar t' \<and> lookup t' = (lookup t)(k \<mapsto> v)
         \<and> Suc (room t') = room t"
    and insert_full: "invar t \<Longrightarrow> room t = 0 \<Longrightarrow> insert v k t = None"
    and delete_ok:
      "invar t \<Longrightarrow> lookup t k = Some v \<Longrightarrow>
       \<exists>t'. delete k t = Some t' \<and> invar t' \<and> lookup t' = (lookup t)(k := None)
         \<and> room t' = Suc (room t)"
    and delete_absent: "invar t \<Longrightarrow> lookup t k = None \<Longrightarrow> delete k t = None"
begin

lemma insert_then_delete:
  assumes "invar t" "key_ok k" "val_ok v" "lookup t k = None" "insert v k t = Some t'"
  shows "\<exists>t''. delete k t' = Some t'' \<and> invar t'' \<and> lookup t'' = lookup t \<and> room t'' = room t"
proof -
  have "0 < room t" using assms insert_full [of t v k] by (cases "room t") auto
  from insert_ok [OF assms(1-4) this] assms(5)
  have t': "invar t'" "lookup t' = (lookup t)(k \<mapsto> v)" "Suc (room t') = room t" by auto
  then obtain t'' where "delete k t' = Some t''" "invar t''" "lookup t'' = (lookup t')(k := None)"
      "room t'' = Suc (room t')"
    using delete_ok [of t' k v] by auto
  with t' assms(4) show ?thesis by (simp add: fun_upd_idem)
qed

lemma insert_many:
  assumes "invar t" "distinct (map fst kvs)" "length kvs \<le> room t"
    "\<forall>(k, v) \<in> set kvs. key_ok k \<and> val_ok v \<and> lookup t k = None"
  shows "\<exists>t'. foldl (\<lambda>r (k, v). Option.bind r (insert v k)) (Some t) kvs = Some t' \<and> invar t'
    \<and> lookup t' = lookup t ++ map_of kvs \<and> room t' + length kvs = room t"
  using assms
proof (induction kvs arbitrary: t)
  case Nil
  then show ?case by simp
next
  case (Cons kv kvs)
  obtain k v where kv: "kv = (k, v)" by (cases kv)
  obtain t1 where t1: "insert v k t = Some t1" "invar t1" "lookup t1 = (lookup t)(k \<mapsto> v)"
      "Suc (room t1) = room t"
    using insert_ok [of t k v] Cons.prems kv by auto
  have "\<forall>(k', v') \<in> set kvs. key_ok k' \<and> val_ok v' \<and> lookup t1 k' = None"
    using Cons.prems t1(3) kv by force
  then obtain t' where t': "foldl (\<lambda>r (k, v). Option.bind r (insert v k)) (Some t1) kvs = Some t'"
      "invar t'" "lookup t' = lookup t1 ++ map_of kvs" "room t' + length kvs = room t1"
    using Cons.IH [of t1] t1(2,4) Cons.prems(2,3) kv by force
  have "k \<notin> dom (map_of kvs)" using Cons.prems kv by (auto simp: dom_map_of_conv_image_fst)
  then have "lookup t' = lookup t ++ map_of (kv # kvs)"
    using t'(3) t1(3) kv by (auto simp: map_add_def fun_eq_iff split: option.splits)
  moreover have "foldl (\<lambda>r (k, v). Option.bind r (insert v k)) (Some t) (kv # kvs) = Some t'"
    using t'(1) t1(1) kv by simp
  moreover have "room t' + length (kv # kvs) = room t" using t'(4) t1(4) by simp
  ultimately show ?case using t'(2) by blast
qed

end

definition nsid_lookup :: "u32 \<Rightarrow> nsid_table \<Rightarrow> u32 \<Rightarrow> i32 option" where
  "nsid_lookup inv_tok table tok =
     (if tok = inv_tok then None
      else map_option (\<lambda>i. nsid (table ! i)) (first_index (\<lambda>e. token e = tok) table))"

definition on_success :: "u8 \<times> 'a \<Rightarrow> 'a option" where
  "on_success r = (if fst r = NSID_MGR_ERR_SUCCESS then Some (snd r) else None)"

definition nsid_room :: "u32 \<Rightarrow> nsid_table \<Rightarrow> nat" where
  "nsid_room inv_tok table = length (filter (\<lambda>e. token e = inv_tok) table)"

definition nsid_wf :: "u32 \<Rightarrow> nsid_table \<Rightarrow> bool" where
  "nsid_wf inv_tok table \<longleftrightarrow> length table = THREAD_NUM_MAX
     \<and> (\<forall>e \<in> set table. if token e = inv_tok then nsid e = TFM_INVALID_NSID_MIN
                        else sint (nsid e) < 0)
     \<and> distinct (filter (\<lambda>tok. tok \<noteq> inv_tok) (map token table))"

lemma mgr_err_distinct: "NSID_MGR_ERR_INVALID_TOKEN \<noteq> NSID_MGR_ERR_SUCCESS"
  by (simp add: nsid_mgr_errs)

lemma filter_update_count:
  "i < length xs \<Longrightarrow>
   length (filter P (xs[i := x])) + (if P (xs ! i) then 1 else 0)
   = length (filter P xs) + (if P x then 1 else 0)"
proof (induction xs arbitrary: i)
  case (Cons y ys)
  then show ?case by (cases i) auto
qed simp

lemma distinct_filter_nth:
  "distinct (filter P (map f xs)) \<longleftrightarrow>
   (\<forall>i < length xs. \<forall>j < length xs. P (f (xs ! i)) \<longrightarrow> f (xs ! i) = f (xs ! j) \<longrightarrow> i = j)"
proof (induction xs)
  case (Cons x xs)
  have "f x \<notin> f ` set xs \<longleftrightarrow> (\<forall>y \<in> set xs. f y \<noteq> f x)" by (metis image_iff)
  then have "distinct (filter P (map f (x # xs))) \<longleftrightarrow>
      (P (f x) \<longrightarrow> (\<forall>i < length xs. f (xs ! i) \<noteq> f x)) \<and> distinct (filter P (map f xs))"
    by (simp add: all_set_conv_all_nth)
  also have "\<dots> \<longleftrightarrow> (\<forall>i < length (x # xs). \<forall>j < length (x # xs).
      P (f ((x # xs) ! i)) \<longrightarrow> f ((x # xs) ! i) = f ((x # xs) ! j) \<longrightarrow> i = j)"
    unfolding Cons.IH length_Cons All_less_Suc2 nth_Cons_0 nth_Cons_Suc by fastforce
  finally show ?case .
qed simp

lemma nsid_wf_nth:
  "nsid_wf inv_tok t \<longleftrightarrow> length t = THREAD_NUM_MAX
     \<and> (\<forall>i < length t. if token (t ! i) = inv_tok then nsid (t ! i) = TFM_INVALID_NSID_MIN
                        else sint (nsid (t ! i)) < 0)
     \<and> (\<forall>i < length t. \<forall>j < length t.
          token (t ! i) \<noteq> inv_tok \<longrightarrow> token (t ! i) = token (t ! j) \<longrightarrow> i = j)"
  unfolding nsid_wf_def distinct_filter_nth all_set_conv_all_nth ..

lemma nsid_lookup_Some:
  assumes "nsid_wf inv_tok t"
  shows "nsid_lookup inv_tok t k = Some n \<longleftrightarrow>
    k \<noteq> inv_tok \<and> (\<exists>i < length t. token (t ! i) = k \<and> nsid (t ! i) = n)"
proof
  assume "nsid_lookup inv_tok t k = Some n"
  then show "k \<noteq> inv_tok \<and> (\<exists>i < length t. token (t ! i) = k \<and> nsid (t ! i) = n)"
    by (auto simp: nsid_lookup_def split: if_splits dest: first_index_SomeD)
next
  assume "k \<noteq> inv_tok \<and> (\<exists>i < length t. token (t ! i) = k \<and> nsid (t ! i) = n)"
  then obtain i where k: "k \<noteq> inv_tok" and i: "i < length t" "token (t ! i) = k" "nsid (t ! i) = n"
    by blast
  have "first_index (\<lambda>e. token e = k) t = Some i"
    using assms k i by (intro first_index_unique) (auto simp: nsid_wf_nth)
  with k i show "nsid_lookup inv_tok t k = Some n" by (simp add: nsid_lookup_def)
qed

lemma nsid_lookup_None:
  "nsid_lookup inv_tok t k = None \<longleftrightarrow> k = inv_tok \<or> (\<forall>e \<in> set t. token e \<noteq> k)"
  by (auto simp: nsid_lookup_def first_index_None)

lemma nsid_lookup_inv [simp]: "nsid_lookup inv_tok t inv_tok = None"
  by (simp add: nsid_lookup_def)

lemma nsid_wf_update:
  assumes wf: "nsid_wf inv_tok t" and i: "i < length t"
    and e: "if token e = inv_tok then nsid e = TFM_INVALID_NSID_MIN else sint (nsid e) < 0"
    and fresh: "token e = inv_tok \<or> (\<forall>j < length t. token (t ! j) \<noteq> token e)"
  shows "nsid_wf inv_tok (t[i := e])"
  using wf i e fresh unfolding nsid_wf_nth by (auto simp: nth_list_update)

lemma nsid_lookup_update:
  assumes wf: "nsid_wf inv_tok t" and wf': "nsid_wf inv_tok (t[i := e])" and i: "i < length t"
  shows "nsid_lookup inv_tok (t[i := e]) k =
    (if k = inv_tok then None
     else if k = token e then Some (nsid e)
     else if k = token (t ! i) then None
     else nsid_lookup inv_tok t k)"
proof (cases "k = inv_tok")
  case False
  consider "k = token e" | "k \<noteq> token e" "k = token (t ! i)" | "k \<noteq> token e" "k \<noteq> token (t ! i)"
    by blast
  then show ?thesis
  proof cases
    case 1
    then have "nsid_lookup inv_tok (t[i := e]) k = Some (nsid e)"
      using False i by (auto simp: nsid_lookup_Some [OF wf'] intro!: exI [of _ i])
    with 1 False show ?thesis by simp
  next
    case 2
    then have "\<forall>j < length t. token ((t[i := e]) ! j) \<noteq> k"
      using False i wf unfolding nsid_wf_nth by (metis nth_list_update)
    then have "nsid_lookup inv_tok (t[i := e]) k = None"
      by (simp add: nsid_lookup_None all_set_conv_all_nth)
    with 2 False show ?thesis by simp
  next
    case 3
    then have "nsid_lookup inv_tok (t[i := e]) k = Some n \<longleftrightarrow> nsid_lookup inv_tok t k = Some n" for n
      using i unfolding nsid_lookup_Some [OF wf] nsid_lookup_Some [OF wf']
      by (metis length_list_update nth_list_update)
    with 3 False show ?thesis by (metis option.exhaust)
  qed
qed (simp add: nsid_lookup_def)

lemma add_entry_ok:
  assumes wf: "nsid_wf inv_tok t" and "k \<noteq> inv_tok" and "sint v < 0"
    and fresh: "nsid_lookup inv_tok t k = None" and room: "0 < nsid_room inv_tok t"
  shows "\<exists>t'. nsid_mgr_add_entry inv_tok v k t = (NSID_MGR_ERR_SUCCESS, t') \<and> nsid_wf inv_tok t'
    \<and> nsid_lookup inv_tok t' = (nsid_lookup inv_tok t)(k \<mapsto> v)
    \<and> Suc (nsid_room inv_tok t') = nsid_room inv_tok t"
proof -
  obtain e where "e \<in> set t" "token e = inv_tok"
    using room by (auto simp: nsid_room_def filter_empty_conv)
  then obtain i where fi: "first_index (\<lambda>e. token e = inv_tok) t = Some i"
    using first_index_ex [of e t "\<lambda>e. token e = inv_tok"] by auto
  note i = first_index_SomeD [OF fi]
  let ?e = "(t ! i)\<lparr>token := k, nsid := v\<rparr>"
  have wf': "nsid_wf inv_tok (t[i := ?e])"
    using assms i(1) by (intro nsid_wf_update) (auto simp: nsid_lookup_None)
  have "nsid_lookup inv_tok (t[i := ?e]) = (nsid_lookup inv_tok t)(k \<mapsto> v)"
    using assms(2) i(2) by (simp add: fun_eq_iff nsid_lookup_update [OF wf wf' i(1)])
  moreover have "Suc (nsid_room inv_tok (t[i := ?e])) = nsid_room inv_tok t"
    using filter_update_count [OF i(1), of "\<lambda>e. token e = inv_tok" ?e] i(2) assms(2)
    by (simp add: nsid_room_def)
  ultimately show ?thesis
    using assms(2,3) fi wf' by (simp add: nsid_mgr_add_entry_def TFM_INVALID_NSID_MIN_def)
qed

lemma remove_entry_ok:
  assumes wf: "nsid_wf inv_tok t" and found: "nsid_lookup inv_tok t k = Some v"
  shows "\<exists>t'. nsid_mgr_remove_entry inv_tok k t = (NSID_MGR_ERR_SUCCESS, t') \<and> nsid_wf inv_tok t'
    \<and> nsid_lookup inv_tok t' = (nsid_lookup inv_tok t)(k := None)
    \<and> nsid_room inv_tok t' = Suc (nsid_room inv_tok t)"
proof -
  obtain i where k: "k \<noteq> inv_tok" and fi: "first_index (\<lambda>e. token e = k) t = Some i"
    using found by (auto simp: nsid_lookup_def split: if_splits)
  note i = first_index_SomeD [OF fi]
  let ?e = "(t ! i)\<lparr>token := inv_tok, nsid := TFM_INVALID_NSID_MIN\<rparr>"
  have wf': "nsid_wf inv_tok (t[i := ?e])"
    using wf i(1) by (intro nsid_wf_update) auto
  have "nsid_lookup inv_tok (t[i := ?e]) = (nsid_lookup inv_tok t)(k := None)"
    using k i(2) by (simp add: fun_eq_iff nsid_lookup_update [OF wf wf' i(1)])
  moreover have "nsid_room inv_tok (t[i := ?e]) = Suc (nsid_room inv_tok t)"
    using filter_update_count [OF i(1), of "\<lambda>e. token e = inv_tok" ?e] i(2) k
    by (simp add: nsid_room_def)
  ultimately show ?thesis
    using k fi wf' by (simp add: nsid_mgr_remove_entry_def)
qed

lemma add_entry_no_room:
  assumes "nsid_room inv_tok t = 0"
  shows "fst (nsid_mgr_add_entry inv_tok v k t) \<noteq> NSID_MGR_ERR_SUCCESS"
proof -
  have "first_index (\<lambda>e. token e = inv_tok) t = None"
    using assms by (simp add: nsid_room_def filter_empty_conv first_index_None)
  then show ?thesis by (simp add: nsid_mgr_add_entry_def nsid_mgr_errs)
qed

lemma remove_entry_absent:
  assumes "nsid_lookup inv_tok t k = None"
  shows "nsid_mgr_remove_entry inv_tok k t = (NSID_MGR_ERR_INVALID_TOKEN, t)"
proof (cases "k = inv_tok")
  case False
  then have "first_index (\<lambda>e. token e = k) t = None" using assms by (simp add: nsid_lookup_def)
  then show ?thesis by (simp add: nsid_mgr_remove_entry_def)
qed (simp add: nsid_mgr_remove_entry_def)

interpretation nsid: bounded_map "nsid_lookup inv_tok"
  "\<lambda>v k t. on_success (nsid_mgr_add_entry inv_tok v k t)"
  "\<lambda>k t. on_success (nsid_mgr_remove_entry inv_tok k t)"
  "nsid_room inv_tok" "nsid_wf inv_tok" "\<lambda>k. k \<noteq> inv_tok" "\<lambda>v. sint v < 0"
  for inv_tok :: u32
proof unfold_locales
  fix t k and v :: i32
  assume "nsid_wf inv_tok t" "k \<noteq> inv_tok" "sint v < 0" "nsid_lookup inv_tok t k = None"
    "0 < nsid_room inv_tok t"
  from add_entry_ok [OF this]
  show "\<exists>t'. on_success (nsid_mgr_add_entry inv_tok v k t) = Some t' \<and> nsid_wf inv_tok t'
    \<and> nsid_lookup inv_tok t' = (nsid_lookup inv_tok t)(k \<mapsto> v)
    \<and> Suc (nsid_room inv_tok t') = nsid_room inv_tok t"
    by (auto simp: on_success_def)
next
  fix t k and v :: i32
  assume "nsid_wf inv_tok t" "nsid_lookup inv_tok t k = Some v"
  from remove_entry_ok [OF this]
  show "\<exists>t'. on_success (nsid_mgr_remove_entry inv_tok k t) = Some t' \<and> nsid_wf inv_tok t'
    \<and> nsid_lookup inv_tok t' = (nsid_lookup inv_tok t)(k := None)
    \<and> nsid_room inv_tok t' = Suc (nsid_room inv_tok t)"
    by (auto simp: on_success_def)
qed (simp_all add: on_success_def add_entry_no_room remove_entry_absent mgr_err_distinct)

lemma add_entry_errors:
  shows "sint n \<ge> 0 \<Longrightarrow> nsid_mgr_add_entry inv_tok n k t = (NSID_MGR_ERR_INVALID_NSID, t)"
    and "sint n < 0 \<Longrightarrow> k = inv_tok \<Longrightarrow>
      nsid_mgr_add_entry inv_tok n k t = (NSID_MGR_ERR_INVALID_TOKEN, t)"
    and "sint n < 0 \<Longrightarrow> k \<noteq> inv_tok \<Longrightarrow> nsid_room inv_tok t = 0 \<Longrightarrow>
      nsid_mgr_add_entry inv_tok n k t = (NSID_MGR_ERR_NO_FREE_ENTRY, t)"
proof -
  have "nsid_room inv_tok t = 0 \<Longrightarrow> first_index (\<lambda>e. token e = inv_tok) t = None"
    by (simp add: nsid_room_def filter_empty_conv first_index_None)
  then show "sint n < 0 \<Longrightarrow> k \<noteq> inv_tok \<Longrightarrow> nsid_room inv_tok t = 0 \<Longrightarrow>
      nsid_mgr_add_entry inv_tok n k t = (NSID_MGR_ERR_NO_FREE_ENTRY, t)"
    by (simp add: nsid_mgr_add_entry_def TFM_INVALID_NSID_MIN_def)
qed (simp_all add: nsid_mgr_add_entry_def TFM_INVALID_NSID_MIN_def)

lemma add_entry_unchanged:
  "\<not> (sint n < 0 \<and> k \<noteq> inv_tok \<and> 0 < nsid_room inv_tok t) \<Longrightarrow>
   snd (nsid_mgr_add_entry inv_tok n k t) = t"
  using add_entry_errors(1) [of n inv_tok k t] add_entry_errors(2,3) [of n k inv_tok t]
  by (metis linorder_not_le neq0_conv snd_conv)

lemma query_nsid_lookup:
  "nsid_mgr_query_nsid inv_tok k t =
     (case nsid_lookup inv_tok t k of None \<Rightarrow> TFM_INVALID_NSID_MIN | Some n \<Rightarrow> n)"
  by (auto simp: nsid_mgr_query_nsid_def nsid_lookup_def split: option.splits)

lemma nsid_mgr_init_wf:
  assumes "length table = THREAD_NUM_MAX"
  shows "nsid_wf inv_tok (snd (nsid_mgr_init inv_tok table))"
    and "nsid_lookup inv_tok (snd (nsid_mgr_init inv_tok table)) = Map.empty"
    and "nsid_room inv_tok (snd (nsid_mgr_init inv_tok table)) = THREAD_NUM_MAX"
    and "fst (nsid_mgr_init inv_tok table) = NSID_MGR_ERR_SUCCESS"
  using assms
  by (auto simp: nsid_mgr_init_def nsid_wf_def nsid_room_def fun_eq_iff nsid_lookup_None comp_def)

section \<open>Thread names\<close>

lemma str_cmp_loop_eq:
  assumes "CHR 0x00 \<notin> set a" "CHR 0x00 \<notin> set b" "i \<le> length a" "i \<le> length b" "take i a = take i b"
  shows "str_cmp_loop a b i = Some (if a = b then 0 else 1)"
  using assms
proof (induction a b i rule: str_cmp_loop.induct)
  case (1 a b i)
  consider "i = length a" "i = length b" | "i = length a" "i < length b"
    | "i < length a" "i = length b" | "i < length a" "i < length b" "a ! i \<noteq> b ! i"
    | "i < length a" "i < length b" "a ! i = b ! i"
    using "1.prems"(3,4) by linarith
  then show ?case
  proof cases
    case 5
    have "a ! i \<noteq> CHR 0x00" using 5(1) "1.prems"(1) by (metis nth_mem)
    moreover have "take (Suc i) a = take (Suc i) b"
      using 5 "1.prems"(5) by (simp add: take_Suc_conv_app_nth)
    ultimately show ?thesis using "1.IH"(1) [of "a ! i" "b ! i"] 5 "1.prems"
      by (simp add: str_cmp_loop.simps [of a b i] c_char_def nth_append)
  qed (use "1.prems" in \<open>auto simp: str_cmp_loop.simps [of a b] str_cmp_loop.simps [of b b]
        c_char_def nth_append in_set_conv_nth\<close>)
qed

lemma str_cmp_eq:
  assumes "CHR 0x00 \<notin> set a" "CHR 0x00 \<notin> set b"
  shows "str_cmp a b = Some (if a = b then 0 else 1)"
  using assms by (simp add: str_cmp_def str_cmp_loop_eq)

lemma get_thread_nsid_loop_eq:
  assumes "CHR 0x00 \<notin> set name" "\<forall>e \<in> set es. CHR 0x00 \<notin> set (t_name e)"
  shows "get_thread_nsid_loop es name =
    Some (case map_of (map (\<lambda>e. (t_name e, t_nsid e)) es) name of
            None \<Rightarrow> TFM_DEFAULT_NSID | Some n \<Rightarrow> n)"
  using assms by (induction es) (auto simp: str_cmp_eq)

section \<open>Properties\<close>

text \<open>The token table keeps its invariant (ten slots, a free slot has NSID 0, a used slot
  a negative NSID, no token twice): initialisation establishes it on any contents of the
  static table, removal keeps it, and adding keeps it for a token that is not in the table,
  which is what the secure side hands out.\<close>

lemma nsid_table_invariant:
  assumes "length any_table = THREAD_NUM_MAX" and "nsid_wf inv_tok t"
    and "nsid_lookup inv_tok t new_tok = None"
  shows "nsid_wf inv_tok (snd (nsid_mgr_init inv_tok any_table))
    \<and> nsid_wf inv_tok (snd (nsid_mgr_remove_entry inv_tok tok t))
    \<and> nsid_wf inv_tok (snd (nsid_mgr_add_entry inv_tok n new_tok t))"
proof -
  have "nsid_wf inv_tok (snd (nsid_mgr_init inv_tok any_table))"
    by (rule nsid_mgr_init_wf(1) [OF assms(1)])
  moreover have "nsid_wf inv_tok (snd (nsid_mgr_remove_entry inv_tok tok t))"
    using remove_entry_ok [OF assms(2), of tok] remove_entry_absent [of inv_tok t tok] assms(2)
    by (cases "nsid_lookup inv_tok t tok") auto
  moreover have "nsid_wf inv_tok (snd (nsid_mgr_add_entry inv_tok n new_tok t))"
  proof (cases "sint n < 0 \<and> new_tok \<noteq> inv_tok \<and> 0 < nsid_room inv_tok t")
    case True
    with add_entry_ok [OF assms(2), of new_tok n] assms(3) show ?thesis by auto
  next
    case False
    with add_entry_unchanged assms(2) show ?thesis by metis
  qed
  ultimately show ?thesis by blast
qed

text \<open>An addition takes the first free slot, also for a token that has one already; the token
  is then looked up in the first of its two slots.\<close>

lemma first_index_put:
  assumes free: "first_index P t = Some i" and "\<not> Q (t ! i)"
  shows "first_index Q (t[i := e]) =
    (if Q e then Some (case first_index Q t of None \<Rightarrow> i | Some j \<Rightarrow> min i j) else first_index Q t)"
proof -
  note i = first_index_SomeD [OF free]
  have nth: "(t[i := e]) ! j = (if j = i then e else t ! j)" for j
    using i(1) by (simp add: nth_list_update)
  show ?thesis
  proof (cases "first_index Q t")
    case None
    then have "\<not> Q (t ! j)" if "j < length t" for j using that by (simp add: first_index_None)
    moreover from this have "first_index Q (t[i := e]) = (if Q e then Some i else None)"
      using i(1) by (auto simp: first_index_Some first_index_None nth all_set_conv_all_nth)
    ultimately show ?thesis by (simp add: None)
  next
    case (Some j)
    note j = first_index_SomeD [OF Some]
    have "i \<noteq> j" using assms(2) j(2) by auto
    then have "first_index Q (t[i := e]) = Some (if Q e then min i j else j)"
      using i(1) j unfolding first_index_Some by (auto simp: nth min_def)
    then show ?thesis by (simp add: Some)
  qed
qed

lemma add_entry_slot:
  assumes "k \<noteq> inv_tok" and "sint v < 0" and room: "0 < nsid_room inv_tok t"
  shows "\<exists>t' i. first_index (\<lambda>e. token e = inv_tok) t = Some i
    \<and> nsid_mgr_add_entry inv_tok v k t = (NSID_MGR_ERR_SUCCESS, t')
    \<and> nsid_lookup inv_tok t' = (nsid_lookup inv_tok t)(k \<mapsto>
        (case nsid_lookup inv_tok t k of
           None \<Rightarrow> v | Some old \<Rightarrow> if k \<in> token ` set (take i t) then old else v))
    \<and> Suc (nsid_room inv_tok t') = nsid_room inv_tok t"
proof -
  obtain e where "e \<in> set t" "token e = inv_tok"
    using room by (auto simp: nsid_room_def filter_empty_conv)
  then obtain i where fi: "first_index (\<lambda>e. token e = inv_tok) t = Some i"
    using first_index_ex [of e t "\<lambda>e. token e = inv_tok"] by auto
  note i = first_index_SomeD [OF fi]
  let ?e = "(t ! i)\<lparr>token := k, nsid := v\<rparr>"
  have look: "first_index (\<lambda>e. token e = k') (t[i := ?e]) =
      (if k = k' then Some (case first_index (\<lambda>e. token e = k') t of None \<Rightarrow> i | Some j \<Rightarrow> min i j)
       else first_index (\<lambda>e. token e = k') t)" if "k' \<noteq> inv_tok" for k'
    using first_index_put [OF fi, of "\<lambda>e. token e = k'" ?e] i(2) that by simp
  have "nsid_lookup inv_tok (t[i := ?e]) k' = ((nsid_lookup inv_tok t)(k \<mapsto>
        (case nsid_lookup inv_tok t k of
           None \<Rightarrow> v | Some old \<Rightarrow> if k \<in> token ` set (take i t) then old else v))) k'" for k'
  proof (cases "first_index (\<lambda>e. token e = k') t")
    case None
    then show ?thesis using assms(1) i(1) by (auto simp: nsid_lookup_def look)
  next
    case (Some j)
    note j = first_index_SomeD [OF Some]
    have "k' \<in> token ` set (take i t) \<longleftrightarrow> (\<exists>m < i. token (t ! m) = k')"
      using i(1) by (force simp: in_set_conv_nth)
    also have "\<dots> \<longleftrightarrow> j < i" using j(2,3) by (metis linorder_less_linear order.strict_trans)
    finally have "k' \<in> token ` set (take i t) \<longleftrightarrow> j < i" .
    then show ?thesis
      using Some assms(1) i(1,2) j(2) by (auto simp: nsid_lookup_def look nth_list_update min_def)
  qed
  moreover have "Suc (nsid_room inv_tok (t[i := ?e])) = nsid_room inv_tok t"
    using filter_update_count [OF i(1), of "\<lambda>e. token e = inv_tok" ?e] i(2) assms(1)
    by (simp add: nsid_room_def)
  ultimately show ?thesis
    using assms(1,2) fi by (auto simp: nsid_mgr_add_entry_def TFM_INVALID_NSID_MIN_def)
qed



text \<open>From initialisation on, up to ten threads with different valid tokens and negative
  NSIDs can be registered, in any order: every addition succeeds and every token is then
  looked up to its own NSID.\<close>

lemma nsid_mgr_registers_threads:
  assumes "length any_table = THREAD_NUM_MAX"
    and "distinct (map fst ps)" and "length ps \<le> THREAD_NUM_MAX"
    and "\<forall>(tok, n) \<in> set ps. tok \<noteq> inv_tok \<and> sint n < 0"
  shows "\<exists>t. foldl (\<lambda>r (tok, n). Option.bind r (\<lambda>t. on_success (nsid_mgr_add_entry inv_tok n tok t)))
        (Some (snd (nsid_mgr_init inv_tok any_table))) ps = Some t
    \<and> (\<forall>(tok, n) \<in> set ps. nsid_mgr_query_nsid inv_tok tok t = n)"
proof -
  note init = nsid_mgr_init_wf [OF assms(1), of inv_tok]
  obtain t where "foldl (\<lambda>r (tok, n). Option.bind r (\<lambda>t. on_success (nsid_mgr_add_entry inv_tok n tok t)))
        (Some (snd (nsid_mgr_init inv_tok any_table))) ps = Some t"
    and look: "nsid_lookup inv_tok t = Map.empty ++ map_of ps"
    using nsid.insert_many [OF init(1) assms(2)] assms(3,4) init(2,3) by auto
  moreover have "\<forall>(tok, n) \<in> set ps. nsid_mgr_query_nsid inv_tok tok t = n"
    using assms(2) look by (auto simp: query_nsid_lookup)
  ultimately show ?thesis by blast
qed

lemma thread_nsid_eq:
  assumes "\<forall>n. name = Some n \<longrightarrow> CHR 0x00 \<notin> set n"
  shows "nsid_mgr_get_thread_nsid psa name =
      Some (case name of
          None \<Rightarrow> - 1
        | Some n \<Rightarrow>
            (case map_of (map (\<lambda>e. (t_name e, t_nsid e)) (test_ns_nsid_table psa)) n of
               None \<Rightarrow> - 1 | Some i \<Rightarrow> i))
    \<and> sint (the (nsid_mgr_get_thread_nsid psa name)) < 0"
proof -
  have no_nul: "\<forall>e \<in> set (test_ns_nsid_table psa). CHR 0x00 \<notin> set (t_name e)"
    and neg: "\<forall>e \<in> set (test_ns_nsid_table psa). sint (t_nsid e) < 0"
    by (auto simp: test_ns_nsid_table_def)
  have loop: "nsid_mgr_get_thread_nsid psa name =
      Some (case name of None \<Rightarrow> - 1 | Some n \<Rightarrow>
        (case map_of (map (\<lambda>e. (t_name e, t_nsid e)) (test_ns_nsid_table psa)) n of
           None \<Rightarrow> - 1 | Some i \<Rightarrow> i))"
    using assms get_thread_nsid_loop_eq [OF _ no_nul]
    by (auto simp: nsid_mgr_get_thread_nsid_def TFM_DEFAULT_NSID_def split: option.split)
  with neg show ?thesis by (auto split: option.split dest!: map_of_SomeD)
qed

text \<open>C23. The file's string comparison is safe and right: on two C strings it reads no
  character past either terminator (the model's \<open>None\<close>), ends, and returns 0 when they are equal
  and 1 otherwise. The
  NSID of a thread is the one its name has in the table and the default \<open>-1\<close> for every other
  name and for no name, and it is negative in every case.\<close>

theorem get_thread_nsid_correct:
  assumes "\<forall>n. name = Some n \<longrightarrow> CHR 0x00 \<notin> set n"
    and "CHR 0x00 \<notin> set a" and "CHR 0x00 \<notin> set b"
  shows "str_cmp a b = Some (if a = b then 0 else 1)
    \<and> nsid_mgr_get_thread_nsid psa name =
      Some (case name of
          None \<Rightarrow> - 1
        | Some n \<Rightarrow>
            (case map_of (map (\<lambda>e. (t_name e, t_nsid e)) (test_ns_nsid_table psa)) n of
               None \<Rightarrow> - 1 | Some i \<Rightarrow> i))
    \<and> sint (the (nsid_mgr_get_thread_nsid psa name)) < 0"
  using thread_nsid_eq [OF assms(1)] str_cmp_eq [OF assms(2,3)] by blast

theorem get_thread_nsid_correct_witness:
  "str_cmp ''Thread_C'' ''Thread_D'' = Some 1
   \<and> nsid_mgr_get_thread_nsid False (Some ''Thread_C'') = Some (- 4)"
proof -
  have "\<forall>n. Some ''Thread_C'' = Some n \<longrightarrow> CHR 0x00 \<notin> set n" by simp
  from get_thread_nsid_correct [OF this, of "''Thread_C''" "''Thread_D''" False] show ?thesis
    by (simp add: test_ns_nsid_table_def)
qed

end
