(* ===== verification/Test_Framework.thy ===== *)
theory Test_Framework
  imports Log_Raw
begin

text \<open>
  The test framework, \<^verbatim>\<open>src/tests_reg/test/framework/\<close>: results, tests, suites, and the
  routines that register and run them.

  Test code runs in an environment \<open>'w env\<close>: the console (what the logger wrote), a flag \<open>ub\<close>
  that records that the run did something C leaves undefined (a read outside an array, a
  \<open>%s\<close> with a null pointer, a signed overflow in the logger), and the rest of the system, of type \<open>'w\<close>. A test function takes
  the result structure and returns it updated. \<open>TEST_LOG\<close> is \<open>tfm_log_printf\<close>, the choice of
  \<^verbatim>\<open>test_log.h\<close> for non-secure code.

  In \<open>struct test_suite_t\<close> the field \<open>freg\<close> is \<open>const\<close>: it is the only field a registration
  function cannot change, so it is kept apart from the fields that the function sets.

  The theorems: the verdict of a suite and of a whole run in terms of the tests' own results,
  that a run stops at the first invalid suite and leaves the later ones alone, that running
  registered suites never leaves the arrays, and that a failure report can carry the message
  of an earlier test.
\<close>

section \<open>Results and environment\<close>

datatype test_status_t = TEST_PASSED | TEST_FAILED | TEST_SKIPPED

datatype test_suite_err_t =
    TEST_SUITE_ERR_NO_ERROR
  | TEST_SUITE_ERR_INVALID_DATA
  | TEST_SUITE_ERR_INVALID_TEST_DATA
  | TEST_SUITE_ERR_TEST_FAILED

record test_result_t =
  val :: test_status_t
  info_msg :: "string option"
  filename :: "string option"
  line :: u32

datatype serial_color_t =
  DEFAULT | BLACK | RED | GREEN | YELLOW | BLUE | MAGENTA | CYAN | WHITE

fun color_code :: "serial_color_t \<Rightarrow> u32" where
  "color_code DEFAULT = 0"
| "color_code BLACK = 30"
| "color_code RED = 31"
| "color_code GREEN = 32"
| "color_code YELLOW = 33"
| "color_code BLUE = 34"
| "color_code MAGENTA = 35"
| "color_code CYAN = 36"
| "color_code WHITE = 37"

record 'w env =
  console :: "string list"
  ub :: bool
  world :: 'w

abbreviation CRLF :: string where "CRLF \<equiv> [CHR 0x0D, CHR 0x0A]"

text \<open>A pointer passed for \<open>%s\<close>; a null pointer is no argument, which makes the call undefined.\<close>

definition str_arg :: "string option \<Rightarrow> log_arg list" where
  "str_arg s = (case s of None \<Rightarrow> [] | Some s \<Rightarrow> [Arg_str s])"

definition undefined_behaviour :: "('w env, unit) state" where
  "undefined_behaviour = modify (\<lambda>e. e\<lparr>ub := True\<rparr>)"

definition TEST_LOG :: "string \<Rightarrow> log_arg list \<Rightarrow> ('w env, unit) state" where
  "TEST_LOG fmt args =
     (case tfm_log_printf (\<lambda>s. int (length s)) (replicate PRINT_BUFF_SIZE NUL) fmt args of
        None \<Rightarrow> undefined_behaviour
      | Some (_, chunks) \<Rightarrow> modify (\<lambda>e. e\<lparr>console := console e @ chunks\<rparr>))"

definition printf_set_color :: "serial_color_t \<Rightarrow> ('w env, unit) state" where
  "printf_set_color color_id = TEST_LOG (CHR 0x1B # ''[%dm'') [Arg_int (color_code color_id)]"

section \<open>Tests and suites\<close>

type_synonym 'w test_fun = "test_result_t \<Rightarrow> ('w env, test_result_t) state"

record 'w test_t =
  tc_test :: "'w test_fun option"
  tc_name :: "string option"
  tc_desc :: "string option"

text \<open>An entry of a table of tests.\<close>

definition test_case :: "'w test_fun \<Rightarrow> string \<Rightarrow> string \<Rightarrow> 'w test_t" where
  "test_case f nm ds = \<lparr>tc_test = Some f, tc_name = Some nm, tc_desc = Some ds\<rparr>"

record 'w suite_fields =
  ts_test_list :: "'w test_t list"
  ts_list_size :: u32
  ts_name :: "string option"
  ts_val :: test_status_t

record 'w test_suite_t =
  ts_freg :: "('w suite_fields \<Rightarrow> ('w env, 'w suite_fields) state) option"
  ts_fields :: "'w suite_fields"

section \<open>Operations\<close>

definition test_failed :: "test_result_t \<Rightarrow> string option \<Rightarrow> ('w env, unit) state" where
  "test_failed ret nm = do {
     printf_set_color RED;
     (case info_msg ret of
        Some msg \<Rightarrow> do {
          TEST_LOG ''  %s'' [Arg_str msg];
          (case filename ret of
             Some f \<Rightarrow> TEST_LOG ('' (Failed at %s:%d)'' @ CRLF) [Arg_str f, Arg_int (line ret)]
           | None \<Rightarrow> return ())
        }
      | None \<Rightarrow>
          (case filename ret of
             Some f \<Rightarrow> TEST_LOG (''  Failed at %s:%d'' @ CRLF) [Arg_str f, Arg_int (line ret)]
           | None \<Rightarrow> return ()));
     TEST_LOG (''  TEST: %s - FAILED!'' @ CRLF) (str_arg nm)
   }"

definition print_error :: "string \<Rightarrow> ('w env, unit) state" where
  "print_error err_msg = do {
     printf_set_color RED;
     TEST_LOG (''Error ( %s )'' @ CRLF) [Arg_str err_msg]
   }"

fun test_err_to_str :: "test_suite_err_t \<Rightarrow> string" where
  "test_err_to_str TEST_SUITE_ERR_NO_ERROR = ''TEST_SUITE_ERR_NO_ERROR''"
| "test_err_to_str TEST_SUITE_ERR_INVALID_DATA = ''TEST_SUITE_ERR_INVALID_DATA''"
| "test_err_to_str TEST_SUITE_ERR_INVALID_TEST_DATA = ''TEST_SUITE_ERR_INVALID_TEST_DATA''"
| "test_err_to_str TEST_SUITE_ERR_TEST_FAILED = ''TEST_SUITE_ERR_TEST_FAILED''"

definition set_testsuite ::
  "string option \<Rightarrow> 'w test_t list \<Rightarrow> u32 \<Rightarrow> 'w suite_fields option \<Rightarrow>
   ('w env, test_suite_err_t \<times> 'w suite_fields option) state" where
  "set_testsuite nm tests sz p_ts =
     (case p_ts of
        None \<Rightarrow> do {
          print_error ''TEST_SUITE_ERR_INVALID_DATA!'';
          return (TEST_SUITE_ERR_INVALID_DATA, None)
        }
      | Some ts \<Rightarrow>
          return (TEST_SUITE_ERR_NO_ERROR,
            Some (ts\<lparr>ts_name := nm, ts_test_list := tests, ts_list_size := sz\<rparr>)))"

definition set_test_failed ::
  "string option \<Rightarrow> string option \<Rightarrow> u32 \<Rightarrow> test_result_t option \<Rightarrow>
   ('w env, test_result_t option) state" where
  "set_test_failed msg f ln ret =
     (case ret of
        None \<Rightarrow> do { print_error ''TEST_SUITE_ERR_INVALID_TEST_DATA!''; return None }
      | Some r \<Rightarrow>
          return (Some (r\<lparr>val := TEST_FAILED, info_msg := msg, filename := f, line := ln\<rparr>)))"

text \<open>
  The macro \<open>TEST_FAIL(msg)\<close>, with the file and line where it is used; in a test function \<open>ret\<close>
  is never null.
\<close>

definition TEST_FAIL :: "string \<Rightarrow> u32 \<Rightarrow> string \<Rightarrow> test_result_t \<Rightarrow> test_result_t" where
  "TEST_FAIL f ln msg ret =
     ret\<lparr>val := TEST_FAILED, info_msg := Some msg, filename := Some f, line := ln\<rparr>"

text \<open>
  The body of the loop of \<open>run_testsuite\<close> for a test that has a function and a name: the
  banner, the test itself with \<open>val\<close> preset to \<open>TEST_PASSED\<close> (the other fields keep what the
  previous test left there), and the report.
\<close>

definition report_test :: "test_result_t \<Rightarrow> string option \<Rightarrow> ('w env, unit) state" where
  "report_test ret nm =
     (case val ret of
        TEST_FAILED \<Rightarrow> test_failed ret nm
      | TEST_SKIPPED \<Rightarrow> do {
          printf_set_color DEFAULT;
          TEST_LOG (''  TEST: %s - SKIPPED!'' @ CRLF) (str_arg nm)
        }
      | TEST_PASSED \<Rightarrow> do {
          printf_set_color GREEN;
          TEST_LOG (''  TEST: %s - PASSED!'' @ CRLF) (str_arg nm)
        })"

definition test_banner :: "string option \<Rightarrow> string option \<Rightarrow> ('w env, unit) state" where
  "test_banner nm ds = do {
     printf_set_color DEFAULT;
     TEST_LOG (''> Executing '' @ [CHR 0x27] @ ''%s'' @ [CHR 0x27] @ '' '' @ CRLF
               @ ''  Description: '' @ [CHR 0x27] @ ''%s'' @ [CHR 0x27] @ CRLF)
       (str_arg nm @ str_arg ds)
   }"

definition run_one_test ::
  "'w test_fun \<Rightarrow> string option \<Rightarrow> string option \<Rightarrow> test_result_t \<Rightarrow>
   ('w env, test_result_t) state" where
  "run_one_test f nm ds ret = do {
     test_banner nm ds;
     ret \<leftarrow> f (ret\<lparr>val := TEST_PASSED\<rparr>);
     report_test ret nm;
     return ret
   }"

text \<open>
  The loop: \<open>n\<close> iterations left, \<open>i\<close> the index of \<open>p_test\<close>. \<open>Inl\<close> is the early return of
  \<open>run_testsuite\<close>; after a read outside the array nothing is known, so the loop stops there.
\<close>

fun run_tests_loop ::
  "'w test_t list \<Rightarrow> nat \<Rightarrow> nat \<Rightarrow> test_result_t \<Rightarrow> u32 \<Rightarrow> u32 \<Rightarrow>
   ('w env, test_suite_err_t + u32 \<times> u32) state" where
  "run_tests_loop tests i 0 ret failed skipped = return (Inr (failed, skipped))"
| "run_tests_loop tests i (Suc n) ret failed skipped =
     (case array_read tests i of
        None \<Rightarrow> do { undefined_behaviour; return (Inl TEST_SUITE_ERR_INVALID_TEST_DATA) }
      | Some t \<Rightarrow>
          (case tc_test t of
             None \<Rightarrow> do {
               print_error ''TEST_SUITE_ERR_INVALID_TEST_DATA!'';
               return (Inl TEST_SUITE_ERR_INVALID_TEST_DATA)
             }
           | Some f \<Rightarrow>
               if tc_name t = None then do {
                 print_error ''TEST_SUITE_ERR_INVALID_TEST_DATA!'';
                 return (Inl TEST_SUITE_ERR_INVALID_TEST_DATA)
               } else do {
                 ret \<leftarrow> run_one_test f (tc_name t) (tc_desc t) ret;
                 run_tests_loop tests (Suc i) n ret
                   (if val ret = TEST_FAILED then failed + 1 else failed)
                   (if val ret = TEST_SKIPPED then skipped + 1 else skipped)
               }))"

definition null_result :: test_result_t where
  "null_result = \<lparr>val = TEST_PASSED, info_msg = None, filename = None, line = 0\<rparr>"

definition suite_banner :: "string option \<Rightarrow> ('w env, unit) state" where
  "suite_banner nm = do {
     printf_set_color YELLOW;
     TEST_LOG (''Running Test Suite %s...'' @ CRLF) (str_arg nm)
   }"

definition suite_report :: "u32 \<Rightarrow> u32 \<Rightarrow> u32 \<Rightarrow> ('w env, unit) state" where
  "suite_report failed skipped list_size = do {
     (if failed \<noteq> 0 then do {
        printf_set_color DEFAULT;
        TEST_LOG (''Number of failed tests: %d of %d'' @ CRLF) [Arg_int failed, Arg_int list_size]
      } else return ());
     (if skipped \<noteq> 0 then do {
        printf_set_color DEFAULT;
        TEST_LOG (''Number of skipped tests: %d of %d'' @ CRLF) [Arg_int skipped, Arg_int list_size]
      } else return ());
     (if failed = 0 then do {
        printf_set_color GREEN;
        TEST_LOG (''TESTSUITE PASSED!'' @ CRLF) []
      } else do {
        printf_set_color RED;
        TEST_LOG (''TESTSUITE FAILED!'' @ CRLF) []
      })
   }"

definition run_testsuite ::
  "'w test_suite_t option \<Rightarrow> ('w env, test_suite_err_t \<times> 'w test_suite_t option) state" where
  "run_testsuite p_suite =
     (case p_suite of
        None \<Rightarrow> do {
          print_error ''TEST_SUITE_ERR_INVALID_DATA!'';
          return (TEST_SUITE_ERR_INVALID_DATA, None)
        }
      | Some suite \<Rightarrow>
          (case ts_freg suite of
             None \<Rightarrow> do {
               print_error ''TEST_SUITE_ERR_INVALID_DATA!'';
               return (TEST_SUITE_ERR_INVALID_DATA, Some suite)
             }
           | Some freg \<Rightarrow> do {
               fs \<leftarrow> freg (ts_fields suite);
               if ts_name fs = None \<or> ts_list_size fs = 0 then do {
                 print_error ''TEST_SUITE_ERR_INVALID_DATA!'';
                 return (TEST_SUITE_ERR_INVALID_DATA, Some (suite\<lparr>ts_fields := fs\<rparr>))
               } else do {
                 suite_banner (ts_name fs);
                 r \<leftarrow> run_tests_loop (ts_test_list fs) 0 (unat (ts_list_size fs)) null_result 0 0;
                 (case r of
                    Inl err \<Rightarrow> return (err, Some (suite\<lparr>ts_fields := fs\<rparr>))
                  | Inr (failed, skipped) \<Rightarrow> do {
                      suite_report failed skipped (ts_list_size fs);
                      return (TEST_SUITE_ERR_NO_ERROR,
                        Some (suite\<lparr>ts_fields :=
                          fs\<lparr>ts_val := (if failed = 0 then TEST_PASSED else TEST_FAILED)\<rparr>\<rparr>))
                    })
               }
             }))"

text \<open>
  The two loops of \<open>run_test\<close>, over an array that a null \<open>freg\<close> terminates. Reaching the end
  of the list without a terminator is a read outside the array.
\<close>

fun run_suites :: "'w test_suite_t list \<Rightarrow> ('w env, test_suite_err_t \<times> 'w test_suite_t list) state"
  where
  "run_suites [] = do { undefined_behaviour; return (TEST_SUITE_ERR_INVALID_DATA, []) }"
| "run_suites (s # ss) =
     (if ts_freg s = None then return (TEST_SUITE_ERR_NO_ERROR, s # ss)
      else do {
        (err, s') \<leftarrow> run_testsuite (Some s);
        if err \<noteq> TEST_SUITE_ERR_NO_ERROR then return (err, the s' # ss)
        else do {
          (err, ss') \<leftarrow> run_suites ss;
          return (err, the s' # ss')
        }
      })"

fun suites_summary ::
  "'w test_suite_t list \<Rightarrow> test_suite_err_t \<Rightarrow> ('w env, test_suite_err_t) state" where
  "suites_summary [] retval = do { undefined_behaviour; return retval }"
| "suites_summary (s # ss) retval =
     (if ts_freg s = None then return retval
      else do {
        printf_set_color DEFAULT;
        TEST_LOG (''Test suite '' @ [CHR 0x27] @ ''%s'' @ [CHR 0x27] @ '' has'')
          (str_arg (ts_name (ts_fields s)));
        if ts_val (ts_fields s) = TEST_PASSED then do {
          printf_set_color GREEN;
          TEST_LOG ('' PASSED'' @ CRLF) [];
          suites_summary ss retval
        } else do {
          printf_set_color RED;
          TEST_LOG ('' FAILED'' @ CRLF) [];
          suites_summary ss TEST_SUITE_ERR_TEST_FAILED
        }
      })"

text \<open>The lines a run prints before the suites, before the summary and at the end.\<close>

definition area_banner :: "string \<Rightarrow> ('w env, unit) state" where
  "area_banner suite_type = do {
     printf_set_color YELLOW;
     TEST_LOG (CRLF @ ''#### Execute test suites for the %s area ####'' @ CRLF)
       [Arg_str suite_type]
   }"

definition summary_banner :: "string \<Rightarrow> ('w env, unit) state" where
  "summary_banner suite_type = do {
     printf_set_color YELLOW;
     TEST_LOG (CRLF @ ''*** %s test suites summary ***'' @ CRLF) [Arg_str suite_type]
   }"

definition end_banner :: "string \<Rightarrow> ('w env, unit) state" where
  "end_banner suite_type = do {
     printf_set_color YELLOW;
     TEST_LOG (CRLF @ ''*** End of %s test suites ***'' @ CRLF) [Arg_str suite_type];
     printf_set_color DEFAULT
   }"

definition run_test ::
  "string \<Rightarrow> 'w test_suite_t list \<Rightarrow> ('w env, test_suite_err_t \<times> 'w test_suite_t list) state" where
  "run_test suite_type suites = do {
     area_banner suite_type;
     (retval, suites) \<leftarrow> run_suites suites;
     if retval \<noteq> TEST_SUITE_ERR_NO_ERROR then return (retval, suites)
     else do {
       summary_banner suite_type;
       retval \<leftarrow> suites_summary suites retval;
       end_banner suite_type;
       return (retval, suites)
     }
   }"

text \<open>
  The body every \<open>register_testsuite_*\<close> function of the repository has: \<open>list_size\<close> is the
  number of elements of the array, and \<open>set_testsuite\<close> stores it.
\<close>

definition register_with ::
  "string \<Rightarrow> 'w test_t list \<Rightarrow> 'w suite_fields \<Rightarrow> ('w env, 'w suite_fields) state" where
  "register_with nm tests fs = do {
     (_, r) \<leftarrow> set_testsuite (Some nm) tests (of_nat (length tests)) (Some fs);
     return (the r)
   }"

section \<open>Reference: the tests of a suite, one after the other\<close>

text \<open>
  The reference is written out over the test functions: each test is announced, called once
  with the verdict preset to "passed", and reported; the next one gets the result structure it
  left.
\<close>

fun exec_tests :: "'w test_t list \<Rightarrow> test_result_t \<Rightarrow> ('w env, test_status_t list) state" where
  "exec_tests [] ret = return []"
| "exec_tests (t # ts) ret = do {
     test_banner (tc_name t) (tc_desc t);
     r \<leftarrow> the (tc_test t) (ret\<lparr>val := TEST_PASSED\<rparr>);
     report_test r (tc_name t);
     vs \<leftarrow> exec_tests ts r;
     return (val r # vs)
   }"

text \<open>
  One suite: its banner, its tests, its report; and several suites in order. The result is the
  list of the tests' verdicts.
\<close>

definition exec_suite :: "string \<Rightarrow> 'w test_t list \<Rightarrow> ('w env, test_status_t list) state" where
  "exec_suite nm tests = do {
     suite_banner (Some nm);
     vs \<leftarrow> exec_tests tests null_result;
     suite_report (of_nat (count_list vs TEST_FAILED)) (of_nat (count_list vs TEST_SKIPPED))
       (of_nat (length tests));
     return vs
   }"

fun exec_suites ::
  "(string \<times> 'w test_t list) list \<Rightarrow> ('w env, test_status_t list list) state" where
  "exec_suites [] = return []"
| "exec_suites (p # ps) = do {
     vs \<leftarrow> exec_suite (fst p) (snd p);
     vss \<leftarrow> exec_suites ps;
     return (vs # vss)
   }"

definition verdict_of :: "test_status_t list \<Rightarrow> test_status_t" where
  "verdict_of vs = (if TEST_FAILED \<in> set vs then TEST_FAILED else TEST_PASSED)"

definition finish_suite ::
  "'w test_suite_t \<Rightarrow> string \<Rightarrow> 'w test_t list \<Rightarrow> test_status_t list \<Rightarrow> 'w test_suite_t" where
  "finish_suite s nm tests vs =
     s\<lparr>ts_fields := (ts_fields s)\<lparr>ts_name := Some nm, ts_test_list := tests,
       ts_list_size := of_nat (length tests), ts_val := verdict_of vs\<rparr>\<rparr>"

definition valid_tests :: "'w test_t list \<Rightarrow> bool" where
  "valid_tests tests = list_all (\<lambda>t. tc_test t \<noteq> None \<and> tc_name t \<noteq> None) tests"

section \<open>Logging\<close>

definition text_of :: "'w env \<Rightarrow> string" where
  "text_of e = concat (console e)"

lemma TEST_LOG_world [simp]: "world (snd (run_state (TEST_LOG fmt args) e)) = world e"
  by (auto simp: TEST_LOG_def undefined_behaviour_def split: option.splits)

text \<open>A message that can be printed: the formatter is defined on it and counts it within \<open>int\<close>.\<close>

definition printable :: "string \<Rightarrow> log_arg list \<Rightarrow> bool" where
  "printable fmt args \<longleftrightarrow>
     (\<exists>out. render fmt args = Some out \<and> count_fits (\<lambda>s. int (length s)) out)"

lemma TEST_LOG_effect:
  "ub (snd (run_state (TEST_LOG fmt args) e)) \<longleftrightarrow> ub e \<or> \<not> printable fmt args"
  "text_of (snd (run_state (TEST_LOG fmt args) e)) =
     text_of e @ (if printable fmt args then the (render fmt args) else [])"
  using tfm_log_printf_text [of "replicate PRINT_BUFF_SIZE NUL" "\<lambda>s. int (length s)" fmt args]
  by (auto simp: TEST_LOG_def undefined_behaviour_def text_of_def printable_def
      split: option.splits if_splits)

text \<open>
  A text is short when it has less than \<open>2 ^ 28\<close> characters; a message made of a few short texts
  is printable.
\<close>

definition short :: "string \<Rightarrow> bool" where "short s \<longleftrightarrow> length s < 2 ^ 28"

lemma count_fits_short:
  assumes "length out < 2 ^ 31 - 32"
  shows "count_fits (\<lambda>s. int (length s)) out"
proof -
  have "length (log_rest out) \<le> 31"
    using mod_less_divisor [of 32 "length out"]
    by (simp add: log_rest_def PRINT_BUFF_SIZE_def minus_mult_div_eq_mod less_Suc_eq_le)
  with assms show ?thesis by (simp add: count_fits_def c_int_def INT_MAX_def)
qed

lemma printableI:
  "render fmt args = Some out \<Longrightarrow> length out < 2 ^ 31 - 32 \<Longrightarrow> printable fmt args"
  by (auto simp: printable_def count_fits_short)

lemma length_c_string: "length (c_string s) \<le> length s"
  by (simp add: c_string_def length_takeWhile_le)

lemma short_c_string: "short s \<Longrightarrow> length (c_string s) < 2 ^ 28"
  using length_c_string [of s] by (simp add: short_def)

lemma length_render_dec: "length (render_dec n) \<le> 11"
proof -
  have "nat (- sint n) < 10 ^ 10" "nat (sint n) < 10 ^ 10"
    using sint_ge [of n] sint_lt [of n] by auto
  then show ?thesis
    using radix_string_length [of 10 "nat (- sint n)" 10 dec_digit]
      radix_string_length [of 10 "nat (sint n)" 10 dec_digit] by (simp add: render_dec_def)
qed

text \<open>
  An action that leaves a part of the environment alone; an action that only logs leaves the
  world alone and is never undefined.
\<close>

definition keeps :: "('w env \<Rightarrow> 'b) \<Rightarrow> ('w env, 'a) state \<Rightarrow> bool" where
  "keeps p m \<longleftrightarrow> (\<forall>e. p (snd (run_state m e)) = p e)"

definition only_logs :: "('w env, 'a) state \<Rightarrow> bool" where
  "only_logs m \<longleftrightarrow> keeps world m \<and> keeps ub m"

lemma keepsD: "keeps p m \<Longrightarrow> p (snd (run_state m e)) = p e"
  by (simp add: keeps_def)

lemma keeps_return [simp]: "keeps p (return x)"
  by (simp add: keeps_def)

lemma keeps_bind [intro!]: "keeps p m \<Longrightarrow> (\<And>x. keeps p (f x)) \<Longrightarrow> keeps p (State_Monad.bind m f)"
  by (simp add: keeps_def case_prod_beta)

lemma keeps_world_log [simp]:
  "keeps world (TEST_LOG fmt args)" "keeps world (printf_set_color c)"
  "keeps world undefined_behaviour"
  by (simp_all add: keeps_def printf_set_color_def undefined_behaviour_def)

lemma keeps_world_reports [simp]:
  "keeps world (print_error msg)" "keeps world (test_failed ret nm)" "keeps world (report_test ret nm)"
  "keeps world (test_banner nm ds)" "keeps world (suite_banner nm)" "keeps world (area_banner ty)"
  "keeps world (summary_banner ty)" "keeps world (end_banner ty)"
  "keeps world (suite_report failed skipped list_size)"
  by (auto simp: print_error_def test_failed_def report_test_def test_banner_def suite_banner_def
      area_banner_def summary_banner_def end_banner_def suite_report_def
      split: option.split test_status_t.split)

lemma keeps_world_summary [simp]: "keeps world (suites_summary ss retval)"
  by (induction ss retval rule: suites_summary.induct) auto

lemma only_logs_TEST_LOG: "printable fmt args \<Longrightarrow> only_logs (TEST_LOG fmt args)"
  by (auto simp: only_logs_def keeps_def TEST_LOG_effect)

lemma only_logs_return [simp]: "only_logs (return x)"
  by (simp add: only_logs_def)

lemma only_logs_bind:
  "only_logs m \<Longrightarrow> (\<And>x. only_logs (f x)) \<Longrightarrow> only_logs (State_Monad.bind m f)"
  by (auto simp: only_logs_def)

lemma only_logsD:
  assumes "only_logs m"
  shows "world (snd (run_state m e)) = world e" and "ub (snd (run_state m e)) = ub e"
  using assms by (simp_all add: only_logs_def keeps_def)

text \<open>The messages of the framework, one rule per shape of format.\<close>

lemma render_color: "render (CHR 0x1B # ''[%dm'') [Arg_int (color_code c)] =
    Some (CHR 0x1B # ''['' @ render_dec (color_code c) @ ''m'')"
  by (cases c) simp_all

lemma only_logs_color [simp]: "only_logs (printf_set_color c)"
  using length_render_dec [of "color_code c"]
  by (auto simp: printf_set_color_def render_color simp del: render.simps
      intro!: only_logs_TEST_LOG printableI)

lemma only_logs_print_error [simp]: "short msg \<Longrightarrow> only_logs (print_error msg)"
  using short_c_string [of msg]
  by (auto simp: print_error_def intro!: only_logs_bind only_logs_TEST_LOG printableI)

section \<open>The loop over the tests of a suite\<close>

lemma length_exec_tests: "length (fst (run_state (exec_tests ts ret) e)) = length ts"
  by (induction ts arbitrary: ret e) (auto simp: case_prod_beta)

lemma run_tests_loop_exec:
  assumes "valid_tests tests" and "i + n = length tests"
  shows "run_state (run_tests_loop tests i n ret failed skipped) e =
    (let (vs, e') = run_state (exec_tests (drop i tests) ret) e
     in (Inr (failed + of_nat (count_list vs TEST_FAILED),
              skipped + of_nat (count_list vs TEST_SKIPPED)), e'))"
  using assms(2)
proof (induction n arbitrary: i ret failed skipped e)
  case (Suc n)
  then have i: "i < length tests" by simp
  then obtain f nm where "tc_test (tests ! i) = Some f" "tc_name (tests ! i) = Some nm"
    using assms(1) by (auto simp: valid_tests_def list_all_length)
  moreover have "drop i tests = tests ! i # drop (Suc i) tests"
    using i by (simp add: Cons_nth_drop_Suc)
  moreover have "Suc i + n = length tests" using Suc.prems by simp
  ultimately show ?case
    using i by (simp add: Suc.IH run_one_test_def case_prod_beta Let_def add.assoc)
qed simp

lemma of_nat_count_zero:
  assumes "length vs < 2 ^ 32"
  shows "(of_nat (count_list vs x) :: u32) = 0 \<longleftrightarrow> x \<notin> set vs"
proof -
  have "count_list vs x < 2 ^ 32" using count_le_length [of vs x] assms by linarith
  then have "unat (of_nat (count_list vs x) :: u32) = count_list vs x"
    by (simp add: unat_of_nat)
  then show ?thesis by (metis count_list_0_iff unat_0 unat_eq_zero)
qed

section \<open>Running one suite\<close>

lemma run_register_with:
  "run_state (register_with nm tests fs) e =
     (fs\<lparr>ts_name := Some nm, ts_test_list := tests, ts_list_size := of_nat (length tests)\<rparr>, e)"
  by (simp add: register_with_def set_testsuite_def case_prod_beta)

text \<open>A suite in the form the repository's suites have.\<close>

definition good_suite :: "'w test_suite_t \<Rightarrow> string \<Rightarrow> 'w test_t list \<Rightarrow> bool" where
  "good_suite s nm tests \<longleftrightarrow> ts_freg s = Some (register_with nm tests) \<and> valid_tests tests
     \<and> tests \<noteq> [] \<and> length tests < 2 ^ 32"

lemma run_testsuite_exec:
  assumes good: "good_suite s nm tests"
  shows "run_state (run_testsuite (Some s)) e =
    (let (vs, e') = run_state (exec_suite nm tests) e
     in ((TEST_SUITE_ERR_NO_ERROR, Some (finish_suite s nm tests vs)), e'))"
proof -
  have len: "length (fst (run_state (exec_tests tests null_result) e0)) < 2 ^ 32" for e0
    using good by (simp add: length_exec_tests good_suite_def)
  have size: "unat (of_nat (length tests) :: u32) = length tests"
    using good by (simp add: good_suite_def unat_of_nat)
  have nonzero: "(of_nat (length tests) :: u32) \<noteq> 0"
    using size good by (metis good_suite_def length_0_conv unat_eq_zero)
  show ?thesis
    using good size nonzero
    by (simp add: run_testsuite_def good_suite_def run_register_with run_tests_loop_exec
        exec_suite_def finish_suite_def verdict_of_def case_prod_beta Let_def
        of_nat_count_zero [OF len])
qed

section \<open>Running a list of suites\<close>

definition terminator :: "'w test_suite_t \<Rightarrow> bool" where
  "terminator s \<longleftrightarrow> ts_freg s = None"

text \<open>The suites \<open>ss\<close> of an array are registered with the names and tests \<open>ps\<close>.\<close>

definition good_suites :: "'w test_suite_t list \<Rightarrow> (string \<times> 'w test_t list) list \<Rightarrow> bool" where
  "good_suites = list_all2 (\<lambda>s p. good_suite s (fst p) (snd p))"

definition finish_suites ::
  "'w test_suite_t list \<Rightarrow> (string \<times> 'w test_t list) list \<Rightarrow> test_status_t list list \<Rightarrow>
   'w test_suite_t list" where
  "finish_suites ss ps vss =
     map (\<lambda>(s, p, vs). finish_suite s (fst p) (snd p) vs) (zip ss (zip ps vss))"

lemma good_suite_freg: "good_suite s nm tests \<Longrightarrow> ts_freg s \<noteq> None"
  by (simp add: good_suite_def)

lemma run_suites_good:
  assumes "good_suites ss ps"
  shows "run_state (run_suites (ss @ rest)) e =
    (let (vss, e') = run_state (exec_suites ps) e; ((err, rest'), e'') = run_state (run_suites rest) e'
     in ((err, finish_suites ss ps vss @ rest'), e''))"
  using assms unfolding good_suites_def
proof (induction ss ps arbitrary: e rule: list_all2_induct)
  case Nil
  then show ?case by (simp add: finish_suites_def case_prod_beta Let_def)
next
  case (Cons s ss p ps)
  then show ?case
    by (simp add: run_testsuite_exec good_suite_freg finish_suites_def case_prod_beta Let_def)
qed

lemma run_suites_terminator: "terminator t \<Longrightarrow>
    run_state (run_suites (t # rest)) e = ((TEST_SUITE_ERR_NO_ERROR, t # rest), e)"
  by (simp add: terminator_def)

lemma length_exec_suites: "length (fst (run_state (exec_suites ps) e)) = length ps"
  by (induction ps arbitrary: e) (auto simp: case_prod_beta)

lemma fst_summary:
  assumes "\<forall>s \<in> set ss. ts_freg s \<noteq> None" and "terminator t"
  shows "fst (run_state (suites_summary (ss @ t # rest) retval) e) =
    (if \<exists>s \<in> set ss. ts_val (ts_fields s) \<noteq> TEST_PASSED then TEST_SUITE_ERR_TEST_FAILED else retval)"
  using assms by (induction ss arbitrary: retval e) (auto simp: terminator_def case_prod_beta)

lemma finish_suites_props:
  assumes "good_suites ss ps" and "length vss = length ps"
  shows "\<forall>s \<in> set (finish_suites ss ps vss). ts_freg s \<noteq> None \<and> ts_name (ts_fields s) \<noteq> None"
    and "(\<exists>s \<in> set (finish_suites ss ps vss). ts_val (ts_fields s) \<noteq> TEST_PASSED) \<longleftrightarrow>
      (\<exists>vs \<in> set vss. TEST_FAILED \<in> set vs)"
proof -
  have *: "(\<forall>s \<in> set (finish_suites ss ps vss). ts_freg s \<noteq> None \<and> ts_name (ts_fields s) \<noteq> None)
    \<and> ((\<exists>s \<in> set (finish_suites ss ps vss). ts_val (ts_fields s) \<noteq> TEST_PASSED) \<longleftrightarrow>
      (\<exists>vs \<in> set vss. TEST_FAILED \<in> set vs))"
    using assms unfolding good_suites_def
  proof (induction ss ps arbitrary: vss rule: list_all2_induct)
    case (Cons s ss p ps)
    then obtain vs vss' where "vss = vs # vss'" by (cases vss) auto
    with Cons show ?case
      by (auto simp: finish_suites_def finish_suite_def verdict_of_def dest: good_suite_freg)
  qed (simp add: finish_suites_def)
  then show "\<forall>s \<in> set (finish_suites ss ps vss). ts_freg s \<noteq> None \<and> ts_name (ts_fields s) \<noteq> None"
    "(\<exists>s \<in> set (finish_suites ss ps vss). ts_val (ts_fields s) \<noteq> TEST_PASSED) \<longleftrightarrow>
      (\<exists>vs \<in> set vss. TEST_FAILED \<in> set vs)" by blast+
qed

lemma run_test_exec:
  assumes good: "good_suites ss ps" and t: "terminator t"
    and e0: "e0 = snd (run_state (area_banner ty) e)"
    and exec: "run_state (exec_suites ps) e0 = (vss, e1)"
  shows "fst (run_state (run_test ty (ss @ t # rest)) e) =
      (if \<exists>vs \<in> set vss. TEST_FAILED \<in> set vs
       then TEST_SUITE_ERR_TEST_FAILED else TEST_SUITE_ERR_NO_ERROR,
       finish_suites ss ps vss @ t # rest)"
    and "world (snd (run_state (run_test ty (ss @ t # rest)) e)) = world e1"
proof -
  have len: "length vss = length ps" using exec length_exec_suites [of ps e0] by simp
  note props = finish_suites_props [OF good len]
  have run: "run_state (run_suites (ss @ t # rest)) e0 =
      ((TEST_SUITE_ERR_NO_ERROR, finish_suites ss ps vss @ t # rest), e1)"
    using exec t by (simp add: run_suites_good [OF good] terminator_def)
  show "fst (run_state (run_test ty (ss @ t # rest)) e) =
      (if \<exists>vs \<in> set vss. TEST_FAILED \<in> set vs
       then TEST_SUITE_ERR_TEST_FAILED else TEST_SUITE_ERR_NO_ERROR,
       finish_suites ss ps vss @ t # rest)"
    using props fst_summary [OF _ t, of "finish_suites ss ps vss"]
    by (simp add: run_test_def run case_prod_beta flip: e0)
  show "world (snd (run_state (run_test ty (ss @ t # rest)) e)) = world e1"
    by (simp add: run_test_def run case_prod_beta keepsD flip: e0)
qed

section \<open>Undefined behaviour\<close>

text \<open>
  What the framework prints is free of undefined behaviour when the texts are short, the line of
  a failure is not \<open>0x80000000\<close> (it is printed with \<open>%d\<close>, the one value whose conversion is
  undefined) and the numbers of tests fit in an \<open>int\<close>.
\<close>

definition reportable :: "test_result_t \<Rightarrow> bool" where
  "reportable ret \<longleftrightarrow> line ret \<noteq> 0x80000000
     \<and> (\<forall>m. info_msg ret = Some m \<longrightarrow> short m) \<and> (\<forall>f. filename ret = Some f \<longrightarrow> short f)"

definition clean_test :: "'w test_t \<Rightarrow> bool" where
  "clean_test t \<longleftrightarrow> (\<exists>nm ds. tc_name t = Some nm \<and> short nm \<and> tc_desc t = Some ds \<and> short ds)
     \<and> (\<forall>f ret e. tc_test t = Some f \<longrightarrow> reportable ret \<longrightarrow>
          (case run_state (f ret) e of (ret', e') \<Rightarrow> ub e' = ub e \<and> reportable ret'))"

definition clean_suite :: "string \<times> 'w test_t list \<Rightarrow> bool" where
  "clean_suite p \<longleftrightarrow> short (fst p) \<and> length (snd p) < 2 ^ 31 \<and> list_all clean_test (snd p)"

lemma only_logs_banners [simp]:
  "short ty \<Longrightarrow> only_logs (area_banner ty)" "short ty \<Longrightarrow> only_logs (summary_banner ty)"
  "short ty \<Longrightarrow> only_logs (end_banner ty)" "short ty \<Longrightarrow> only_logs (suite_banner (Some ty))"
  using short_c_string [of ty]
  by (auto simp: area_banner_def summary_banner_def end_banner_def suite_banner_def str_arg_def
      intro!: only_logs_bind only_logs_TEST_LOG printableI)

lemma only_logs_test_banner [simp]:
  "short nm \<Longrightarrow> short ds \<Longrightarrow> only_logs (test_banner (Some nm) (Some ds))"
  using short_c_string [of nm] short_c_string [of ds]
  by (auto simp: test_banner_def str_arg_def intro!: only_logs_bind only_logs_TEST_LOG printableI)

lemma only_logs_test_failed:
  assumes "reportable ret" and "short nm"
  shows "only_logs (test_failed ret (Some nm))"
proof -
  note texts = short_c_string [OF assms(2)] length_render_dec [of "line ret"]
  have "only_logs (TEST_LOG (''  %s'') [Arg_str m])" if "info_msg ret = Some m" for m
    using short_c_string [of m] that assms(1)
    by (auto simp: reportable_def intro!: only_logs_TEST_LOG printableI)
  moreover have "only_logs (TEST_LOG ('' (Failed at %s:%d)'' @ CRLF) [Arg_str f, Arg_int (line ret)])"
      "only_logs (TEST_LOG (''  Failed at %s:%d'' @ CRLF) [Arg_str f, Arg_int (line ret)])"
    if "filename ret = Some f" for f
    using short_c_string [of f] that assms(1) texts
    by (auto simp: reportable_def intro!: only_logs_TEST_LOG printableI)
  moreover have "only_logs (TEST_LOG (''  TEST: %s - FAILED!'' @ CRLF) (str_arg (Some nm)))"
    using texts by (auto simp: str_arg_def intro!: only_logs_TEST_LOG printableI)
  ultimately show ?thesis
    unfolding test_failed_def by (auto intro!: only_logs_bind split: option.split)
qed

lemma only_logs_report_test:
  assumes "short nm" and "val ret = TEST_FAILED \<Longrightarrow> reportable ret"
  shows "only_logs (report_test ret (Some nm))"
  using short_c_string [OF assms(1)] only_logs_test_failed [OF assms(2) assms(1)]
  by (auto simp: report_test_def str_arg_def split: test_status_t.split
      intro!: only_logs_bind only_logs_TEST_LOG printableI)

lemma only_logs_report:
  assumes "failed \<noteq> 0x80000000" and "skipped \<noteq> 0x80000000" and "list_size \<noteq> 0x80000000"
  shows "only_logs (suite_report failed skipped list_size)"
  using assms length_render_dec [of failed] length_render_dec [of skipped]
    length_render_dec [of list_size]
  by (auto simp: suite_report_def intro!: only_logs_bind only_logs_TEST_LOG printableI)

text \<open>
  The frame of one test: the banner and the report only log, so a run of the framework around
  the test function is a run of that function.
\<close>

lemma run_one_test_frame:
  assumes "short nm" and "short ds"
  obtains e1 ret' e2 e3 where "world e1 = world e" "ub e1 = ub e"
    "run_state (f (ret\<lparr>val := TEST_PASSED\<rparr>)) e1 = (ret', e2)"
    "world e3 = world e2" "val ret' \<noteq> TEST_FAILED \<or> reportable ret' \<longrightarrow> ub e3 = ub e2"
    "run_state (run_one_test f (Some nm) (Some ds) ret) e = (ret', e3)"
proof -
  let ?e1 = "snd (run_state (test_banner (Some nm) (Some ds)) e)"
  have w: "world ?e1 = world e" "ub ?e1 = ub e"
    using assms by (simp_all add: only_logsD)
  obtain ret' e2 where run: "run_state (f (ret\<lparr>val := TEST_PASSED\<rparr>)) ?e1 = (ret', e2)"
    by fastforce
  have one: "run_state (run_one_test f (Some nm) (Some ds) ret) e =
      (ret', snd (run_state (report_test ret' (Some nm)) e2))"
    using run by (simp add: run_one_test_def case_prod_beta)
  have ub: "val ret' \<noteq> TEST_FAILED \<or> reportable ret' \<longrightarrow>
      ub (snd (run_state (report_test ret' (Some nm)) e2)) = ub e2"
    using assms(1) by (intro impI only_logsD(2) only_logs_report_test) auto
  show ?thesis by (rule that [OF w run _ ub one]) (simp_all add: keepsD)
qed

lemma exec_tests_Cons:
  "run_state (exec_tests (test_case f nm ds # ts) ret) e =
     (let (r, e1) = run_state (run_one_test f (Some nm) (Some ds) ret) e;
          (vs, e2) = run_state (exec_tests ts r) e1
      in (val r # vs, e2))"
  by (simp add: run_one_test_def test_case_def case_prod_beta Let_def)

lemma clean_testD:
  assumes "clean_test t" and "tc_test t = Some f" and "reportable ret"
    and "run_state (f ret) e = (ret', e')"
  shows "ub e' = ub e" and "reportable ret'"
  using assms(1) [unfolded clean_test_def, THEN conjunct2, rule_format, OF assms(2,3), of e] assms(4)
  by simp_all

lemma exec_tests_ub:
  "list_all clean_test ts \<Longrightarrow> valid_tests ts \<Longrightarrow> reportable ret \<Longrightarrow>
   ub (snd (run_state (exec_tests ts ret) e)) = ub e"
proof (induction ts arbitrary: ret e)
  case (Cons t ts)
  then obtain f nm ds where t: "t = test_case f nm ds" "short nm" "short ds"
    by (cases t) (auto simp: clean_test_def valid_tests_def test_case_def)
  obtain e1 r e2 e3 where w: "ub e1 = ub e"
    and run: "run_state (f (ret\<lparr>val := TEST_PASSED\<rparr>)) e1 = (r, e2)"
    and e3: "val r \<noteq> TEST_FAILED \<or> reportable r \<longrightarrow> ub e3 = ub e2"
    and one: "run_state (run_one_test f (Some nm) (Some ds) ret) e = (r, e3)"
    using run_one_test_frame [OF t(2,3), of e f ret] by metis
  have "reportable (ret\<lparr>val := TEST_PASSED\<rparr>)" using Cons.prems(3) by (simp add: reportable_def)
  moreover have clean: "clean_test t" and f: "tc_test t = Some f"
    using Cons.prems(1) t(1) by (simp_all add: test_case_def)
  ultimately have "ub e2 = ub e1" "reportable r" using clean_testD [OF clean f] run by blast+
  then show ?case
    using Cons w e3 unfolding t(1) exec_tests_Cons
    by (simp add: one valid_tests_def case_prod_beta Let_def)
qed simp

lemma of_nat_int_min:
  assumes "n < 2 ^ 31"
  shows "(of_nat n :: u32) \<noteq> 0x80000000"
proof
  assume "(of_nat n :: u32) = 0x80000000"
  then have "unat (of_nat n :: u32) = 2 ^ 31" by simp
  with assms show False by (simp add: unat_of_nat)
qed

lemma exec_suite_ub:
  assumes "clean_suite p" and "valid_tests (snd p)"
  shows "ub (snd (run_state (exec_suite (fst p) (snd p)) e)) = ub e"
proof -
  let ?e0 = "snd (run_state (suite_banner (Some (fst p))) e)"
  obtain vs e1 where run: "run_state (exec_tests (snd p) null_result) ?e0 = (vs, e1)" by fastforce
  have "reportable null_result" by (simp add: reportable_def null_result_def)
  then have "ub e1 = ub e"
    using exec_tests_ub [of "snd p" null_result ?e0] assms run
    by (simp add: clean_suite_def only_logsD)
  moreover have "length vs < 2 ^ 31"
    using length_exec_tests [of "snd p" null_result ?e0] run assms(1) by (simp add: clean_suite_def)
  then have "count_list vs x < 2 ^ 31" for x using count_le_length [of vs x] by linarith
  then have "(of_nat (count_list vs x) :: u32) \<noteq> 0x80000000" for x by (rule of_nat_int_min)
  moreover have "(of_nat (length (snd p)) :: u32) \<noteq> 0x80000000"
    using assms(1) by (intro of_nat_int_min) (simp add: clean_suite_def)
  ultimately show ?thesis
    using run by (simp add: exec_suite_def case_prod_beta only_logsD only_logs_report)
qed

lemma exec_suites_ub:
  "\<forall>p \<in> set ps. valid_tests (snd p) \<and> clean_suite p \<Longrightarrow>
   ub (snd (run_state (exec_suites ps) e)) = ub e"
  by (induction ps arbitrary: e) (auto simp: case_prod_beta exec_suite_ub)

lemma good_suites_valid: "good_suites ss ps \<Longrightarrow> \<forall>p \<in> set ps. valid_tests (snd p)"
  by (force simp: good_suites_def good_suite_def list_all2_conv_all_nth in_set_conv_nth)

lemma only_logs_summary:
  assumes "\<forall>s \<in> set ss. ts_freg s \<noteq> None \<and> (\<exists>nm. ts_name (ts_fields s) = Some nm \<and> short nm)"
    and "terminator t"
  shows "only_logs (suites_summary (ss @ t # rest) retval)"
  using assms
proof (induction ss arbitrary: retval)
  case Nil
  then show ?case by (simp add: terminator_def)
next
  case (Cons s ss)
  then obtain nm where nm: "ts_name (ts_fields s) = Some nm" "short nm" by auto
  have "only_logs (TEST_LOG (''Test suite '' @ [CHR 0x27] @ ''%s'' @ [CHR 0x27] @ '' has'') [Arg_str nm])"
    using short_c_string [OF nm(2)] by (auto intro!: only_logs_TEST_LOG printableI)
  moreover have "only_logs (TEST_LOG ('' PASSED'' @ CRLF) [])" "only_logs (TEST_LOG ('' FAILED'' @ CRLF) [])"
    by (auto intro!: only_logs_TEST_LOG printableI)
  ultimately show ?case using Cons by (auto simp: nm str_arg_def intro!: only_logs_bind)
qed

lemma finish_suites_short:
  assumes "good_suites ss ps" and "length vss = length ps" and "\<forall>p \<in> set ps. short (fst p)"
  shows "\<forall>s \<in> set (finish_suites ss ps vss).
    ts_freg s \<noteq> None \<and> (\<exists>nm. ts_name (ts_fields s) = Some nm \<and> short nm)"
  using assms unfolding good_suites_def
proof (induction ss ps arbitrary: vss rule: list_all2_induct)
  case (Cons s ss p ps)
  then obtain vs vss' where "vss = vs # vss'" by (cases vss) auto
  with Cons show ?case
    by (auto simp: finish_suites_def finish_suite_def dest: good_suite_freg)
qed (simp add: finish_suites_def)

lemma run_test_ub:
  assumes good: "good_suites ss ps" and t: "terminator t"
    and short: "short ty" "\<forall>p \<in> set ps. short (fst p)"
    and exec: "run_state (exec_suites ps) (snd (run_state (area_banner ty) e)) = (vss, e1)"
  shows "ub (snd (run_state (run_test ty (ss @ t # rest)) e)) = ub e1"
proof -
  have len: "length vss = length ps"
    using exec length_exec_suites [of ps "snd (run_state (area_banner ty) e)"] by simp
  have run: "run_state (run_suites (ss @ t # rest)) (snd (run_state (area_banner ty) e)) =
      ((TEST_SUITE_ERR_NO_ERROR, finish_suites ss ps vss @ t # rest), e1)"
    using exec t by (simp add: run_suites_good [OF good] terminator_def)
  show ?thesis
    using only_logs_summary [OF finish_suites_short [OF good len short(2)] t] short(1)
    by (simp add: run_test_def run case_prod_beta only_logsD)
qed

section \<open>Properties\<close>

text \<open>C13. Running a registered suite runs exactly its tests, in order, each once and each
  starting as passed, and ends without error; the suite is marked failed exactly when some
  test ended failed (skipped tests do not count against it), whatever the number of tests up
  to the 32-bit size.\<close>

theorem run_testsuite_verdict:
  assumes "good_suite s nm tests" and "run_state (exec_suite nm tests) e = (vs, e')"
  shows "run_state (run_testsuite (Some s)) e =
      ((TEST_SUITE_ERR_NO_ERROR, Some (finish_suite s nm tests vs)), e')
    \<and> length vs = length tests
    \<and> (ts_val (ts_fields (finish_suite s nm tests vs)) = TEST_FAILED \<longleftrightarrow> TEST_FAILED \<in> set vs)"
proof -
  have "length vs = length tests"
    using assms(2) length_exec_tests [of tests null_result]
    by (auto simp: exec_suite_def case_prod_beta)
  with assms show ?thesis
    by (simp add: run_testsuite_exec finish_suite_def verdict_of_def)
qed

definition sample_test :: "test_status_t \<Rightarrow> unit test_t" where
  "sample_test v = \<lparr>tc_test = Some (\<lambda>r. return (r\<lparr>val := v\<rparr>)), tc_name = Some ''T'',
     tc_desc = Some ''D''\<rparr>"

definition sample_suite :: "unit test_t list \<Rightarrow> unit test_suite_t" where
  "sample_suite tests = \<lparr>ts_freg = Some (register_with ''S'' tests), ts_fields =
     \<lparr>ts_test_list = [], ts_list_size = 0, ts_name = None, ts_val = TEST_PASSED\<rparr>\<rparr>"

definition sample_end :: "unit test_suite_t" where
  "sample_end = \<lparr>ts_freg = None, ts_fields =
     \<lparr>ts_test_list = [], ts_list_size = 0, ts_name = None, ts_val = TEST_PASSED\<rparr>\<rparr>"

lemma sample_good:
  "good_suite (sample_suite [sample_test a, sample_test b]) ''S'' [sample_test a, sample_test b]"
  by (simp add: good_suite_def sample_suite_def sample_test_def valid_tests_def)

lemma sample_exec:
  "fst (run_state (exec_suite ''S'' [sample_test a, sample_test b]) e) = [a, b]"
  by (simp add: exec_suite_def sample_test_def case_prod_beta)

theorem run_testsuite_verdict_witness:
  "ts_val (ts_fields (the (snd (fst (run_state (run_testsuite
      (Some (sample_suite [sample_test TEST_PASSED, sample_test TEST_FAILED])))
      \<lparr>console = [], ub = False, world = ()\<rparr>))))) = TEST_FAILED"
  using run_testsuite_verdict [OF sample_good [of TEST_PASSED TEST_FAILED] surjective_pairing,
      of "\<lparr>console = [], ub = False, world = ()\<rparr>"]
    sample_exec [of TEST_PASSED TEST_FAILED "\<lparr>console = [], ub = False, world = ()\<rparr>"] by simp

text \<open>C4. A whole run: for an array of registered suites ended by a null entry, \<open>run_test\<close> runs
  the tests of all suites in order and returns "no error" exactly when no test of any suite
  failed, and "test failed" otherwise, whichever suite and test it was; each suite carries
  its own verdict, and the effect on the rest of the system is that of the tests.\<close>

theorem run_test_verdict:
  assumes "good_suites ss ps" and "terminator t"
    and "run_state (exec_suites ps) (snd (run_state (area_banner ty) e)) = (vss, e1)"
  shows "fst (run_state (run_test ty (ss @ t # rest)) e) =
      (if \<exists>vs \<in> set vss. TEST_FAILED \<in> set vs
       then TEST_SUITE_ERR_TEST_FAILED else TEST_SUITE_ERR_NO_ERROR,
       finish_suites ss ps vss @ t # rest)
    \<and> world (snd (run_state (run_test ty (ss @ t # rest)) e)) = world e1"
  using run_test_exec [OF assms(1,2) refl assms(3)] by simp

theorem run_test_verdict_witness:
  "fst (fst (run_state (run_test ''X''
      [sample_suite [sample_test TEST_PASSED, sample_test TEST_SKIPPED],
       sample_suite [sample_test TEST_FAILED, sample_test TEST_PASSED], sample_end])
      \<lparr>console = [], ub = False, world = ()\<rparr>)) = TEST_SUITE_ERR_TEST_FAILED"
proof -
  let ?ps = "[(''S'', [sample_test TEST_PASSED, sample_test TEST_SKIPPED]),
    (''S'', [sample_test TEST_FAILED, sample_test TEST_PASSED])]"
  let ?e0 = "snd (run_state (area_banner ''X'') \<lparr>console = [], ub = False, world = ()\<rparr>)"
  have good: "good_suites (map (\<lambda>p. sample_suite (snd p)) ?ps) ?ps"
    by (simp add: good_suites_def sample_good)
  have "fst (run_state (exec_suites ?ps) ?e0) =
      [[TEST_PASSED, TEST_SKIPPED], [TEST_FAILED, TEST_PASSED]]"
    by (simp add: case_prod_beta sample_exec)
  with run_test_verdict [OF good _ surjective_pairing, where t = sample_end and rest = "[]"
      and ty = "''X''" and e = "\<lparr>console = [], ub = False, world = ()\<rparr>"]
  show ?thesis by (simp add: terminator_def sample_end_def)
qed

lemma text_of_invalid_data:
  "text_of (snd (run_state (print_error ''TEST_SUITE_ERR_INVALID_DATA!'') e)) =
     text_of e @ CHR 0x1B # ''[31mError ( TEST_SUITE_ERR_INVALID_DATA! )'' @ CRLF"
proof -
  have color: "render (CHR 0x1B # ''[%dm'') [Arg_int 31] = Some (CHR 0x1B # ''[31m'')" by code_simp
  have msg: "render (''Error ( %s )'' @ CRLF) [Arg_str ''TEST_SUITE_ERR_INVALID_DATA!''] =
      Some (''Error ( TEST_SUITE_ERR_INVALID_DATA! )'' @ CRLF)" by code_simp
  have "printable (CHR 0x1B # ''[%dm'') [Arg_int 31]"
    "printable (''Error ( %s )'' @ CRLF) [Arg_str ''TEST_SUITE_ERR_INVALID_DATA!'']"
    by (rule printableI [OF color], simp) (rule printableI [OF msg], simp)
  then show ?thesis
    by (simp add: print_error_def printf_set_color_def TEST_LOG_effect color msg case_prod_beta
        del: render.simps append.simps(2)) 
qed

text \<open>C28. A run stops at the first suite whose registration leaves it without tests: it returns
  "invalid data", the suites before it have run and carry their verdicts, and the suites after
  it are neither run nor changed. All that is printed after the suites before it is the error
  message, in red: no banner and no summary.\<close>

theorem run_test_stops_at_invalid_suite:
  assumes "good_suites ss ps" and "ts_freg bad = Some (register_with nm [])"
    and "run_state (exec_suites ps) (snd (run_state (area_banner ty) e)) = (vss, e1)"
  shows "\<exists>bad'. fst (run_state (run_test ty (ss @ bad # rest)) e) =
        (TEST_SUITE_ERR_INVALID_DATA, finish_suites ss ps vss @ bad' # rest)
      \<and> ts_val (ts_fields bad') = ts_val (ts_fields bad)
    \<and> world (snd (run_state (run_test ty (ss @ bad # rest)) e)) = world e1
    \<and> text_of (snd (run_state (run_test ty (ss @ bad # rest)) e)) = text_of e1
        @ [CHR 0x1B] @ ''[31mError ( TEST_SUITE_ERR_INVALID_DATA! )'' @ CRLF"
proof -
  let ?msg = "print_error ''TEST_SUITE_ERR_INVALID_DATA!''"
  let ?bad = "bad\<lparr>ts_fields := (ts_fields bad)\<lparr>ts_name := Some nm, ts_test_list := [],
    ts_list_size := 0\<rparr>\<rparr>"
  have "run_state (run_testsuite (Some bad)) e' =
      ((TEST_SUITE_ERR_INVALID_DATA, Some ?bad), snd (run_state ?msg e'))" for e'
    using assms(2) by (simp add: run_testsuite_def run_register_with case_prod_beta)
  then have "run_state (run_suites (bad # rest)) e' =
      ((TEST_SUITE_ERR_INVALID_DATA, ?bad # rest), snd (run_state ?msg e'))" for e'
    using assms(2) by (simp add: case_prod_beta)
  then have "run_state (run_test ty (ss @ bad # rest)) e =
      ((TEST_SUITE_ERR_INVALID_DATA, finish_suites ss ps vss @ ?bad # rest), snd (run_state ?msg e1))"
    using assms(3) by (simp del: run_suites.simps
        add: run_test_def run_suites_good [OF assms(1)] case_prod_beta Let_def)
  then show ?thesis by (auto simp: keepsD text_of_invalid_data)
qed

theorem run_test_stops_at_invalid_suite_witness:
  "fst (fst (run_state (run_test ''X'' [sample_suite [],
       sample_suite [sample_test TEST_FAILED, sample_test TEST_PASSED], sample_end])
      \<lparr>console = [], ub = False, world = ()\<rparr>)) = TEST_SUITE_ERR_INVALID_DATA"
proof -
  have good: "good_suites ([] :: unit test_suite_t list) []" by (simp add: good_suites_def)
  have bad: "ts_freg (sample_suite []) = Some (register_with ''S'' [])"
    by (simp add: sample_suite_def)
  from run_test_stops_at_invalid_suite [OF good bad surjective_pairing, where ty = "''X''"
      and e = "\<lparr>console = [], ub = False, world = ()\<rparr>" and rest = "[sample_suite
        [sample_test TEST_FAILED, sample_test TEST_PASSED], sample_end]"]
  show ?thesis by auto
qed

text \<open>C29. Running registered suites whose tests have a description and are themselves free of
  undefined behaviour is free of undefined behaviour: no read outside the arrays of suites
  and tests, no \<open>%s\<close> with a null pointer, and no signed overflow in the logger. For the last,
  the names, descriptions and failure messages are shorter than \<open>2 ^ 28\<close> characters, a suite has
  less than \<open>2 ^ 31\<close> tests, and no test reports line \<open>0x80000000\<close> (\<open>clean_suite\<close>).\<close>

theorem run_test_no_undefined_behaviour:
  assumes "good_suites ss ps" and "terminator t"
    and "\<forall>p \<in> set ps. clean_suite p" and "short ty"
  shows "ub (snd (run_state (run_test ty (ss @ t # rest)) e)) = ub e"
proof -
  obtain vss e1 where exec:
      "run_state (exec_suites ps) (snd (run_state (area_banner ty) e)) = (vss, e1)"
    by (cases "run_state (exec_suites ps) (snd (run_state (area_banner ty) e))")
  then have "ub e1 = ub e"
    using exec_suites_ub [of ps "snd (run_state (area_banner ty) e)"] assms(3)
      assms(4) good_suites_valid [OF assms(1)] by (simp add: only_logsD)
  then show ?thesis
    using run_test_ub [OF assms(1,2,4) _ exec] assms(3) by (simp add: clean_suite_def)
qed

theorem run_test_no_undefined_behaviour_witness:
  "ub (snd (run_state (run_test ''X''
     [sample_suite [sample_test TEST_FAILED, sample_test TEST_PASSED], sample_end])
     \<lparr>console = [], ub = False, world = ()\<rparr>)) = False"
proof -
  let ?ps = "[(''S'', [sample_test TEST_FAILED, sample_test TEST_PASSED])]"
  have good: "good_suites [sample_suite [sample_test TEST_FAILED, sample_test TEST_PASSED]] ?ps"
    by (simp add: good_suites_def sample_good)
  have clean: "\<forall>p \<in> set ?ps. clean_suite p"
    by (simp add: clean_suite_def clean_test_def sample_test_def short_def reportable_def)
  from run_test_no_undefined_behaviour [OF good _ clean, of sample_end "''X''" "[]"]
  show ?thesis by (simp add: terminator_def sample_end_def short_def)
qed

text \<open>The result structure is shared by the tests of a suite and only its verdict is reset:
  a test that marks itself failed without \<open>TEST_FAIL\<close> is reported with the message, file and
  line left there by an earlier failed test of the suite.\<close>

lemma stale_failure_message:
  assumes "info_msg ret = Some m" and "filename ret = Some fl" and "reportable ret"
    and "short nm" and "CHR 0x00 \<notin> set (m @ fl @ nm @ ds)"
  shows "\<exists>banner. text_of (snd (run_state
      (run_one_test (\<lambda>r. return (r\<lparr>val := TEST_FAILED\<rparr>)) (Some nm) (Some ds) ret) e))
    = text_of e @ banner @ ''  '' @ m @ '' (Failed at '' @ fl @ '':'' @ render_dec (line ret) @ '')''
      @ CRLF @ ''  TEST: '' @ nm @ '' - FAILED!'' @ CRLF"
proof -
  have c: "c_string m = m" "c_string fl = fl" "c_string nm = nm"
    using assms(5) by (simp_all add: c_string_def takeWhile_eq_all_conv) metis+
  have len: "length m < 2 ^ 28" "length fl < 2 ^ 28" "length nm < 2 ^ 28" "line ret \<noteq> 0x80000000"
    using assms by (auto simp: reportable_def short_def)
  have "printable (''  %s'') [Arg_str m]"
      "printable ('' (Failed at %s:%d)'' @ CRLF) [Arg_str fl, Arg_int (line ret)]"
      "printable (''  TEST: %s - FAILED!'' @ CRLF) [Arg_str nm]"
    using len length_render_dec [of "line ret"] by (auto simp: c intro!: printableI)
  then show ?thesis
    using assms(1,2) len(4)
    by (simp add: run_one_test_def report_test_def test_failed_def printf_set_color_def test_banner_def
        case_prod_beta TEST_LOG_effect str_arg_def c)
qed

end
