(* ===== verification/Tz_Shim.thy ===== *)
theory Tz_Shim
  imports Nsid_Manager
begin

text \<open>
  The shim between the TrustZone context calls of the RTOS and the NSID manager,
  \<^verbatim>\<open>src/lib/nsid_manager/tz_shim_layer.c\<close>.

  The secure client extension (\<open>tfm_nsce_*\<close> of \<^verbatim>\<open>tfm_ns_client_ext.h\<close>) is outside the
  repository: its constants and its five calls are the fields of the record \<open>nsce_api\<close>, an
  argument of every operation; a call maps the extension's own state \<open>'s\<close> to its result and its
  next state. The build options \<open>TFM_NS_MANAGE_NSID\<close> and \<open>TEST_NS_MANAGE_NSID\<close> are the record
  \<open>tz_config\<close>.

  The theorems: an invariant of all states reachable by the five operations (a well-formed
  table in which every token carries a thread identifier already given out), the connection
  between allocating, loading and freeing a context, the bound on thread identifiers, and
  what happens to the context acquired when the table is full.
\<close>

section \<open>Data\<close>

record 's nsce_api =
  TFM_NS_CLIENT_INVALID_TOKEN :: u32
  TFM_NS_CLIENT_ERR_SUCCESS :: u32
  TFM_NS_CLIENT_ERR_INVALID_TOKEN :: u32
  TFM_NS_CLIENT_ERR_INVALID_NSID :: u32
  TFM_NS_CLIENT_ERR_INVALID_ACCESS :: u32
  tfm_nsce_init :: "u32 \<Rightarrow> 's \<Rightarrow> u32 \<times> 's"
  tfm_nsce_acquire_ctx :: "u8 \<Rightarrow> u8 \<Rightarrow> 's \<Rightarrow> u32 \<times> 's"
  tfm_nsce_release_ctx :: "u32 \<Rightarrow> 's \<Rightarrow> u32 \<times> 's"
  tfm_nsce_load_ctx :: "u32 \<Rightarrow> i32 \<Rightarrow> 's \<Rightarrow> u32 \<times> 's"
  tfm_nsce_save_ctx :: "u32 \<Rightarrow> 's \<Rightarrow> u32 \<times> 's"

record tz_config =
  TFM_NS_MANAGE_NSID :: bool
  TEST_NS_MANAGE_NSID :: bool

record 's tz_state =
  nsid_mgr_thread_id :: u8
  current_active_token :: u32
  token_table :: nsid_table
  nsce :: 's

definition NSID_MGR_THREAD_ID_MAX :: u8 where "NSID_MGR_THREAD_ID_MAX = 0xFF"
definition NSID_MGR_GROUP_ID_DEFAULT :: u8 where "NSID_MGR_GROUP_ID_DEFAULT = 0x00"

text \<open>The statics before the first call, with the extension in state \<open>s\<close>.\<close>

definition tz_boot :: "'s \<Rightarrow> 's tz_state" where
  "tz_boot s = \<lparr>nsid_mgr_thread_id = 1, current_active_token = 0,
     token_table = test_ns_token_table, nsce = s\<rparr>"

section \<open>Operations\<close>

definition TZ_InitContextSystem_S ::
  "tz_config \<Rightarrow> 's nsce_api \<Rightarrow> 's tz_state \<Rightarrow> u32 \<times> 's tz_state" where
  "TZ_InitContextSystem_S cfg api st =
     (if TFM_NS_MANAGE_NSID cfg then
        (let (r, s) = tfm_nsce_init api 0 (nsce st); st = st\<lparr>nsce := s\<rparr>
         in if r = 0 then (0, st)
            else let (r, t) = nsid_mgr_init (TFM_NS_CLIENT_INVALID_TOKEN api) (token_table st);
                     st = st\<lparr>token_table := t\<rparr>
                 in if r = NSID_MGR_ERR_SUCCESS then
                      (1, if TEST_NS_MANAGE_NSID cfg
                          then st\<lparr>current_active_token := TFM_NS_CLIENT_INVALID_TOKEN api\<rparr>
                          else st)
                    else (0, st))
      else (1, st))"

definition TZ_AllocModuleContext_S ::
  "tz_config \<Rightarrow> 's nsce_api \<Rightarrow> u32 \<Rightarrow> 's tz_state \<Rightarrow> u32 \<times> 's tz_state" where
  "TZ_AllocModuleContext_S cfg api module st =
     (if TFM_NS_MANAGE_NSID cfg then
        (if nsid_mgr_thread_id st \<ge> NSID_MGR_THREAD_ID_MAX then (0, st)
         else let (tok, s) = tfm_nsce_acquire_ctx api NSID_MGR_GROUP_ID_DEFAULT
                               (nsid_mgr_thread_id st) (nsce st);
                  st = st\<lparr>nsid_mgr_thread_id := nsid_mgr_thread_id st + 1, nsce := s\<rparr>;
                  (r, t) = nsid_mgr_add_entry (TFM_NS_CLIENT_INVALID_TOKEN api) module tok
                             (token_table st);
                  st = st\<lparr>token_table := t\<rparr>
              in if r = NSID_MGR_ERR_SUCCESS then (tok, st) else (0, st))
      else (1, st))"

definition TZ_FreeModuleContext_S ::
  "tz_config \<Rightarrow> 's nsce_api \<Rightarrow> u32 \<Rightarrow> 's tz_state \<Rightarrow> u32 \<times> 's tz_state" where
  "TZ_FreeModuleContext_S cfg api tok st =
     (if TFM_NS_MANAGE_NSID cfg then
        (let (r, t) = nsid_mgr_remove_entry (TFM_NS_CLIENT_INVALID_TOKEN api) tok (token_table st);
             st = st\<lparr>token_table := t\<rparr>
         in if r \<noteq> NSID_MGR_ERR_SUCCESS then (0, st)
            else let (r, s) = tfm_nsce_release_ctx api tok (nsce st); st = st\<lparr>nsce := s\<rparr>
                 in if r = TFM_NS_CLIENT_ERR_SUCCESS api then
                      (1, if TEST_NS_MANAGE_NSID cfg
                             \<and> current_active_token st \<noteq> TFM_NS_CLIENT_INVALID_TOKEN api
                          then st\<lparr>current_active_token := TFM_NS_CLIENT_INVALID_TOKEN api\<rparr>
                          else st)
                    else (0, st))
      else (1, st))"

definition TZ_LoadContext_S ::
  "tz_config \<Rightarrow> 's nsce_api \<Rightarrow> u32 \<Rightarrow> 's tz_state \<Rightarrow> u32 \<times> 's tz_state" where
  "TZ_LoadContext_S cfg api tok st =
     (if TFM_NS_MANAGE_NSID cfg then
        (let n = nsid_mgr_query_nsid (TFM_NS_CLIENT_INVALID_TOKEN api) tok (token_table st)
         in if sint n \<ge> sint TFM_INVALID_NSID_MIN then (0, st)
            else let (r, s) = tfm_nsce_load_ctx api tok n (nsce st); st = st\<lparr>nsce := s\<rparr>
                 in if r = TFM_NS_CLIENT_ERR_SUCCESS api then
                      (1, if TEST_NS_MANAGE_NSID cfg then st\<lparr>current_active_token := tok\<rparr> else st)
                    else (0, st))
      else (1, st))"

definition TZ_StoreContext_S ::
  "tz_config \<Rightarrow> 's nsce_api \<Rightarrow> u32 \<Rightarrow> 's tz_state \<Rightarrow> u32 \<times> 's tz_state" where
  "TZ_StoreContext_S cfg api tok st =
     (if TFM_NS_MANAGE_NSID cfg then
        (let (r, s) = tfm_nsce_save_ctx api tok (nsce st); st = st\<lparr>nsce := s\<rparr>
         in if r = TFM_NS_CLIENT_ERR_SUCCESS api then
              (1, if TEST_NS_MANAGE_NSID cfg
                     \<and> current_active_token st \<noteq> TFM_NS_CLIENT_INVALID_TOKEN api
                  then st\<lparr>current_active_token := TFM_NS_CLIENT_INVALID_TOKEN api\<rparr>
                  else st)
            else (0, st))
      else (1, st))"

section \<open>Reachable states\<close>

text \<open>
  The RTOS initialises the context system first and then calls the other operations in any
  order.
\<close>

inductive tz_step :: "tz_config \<Rightarrow> 's nsce_api \<Rightarrow> 's tz_state \<Rightarrow> 's tz_state \<Rightarrow> bool"
  for cfg api where
  alloc: "tz_step cfg api st (snd (TZ_AllocModuleContext_S cfg api module st))"
| free: "tz_step cfg api st (snd (TZ_FreeModuleContext_S cfg api tok st))"
| load: "tz_step cfg api st (snd (TZ_LoadContext_S cfg api tok st))"
| store: "tz_step cfg api st (snd (TZ_StoreContext_S cfg api tok st))"

inductive tz_reachable :: "tz_config \<Rightarrow> 's nsce_api \<Rightarrow> 's tz_state \<Rightarrow> bool"
  for cfg api where
  start: "TZ_InitContextSystem_S cfg api (tz_boot s) = (1, st) \<Longrightarrow> tz_reachable cfg api st"
| step: "tz_reachable cfg api st \<Longrightarrow> tz_step cfg api st st' \<Longrightarrow> tz_reachable cfg api st'"

text \<open>
  What the shim relies on: a token that the extension gives out carries the thread identifier
  it was asked for in its low byte, the layout of a token (see \<open>MAKE_NS_CLIENT_TOKEN\<close> of
  the NSID test suite).
\<close>

definition token_carries_tid :: "'s nsce_api \<Rightarrow> bool" where
  "token_carries_tid api \<longleftrightarrow>
     (\<forall>gid tid s. let tok = fst (tfm_nsce_acquire_ctx api gid tid s)
        in tok \<noteq> TFM_NS_CLIENT_INVALID_TOKEN api \<longrightarrow> ucast tok = tid)"

definition tz_inv :: "'s nsce_api \<Rightarrow> 's tz_state \<Rightarrow> bool" where
  "tz_inv api st \<longleftrightarrow> nsid_wf (TFM_NS_CLIENT_INVALID_TOKEN api) (token_table st)
     \<and> 1 \<le> nsid_mgr_thread_id st \<and> nsid_mgr_thread_id st \<le> NSID_MGR_THREAD_ID_MAX
     \<and> (\<forall>tok \<in> dom (nsid_lookup (TFM_NS_CLIENT_INVALID_TOKEN api) (token_table st)).
          ucast tok < nsid_mgr_thread_id st)"

section \<open>Preservation of the invariant\<close>

lemma add_entry_fresh:
  assumes "nsid_wf i t" and "nsid_lookup i t k = None"
  shows "nsid_wf i (snd (nsid_mgr_add_entry i v k t))
    \<and> dom (nsid_lookup i (snd (nsid_mgr_add_entry i v k t))) \<subseteq> insert k (dom (nsid_lookup i t))"
proof (cases "sint v < 0 \<and> k \<noteq> i \<and> 0 < nsid_room i t")
  case True
  then obtain t' where t': "nsid_mgr_add_entry i v k t = (NSID_MGR_ERR_SUCCESS, t')"
      "nsid_wf i t'" "nsid_lookup i t' = (nsid_lookup i t)(k \<mapsto> v)"
    using add_entry_ok [OF assms(1), of k v] assms(2) by blast
  then show ?thesis by simp
next
  case False
  then show ?thesis using add_entry_unchanged assms(1) by (metis subset_insertI)
qed

lemma remove_entry_shrinks:
  assumes "nsid_wf i t"
  shows "nsid_wf i (snd (nsid_mgr_remove_entry i k t))
    \<and> nsid_lookup i (snd (nsid_mgr_remove_entry i k t)) = (nsid_lookup i t)(k := None)"
proof (cases "nsid_lookup i t k")
  case None
  then show ?thesis using assms remove_entry_absent [OF None] by (auto simp: fun_eq_iff)
next
  case (Some n)
  then show ?thesis using remove_entry_ok [OF assms Some] by fastforce
qed

lemma tz_inv_fresh:
  assumes "tz_inv api st" and "token_carries_tid api"
    and "tok = fst (tfm_nsce_acquire_ctx api g (nsid_mgr_thread_id st) s)"
  shows "nsid_lookup (TFM_NS_CLIENT_INVALID_TOKEN api) (token_table st) tok = None"
proof (cases "tok = TFM_NS_CLIENT_INVALID_TOKEN api")
  case False
  then have "ucast tok = nsid_mgr_thread_id st"
    using assms(2,3) by (auto simp: token_carries_tid_def Let_def)
  then show ?thesis using assms(1) by (force simp: tz_inv_def)
qed simp

lemma tz_alloc_inv:
  assumes inv: "tz_inv api st" and tid: "token_carries_tid api"
    and cfg: "TFM_NS_MANAGE_NSID cfg"
  shows "tz_inv api (snd (TZ_AllocModuleContext_S cfg api module st))"
proof (cases "nsid_mgr_thread_id st \<ge> NSID_MGR_THREAD_ID_MAX")
  case True
  then show ?thesis using inv cfg by (simp add: TZ_AllocModuleContext_S_def)
next
  case False
  let ?i = "TFM_NS_CLIENT_INVALID_TOKEN api" and ?n = "nsid_mgr_thread_id st"
  obtain tok s where acq:
    "tfm_nsce_acquire_ctx api NSID_MGR_GROUP_ID_DEFAULT ?n (nsce st) = (tok, s)" by fastforce
  obtain r t where add: "nsid_mgr_add_entry ?i module tok (token_table st) = (r, t)" by fastforce
  have fresh: "nsid_lookup ?i (token_table st) tok = None"
    using tz_inv_fresh [OF inv tid, of tok] acq by (metis fst_conv)
  have wf: "nsid_wf ?i (token_table st)" using inv by (simp add: tz_inv_def)
  have t: "nsid_wf ?i t" "dom (nsid_lookup ?i t) \<subseteq> insert tok (dom (nsid_lookup ?i (token_table st)))"
    using add_entry_fresh [OF wf fresh, of module] add by auto
  have n: "unat (?n + 1) = Suc (unat ?n)"
    using unat_inc_less [of ?n NSID_MGR_THREAD_ID_MAX] False by simp
  have le: "?n < ?n + 1" by (simp add: word_less_nat_alt n)
  have tok: "ucast tok = ?n" if "tok \<noteq> ?i"
    using tid acq that unfolding token_carries_tid_def Let_def by (metis fst_conv)
  have "ucast k < ?n + 1" if k: "k \<in> dom (nsid_lookup ?i t)" for k
  proof (cases "k = tok")
    case True
    with k have "tok \<noteq> ?i" by auto
    then show ?thesis using tok le True by simp
  next
    case False
    then have "k \<in> dom (nsid_lookup ?i (token_table st))" using k t(2) by blast
    then have "ucast k < ?n" using inv unfolding tz_inv_def by blast
    then show ?thesis using le by (rule order_less_trans)
  qed
  moreover have "?n + 1 \<le> NSID_MGR_THREAD_ID_MAX" and "1 \<le> ?n + 1"
    using False n by (simp_all add: word_le_nat_alt word_less_nat_alt)
  ultimately show ?thesis
    using cfg False acq add t(1)
    by (simp add: TZ_AllocModuleContext_S_def tz_inv_def Let_def)
qed

lemma tz_other_inv:
  assumes inv: "tz_inv api st"
  shows "tz_inv api (snd (TZ_FreeModuleContext_S cfg api tok st))"
    and "tz_inv api (snd (TZ_LoadContext_S cfg api tok st))"
    and "tz_inv api (snd (TZ_StoreContext_S cfg api tok st))"
proof -
  show "tz_inv api (snd (TZ_FreeModuleContext_S cfg api tok st))"
    using inv remove_entry_shrinks [of "TFM_NS_CLIENT_INVALID_TOKEN api" "token_table st" tok]
    by (auto simp: TZ_FreeModuleContext_S_def tz_inv_def Let_def case_prod_beta)
qed (use inv in \<open>simp_all add: TZ_LoadContext_S_def TZ_StoreContext_S_def tz_inv_def Let_def
      case_prod_beta\<close>)

lemma tz_init_inv:
  assumes "TFM_NS_MANAGE_NSID cfg" and "TZ_InitContextSystem_S cfg api (tz_boot s) = (1, st)"
  shows "tz_inv api st"
proof -
  have len: "length test_ns_token_table = THREAD_NUM_MAX" by (simp add: test_ns_token_table_def)
  show ?thesis
    using assms nsid_mgr_init_wf [OF len, of "TFM_NS_CLIENT_INVALID_TOKEN api"]
    by (auto simp: TZ_InitContextSystem_S_def tz_inv_def tz_boot_def case_prod_beta Let_def
        NSID_MGR_THREAD_ID_MAX_def split: if_splits)
qed

lemma reachable_inv:
  assumes "TFM_NS_MANAGE_NSID cfg" and "token_carries_tid api" and "tz_reachable cfg api st"
  shows "tz_inv api st"
  using assms(3)
proof (induction rule: tz_reachable.induct)
  case (start s st)
  show ?case by (rule tz_init_inv [OF assms(1) start.hyps])
next
  case (step st st')
  from step.hyps(2) show ?case
  proof (cases rule: tz_step.cases)
    case (alloc module)
    then show ?thesis using tz_alloc_inv [OF step.IH assms(2,1)] by simp
  qed (use tz_other_inv [OF step.IH] in simp_all)
qed


text \<open>
  A secure extension for the witnesses: it hands out tokens in the documented layout, keeps
  the list of the tokens it gave out, and answers as the documentation says.
\<close>

definition list_nsce :: "u32 list nsce_api" where
  "list_nsce = \<lparr>TFM_NS_CLIENT_INVALID_TOKEN = 0xFFFFFFFF, TFM_NS_CLIENT_ERR_SUCCESS = 0,
     TFM_NS_CLIENT_ERR_INVALID_TOKEN = 1, TFM_NS_CLIENT_ERR_INVALID_NSID = 2,
     TFM_NS_CLIENT_ERR_INVALID_ACCESS = 3,
     tfm_nsce_init = (\<lambda>_ _. (1, [])),
     tfm_nsce_acquire_ctx =
       (\<lambda>gid tid s. let tok = or (ucast tid) (push_bit 8 (ucast gid)) in (tok, tok # s)),
     tfm_nsce_release_ctx =
       (\<lambda>tok s. if tok \<in> set s then (0, filter (\<lambda>t. t \<noteq> tok) s) else (1, s)),
     tfm_nsce_load_ctx = (\<lambda>tok nsid s. (if tok \<in> set s then 0 else 1, s)),
     tfm_nsce_save_ctx = (\<lambda>tok s. (if tok \<in> set s then 0 else 1, s))\<rparr>"

definition ns_managed :: tz_config where
  "ns_managed = \<lparr>TFM_NS_MANAGE_NSID = True, TEST_NS_MANAGE_NSID = True\<rparr>"

lemma list_nsce_carries_tid: "token_carries_tid list_nsce"
proof -
  have "ucast (or (ucast tid) (push_bit 8 (ucast gid)) :: u32) = tid" for tid gid :: u8
    by (rule bit_word_eqI) (simp add: bit_simps)
  then show ?thesis by (simp add: token_carries_tid_def list_nsce_def Let_def)
qed

lemma list_nsce_boot:
  "tz_reachable ns_managed list_nsce
     (snd (TZ_InitContextSystem_S ns_managed list_nsce (tz_boot [])))"
proof -
  have "fst (TZ_InitContextSystem_S ns_managed list_nsce (tz_boot [])) = 1"
    by code_simp
  then show ?thesis by (intro tz_reachable.start [of _ _ "[]"]) (metis prod.collapse)
qed

lemma list_nsce_alloc:
  "\<exists>st. TZ_AllocModuleContext_S ns_managed list_nsce (- 4)
      (snd (TZ_InitContextSystem_S ns_managed list_nsce (tz_boot []))) = (1, st) \<and> nsce st = [1]"
proof -
  let ?r = "TZ_AllocModuleContext_S ns_managed list_nsce (- 4)
      (snd (TZ_InitContextSystem_S ns_managed list_nsce (tz_boot [])))"
  have "fst ?r = 1" "nsce (snd ?r) = [1]" by code_simp+
  then show ?thesis by (metis prod.collapse)
qed


section \<open>The life of a context\<close>

text \<open>
  The life of a context after its allocation: other threads are created, deleted and
  switched to, in any order, and the context itself is not freed.
\<close>

inductive tz_keeps :: "tz_config \<Rightarrow> 's nsce_api \<Rightarrow> u32 \<Rightarrow> 's tz_state \<Rightarrow> 's tz_state \<Rightarrow> bool"
  for cfg api tok where
  refl: "tz_keeps cfg api tok st st"
| alloc: "tz_keeps cfg api tok st st' \<Longrightarrow>
    tz_keeps cfg api tok st (snd (TZ_AllocModuleContext_S cfg api module st'))"
| free: "tz_keeps cfg api tok st st' \<Longrightarrow> other \<noteq> tok \<Longrightarrow>
    tz_keeps cfg api tok st (snd (TZ_FreeModuleContext_S cfg api other st'))"
| load: "tz_keeps cfg api tok st st' \<Longrightarrow>
    tz_keeps cfg api tok st (snd (TZ_LoadContext_S cfg api other st'))"
| store: "tz_keeps cfg api tok st st' \<Longrightarrow>
    tz_keeps cfg api tok st (snd (TZ_StoreContext_S cfg api other st'))"

abbreviation nsid_of :: "'s nsce_api \<Rightarrow> 's tz_state \<Rightarrow> u32 \<Rightarrow> i32 option" where
  "nsid_of api st \<equiv> nsid_lookup (TFM_NS_CLIENT_INVALID_TOKEN api) (token_table st)"

lemma alloc_keeps_entry:
  assumes inv: "tz_inv api st" and tid: "token_carries_tid api" and entry: "nsid_of api st k = Some n"
  shows "nsid_of api (snd (TZ_AllocModuleContext_S cfg api module st)) k = Some n"
proof -
  let ?i = "TFM_NS_CLIENT_INVALID_TOKEN api"
  obtain tok s where acq:
    "tfm_nsce_acquire_ctx api NSID_MGR_GROUP_ID_DEFAULT (nsid_mgr_thread_id st) (nsce st) = (tok, s)"
    by fastforce
  obtain r t where add: "nsid_mgr_add_entry ?i module tok (token_table st) = (r, t)" by fastforce
  have fresh: "nsid_of api st tok = None"
    using tz_inv_fresh [OF inv tid, of tok] acq by (metis fst_conv)
  have wf: "nsid_wf ?i (token_table st)" using inv by (simp add: tz_inv_def)
  have "nsid_lookup ?i t k = Some n"
  proof (cases "sint module < 0 \<and> tok \<noteq> ?i \<and> 0 < nsid_room ?i (token_table st)")
    case True
    then show ?thesis using add_entry_ok [OF wf, of tok module] fresh add entry by fastforce
  next
    case False
    then show ?thesis using add_entry_unchanged add entry by (metis snd_conv)
  qed
  then show ?thesis using acq add entry by (simp add: TZ_AllocModuleContext_S_def Let_def)
qed

lemma free_keeps_entry:
  assumes "tz_inv api st" and "nsid_of api st k = Some n" and "other \<noteq> k"
  shows "nsid_of api (snd (TZ_FreeModuleContext_S cfg api other st)) k = Some n"
  using assms remove_entry_shrinks [of "TFM_NS_CLIENT_INVALID_TOKEN api" "token_table st" other]
  by (auto simp: TZ_FreeModuleContext_S_def tz_inv_def Let_def case_prod_beta)

lemma switch_keeps_table:
  "token_table (snd (TZ_LoadContext_S cfg api tok st)) = token_table st"
  "token_table (snd (TZ_StoreContext_S cfg api tok st)) = token_table st"
  by (simp_all add: TZ_LoadContext_S_def TZ_StoreContext_S_def Let_def case_prod_beta)

lemma tz_keeps_entry:
  assumes "tz_keeps cfg api tok st st'" and "tz_inv api st" and "nsid_of api st tok = Some n"
    and "TFM_NS_MANAGE_NSID cfg" and "token_carries_tid api"
  shows "tz_inv api st' \<and> nsid_of api st' tok = Some n"
  using assms
proof (induction rule: tz_keeps.induct)
  case (alloc st st' module)
  then show ?case by (simp add: tz_alloc_inv alloc_keeps_entry)
next
  case (free st st' other)
  then show ?case by (simp add: tz_other_inv free_keeps_entry)
qed (simp_all add: tz_other_inv switch_keeps_table)

text \<open>The outcome of an allocation that ends with an entry in the table.\<close>

lemma alloc_ok:
  assumes inv: "tz_inv api st" and tid: "token_carries_tid api" and cfg: "TFM_NS_MANAGE_NSID cfg"
    and alloc: "TZ_AllocModuleContext_S cfg api module st = (tok, st')" and tok: "tok \<noteq> 0"
  shows "nsid_of api st' tok = Some module \<and> sint module < 0
    \<and> ucast tok = nsid_mgr_thread_id st \<and> nsid_mgr_thread_id st < NSID_MGR_THREAD_ID_MAX
    \<and> nsid_mgr_thread_id st' = nsid_mgr_thread_id st + 1"
proof -
  let ?i = "TFM_NS_CLIENT_INVALID_TOKEN api"
  have lt: "nsid_mgr_thread_id st < NSID_MGR_THREAD_ID_MAX"
    using alloc tok cfg by (auto simp: TZ_AllocModuleContext_S_def split: if_splits)
  obtain k s where acq:
    "tfm_nsce_acquire_ctx api NSID_MGR_GROUP_ID_DEFAULT (nsid_mgr_thread_id st) (nsce st) = (k, s)"
    by fastforce
  obtain r t where add: "nsid_mgr_add_entry ?i module k (token_table st) = (r, t)" by fastforce
  have out: "k = tok" "r = NSID_MGR_ERR_SUCCESS" "token_table st' = t"
      "nsid_mgr_thread_id st' = nsid_mgr_thread_id st + 1"
    using alloc tok cfg lt acq add
    by (auto simp: TZ_AllocModuleContext_S_def Let_def split: if_splits)
  have fresh: "nsid_of api st tok = None"
    using tz_inv_fresh [OF inv tid, of tok] acq out by (metis fst_conv)
  have wf: "nsid_wf ?i (token_table st)" using inv by (simp add: tz_inv_def)
  have pre: "sint module < 0" "tok \<noteq> ?i" "0 < nsid_room ?i (token_table st)"
    using add out add_entry_no_room [of ?i "token_table st" module tok]
    by (auto simp: nsid_mgr_add_entry_def nsid_mgr_errs TFM_INVALID_NSID_MIN_def split: if_splits)
  have "nsid_lookup ?i t tok = Some module"
    using add_entry_ok [OF wf pre(2,1) fresh pre(3)] add out by force
  moreover have "ucast tok = nsid_mgr_thread_id st"
    using tid acq pre(2) out unfolding token_carries_tid_def Let_def by (metis fst_conv)
  ultimately show ?thesis using pre out lt by simp
qed

lemma alloc_registers:
  assumes inv: "tz_inv api st" and tid: "token_carries_tid api" and cfg: "TFM_NS_MANAGE_NSID cfg"
    and n: "nsid_mgr_thread_id st \<noteq> NSID_MGR_THREAD_ID_MAX" and pre: "sint module < 0"
      "tok \<noteq> TFM_NS_CLIENT_INVALID_TOKEN api"
      "0 < nsid_room (TFM_NS_CLIENT_INVALID_TOKEN api) (token_table st)"
    and acq: "tfm_nsce_acquire_ctx api NSID_MGR_GROUP_ID_DEFAULT (nsid_mgr_thread_id st) (nsce st)
       = (tok, s)"
  shows "\<exists>t. TZ_AllocModuleContext_S cfg api module st
      = (tok, st\<lparr>nsid_mgr_thread_id := nsid_mgr_thread_id st + 1, nsce := s, token_table := t\<rparr>)
    \<and> nsid_lookup (TFM_NS_CLIENT_INVALID_TOKEN api) t = (nsid_of api st)(tok \<mapsto> module)"
proof -
  have lt: "nsid_mgr_thread_id st < NSID_MGR_THREAD_ID_MAX" using n inv by (simp add: tz_inv_def order.strict_iff_order)
  have fresh: "nsid_of api st tok = None" using tz_inv_fresh [OF inv tid, of tok] acq by (metis fst_conv)
  have "nsid_wf (TFM_NS_CLIENT_INVALID_TOKEN api) (token_table st)" using inv by (simp add: tz_inv_def)
  from add_entry_ok [OF this pre(2,1) fresh pre(3)]
  show ?thesis using lt cfg acq by (auto simp: TZ_AllocModuleContext_S_def Let_def)
qed

text \<open>C21. What an allocation does in every case. When the 254 thread identifiers are used up it
  returns 0 and calls nothing. Otherwise it acquires a context and consumes an identifier; if
  the NSID is not negative, the extension gave no token or the table is full it returns 0 with
  the table unchanged, and the extension is left as the acquisition left it: the context is
  acquired and never released, and the identifier stays consumed. In the remaining case it
  returns the acquired token, which is not 0 (0 would disable the scheduler), and the table
  gains exactly that token with that NSID.\<close>

theorem tz_alloc_outcome:
  assumes "TFM_NS_MANAGE_NSID cfg" and "token_carries_tid api" and "tz_reachable cfg api st"
    and acq: "tfm_nsce_acquire_ctx api NSID_MGR_GROUP_ID_DEFAULT (nsid_mgr_thread_id st) (nsce st)
       = (tok, s)"
  shows "if nsid_mgr_thread_id st = 0xFF then TZ_AllocModuleContext_S cfg api module st = (0, st)
    else if sint module \<ge> 0 \<or> tok = TFM_NS_CLIENT_INVALID_TOKEN api
        \<or> nsid_room (TFM_NS_CLIENT_INVALID_TOKEN api) (token_table st) = 0
    then TZ_AllocModuleContext_S cfg api module st
      = (0, st\<lparr>nsid_mgr_thread_id := nsid_mgr_thread_id st + 1, nsce := s\<rparr>)
    else tok \<noteq> 0 \<and>
      (\<exists>t. TZ_AllocModuleContext_S cfg api module st
         = (tok, st\<lparr>nsid_mgr_thread_id := nsid_mgr_thread_id st + 1, nsce := s, token_table := t\<rparr>)
       \<and> nsid_lookup (TFM_NS_CLIENT_INVALID_TOKEN api) t = (nsid_of api st)(tok \<mapsto> module))"
    (is "if ?full then ?A else if ?bad then ?B else ?C")
proof -
  let ?i = "TFM_NS_CLIENT_INVALID_TOKEN api"
  have inv: "tz_inv api st" using assms(1-3) by (rule reachable_inv)
  have B: ?B if "\<not> ?full" and bad: ?bad
  proof -
    have "nsid_mgr_thread_id st < NSID_MGR_THREAD_ID_MAX"
      using inv that(1) by (simp add: tz_inv_def NSID_MGR_THREAD_ID_MAX_def order.strict_iff_order)
    moreover have "fst (nsid_mgr_add_entry ?i module tok (token_table st)) \<noteq> NSID_MGR_ERR_SUCCESS"
      using bad add_entry_no_room [of ?i "token_table st" module tok]
      by (auto simp: nsid_mgr_add_entry_def nsid_mgr_errs TFM_INVALID_NSID_MIN_def)
    moreover have "snd (nsid_mgr_add_entry ?i module tok (token_table st)) = token_table st"
      using add_entry_unchanged [of module tok ?i "token_table st"] bad by auto
    ultimately show ?thesis
      using acq assms(1) by (simp add: TZ_AllocModuleContext_S_def Let_def case_prod_beta)
  qed
  have C: ?C if "\<not> ?full" and ok: "\<not> ?bad"
  proof -
    have "ucast tok = nsid_mgr_thread_id st"
      using assms(2) acq ok unfolding token_carries_tid_def Let_def by (metis fst_conv)
    then have "tok \<noteq> 0" using inv by (auto simp: tz_inv_def)
    then show ?thesis
      using alloc_registers [OF inv assms(2,1) _ _ _ _ acq, of module] that
      by (simp add: NSID_MGR_THREAD_ID_MAX_def)
  qed
  have ?A if ?full
    using that assms(1) by (simp add: TZ_AllocModuleContext_S_def NSID_MGR_THREAD_ID_MAX_def)
  then show ?thesis using B C by simp
qed

theorem tz_alloc_outcome_witness:
  "fst (TZ_AllocModuleContext_S ns_managed list_nsce (- 2)
     (snd (TZ_InitContextSystem_S ns_managed list_nsce (tz_boot [])))) = 1"
proof -
  let ?st = "snd (TZ_InitContextSystem_S ns_managed list_nsce (tz_boot []))"
  have "tfm_nsce_acquire_ctx list_nsce NSID_MGR_GROUP_ID_DEFAULT (nsid_mgr_thread_id ?st) (nsce ?st)
     = (1, [1])" by code_simp
  from tz_alloc_outcome [OF _ list_nsce_carries_tid list_nsce_boot this, of "- 2"]
  have "if nsid_mgr_thread_id ?st = 0xFF then fst (TZ_AllocModuleContext_S ns_managed list_nsce (- 2) ?st) = 0
    else if sint (- 2 :: i32) \<ge> 0 \<or> (1 :: u32) = TFM_NS_CLIENT_INVALID_TOKEN list_nsce
        \<or> nsid_room (TFM_NS_CLIENT_INVALID_TOKEN list_nsce) (token_table ?st) = 0
    then fst (TZ_AllocModuleContext_S ns_managed list_nsce (- 2) ?st) = 0
    else fst (TZ_AllocModuleContext_S ns_managed list_nsce (- 2) ?st) = 1"
    by (auto simp: ns_managed_def split: if_splits)
  moreover have "nsid_mgr_thread_id ?st = 1" by code_simp
  moreover have "nsid_room (TFM_NS_CLIENT_INVALID_TOKEN list_nsce) (token_table ?st) = 10"
    by code_simp
  moreover have "TFM_NS_CLIENT_INVALID_TOKEN list_nsce = 0xFFFFFFFF" by code_simp
  ultimately show ?thesis by simp
qed

lemma context_load:
  assumes "TFM_NS_MANAGE_NSID cfg" and "token_carries_tid api" and "tz_reachable cfg api st"
    and alloc: "TZ_AllocModuleContext_S cfg api module st = (tok, st1)" and "tok \<noteq> 0"
    and run: "tz_keeps cfg api tok st1 st2"
    and call: "tfm_nsce_load_ctx api tok module (nsce st2) = (r, s)"
  shows "TZ_LoadContext_S cfg api tok st2 =
    (if r = TFM_NS_CLIENT_ERR_SUCCESS api
     then (1, st2\<lparr>nsce := s, current_active_token :=
                   if TEST_NS_MANAGE_NSID cfg then tok else current_active_token st2\<rparr>)
     else (0, st2\<lparr>nsce := s\<rparr>))"
proof -
  have inv: "tz_inv api st" using assms(1-3) by (rule reachable_inv)
  have entry: "nsid_of api st1 tok = Some module" and neg: "sint module < 0"
    using alloc_ok [OF inv assms(2,1) alloc] assms(5) by simp_all
  have "tz_inv api st1" using tz_alloc_inv [OF inv assms(2,1), of module] alloc by simp
  from tz_keeps_entry [OF run this entry assms(1,2)]
  have "nsid_mgr_query_nsid (TFM_NS_CLIENT_INVALID_TOKEN api) tok (token_table st2) = module"
    by (simp add: query_nsid_lookup)
  then show ?thesis
    using assms(1) neg call by (simp add: TZ_LoadContext_S_def TFM_INVALID_NSID_MIN_def)
qed

text \<open>C2. From its allocation until it is freed a context belongs to the NSID of its thread:
  whatever other contexts are allocated, freed, loaded and stored in between, loading it calls
  the extension with the allocated token and exactly the NSID it was allocated for, and
  reports success, with that token active, exactly when the extension does.\<close>

theorem tz_context_keeps_nsid:
  assumes "TFM_NS_MANAGE_NSID cfg" and "token_carries_tid api" and "tz_reachable cfg api st"
    and alloc: "TZ_AllocModuleContext_S cfg api module st = (tok, st1)" and "tok \<noteq> 0"
    and run: "tz_keeps cfg api tok st1 st2"
    and call: "tfm_nsce_load_ctx api tok module (nsce st2) = (r, s)"
  shows "TZ_LoadContext_S cfg api tok st2 =
    (if r = TFM_NS_CLIENT_ERR_SUCCESS api
     then (1, st2\<lparr>nsce := s, current_active_token :=
                   if TEST_NS_MANAGE_NSID cfg then tok else current_active_token st2\<rparr>)
     else (0, st2\<lparr>nsce := s\<rparr>))"
  by (rule context_load [OF assms])

theorem tz_context_keeps_nsid_witness:
  "\<exists>st2. TZ_LoadContext_S ns_managed list_nsce 1 st2
    = (1, st2\<lparr>nsce := [2, 1], current_active_token := 1\<rparr>)"
proof -
  let ?st = "snd (TZ_InitContextSystem_S ns_managed list_nsce (tz_boot []))"
  let ?st1 = "snd (TZ_AllocModuleContext_S ns_managed list_nsce (- 2) ?st)"
  let ?st2 = "snd (TZ_AllocModuleContext_S ns_managed list_nsce (- 3) ?st1)"
  have "fst (TZ_AllocModuleContext_S ns_managed list_nsce (- 2) ?st) = 1" by code_simp
  then have alloc: "TZ_AllocModuleContext_S ns_managed list_nsce (- 2) ?st = (1, ?st1)"
    by (metis prod.collapse)
  have "nsce ?st2 = [2, 1]" by code_simp
  then have call: "tfm_nsce_load_ctx list_nsce 1 (- 2) (nsce ?st2) = (0, [2, 1])"
    by (simp add: list_nsce_def)
  from tz_context_keeps_nsid
    [OF _ list_nsce_carries_tid list_nsce_boot alloc _ tz_keeps.alloc [OF tz_keeps.refl] call]
  have "TZ_LoadContext_S ns_managed list_nsce 1 ?st2
    = (1, ?st2\<lparr>nsce := [2, 1], current_active_token := 1\<rparr>)"
    by (simp add: ns_managed_def list_nsce_def)
  then show ?thesis by blast
qed

text \<open>C22. After a context is freed, whatever the extension answered, its token is dead: loading
  it or freeing it again fails without calling the extension and without changing anything,
  and every other token keeps its NSID.\<close>

theorem tz_free_revokes:
  assumes "TFM_NS_MANAGE_NSID cfg" and "token_carries_tid api" and "tz_reachable cfg api st"
    and free: "TZ_FreeModuleContext_S cfg api tok st = (r, st')"
  shows "TZ_LoadContext_S cfg api tok st' = (0, st')
    \<and> TZ_FreeModuleContext_S cfg api tok st' = (0, st')
    \<and> (\<forall>other. other \<noteq> tok \<longrightarrow> nsid_of api st' other = nsid_of api st other)"
proof -
  let ?i = "TFM_NS_CLIENT_INVALID_TOKEN api"
  have "nsid_wf ?i (token_table st)"
    using reachable_inv [OF assms(1-3)] by (simp add: tz_inv_def)
  from remove_entry_shrinks [OF this, of tok]
  have look: "nsid_of api st' = (nsid_of api st)(tok := None)"
    using free assms(1)
    by (auto simp: TZ_FreeModuleContext_S_def Let_def case_prod_beta split: if_splits)
  then have gone: "nsid_of api st' tok = None" by simp
  have "TZ_LoadContext_S cfg api tok st' = (0, st')"
    using assms(1) gone by (simp add: TZ_LoadContext_S_def query_nsid_lookup)
  moreover have "TZ_FreeModuleContext_S cfg api tok st' = (0, st')"
    using assms(1) remove_entry_absent [OF gone]
    by (simp add: TZ_FreeModuleContext_S_def mgr_err_distinct)
  ultimately show ?thesis using look by simp
qed

theorem tz_free_revokes_witness:
  "let st = snd (TZ_AllocModuleContext_S ns_managed list_nsce (- 2)
       (snd (TZ_InitContextSystem_S ns_managed list_nsce (tz_boot []))));
     st' = snd (TZ_FreeModuleContext_S ns_managed list_nsce 1 st)
   in TZ_LoadContext_S ns_managed list_nsce 1 st' = (0, st')"
  using tz_free_revokes [OF _ list_nsce_carries_tid
      tz_reachable.step [OF list_nsce_boot tz_step.alloc [of _ _ _ "- 2"]], of 1]
  by (simp add: ns_managed_def Let_def prod_eq_iff)

end
