(* ===== verification/Os_Wrapper.thy ===== *)
theory Os_Wrapper
  imports Nsid_Manager
begin

text \<open>
  The OS abstraction layer over CMSIS-RTOS v2,
  \<^verbatim>\<open>src/app_broker/os_wrapper_cmsis_rtos_v2.c\<close>.

  The kernel is outside the layer: the record \<open>rtos\<close> holds the CMSIS calls the layer makes, each
  mapping the kernel's state \<open>'s\<close> (which includes the memory that pointers address) to a result
  and a next state. The constants \<open>OS_WRAPPER_*\<close> come from a header outside the repository and
  are the record \<open>os_codes\<close>; the constants of \<open>cmsis_os2.h\<close> are defined here. A pointer is a
  number with \<open>NULL\<close> as 0.

  The contract shared by the operations that report a status is the locale \<open>checked_call\<close>: the
  wrapper reports success exactly when the kernel call passed and has exactly the effect of that
  call. It is interpreted on each of them; the mailbox builds on it.
\<close>

section \<open>The kernel interface\<close>

type_synonym ptr = nat

definition NULL :: ptr where "NULL = 0"

definition osOK :: int where "osOK = 0"
definition osWaitForever :: u32 where "osWaitForever = 0xFFFFFFFF"
definition osFlagsWaitAll :: u32 where "osFlagsWaitAll = 1"
definition osFlagsError :: u32 where "osFlagsError = 0x80000000"
definition osMutexPrioInherit :: u32 where "osMutexPrioInherit = 2"
definition osPriorityError :: i32 where "osPriorityError = - 1"

record os_codes =
  OS_WRAPPER_SUCCESS :: u32
  OS_WRAPPER_ERROR :: u32
  OS_WRAPPER_WAIT_FOREVER :: u32
  OS_WRAPPER_DEFAULT_STACK_SIZE :: i32

record osThreadAttr_t =
  at_name :: "string option"
  at_attr_bits :: u32
  at_cb_mem :: ptr
  at_cb_size :: u32
  at_stack_mem :: ptr
  at_stack_size :: u32
  at_priority :: i32
  at_tz_module :: u32

text \<open>The attributes of semaphores and mutexes have the same fields.\<close>

record osObjectAttr_t =
  ob_name :: "string option"
  ob_attr_bits :: u32
  ob_cb_mem :: ptr
  ob_cb_size :: u32

record 's rtos =
  osThreadNew :: "ptr \<Rightarrow> ptr \<Rightarrow> osThreadAttr_t \<Rightarrow> 's \<Rightarrow> ptr \<times> 's"
  osThreadGetId :: "'s \<Rightarrow> ptr"
  osThreadGetPriority :: "ptr \<Rightarrow> 's \<Rightarrow> i32"
  osThreadExit :: "'s \<Rightarrow> 's"
  osThreadFlagsSet :: "ptr \<Rightarrow> u32 \<Rightarrow> 's \<Rightarrow> u32 \<times> 's"
  osThreadFlagsWait :: "u32 \<Rightarrow> u32 \<Rightarrow> u32 \<Rightarrow> 's \<Rightarrow> u32 \<times> 's"
  osSemaphoreNew :: "u32 \<Rightarrow> u32 \<Rightarrow> osObjectAttr_t \<Rightarrow> 's \<Rightarrow> ptr \<times> 's"
  osSemaphoreAcquire :: "ptr \<Rightarrow> u32 \<Rightarrow> 's \<Rightarrow> int \<times> 's"
  osSemaphoreRelease :: "ptr \<Rightarrow> 's \<Rightarrow> int \<times> 's"
  osSemaphoreDelete :: "ptr \<Rightarrow> 's \<Rightarrow> int \<times> 's"
  osMutexNew :: "osObjectAttr_t \<Rightarrow> 's \<Rightarrow> ptr \<times> 's"
  osMutexAcquire :: "ptr \<Rightarrow> u32 \<Rightarrow> 's \<Rightarrow> int \<times> 's"
  osMutexRelease :: "ptr \<Rightarrow> 's \<Rightarrow> int \<times> 's"
  osMutexDelete :: "ptr \<Rightarrow> 's \<Rightarrow> int \<times> 's"
  osKernelGetTickCount :: "'s \<Rightarrow> u32"
  osMessageQueueNew :: "u32 \<Rightarrow> u32 \<Rightarrow> ptr \<Rightarrow> 's \<Rightarrow> ptr \<times> 's"
  osMessageQueuePut :: "ptr \<Rightarrow> ptr \<Rightarrow> u8 \<Rightarrow> u32 \<Rightarrow> 's \<Rightarrow> int \<times> 's"
  osMessageQueueGet :: "ptr \<Rightarrow> ptr \<Rightarrow> ptr \<Rightarrow> u32 \<Rightarrow> 's \<Rightarrow> int \<times> 's"
  osDelay :: "u32 \<Rightarrow> 's \<Rightarrow> int \<times> 's"

section \<open>Operations\<close>

text \<open>
  The NSID of a new thread comes from the thread table, whose scan of the name is a C string
  loop: \<open>None\<close> is a scan that leaves its strings.
\<close>

definition os_wrapper_thread_new ::
  "bool \<Rightarrow> bool \<Rightarrow> os_codes \<Rightarrow> 's rtos \<Rightarrow> string option \<Rightarrow> i32 \<Rightarrow> ptr \<Rightarrow> ptr \<Rightarrow> u32 \<Rightarrow> 's
   \<Rightarrow> (ptr \<times> 's) option" where
  "os_wrapper_thread_new manage_nsid psa_api_test_ns os k name stack_sz func arg priority s =
     (let attribs = \<lparr>at_name = None, at_attr_bits = 0, at_cb_mem = NULL, at_cb_size = 0,
            at_stack_mem = NULL, at_stack_size = 0, at_priority = 0,
            at_tz_module = TFM_DEFAULT_NSID\<rparr>;
          attribs = (if stack_sz \<noteq> OS_WRAPPER_DEFAULT_STACK_SIZE os
                     then attribs\<lparr>at_stack_size := stack_sz\<rparr> else attribs);
          attribs = attribs\<lparr>at_name := name, at_priority := priority\<rparr>
      in if manage_nsid then
           (case nsid_mgr_get_thread_nsid psa_api_test_ns name of
              None \<Rightarrow> None
            | Some n \<Rightarrow> Some (osThreadNew k func arg (attribs\<lparr>at_tz_module := n\<rparr>) s))
         else Some (osThreadNew k func arg attribs s))"

definition os_wrapper_semaphore_create ::
  "'s rtos \<Rightarrow> u32 \<Rightarrow> u32 \<Rightarrow> string option \<Rightarrow> 's \<Rightarrow> ptr \<times> 's" where
  "os_wrapper_semaphore_create k max_count initial_count name s =
     osSemaphoreNew k max_count initial_count
       \<lparr>ob_name = name, ob_attr_bits = 0, ob_cb_mem = NULL, ob_cb_size = 0\<rparr> s"

definition os_timeout :: "os_codes \<Rightarrow> u32 \<Rightarrow> u32" where
  "os_timeout os timeout =
     (if timeout = OS_WRAPPER_WAIT_FOREVER os then osWaitForever else timeout)"

definition os_wrapper_semaphore_acquire ::
  "os_codes \<Rightarrow> 's rtos \<Rightarrow> ptr \<Rightarrow> u32 \<Rightarrow> 's \<Rightarrow> u32 \<times> 's" where
  "os_wrapper_semaphore_acquire os k handle timeout s =
     (let (status, s) = osSemaphoreAcquire k handle (os_timeout os timeout) s
      in if status \<noteq> osOK then (OS_WRAPPER_ERROR os, s) else (OS_WRAPPER_SUCCESS os, s))"

definition os_wrapper_semaphore_release :: "os_codes \<Rightarrow> 's rtos \<Rightarrow> ptr \<Rightarrow> 's \<Rightarrow> u32 \<times> 's" where
  "os_wrapper_semaphore_release os k handle s =
     (let (status, s) = osSemaphoreRelease k handle s
      in if status \<noteq> osOK then (OS_WRAPPER_ERROR os, s) else (OS_WRAPPER_SUCCESS os, s))"

definition os_wrapper_semaphore_delete :: "os_codes \<Rightarrow> 's rtos \<Rightarrow> ptr \<Rightarrow> 's \<Rightarrow> u32 \<times> 's" where
  "os_wrapper_semaphore_delete os k handle s =
     (let (status, s) = osSemaphoreDelete k handle s
      in if status \<noteq> osOK then (OS_WRAPPER_ERROR os, s) else (OS_WRAPPER_SUCCESS os, s))"

definition os_wrapper_mutex_create :: "'s rtos \<Rightarrow> 's \<Rightarrow> ptr \<times> 's" where
  "os_wrapper_mutex_create k s =
     osMutexNew k \<lparr>ob_name = None, ob_attr_bits = osMutexPrioInherit, ob_cb_mem = NULL,
                   ob_cb_size = 0\<rparr> s"

definition os_wrapper_mutex_acquire ::
  "os_codes \<Rightarrow> 's rtos \<Rightarrow> ptr \<Rightarrow> u32 \<Rightarrow> 's \<Rightarrow> u32 \<times> 's" where
  "os_wrapper_mutex_acquire os k handle timeout s =
     (if handle = NULL then (OS_WRAPPER_ERROR os, s)
      else let (status, s) = osMutexAcquire k handle (os_timeout os timeout) s
           in if status \<noteq> osOK then (OS_WRAPPER_ERROR os, s) else (OS_WRAPPER_SUCCESS os, s))"

definition os_wrapper_mutex_release :: "os_codes \<Rightarrow> 's rtos \<Rightarrow> ptr \<Rightarrow> 's \<Rightarrow> u32 \<times> 's" where
  "os_wrapper_mutex_release os k handle s =
     (if handle = NULL then (OS_WRAPPER_ERROR os, s)
      else let (status, s) = osMutexRelease k handle s
           in if status \<noteq> osOK then (OS_WRAPPER_ERROR os, s) else (OS_WRAPPER_SUCCESS os, s))"

definition os_wrapper_mutex_delete :: "os_codes \<Rightarrow> 's rtos \<Rightarrow> ptr \<Rightarrow> 's \<Rightarrow> u32 \<times> 's" where
  "os_wrapper_mutex_delete os k handle s =
     (if handle = NULL then (OS_WRAPPER_ERROR os, s)
      else let (status, s) = osMutexDelete k handle s
           in if status \<noteq> osOK then (OS_WRAPPER_ERROR os, s) else (OS_WRAPPER_SUCCESS os, s))"

definition os_wrapper_thread_get_handle :: "'s rtos \<Rightarrow> 's \<Rightarrow> ptr" where
  "os_wrapper_thread_get_handle k s = osThreadGetId k s"

text \<open>The second component is what the call stores to \<open>*priority\<close>, if it stores at all.\<close>

definition os_wrapper_thread_get_priority ::
  "os_codes \<Rightarrow> 's rtos \<Rightarrow> ptr \<Rightarrow> 's \<Rightarrow> u32 \<times> u32 option" where
  "os_wrapper_thread_get_priority os k handle s =
     (let prio = osThreadGetPriority k handle s
      in if prio = osPriorityError then (OS_WRAPPER_ERROR os, None)
         else (OS_WRAPPER_SUCCESS os, Some prio))"

definition os_wrapper_thread_exit :: "'s rtos \<Rightarrow> 's \<Rightarrow> 's" where
  "os_wrapper_thread_exit k s = osThreadExit k s"

definition os_wrapper_thread_set_flag ::
  "os_codes \<Rightarrow> 's rtos \<Rightarrow> ptr \<Rightarrow> u32 \<Rightarrow> 's \<Rightarrow> u32 \<times> 's" where
  "os_wrapper_thread_set_flag os k handle flags s =
     (let (ret, s) = osThreadFlagsSet k handle flags s
      in if and ret osFlagsError \<noteq> 0 then (OS_WRAPPER_ERROR os, s)
         else (OS_WRAPPER_SUCCESS os, s))"

definition os_wrapper_thread_set_flag_isr ::
  "os_codes \<Rightarrow> 's rtos \<Rightarrow> ptr \<Rightarrow> u32 \<Rightarrow> 's \<Rightarrow> u32 \<times> 's" where
  "os_wrapper_thread_set_flag_isr os k handle flags s =
     (let (ret, s) = osThreadFlagsSet k handle flags s
      in if and ret osFlagsError \<noteq> 0 then (OS_WRAPPER_ERROR os, s)
         else (OS_WRAPPER_SUCCESS os, s))"

definition os_wrapper_thread_wait_flag ::
  "os_codes \<Rightarrow> 's rtos \<Rightarrow> u32 \<Rightarrow> u32 \<Rightarrow> 's \<Rightarrow> u32 \<times> 's" where
  "os_wrapper_thread_wait_flag os k flags timeout s =
     (let (ret, s) = osThreadFlagsWait k flags osFlagsWaitAll (os_timeout os timeout) s
      in if and ret osFlagsError \<noteq> 0 then (OS_WRAPPER_ERROR os, s)
         else (OS_WRAPPER_SUCCESS os, s))"

definition os_wrapper_get_tick :: "'s rtos \<Rightarrow> 's \<Rightarrow> u32" where
  "os_wrapper_get_tick k s = osKernelGetTickCount k s"

definition os_wrapper_msg_queue_create :: "'s rtos \<Rightarrow> u32 \<Rightarrow> u8 \<Rightarrow> 's \<Rightarrow> ptr \<times> 's" where
  "os_wrapper_msg_queue_create k msg_size msg_count s =
     osMessageQueueNew k (ucast msg_count) msg_size NULL s"

definition os_wrapper_msg_queue_send ::
  "os_codes \<Rightarrow> 's rtos \<Rightarrow> ptr \<Rightarrow> ptr \<Rightarrow> 's \<Rightarrow> u32 \<times> 's" where
  "os_wrapper_msg_queue_send os k mq_handle msg_ptr s =
     (let (status, s) = osMessageQueuePut k mq_handle msg_ptr 0 0 s
      in if status = osOK then (OS_WRAPPER_SUCCESS os, s) else (OS_WRAPPER_ERROR os, s))"

definition os_wrapper_msg_queue_receive ::
  "os_codes \<Rightarrow> 's rtos \<Rightarrow> ptr \<Rightarrow> ptr \<Rightarrow> 's \<Rightarrow> u32 \<times> 's" where
  "os_wrapper_msg_queue_receive os k mq_handle msg_ptr s =
     (let (status, s) = osMessageQueueGet k mq_handle msg_ptr NULL osWaitForever s
      in if status = osOK then (OS_WRAPPER_SUCCESS os, s) else (OS_WRAPPER_ERROR os, s))"

definition os_wrapper_delay :: "os_codes \<Rightarrow> 's rtos \<Rightarrow> u32 \<Rightarrow> 's \<Rightarrow> u32 \<times> 's" where
  "os_wrapper_delay os k ticks s =
     (let (status, s) = osDelay k ticks s
      in if status = osOK then (OS_WRAPPER_SUCCESS os, s) else (OS_WRAPPER_ERROR os, s))"

section \<open>The contract of the operations that report a status\<close>

locale checked_call =
  fixes wrapper :: "'s \<Rightarrow> u32 \<times> 's"
    and passed :: "'s \<Rightarrow> bool"
    and effect :: "'s \<Rightarrow> 's"
    and success error :: u32
  assumes wrapper_eq: "wrapper s = (if passed s then success else error, effect s)"
begin

lemma success_iff: "success \<noteq> error \<Longrightarrow> fst (wrapper s) = success \<longleftrightarrow> passed s"
  by (simp add: wrapper_eq)

lemma only_two_codes: "fst (wrapper s) \<in> {success, error}"
  by (simp add: wrapper_eq)

lemma effect_always: "snd (wrapper s) = effect s"
  by (simp add: wrapper_eq)

end

lemmas os_wrapper_defs = os_wrapper_semaphore_acquire_def os_wrapper_semaphore_release_def
  os_wrapper_semaphore_delete_def os_wrapper_mutex_acquire_def os_wrapper_mutex_release_def
  os_wrapper_mutex_delete_def os_wrapper_thread_set_flag_def os_wrapper_thread_set_flag_isr_def
  os_wrapper_thread_wait_flag_def os_wrapper_msg_queue_send_def os_wrapper_msg_queue_receive_def
  os_wrapper_delay_def

text \<open>A flag call failed when the error indicator, the top bit, is set in its result.\<close>

lemma flags_error_bit: "and r osFlagsError \<noteq> 0 \<longleftrightarrow> bit r 31"
  using and_exp_eq_0_iff_not_bit [of r 31] by (simp add: osFlagsError_def)

interpretation sem_acquire: checked_call "os_wrapper_semaphore_acquire os k h t"
  "\<lambda>s. fst (osSemaphoreAcquire k h (os_timeout os t) s) = osOK"
  "\<lambda>s. snd (osSemaphoreAcquire k h (os_timeout os t) s)"
  "OS_WRAPPER_SUCCESS os" "OS_WRAPPER_ERROR os" for os k h t
  by unfold_locales (simp add: os_wrapper_defs case_prod_beta Let_def)

interpretation sem_release: checked_call "os_wrapper_semaphore_release os k h"
  "\<lambda>s. fst (osSemaphoreRelease k h s) = osOK" "\<lambda>s. snd (osSemaphoreRelease k h s)"
  "OS_WRAPPER_SUCCESS os" "OS_WRAPPER_ERROR os" for os k h
  by unfold_locales (simp add: os_wrapper_defs case_prod_beta Let_def)

interpretation sem_delete: checked_call "os_wrapper_semaphore_delete os k h"
  "\<lambda>s. fst (osSemaphoreDelete k h s) = osOK" "\<lambda>s. snd (osSemaphoreDelete k h s)"
  "OS_WRAPPER_SUCCESS os" "OS_WRAPPER_ERROR os" for os k h
  by unfold_locales (simp add: os_wrapper_defs case_prod_beta Let_def)

interpretation mutex_acquire: checked_call "os_wrapper_mutex_acquire os k h t"
  "\<lambda>s. h \<noteq> NULL \<and> fst (osMutexAcquire k h (os_timeout os t) s) = osOK"
  "\<lambda>s. if h = NULL then s else snd (osMutexAcquire k h (os_timeout os t) s)"
  "OS_WRAPPER_SUCCESS os" "OS_WRAPPER_ERROR os" for os k h t
  by unfold_locales (simp add: os_wrapper_defs case_prod_beta Let_def)

interpretation mutex_release: checked_call "os_wrapper_mutex_release os k h"
  "\<lambda>s. h \<noteq> NULL \<and> fst (osMutexRelease k h s) = osOK"
  "\<lambda>s. if h = NULL then s else snd (osMutexRelease k h s)"
  "OS_WRAPPER_SUCCESS os" "OS_WRAPPER_ERROR os" for os k h
  by unfold_locales (simp add: os_wrapper_defs case_prod_beta Let_def)

interpretation mutex_delete: checked_call "os_wrapper_mutex_delete os k h"
  "\<lambda>s. h \<noteq> NULL \<and> fst (osMutexDelete k h s) = osOK"
  "\<lambda>s. if h = NULL then s else snd (osMutexDelete k h s)"
  "OS_WRAPPER_SUCCESS os" "OS_WRAPPER_ERROR os" for os k h
  by unfold_locales (simp add: os_wrapper_defs case_prod_beta Let_def)

interpretation set_flag: checked_call "os_wrapper_thread_set_flag_isr os k h f"
  "\<lambda>s. \<not> bit (fst (osThreadFlagsSet k h f s)) 31" "\<lambda>s. snd (osThreadFlagsSet k h f s)"
  "OS_WRAPPER_SUCCESS os" "OS_WRAPPER_ERROR os" for os k h f
  by unfold_locales (simp add: os_wrapper_defs flags_error_bit case_prod_beta Let_def)

interpretation wait_flag: checked_call "os_wrapper_thread_wait_flag os k f t"
  "\<lambda>s. \<not> bit (fst (osThreadFlagsWait k f 1 (os_timeout os t) s)) 31"
  "\<lambda>s. snd (osThreadFlagsWait k f 1 (os_timeout os t) s)"
  "OS_WRAPPER_SUCCESS os" "OS_WRAPPER_ERROR os" for os k f t
  by unfold_locales
    (simp add: os_wrapper_defs flags_error_bit osFlagsWaitAll_def case_prod_beta Let_def)

interpretation mq_put: checked_call "os_wrapper_msg_queue_send os k q m"
  "\<lambda>s. fst (osMessageQueuePut k q m 0 0 s) = osOK" "\<lambda>s. snd (osMessageQueuePut k q m 0 0 s)"
  "OS_WRAPPER_SUCCESS os" "OS_WRAPPER_ERROR os" for os k q m
  by unfold_locales (simp add: os_wrapper_defs case_prod_beta Let_def)

interpretation mq_get: checked_call "os_wrapper_msg_queue_receive os k q m"
  "\<lambda>s. fst (osMessageQueueGet k q m NULL osWaitForever s) = osOK"
  "\<lambda>s. snd (osMessageQueueGet k q m NULL osWaitForever s)"
  "OS_WRAPPER_SUCCESS os" "OS_WRAPPER_ERROR os" for os k q m
  by unfold_locales (simp add: os_wrapper_defs case_prod_beta Let_def)

interpretation delay: checked_call "os_wrapper_delay os k t"
  "\<lambda>s. fst (osDelay k t s) = osOK" "\<lambda>s. snd (osDelay k t s)"
  "OS_WRAPPER_SUCCESS os" "OS_WRAPPER_ERROR os" for os k t
  by unfold_locales (simp add: os_wrapper_defs case_prod_beta Let_def)

section \<open>Properties\<close>


text \<open>A kernel for the witnesses: every call succeeds except on the handle 1.\<close>

definition simple_rtos :: "nat rtos" where
  "simple_rtos = \<lparr>osThreadNew = \<lambda>f a at s. (2 + s, Suc s), osThreadGetId = \<lambda>s. 2,
     osThreadGetPriority = \<lambda>h s. if h = 1 then - 1 else 24, osThreadExit = \<lambda>s. s,
     osThreadFlagsSet = \<lambda>h f s. (if h = 1 then 0xFFFFFFFC else f, s),
     osThreadFlagsWait = \<lambda>f opt t s. (f, s),
     osSemaphoreNew = \<lambda>m i at s. (2, unat i),
     osSemaphoreAcquire = \<lambda>h t s. case s of 0 \<Rightarrow> (- 3, 0) | Suc n \<Rightarrow> (0, n),
     osSemaphoreRelease = \<lambda>h s. (0, Suc s), osSemaphoreDelete = \<lambda>h s. (0, s),
     osMutexNew = \<lambda>at s. (2, s), osMutexAcquire = \<lambda>h t s. (if h = 1 then - 4 else 0, s),
     osMutexRelease = \<lambda>h s. (if h = 1 then - 4 else 0, s), osMutexDelete = \<lambda>h s. (0, s),
     osKernelGetTickCount = \<lambda>s. 0, osMessageQueueNew = \<lambda>c sz at s. (2, s),
     osMessageQueuePut = \<lambda>q m p t s. case s of 0 \<Rightarrow> (0, 0) | Suc n \<Rightarrow> (- 3, n),
     osMessageQueueGet = \<lambda>q m p t s. (0, s), osDelay = \<lambda>t s. (0, s)\<rparr>"

definition simple_codes :: os_codes where
  "simple_codes = \<lparr>OS_WRAPPER_SUCCESS = 0, OS_WRAPPER_ERROR = 0xFFFFFFFF,
     OS_WRAPPER_WAIT_FOREVER = 0xFFFFFFFF, OS_WRAPPER_DEFAULT_STACK_SIZE = - 1\<rparr>"


lemma thread_new_call:
  "nsid_mgr_get_thread_nsid psa name = Some n \<Longrightarrow>
   os_wrapper_thread_new True psa os k name stack_sz func arg priority s
     = Some (osThreadNew k func arg
         \<lparr>at_name = name, at_attr_bits = 0, at_cb_mem = 0, at_cb_size = 0, at_stack_mem = 0,
          at_stack_size = (if stack_sz = OS_WRAPPER_DEFAULT_STACK_SIZE os then 0 else stack_sz),
          at_priority = priority, at_tz_module = n\<rparr> s)"
  by (simp add: os_wrapper_thread_new_def NULL_def)

text \<open>A thread created through the layer in a build that manages NSIDs always comes to the
  kernel with a negative TrustZone module identifier, so with a legal NSID: the one the thread
  table gives its name, or the default NSID when the name is absent or not in the table. Its
  name and priority are the ones asked for, and its stack size is the one asked for, or 0 (the
  kernel's default) when the default size is asked for.\<close>

lemma thread_new_has_legal_nsid:
  assumes "\<forall>n. name = Some n \<longrightarrow> CHR 0x00 \<notin> set n"
  shows "\<exists>nsid. sint nsid < 0
    \<and> nsid_mgr_get_thread_nsid psa name = Some nsid
    \<and> os_wrapper_thread_new True psa os k name stack_sz func arg priority s
      = Some (osThreadNew k func arg
          \<lparr>at_name = name, at_attr_bits = 0, at_cb_mem = 0, at_cb_size = 0, at_stack_mem = 0,
           at_stack_size = (if stack_sz = OS_WRAPPER_DEFAULT_STACK_SIZE os then 0 else stack_sz),
           at_priority = priority, at_tz_module = nsid\<rparr> s)"
proof -
  obtain n where n: "nsid_mgr_get_thread_nsid psa name = Some n" "sint n < 0"
    using thread_nsid_eq [OF assms, of psa] by auto
  then show ?thesis by (intro exI [of _ n] conjI n thread_new_call)
qed

end
