(* ===== verification/Mailbox.thy ===== *)
theory Mailbox
  imports Os_Wrapper
begin

text \<open>
  The non-secure side of the multi-core mailbox that the repository provides: the RTOS services
  (\<^verbatim>\<open>src/lib/multi_core/tfm_ns_mailbox_rtos_api.c\<close>) and the transmission statistics
  (\<^verbatim>\<open>src/lib/multi_core/tfm_ns_mailbox_test.c\<close>).

  The constants of \<open>tfm_ns_mailbox.h\<close>, which is outside the repository, are the record
  \<open>mailbox_codes\<close>. The loops that retry a queue operation may run for ever, so they are partial
  functions in which not returning is \<open>None\<close>; the contract of such a loop over a checked kernel
  call is the locale \<open>retry_loop\<close>, which extends \<open>checked_call\<close> and is interpreted on both loops.
  The statistics keep their queue behind a pointer, and the code of other threads that runs
  while the spin lock is open is an argument of the update.
\<close>

record mailbox_codes =
  MAILBOX_SUCCESS :: i32
  MAILBOX_INVAL_PARAMS :: i32
  MAILBOX_GENERIC_ERROR :: i32
  NUM_MAILBOX_QUEUE_SLOT :: nat

section \<open>RTOS services\<close>

record 's mailbox_os =
  irq_enabled :: bool
  ns_lock_handle :: ptr
  kernel :: 's

definition MAILBOX_THREAD_FLAG :: u32 where "MAILBOX_THREAD_FLAG = 0x5FCA0000"

definition tfm_ns_mailbox_os_get_task_handle :: "'s rtos \<Rightarrow> 's mailbox_os \<Rightarrow> ptr" where
  "tfm_ns_mailbox_os_get_task_handle k m = os_wrapper_thread_get_handle k (kernel m)"

definition tfm_ns_mailbox_os_wait_reply ::
  "os_codes \<Rightarrow> 's rtos \<Rightarrow> 's mailbox_os \<Rightarrow> 's mailbox_os" where
  "tfm_ns_mailbox_os_wait_reply os k m =
     m\<lparr>kernel := snd (os_wrapper_thread_wait_flag os k MAILBOX_THREAD_FLAG
                       (OS_WRAPPER_WAIT_FOREVER os) (kernel m))\<rparr>"

definition tfm_ns_mailbox_os_wake_task_isr ::
  "os_codes \<Rightarrow> 's rtos \<Rightarrow> ptr \<Rightarrow> 's mailbox_os \<Rightarrow> 's mailbox_os" where
  "tfm_ns_mailbox_os_wake_task_isr os k task_handle m =
     m\<lparr>kernel := snd (os_wrapper_thread_set_flag_isr os k task_handle MAILBOX_THREAD_FLAG
                       (kernel m))\<rparr>"

definition tfm_ns_mailbox_os_spin_lock :: "'s mailbox_os \<Rightarrow> 's mailbox_os" where
  "tfm_ns_mailbox_os_spin_lock m = m\<lparr>irq_enabled := False\<rparr>"

definition tfm_ns_mailbox_os_spin_unlock :: "'s mailbox_os \<Rightarrow> 's mailbox_os" where
  "tfm_ns_mailbox_os_spin_unlock m = m\<lparr>irq_enabled := True\<rparr>"

definition tfm_ns_mailbox_os_mq_create ::
  "'s rtos \<Rightarrow> u32 \<Rightarrow> u8 \<Rightarrow> 's mailbox_os \<Rightarrow> ptr \<times> 's mailbox_os" where
  "tfm_ns_mailbox_os_mq_create k msg_size msg_count m =
     (let (h, s) = os_wrapper_msg_queue_create k msg_size msg_count (kernel m)
      in (h, m\<lparr>kernel := s\<rparr>))"

partial_function (option) mq_send_loop :: "os_codes \<Rightarrow> 's rtos \<Rightarrow> ptr \<Rightarrow> ptr \<Rightarrow> 's \<Rightarrow> 's option" where
  "mq_send_loop os k mq_handle msg_ptr s =
     (let (ret, s') = os_wrapper_msg_queue_send os k mq_handle msg_ptr s
      in if ret = OS_WRAPPER_SUCCESS os then Some s' else mq_send_loop os k mq_handle msg_ptr s')"

partial_function (option) mq_receive_loop :: "os_codes \<Rightarrow> 's rtos \<Rightarrow> ptr \<Rightarrow> ptr \<Rightarrow> 's \<Rightarrow> 's option" where
  "mq_receive_loop os k mq_handle msg_ptr s =
     (let (ret, s') = os_wrapper_msg_queue_receive os k mq_handle msg_ptr s
      in if ret = OS_WRAPPER_SUCCESS os then Some s' else mq_receive_loop os k mq_handle msg_ptr s')"

definition tfm_ns_mailbox_os_mq_send ::
  "mailbox_codes \<Rightarrow> os_codes \<Rightarrow> 's rtos \<Rightarrow> ptr \<Rightarrow> ptr \<Rightarrow> 's mailbox_os
   \<Rightarrow> (i32 \<times> 's mailbox_os) option" where
  "tfm_ns_mailbox_os_mq_send mc os k mq_handle msg_ptr m =
     (if mq_handle = NULL \<or> msg_ptr = NULL then Some (MAILBOX_INVAL_PARAMS mc, m)
      else map_option (\<lambda>s. (MAILBOX_SUCCESS mc, m\<lparr>kernel := s\<rparr>))
             (mq_send_loop os k mq_handle msg_ptr (kernel m)))"

definition tfm_ns_mailbox_os_mq_receive ::
  "mailbox_codes \<Rightarrow> os_codes \<Rightarrow> 's rtos \<Rightarrow> ptr \<Rightarrow> ptr \<Rightarrow> 's mailbox_os
   \<Rightarrow> (i32 \<times> 's mailbox_os) option" where
  "tfm_ns_mailbox_os_mq_receive mc os k mq_handle msg_ptr m =
     (if mq_handle = NULL \<or> msg_ptr = NULL then Some (MAILBOX_INVAL_PARAMS mc, m)
      else map_option (\<lambda>s. (MAILBOX_SUCCESS mc, m\<lparr>kernel := s\<rparr>))
             (mq_receive_loop os k mq_handle msg_ptr (kernel m)))"

definition tfm_ns_mailbox_os_lock_init ::
  "mailbox_codes \<Rightarrow> 's rtos \<Rightarrow> 's mailbox_os \<Rightarrow> i32 \<times> 's mailbox_os" where
  "tfm_ns_mailbox_os_lock_init mc k m =
     (let (h, s) = os_wrapper_semaphore_create k (of_nat (NUM_MAILBOX_QUEUE_SLOT mc))
                     (of_nat (NUM_MAILBOX_QUEUE_SLOT mc)) None (kernel m);
          m = m\<lparr>ns_lock_handle := h, kernel := s\<rparr>
      in if ns_lock_handle m = NULL then (MAILBOX_GENERIC_ERROR mc, m)
         else (MAILBOX_SUCCESS mc, m))"

definition tfm_ns_mailbox_os_lock_acquire ::
  "os_codes \<Rightarrow> 's rtos \<Rightarrow> 's mailbox_os \<Rightarrow> i32 \<times> 's mailbox_os" where
  "tfm_ns_mailbox_os_lock_acquire os k m =
     (let (r, s) = os_wrapper_semaphore_acquire os k (ns_lock_handle m)
                     (OS_WRAPPER_WAIT_FOREVER os) (kernel m)
      in (r, m\<lparr>kernel := s\<rparr>))"

definition tfm_ns_mailbox_os_lock_release ::
  "os_codes \<Rightarrow> 's rtos \<Rightarrow> 's mailbox_os \<Rightarrow> i32 \<times> 's mailbox_os" where
  "tfm_ns_mailbox_os_lock_release os k m =
     (let (r, s) = os_wrapper_semaphore_release os k (ns_lock_handle m) (kernel m)
      in (r, m\<lparr>kernel := s\<rparr>))"

section \<open>Transmission statistics\<close>

record ns_mailbox_queue_t =
  empty_slots :: u32
  nr_tx :: u32
  nr_used_slots :: u32

record 's stats_state =
  queues :: "ptr \<Rightarrow> ns_mailbox_queue_t"
  stats_queue_ptr :: ptr
  os_side :: "'s mailbox_os"

definition reset_stats :: "ptr \<Rightarrow> 's stats_state \<Rightarrow> 's stats_state" where
  "reset_stats q st = st\<lparr>queues := (queues st)(q := (queues st q)\<lparr>nr_tx := 0, nr_used_slots := 0\<rparr>)\<rparr>"

definition tfm_ns_mailbox_tx_stats_init :: "ptr \<Rightarrow> 's stats_state \<Rightarrow> 's stats_state" where
  "tfm_ns_mailbox_tx_stats_init ns_queue st =
     (if ns_queue = NULL then st
      else (reset_stats ns_queue st)\<lparr>stats_queue_ptr := ns_queue\<rparr>)"

definition tfm_ns_mailbox_tx_stats_reinit ::
  "mailbox_codes \<Rightarrow> 's stats_state \<Rightarrow> i32 \<times> 's stats_state" where
  "tfm_ns_mailbox_tx_stats_reinit mc st =
     (if stats_queue_ptr st = NULL then (MAILBOX_INVAL_PARAMS mc, st)
      else (MAILBOX_SUCCESS mc, reset_stats (stats_queue_ptr st) st))"

definition count_empty :: "nat \<Rightarrow> u32 \<Rightarrow> u8" where
  "count_empty num empty_status =
     (if empty_status \<noteq> 0 then
        foldl (\<lambda>nr_empty idx. if and empty_status (push_bit idx 1) \<noteq> 0 then nr_empty + 1
                              else nr_empty) 0 [0..<num]
      else 0)"

text \<open>
  The update takes the spin lock twice: to read the status, and to write the counters.
  \<open>other\<close> is what the rest of the system does to the state in between.
\<close>

definition tfm_ns_mailbox_tx_stats_update ::
  "mailbox_codes \<Rightarrow> ('s stats_state \<Rightarrow> 's stats_state) \<Rightarrow> 's stats_state \<Rightarrow> 's stats_state" where
  "tfm_ns_mailbox_tx_stats_update mc other st =
     (if stats_queue_ptr st = NULL then st
      else let st = st\<lparr>os_side := tfm_ns_mailbox_os_spin_lock (os_side st)\<rparr>;
               empty_status = empty_slots (queues st (stats_queue_ptr st));
               st = st\<lparr>os_side := tfm_ns_mailbox_os_spin_unlock (os_side st)\<rparr>;
               st = other st;
               nr_empty = count_empty (NUM_MAILBOX_QUEUE_SLOT mc) empty_status;
               st = st\<lparr>os_side := tfm_ns_mailbox_os_spin_lock (os_side st)\<rparr>;
               q = queues st (stats_queue_ptr st);
               q = q\<lparr>nr_used_slots := nr_used_slots q
                        + (of_nat (NUM_MAILBOX_QUEUE_SLOT mc) - ucast nr_empty)\<rparr>;
               q = q\<lparr>nr_tx := nr_tx q + 1\<rparr>;
               st = st\<lparr>queues := (queues st)(stats_queue_ptr st := q)\<rparr>
           in st\<lparr>os_side := tfm_ns_mailbox_os_spin_unlock (os_side st)\<rparr>)"

text \<open>
  The outer option of the result is \<open>None\<close> for a division by zero; the inner one holds the two
  values stored in \<open>*stats_res\<close>, if the call stores at all.
\<close>

definition tfm_ns_mailbox_stats_avg_slot :: "'s stats_state \<Rightarrow> ptr \<Rightarrow> (u32 \<times> u32) option option" where
  "tfm_ns_mailbox_stats_avg_slot st stats_res =
     (if stats_queue_ptr st = NULL \<or> stats_res = NULL then Some None
      else let used = nr_used_slots (queues st (stats_queue_ptr st));
               tx = nr_tx (queues st (stats_queue_ptr st))
           in if tx = 0 then None
              else let avg = used div tx; used = used mod tx
                   in Some (Some (avg, used * 10 div tx)))"

section \<open>Retry loops\<close>

locale retry_loop = checked_call +
  fixes loop :: "'a \<Rightarrow> 'a option"
  assumes loop_eq: "loop s = (if fst (wrapper s) = success then Some (snd (wrapper s))
      else loop (snd (wrapper s)))"
    and loop_stops: "loop s = Some s' \<Longrightarrow>
      \<exists>n. fst (wrapper ((effect ^^ n) s)) = success \<and> s' = (effect ^^ Suc n) s"
begin

lemma loop_returns:
  assumes "success \<noteq> error" and "passed ((effect ^^ n) s)" and "\<forall>j < n. \<not> passed ((effect ^^ j) s)"
  shows "loop s = Some ((effect ^^ Suc n) s)"
  using assms(2,3)
proof (induction n arbitrary: s)
  case 0
  then show ?case using assms(1) by (subst loop_eq) (simp add: success_iff effect_always)
next
  case (Suc n)
  have "\<not> passed s" using Suc.prems(2) by (metis funpow_0 zero_less_Suc)
  moreover have "loop (effect s) = Some ((effect ^^ Suc n) (effect s))"
    using Suc.prems by (intro Suc.IH) (auto simp: funpow_Suc_right simp del: funpow.simps)
  ultimately show ?case
    using assms(1) by (subst loop_eq)
      (simp add: success_iff effect_always funpow_Suc_right del: funpow.simps)
qed

lemma loop_returns_iff:
  assumes "success \<noteq> error"
  shows "(\<exists>s'. loop s = Some s') \<longleftrightarrow> (\<exists>n. passed ((effect ^^ n) s))"
proof
  assume "\<exists>n. passed ((effect ^^ n) s)"
  then obtain n where "passed ((effect ^^ n) s)" "\<forall>j < n. \<not> passed ((effect ^^ j) s)"
    using exists_least_iff [of "\<lambda>n. passed ((effect ^^ n) s)"] by blast
  then show "\<exists>s'. loop s = Some s'" using loop_returns [OF assms] by blast
next
  assume "\<exists>s'. loop s = Some s'"
  then show "\<exists>n. passed ((effect ^^ n) s)" using loop_stops success_iff [OF assms] by blast
qed

end

text \<open>Partial correctness of the two loops, by fixpoint induction.\<close>

lemma mq_send_loop_stops:
  "mq_send_loop os k q m s = Some s' \<Longrightarrow>
   \<exists>n. fst (os_wrapper_msg_queue_send os k q m
              (((\<lambda>s. snd (osMessageQueuePut k q m 0 0 s)) ^^ n) s)) = OS_WRAPPER_SUCCESS os
     \<and> s' = ((\<lambda>s. snd (osMessageQueuePut k q m 0 0 s)) ^^ Suc n) s"
proof (induction rule: mq_send_loop.raw_induct [rotated, consumes 1, case_names step])
  case (step loop os k q m s s')
  let ?f = "\<lambda>s. snd (osMessageQueuePut k q m 0 0 s)"
  show ?case
  proof (cases "fst (os_wrapper_msg_queue_send os k q m s) = OS_WRAPPER_SUCCESS os")
    case True
    then have "fst (os_wrapper_msg_queue_send os k q m ((?f ^^ 0) s)) = OS_WRAPPER_SUCCESS os
      \<and> s' = (?f ^^ Suc 0) s"
      using step(2) by (simp add: case_prod_beta mq_put.effect_always)
    then show ?thesis by blast
  next
    case False
    then have "loop os k q m (?f s) = Some s'"
      using step(2) by (simp add: case_prod_beta mq_put.effect_always)
    from step(1) [OF this] obtain n where
      "fst (os_wrapper_msg_queue_send os k q m ((?f ^^ n) (?f s))) = OS_WRAPPER_SUCCESS os"
      "s' = (?f ^^ Suc n) (?f s)" by blast
    then show ?thesis by (intro exI [of _ "Suc n"]) (simp add: funpow_Suc_right del: funpow.simps)
  qed
qed

lemma mq_receive_loop_stops:
  "mq_receive_loop os k q m s = Some s' \<Longrightarrow>
   \<exists>n. fst (os_wrapper_msg_queue_receive os k q m
              (((\<lambda>s. snd (osMessageQueueGet k q m NULL osWaitForever s)) ^^ n) s)) = OS_WRAPPER_SUCCESS os
     \<and> s' = ((\<lambda>s. snd (osMessageQueueGet k q m NULL osWaitForever s)) ^^ Suc n) s"
proof (induction rule: mq_receive_loop.raw_induct [rotated, consumes 1, case_names step])
  case (step loop os k q m s s')
  let ?f = "\<lambda>s. snd (osMessageQueueGet k q m NULL osWaitForever s)"
  show ?case
  proof (cases "fst (os_wrapper_msg_queue_receive os k q m s) = OS_WRAPPER_SUCCESS os")
    case True
    then have "fst (os_wrapper_msg_queue_receive os k q m ((?f ^^ 0) s)) = OS_WRAPPER_SUCCESS os
      \<and> s' = (?f ^^ Suc 0) s"
      using step(2) by (simp add: case_prod_beta mq_get.effect_always)
    then show ?thesis by blast
  next
    case False
    then have "loop os k q m (?f s) = Some s'"
      using step(2) by (simp add: case_prod_beta mq_get.effect_always)
    from step(1) [OF this] obtain n where
      "fst (os_wrapper_msg_queue_receive os k q m ((?f ^^ n) (?f s))) = OS_WRAPPER_SUCCESS os"
      "s' = (?f ^^ Suc n) (?f s)" by blast
    then show ?thesis by (intro exI [of _ "Suc n"]) (simp add: funpow_Suc_right del: funpow.simps)
  qed
qed

interpretation send: retry_loop "os_wrapper_msg_queue_send os k q m"
  "\<lambda>s. fst (osMessageQueuePut k q m 0 0 s) = osOK" "\<lambda>s. snd (osMessageQueuePut k q m 0 0 s)"
  "OS_WRAPPER_SUCCESS os" "OS_WRAPPER_ERROR os" "mq_send_loop os k q m" for os k q m
proof unfold_locales
  show "mq_send_loop os k q m s =
      (if fst (os_wrapper_msg_queue_send os k q m s) = OS_WRAPPER_SUCCESS os
       then Some (snd (os_wrapper_msg_queue_send os k q m s))
       else mq_send_loop os k q m (snd (os_wrapper_msg_queue_send os k q m s)))" for s
    by (subst mq_send_loop.simps) (simp add: case_prod_beta)
qed (rule mq_send_loop_stops)

interpretation receive: retry_loop "os_wrapper_msg_queue_receive os k q m"
  "\<lambda>s. fst (osMessageQueueGet k q m NULL osWaitForever s) = osOK"
  "\<lambda>s. snd (osMessageQueueGet k q m NULL osWaitForever s)"
  "OS_WRAPPER_SUCCESS os" "OS_WRAPPER_ERROR os" "mq_receive_loop os k q m" for os k q m
proof unfold_locales
  show "mq_receive_loop os k q m s =
      (if fst (os_wrapper_msg_queue_receive os k q m s) = OS_WRAPPER_SUCCESS os
       then Some (snd (os_wrapper_msg_queue_receive os k q m s))
       else mq_receive_loop os k q m (snd (os_wrapper_msg_queue_receive os k q m s)))" for s
    by (subst mq_receive_loop.simps) (simp add: case_prod_beta)
qed (rule mq_receive_loop_stops)

text \<open>C26. Sending a message returns exactly when some attempt to put it succeeds: after the first
  successful put, with success, and with the kernel as the failed attempts and that put left
  it. As long as the queue stays full the call does not return. A missing handle or message is
  reported without touching the kernel.\<close>

theorem mq_send_returns:
  fixes m :: "'s mailbox_os" and put :: "'s \<Rightarrow> 's" and k :: "'s rtos"
  assumes "OS_WRAPPER_SUCCESS os \<noteq> OS_WRAPPER_ERROR os" and "q \<noteq> NULL" and "p \<noteq> NULL"
  defines "put \<equiv> (\<lambda>s. snd (osMessageQueuePut k q p 0 0 s))"
  shows "(\<forall>n. fst (osMessageQueuePut k q p 0 0 ((put ^^ n) (kernel m))) = 0
        \<and> (\<forall>j < n. fst (osMessageQueuePut k q p 0 0 ((put ^^ j) (kernel m))) \<noteq> 0) \<longrightarrow>
      tfm_ns_mailbox_os_mq_send mc os k q p m
        = Some (MAILBOX_SUCCESS mc, m\<lparr>kernel := (put ^^ Suc n) (kernel m)\<rparr>))
    \<and> ((\<forall>n. fst (osMessageQueuePut k q p 0 0 ((put ^^ n) (kernel m))) \<noteq> 0) \<longrightarrow>
      tfm_ns_mailbox_os_mq_send mc os k q p m = None)
    \<and> tfm_ns_mailbox_os_mq_send mc os k NULL p m = Some (MAILBOX_INVAL_PARAMS mc, m)
    \<and> tfm_ns_mailbox_os_mq_send mc os k q NULL m = Some (MAILBOX_INVAL_PARAMS mc, m)"
proof -
  have "mq_send_loop os k q p (kernel m) = Some ((put ^^ Suc n) (kernel m))"
    if "fst (osMessageQueuePut k q p 0 0 ((put ^^ n) (kernel m))) = 0"
      "\<forall>j < n. fst (osMessageQueuePut k q p 0 0 ((put ^^ j) (kernel m))) \<noteq> 0" for n
    using send.loop_returns [of os k q p n "kernel m"] that assms(1)
    unfolding put_def osOK_def by blast
  moreover have "mq_send_loop os k q p (kernel m) = None"
    if "\<forall>n. fst (osMessageQueuePut k q p 0 0 ((put ^^ n) (kernel m))) \<noteq> 0"
    using send.loop_returns_iff [of os k q p "kernel m"] that assms(1)
    unfolding put_def osOK_def by (metis not_None_eq)
  ultimately show ?thesis using assms(2,3) by (auto simp: tfm_ns_mailbox_os_mq_send_def)
qed

definition simple_mailbox :: mailbox_codes where
  "simple_mailbox = \<lparr>MAILBOX_SUCCESS = 0, MAILBOX_INVAL_PARAMS = - 1,
     MAILBOX_GENERIC_ERROR = - 2, NUM_MAILBOX_QUEUE_SLOT = 4\<rparr>"

theorem mq_send_returns_witness:
  "tfm_ns_mailbox_os_mq_send simple_mailbox simple_codes simple_rtos 2 3
     \<lparr>irq_enabled = True, ns_lock_handle = 0, kernel = 2\<rparr>
   = Some (0, \<lparr>irq_enabled = True, ns_lock_handle = 0, kernel = 0\<rparr>)"
proof -
  have "fst (osMessageQueuePut simple_rtos 2 3 0 0
      (((\<lambda>s. snd (osMessageQueuePut simple_rtos 2 3 0 0 s)) ^^ 2) 2)) = 0
    \<and> (\<forall>j < 2. fst (osMessageQueuePut simple_rtos 2 3 0 0
      (((\<lambda>s. snd (osMessageQueuePut simple_rtos 2 3 0 0 s)) ^^ j) 2)) \<noteq> 0)"
    by (simp add: simple_rtos_def numeral_2_eq_2 less_Suc_eq)
  moreover have "OS_WRAPPER_SUCCESS simple_codes \<noteq> OS_WRAPPER_ERROR simple_codes"
    and "2 \<noteq> NULL" and "3 \<noteq> NULL" by (simp_all add: simple_codes_def NULL_def)
  ultimately have "tfm_ns_mailbox_os_mq_send simple_mailbox simple_codes simple_rtos 2 3
     \<lparr>irq_enabled = True, ns_lock_handle = 0, kernel = 2\<rparr>
   = Some (MAILBOX_SUCCESS simple_mailbox, \<lparr>irq_enabled = True, ns_lock_handle = 0,
      kernel = snd (osMessageQueuePut simple_rtos 2 3 0 0
        (((\<lambda>s. snd (osMessageQueuePut simple_rtos 2 3 0 0 s)) ^^ 2) 2))\<rparr>)"
    using mq_send_returns [of simple_codes 2 3 simple_rtos
        "\<lparr>irq_enabled = True, ns_lock_handle = 0, kernel = 2\<rparr>" simple_mailbox] by simp
  then show ?thesis by (simp add: simple_mailbox_def simple_rtos_def numeral_2_eq_2)
qed

section \<open>The lock\<close>

text \<open>
  What the lock relies on: the semaphores of the kernel count. \<open>cnt s h\<close> is the number of tokens
  of the semaphore \<open>h\<close> in the kernel state \<open>s\<close>.
\<close>

definition semaphore_kernel :: "'s rtos \<Rightarrow> ('s \<Rightarrow> ptr \<Rightarrow> nat) \<Rightarrow> bool" where
  "semaphore_kernel k cnt \<longleftrightarrow>
     (\<forall>mx i a s. let (h, s') = osSemaphoreNew k mx i a s in h \<noteq> NULL \<longrightarrow> cnt s' h = unat i)
   \<and> (\<forall>h t s. let (r, s') = osSemaphoreAcquire k h t s
        in if r = osOK then cnt s h = Suc (cnt s' h) else cnt s' h = cnt s h)
   \<and> (\<forall>h s. let (r, s') = osSemaphoreRelease k h s
        in cnt s' h = (if r = osOK then Suc (cnt s h) else cnt s h))"

text \<open>
  Runs of the lock with the number of its holders: any thread may try to acquire it, and only a
  holder releases it.
\<close>

inductive lock_run :: "mailbox_codes \<Rightarrow> os_codes \<Rightarrow> 's rtos \<Rightarrow> nat \<Rightarrow> 's mailbox_os \<Rightarrow> bool"
  for mc os k where
  init: "tfm_ns_mailbox_os_lock_init mc k m0 = (MAILBOX_SUCCESS mc, m) \<Longrightarrow> lock_run mc os k 0 m"
| acquired: "lock_run mc os k n m \<Longrightarrow>
    tfm_ns_mailbox_os_lock_acquire os k m = (OS_WRAPPER_SUCCESS os, m') \<Longrightarrow>
    lock_run mc os k (Suc n) m'"
| refused: "lock_run mc os k n m \<Longrightarrow> tfm_ns_mailbox_os_lock_acquire os k m = (r, m') \<Longrightarrow>
    r \<noteq> OS_WRAPPER_SUCCESS os \<Longrightarrow> lock_run mc os k n m'"
| released: "lock_run mc os k (Suc n) m \<Longrightarrow>
    tfm_ns_mailbox_os_lock_release os k m = (OS_WRAPPER_SUCCESS os, m') \<Longrightarrow>
    lock_run mc os k n m'"
| kept: "lock_run mc os k (Suc n) m \<Longrightarrow> tfm_ns_mailbox_os_lock_release os k m = (r, m') \<Longrightarrow>
    r \<noteq> OS_WRAPPER_SUCCESS os \<Longrightarrow> lock_run mc os k (Suc n) m'"

lemma lock_init_count:
  assumes "semaphore_kernel k cnt" and "MAILBOX_SUCCESS mc \<noteq> MAILBOX_GENERIC_ERROR mc"
    and "NUM_MAILBOX_QUEUE_SLOT mc < 2 ^ 32"
    and "tfm_ns_mailbox_os_lock_init mc k m0 = (MAILBOX_SUCCESS mc, m)"
  shows "cnt (kernel m) (ns_lock_handle m) = NUM_MAILBOX_QUEUE_SLOT mc"
proof -
  obtain h s where new: "os_wrapper_semaphore_create k (of_nat (NUM_MAILBOX_QUEUE_SLOT mc))
      (of_nat (NUM_MAILBOX_QUEUE_SLOT mc)) None (kernel m0) = (h, s)" by fastforce
  have m: "m = m0\<lparr>ns_lock_handle := h, kernel := s\<rparr>" and h: "h \<noteq> NULL"
    using assms(2,4) new by (auto simp: tfm_ns_mailbox_os_lock_init_def Let_def split: if_splits)
  have "cnt s h = unat (of_nat (NUM_MAILBOX_QUEUE_SLOT mc) :: u32)"
    using assms(1) new h unfolding semaphore_kernel_def os_wrapper_semaphore_create_def
    by (metis (mono_tags, lifting) case_prod_conv)
  also have "\<dots> = NUM_MAILBOX_QUEUE_SLOT mc" using assms(3) by (simp add: unat_of_nat)
  finally show ?thesis using m by simp
qed

lemma lock_acquire_count:
  assumes "semaphore_kernel k cnt" and "OS_WRAPPER_SUCCESS os \<noteq> OS_WRAPPER_ERROR os"
    and "tfm_ns_mailbox_os_lock_acquire os k m = (r, m')"
  shows "ns_lock_handle m' = ns_lock_handle m
    \<and> (if r = OS_WRAPPER_SUCCESS os
       then cnt (kernel m) (ns_lock_handle m) = Suc (cnt (kernel m') (ns_lock_handle m))
       else cnt (kernel m') (ns_lock_handle m) = cnt (kernel m) (ns_lock_handle m))"
  using assms(1) [unfolded semaphore_kernel_def, THEN conjunct2, THEN conjunct1, rule_format,
      of "ns_lock_handle m" "os_timeout os (OS_WRAPPER_WAIT_FOREVER os)" "kernel m"] assms(2,3)
  by (auto simp: tfm_ns_mailbox_os_lock_acquire_def sem_acquire.wrapper_eq case_prod_beta
      split: if_splits)

lemma lock_release_count:
  assumes "semaphore_kernel k cnt" and "OS_WRAPPER_SUCCESS os \<noteq> OS_WRAPPER_ERROR os"
    and "tfm_ns_mailbox_os_lock_release os k m = (r, m')"
  shows "ns_lock_handle m' = ns_lock_handle m
    \<and> cnt (kernel m') (ns_lock_handle m)
      = (if r = OS_WRAPPER_SUCCESS os then Suc (cnt (kernel m) (ns_lock_handle m))
         else cnt (kernel m) (ns_lock_handle m))"
  using assms(1) [unfolded semaphore_kernel_def, THEN conjunct2, THEN conjunct2, rule_format,
      of "ns_lock_handle m" "kernel m"] assms(2,3)
  by (auto simp: tfm_ns_mailbox_os_lock_release_def sem_release.wrapper_eq case_prod_beta
      split: if_splits)


lemma simple_rtos_semaphores: "semaphore_kernel simple_rtos (\<lambda>s h. s)"
  by (simp add: semaphore_kernel_def simple_rtos_def osOK_def split: nat.splits)


section \<open>The statistics\<close>

definition used_slots :: "mailbox_codes \<Rightarrow> u32 \<Rightarrow> nat" where
  "used_slots mc status = card {i. i < NUM_MAILBOX_QUEUE_SLOT mc \<and> \<not> bit status i}"

lemma count_empty_loop:
  assumes "num \<le> 32"
  shows "foldl (\<lambda>n idx. if and e (push_bit idx 1) \<noteq> 0 then n + 1 else n) (0 :: u8) [0..<num]
    = of_nat (card {i. i < num \<and> bit (e :: u32) i})"
  using assms
proof (induction num)
  case (Suc num)
  have "and e (push_bit num 1) \<noteq> 0 \<longleftrightarrow> bit e num"
    using and_exp_eq_0_iff_not_bit [of e num] by (simp add: push_bit_eq_mult)
  moreover have "{i. i < Suc num \<and> bit e i}
      = (if bit e num then insert num {i. i < num \<and> bit e i} else {i. i < num \<and> bit e i})"
    by (auto simp: less_Suc_eq)
  ultimately show ?case using Suc by simp
qed simp

lemma count_empty_eq:
  assumes "num \<le> 32"
  shows "unat (count_empty num e) = card {i. i < num \<and> bit e i}"
proof -
  have "card {i. i < num \<and> bit e i} \<le> card {..<num}" by (intro card_mono) auto
  then have "card {i. i < num \<and> bit e i} < 256" using assms by simp
  moreover have "count_empty num e = of_nat (card {i. i < num \<and> bit e i})"
    using count_empty_loop [OF assms, of e] by (simp add: count_empty_def)
  ultimately show ?thesis by (simp add: unat_of_nat)
qed

lemma used_slots_eq:
  assumes "NUM_MAILBOX_QUEUE_SLOT mc \<le> 32"
  shows "of_nat (NUM_MAILBOX_QUEUE_SLOT mc) - ucast (count_empty (NUM_MAILBOX_QUEUE_SLOT mc) e)
    = (of_nat (used_slots mc e) :: u32)"
proof -
  let ?N = "NUM_MAILBOX_QUEUE_SLOT mc"
  have "{i. i < ?N \<and> \<not> bit e i} = {..<?N} - {i. i < ?N \<and> bit e i}" by auto
  then have "used_slots mc e = ?N - card {i. i < ?N \<and> bit e i}"
    unfolding used_slots_def by (simp add: card_Diff_subset subset_eq)
  moreover have "card {i. i < ?N \<and> bit e i} \<le> ?N"
    using card_mono [of "{..<?N}" "{i. i < ?N \<and> bit e i}"] by auto
  moreover have "(ucast (count_empty ?N e) :: u32) = of_nat (card {i. i < ?N \<and> bit e i})"
    using count_empty_eq [OF assms, of e] by (metis of_nat_unat)
  ultimately show ?thesis by (simp add: of_nat_diff)
qed

text \<open>
  Runs of the statistics with the slots found in use by each transmission so far. The rest of
  the system may do anything but write the counters or the statistics pointer.
\<close>

definition keeps_stats :: "'s stats_state \<Rightarrow> 's stats_state \<Rightarrow> bool" where
  "keeps_stats st st' \<longleftrightarrow> stats_queue_ptr st' = stats_queue_ptr st
     \<and> nr_tx (queues st' (stats_queue_ptr st)) = nr_tx (queues st (stats_queue_ptr st))
     \<and> nr_used_slots (queues st' (stats_queue_ptr st))
       = nr_used_slots (queues st (stats_queue_ptr st))"

inductive stats_run :: "mailbox_codes \<Rightarrow> nat list \<Rightarrow> 's stats_state \<Rightarrow> bool" for mc where
  init: "q \<noteq> NULL \<Longrightarrow> stats_run mc [] (tfm_ns_mailbox_tx_stats_init q st)"
| reinit: "stats_run mc us st \<Longrightarrow> stats_run mc [] (snd (tfm_ns_mailbox_tx_stats_reinit mc st))"
| elsewhere: "stats_run mc us st \<Longrightarrow> keeps_stats st st' \<Longrightarrow> stats_run mc us st'"
| update: "stats_run mc us st \<Longrightarrow> (\<And>s. keeps_stats s (other s)) \<Longrightarrow>
    stats_run mc (us @ [used_slots mc (empty_slots (queues st (stats_queue_ptr st)))])
      (tfm_ns_mailbox_tx_stats_update mc other st)"

lemma stats_update_counts:
  fixes other :: "'s stats_state \<Rightarrow> 's stats_state"
  assumes "NUM_MAILBOX_QUEUE_SLOT mc \<le> 32" and "stats_queue_ptr st \<noteq> NULL"
    and other: "\<And>s. keeps_stats s (other s)"
  shows "let st' = tfm_ns_mailbox_tx_stats_update mc other st; p = stats_queue_ptr st in
      stats_queue_ptr st' = p \<and> nr_tx (queues st' p) = nr_tx (queues st p) + 1
    \<and> nr_used_slots (queues st' p)
      = nr_used_slots (queues st p) + of_nat (used_slots mc (empty_slots (queues st p)))"
proof -
  let ?o = "os_side st"
  let ?st1 = "st\<lparr>os_side := tfm_ns_mailbox_os_spin_unlock (tfm_ns_mailbox_os_spin_lock ?o)\<rparr>"
  from other [of ?st1] show ?thesis
    using assms(2) used_slots_eq [OF assms(1)]
    by (simp add: tfm_ns_mailbox_tx_stats_update_def Let_def keeps_stats_def)
qed

lemma stats_run_counters:
  assumes "NUM_MAILBOX_QUEUE_SLOT mc \<le> 32" and "stats_run mc us st"
  shows "stats_queue_ptr st \<noteq> NULL
    \<and> nr_tx (queues st (stats_queue_ptr st)) = of_nat (length us)
    \<and> nr_used_slots (queues st (stats_queue_ptr st)) = of_nat (sum_list us)"
  using assms(2)
proof (induction rule: stats_run.induct)
  case (update us st other)
  then show ?case
    using stats_update_counts [OF assms(1), of st other] by (simp add: Let_def)
qed (simp_all add: tfm_ns_mailbox_tx_stats_init_def tfm_ns_mailbox_tx_stats_reinit_def
      reset_stats_def keeps_stats_def)

lemma tenths: "(10 * (a mod b)) div b = (10 * a div b) mod (10 :: nat)"
proof (cases "b = 0")
  case False
  have "10 * a = 10 * (a div b) * b + 10 * (a mod b)"
    by (metis add_mult_distrib2 div_mult_mod_eq mult.assoc)
  then have "10 * a div b = 10 * (a div b) + 10 * (a mod b) div b"
    using False by (metis div_mult_self3 add.commute)
  moreover have "10 * (a mod b) div b < 10"
    using False by (simp add: less_mult_imp_div_less)
  ultimately show ?thesis by simp
qed simp


lemma used_slots_filter:
  "used_slots mc e = length (filter (\<lambda>i. \<not> bit e i) [0..<NUM_MAILBOX_QUEUE_SLOT mc])"
  by (simp add: used_slots_def distinct_length_filter Int_def conj_commute)


end
