(* ===== verification/Erpc.thy ===== *)
theory Erpc
  imports Os_Wrapper
begin

text \<open>
  PSA calls over eRPC: the client and server wrappers
  (\<^verbatim>\<open>src/erpc/client/erpc_client_wrapper.c\<close>, \<^verbatim>\<open>src/erpc/server/erpc_server_wrapper.c\<close>), the start
  routine of the client and the two host
  programs (\<^verbatim>\<open>src/erpc/host_example/main.c\<close>, \<^verbatim>\<open>src/erpc/tfm_reg_tests/main_host.c\<close>).

  The channel between the two wrappers is an argument here (the generated shims that make it up
  are the theory \<open>Erpc_Stubs\<close>), as are the PSA client API behind the server and the C library of
  the host. The client runs on a 64-bit host, where \<open>size_t\<close> has 64 bits, and the server on a
  32-bit device; the lengths in a message have 32 bits, so that the client narrows the lengths and
  the counts it is given (\<open>ucast\<close>). A call can go wrong in two ways, told apart as \<open>call_fault\<close>: a
  read past the vectors that were passed, and a store past one of the fixed arrays of
  \<open>PSA_MAX_IOVEC\<close> elements. The host programs are functions to their exit status and
  the list of the calls they make.
\<close>

section \<open>The wrappers\<close>

type_synonym u64 = "64 word"

text \<open>The vectors of the PSA API on the device and on the host.\<close>

record iovec =
  base :: ptr
  len :: u32

record host_iovec =
  hbase :: ptr
  hlen :: u64

record binary_t =
  bin_data :: ptr
  dataLength :: u32

record psa_codes =
  PSA_MAX_IOVEC :: nat
  PSA_SUCCESS :: i32
  PSA_ERROR_PROGRAMMER_ERROR :: i32

datatype call_fault = Over_Read | Over_Store

type_synonym 's psa_call_t =
  "u32 \<Rightarrow> i32 \<Rightarrow> iovec list \<Rightarrow> u32 \<Rightarrow> iovec list \<Rightarrow> u32 \<Rightarrow> 's
   \<Rightarrow> call_fault + i32 \<times> iovec list \<times> 's"

type_synonym 's erpc_call_t =
  "u32 \<Rightarrow> i32 \<Rightarrow> binary_t list \<Rightarrow> u32 \<Rightarrow> binary_t list \<Rightarrow> u32 \<Rightarrow> 's
   \<Rightarrow> call_fault + i32 \<times> binary_t list \<times> 's"

text \<open>
  The copying loops: \<open>copy_loop f n i src dst\<close> is
  \<open>for (; i < n; ++i) dst[i] = f(dst[i], src[i])\<close>.
\<close>

function copy_loop ::
  "('b \<Rightarrow> 'a \<Rightarrow> 'b) \<Rightarrow> nat \<Rightarrow> nat \<Rightarrow> 'a list \<Rightarrow> 'b list \<Rightarrow> call_fault + 'b list" where
  "copy_loop f n i src dst =
     (if i < n then
        (case array_read src i of
           None \<Rightarrow> Inl Over_Read
         | Some x \<Rightarrow>
             if i < length dst then copy_loop f n (Suc i) src (dst[i := f (dst ! i) x])
             else Inl Over_Store)
      else Inr dst)"
  by pat_completeness auto
termination by (relation "measure (\<lambda>(f, n, i, src, dst). n - i)") auto

declare copy_loop.simps [simp del]

definition psa_call_client ::
  "psa_codes \<Rightarrow> 's erpc_call_t \<Rightarrow> binary_t list \<Rightarrow> binary_t list \<Rightarrow>
   u32 \<Rightarrow> i32 \<Rightarrow> host_iovec list \<Rightarrow> u64 \<Rightarrow> host_iovec list \<Rightarrow> u64 \<Rightarrow> 's
   \<Rightarrow> call_fault + i32 \<times> host_iovec list \<times> 's" where
  "psa_call_client pc erpc_psa_call in_elements out_elements handle type in_vec in_len out_vec out_len s =
     (let in_count = ucast in_len; out_count = ucast out_len
      in
      if in_len + out_len > of_nat (PSA_MAX_IOVEC pc)
      then Inr (PSA_ERROR_PROGRAMMER_ERROR pc, out_vec, s)
      else
        case copy_loop (\<lambda>_ v. \<lparr>bin_data = hbase v, dataLength = ucast (hlen v)\<rparr>)
               (unat in_len) 0 in_vec in_elements of
          Inl fault \<Rightarrow> Inl fault
        | Inr in_elements \<Rightarrow>
        case copy_loop (\<lambda>_ v. \<lparr>bin_data = hbase v, dataLength = ucast (hlen v)\<rparr>)
               (unat out_len) 0 out_vec out_elements of
          Inl fault \<Rightarrow> Inl fault
        | Inr out_elements \<Rightarrow>
        case erpc_psa_call handle type in_elements in_count out_elements out_count s of
          Inl fault \<Rightarrow> Inl fault
        | Inr (status, out_elements, s) \<Rightarrow>
            if status \<noteq> PSA_SUCCESS pc then Inr (status, out_vec, s)
            else case copy_loop (\<lambda>v b. v\<lparr>hlen := ucast (dataLength b)\<rparr>)
                        (unat out_len) 0 out_elements out_vec of
                   Inl fault \<Rightarrow> Inl fault
                 | Inr out_vec \<Rightarrow> Inr (status, out_vec, s))"

definition erpc_psa_call_server :: "'s psa_call_t \<Rightarrow> iovec list \<Rightarrow> iovec list \<Rightarrow> 's erpc_call_t" where
  "erpc_psa_call_server psa_call in_vec out_vec handle t in_elems in_len out_elems out_len s =
     (case copy_loop (\<lambda>_ b. \<lparr>base = bin_data b, len = dataLength b\<rparr>) (unat in_len) 0 in_elems in_vec of
        Inl fault \<Rightarrow> Inl fault
      | Inr in_vec \<Rightarrow>
      case copy_loop (\<lambda>_ b. \<lparr>base = bin_data b, len = dataLength b\<rparr>) (unat out_len) 0 out_elems out_vec of
        Inl fault \<Rightarrow> Inl fault
      | Inr out_vec \<Rightarrow>
      case psa_call handle t in_vec in_len out_vec out_len s of
        Inl fault \<Rightarrow> Inl fault
      | Inr (status, out_vec, s) \<Rightarrow>
      case copy_loop (\<lambda>b v. b\<lparr>dataLength := len v\<rparr>) (unat out_len) 0 out_vec out_elems of
        Inl fault \<Rightarrow> Inl fault
      | Inr out_elems \<Rightarrow> Inr (status, out_elems, s))"

section \<open>What the loops compute\<close>

lemma copy_loop_ok:
  assumes "i \<le> n" and "n \<le> length src" and "n \<le> length dst"
  shows "copy_loop f n i src dst
    = Inr (take i dst @ map2 f (drop i (take n dst)) (drop i (take n src)) @ drop n dst)"
  using assms
proof (induction f n i src dst rule: copy_loop.induct)
  case (1 f n i src dst)
  show ?case
  proof (cases "i < n")
    case True
    let ?d = "dst[i := f (dst ! i) (src ! i)]"
    have src: "drop i (take n src) = src ! i # drop (Suc i) (take n src)"
      using True 1 by (metis Cons_nth_drop_Suc length_take min_def nth_take order_less_le_trans)
    have dst: "drop i (take n dst) = dst ! i # drop (Suc i) (take n dst)"
      using True 1 by (metis Cons_nth_drop_Suc length_take min_def nth_take order_less_le_trans)
    have d: "take (Suc i) ?d = take i dst @ [f (dst ! i) (src ! i)]"
        "drop (Suc i) (take n ?d) = drop (Suc i) (take n dst)" "drop n ?d = drop n dst"
      using True 1 by (simp_all add: take_Suc_conv_app_nth take_update_swap drop_update_cancel
          list_update_append)
    have "copy_loop f n (Suc i) src ?d = Inr (take (Suc i) ?d
        @ map2 f (drop (Suc i) (take n ?d)) (drop (Suc i) (take n src)) @ drop n ?d)"
      using True 1 by (intro 1(1)) auto
    then show ?thesis using True 1 src dst d by (subst copy_loop.simps) (simp add: list_update_append)
  next
    case False
    then have "i = n" using 1 by simp
    then show ?thesis by (subst copy_loop.simps) simp
  qed
qed

text \<open>With enough to read, a loop that is longer than its array stores past the end.\<close>

lemma copy_loop_over_store:
  assumes "i \<le> length dst" and "length dst < n" and "length dst < length src"
  shows "copy_loop f n i src dst = Inl Over_Store"
  using assms
proof (induction f n i src dst rule: copy_loop.induct)
  case (1 f n i src dst)
  then have "i < length src" by simp
  with 1 show ?case by (subst copy_loop.simps) (cases "i < length dst"; simp)
qed

lemma map2_snd: "length xs = length ys \<Longrightarrow> map2 (\<lambda>_ y. g y) xs ys = map g ys"
  by (induction xs ys rule: list_induct2) simp_all

lemma copy_loop_replace:
  assumes "n \<le> length src" and "n \<le> length dst"
  shows "copy_loop (\<lambda>_ x. g x) n 0 src dst = Inr (map g (take n src) @ drop n dst)"
  using copy_loop_ok [of 0 n src dst "\<lambda>_ x. g x"] assms
    map2_snd [of "take n dst" "take n src" g] by simp

section \<open>Transparency\<close>

text \<open>
  What the wrappers rely on of a PSA call: it depends on the first \<open>in_len\<close> input and
  \<open>out_len\<close> output vectors only, and of the vectors it changes at most the lengths of those
  output vectors. \<open>psa_of\<close> is the call with the meaning \<open>core\<close>.
\<close>

definition psa_of ::
  "(u32 \<Rightarrow> i32 \<Rightarrow> iovec list \<Rightarrow> iovec list \<Rightarrow> 's \<Rightarrow> i32 \<times> u32 list \<times> 's) \<Rightarrow> 's psa_call_t" where
  "psa_of core handle t in_vec in_len out_vec out_len s =
     (let (status, lens, s) = core handle t (take (unat in_len) in_vec) (take (unat out_len) out_vec) s
      in Inr (status, map2 (\<lambda>v l. v\<lparr>len := l\<rparr>) (take (unat out_len) out_vec) lens
                       @ drop (unat out_len) out_vec, s))"

definition psa_core_ok ::
  "(u32 \<Rightarrow> i32 \<Rightarrow> iovec list \<Rightarrow> iovec list \<Rightarrow> 's \<Rightarrow> i32 \<times> u32 list \<times> 's) \<Rightarrow> bool" where
  "psa_core_ok core \<longleftrightarrow>
     (\<forall>h t iv ov s. case core h t iv ov s of (_, lens, _) \<Rightarrow> length lens = length ov)"

lemma psa_core_len:
  "psa_core_ok core \<Longrightarrow> core h t iv ov s = (st, lens, s') \<Longrightarrow> length lens = length ov"
  unfolding psa_core_ok_def by (drule spec [of _ h], drule spec [of _ t], drule spec [of _ iv],
      drule spec [of _ ov], drule spec [of _ s]) simp

abbreviation to_binary :: "iovec \<Rightarrow> binary_t" where
  "to_binary v \<equiv> \<lparr>bin_data = base v, dataLength = len v\<rparr>"

lemma iovec_eta [simp]: "\<lparr>base = base v, len = len v\<rparr> = v"
  by (cases v) simp

lemma map2_set_len:
  "length vs = length ls \<Longrightarrow>
   map2 (\<lambda>b v. b\<lparr>dataLength := len v\<rparr>) (map to_binary vs) (map2 (\<lambda>v l. v\<lparr>len := l\<rparr>) vs ls)
   = map2 (\<lambda>v l. \<lparr>bin_data = base v, dataLength = l\<rparr>) vs ls"
  by (induction vs ls rule: list_induct2) simp_all

lemma map2_take_len:
  "length vs = length ls \<Longrightarrow> length ws = length vs \<Longrightarrow>
   map2 (\<lambda>v b. v\<lparr>hlen := ucast (dataLength b)\<rparr>) ws
     (map2 (\<lambda>v l. \<lparr>bin_data = base v, dataLength = l\<rparr>) vs ls)
   = map2 (\<lambda>v l. v\<lparr>hlen := ucast l\<rparr>) ws ls"
  by (induction vs ls arbitrary: ws rule: list_induct2) (auto simp: length_Suc_conv)

lemma server_call:
  assumes core: "psa_core_ok core"
    and "unat il \<le> length ie" "unat ol \<le> length oe" "unat il \<le> length iva" "unat ol \<le> length ova"
    and "take (unat il) ie = map to_binary iv" "take (unat ol) oe = map to_binary ov"
    and "core h t iv ov s = (st, lens, s')"
  shows "erpc_psa_call_server (psa_of core) iva ova h t ie il oe ol s
    = Inr (st, map2 (\<lambda>v l. \<lparr>bin_data = base v, dataLength = l\<rparr>) ov lens @ drop (unat ol) oe, s')"
proof -
  have lens: "length lens = length ov"
    by (rule psa_core_len [OF core assms(8)])
  have len: "length iv = unat il" "length ov = unat ol"
    using arg_cong [OF assms(6), of length] arg_cong [OF assms(7), of length] assms(2,3)
    by simp_all
  have i: "copy_loop (\<lambda>_ b. \<lparr>base = bin_data b, len = dataLength b\<rparr>) (unat il) 0 ie iva
      = Inr (iv @ drop (unat il) iva)"
    using copy_loop_replace [OF assms(2,4)] assms(6) by (simp add: comp_def)
  have out: "copy_loop (\<lambda>_ b. \<lparr>base = bin_data b, len = dataLength b\<rparr>) (unat ol) 0 oe ova
      = Inr (ov @ drop (unat ol) ova)"
    using copy_loop_replace [OF assms(3,5)] assms(7) by (simp add: comp_def)
  have call: "psa_of core h t (iv @ drop (unat il) iva) il (ov @ drop (unat ol) ova) ol s
      = Inr (st, map2 (\<lambda>v l. v\<lparr>len := l\<rparr>) ov lens @ drop (unat ol) ova, s')"
    using len assms(8) by (simp add: psa_of_def)
  have lens_back: "copy_loop (\<lambda>b v. b\<lparr>dataLength := len v\<rparr>) (unat ol) 0
      (map2 (\<lambda>v l. v\<lparr>len := l\<rparr>) ov lens @ drop (unat ol) ova) oe
    = Inr (map2 (\<lambda>v l. \<lparr>bin_data = base v, dataLength = l\<rparr>) ov lens @ drop (unat ol) oe)"
    using assms(3,7) len lens map2_set_len [of ov lens] by (simp add: copy_loop_ok)
  show ?thesis unfolding erpc_psa_call_server_def i out sum.case call prod.case lens_back ..
qed

text \<open>What the device sees of a host vector: the length loses its upper 32 bits.\<close>

definition narrow :: "host_iovec \<Rightarrow> iovec" where
  "narrow v = \<lparr>base = hbase v, len = ucast (hlen v)\<rparr>"

lemma narrow_binary: "\<lparr>bin_data = hbase v, dataLength = ucast (hlen v)\<rparr> = to_binary (narrow v)"
  by (simp add: narrow_def)

lemma unat_narrow:
  assumes "unat (n :: u64) < 2 ^ 32"
  shows "unat (ucast n :: u32) = unat n"
  using assms by (simp add: unsigned_ucast_eq take_bit_nat_eq_self)


text \<open>A PSA service for the witnesses: it fails on type 0 and else empties every output.\<close>

definition toy_core :: "u32 \<Rightarrow> i32 \<Rightarrow> iovec list \<Rightarrow> iovec list \<Rightarrow> nat \<Rightarrow> i32 \<times> u32 list \<times> nat" where
  "toy_core h t iv ov s = (if t = 0 then - 133 else 0, map (\<lambda>_. 0) ov, Suc s)"

definition psa_codes_example :: psa_codes where
  "psa_codes_example = \<lparr>PSA_MAX_IOVEC = 4, PSA_SUCCESS = 0, PSA_ERROR_PROGRAMMER_ERROR = - 129\<rparr>"


text \<open>C39. The guards on the number of vectors. The client refuses a call with more than
  \<open>PSA_MAX_IOVEC\<close> vectors with \<open>PSA_ERROR_PROGRAMMER_ERROR\<close>, sends nothing and changes nothing, as
  long as the sum of the two counts does not wrap. When the sum wraps to at most \<open>PSA_MAX_IOVEC\<close>
  the call passes the guard and stores past the end of a local array: of the input array when
  the input count is too large, of the output array when only the output count is. The server
  copies the counts it receives without any guard: a message with more input or more output
  vectors than \<open>PSA_MAX_IOVEC\<close> makes it store past the end of the array. In each of these cases
  the vectors that are read are there, so the fault is the store and not a read.\<close>

theorem erpc_vector_count_guards:
  assumes "PSA_MAX_IOVEC pc < 2 ^ 32" and "length in_elements = PSA_MAX_IOVEC pc"
    and "length out_elements = PSA_MAX_IOVEC pc"
    and "length in_array = PSA_MAX_IOVEC pc" and "length out_array = PSA_MAX_IOVEC pc"
  shows "(unat in_len + unat out_len < 2 ^ 64 \<and> PSA_MAX_IOVEC pc < unat in_len + unat out_len \<longrightarrow>
      psa_call_client pc erpc in_elements out_elements h t in_vec in_len out_vec out_len s
        = Inr (PSA_ERROR_PROGRAMMER_ERROR pc, out_vec, s))
    \<and> (unat (in_len + out_len) \<le> PSA_MAX_IOVEC pc \<and> PSA_MAX_IOVEC pc < unat in_len
        \<and> PSA_MAX_IOVEC pc < length in_vec \<longrightarrow>
      psa_call_client pc erpc in_elements out_elements h t in_vec in_len out_vec out_len s
        = Inl Over_Store)
    \<and> (unat (in_len + out_len) \<le> PSA_MAX_IOVEC pc \<and> unat in_len \<le> PSA_MAX_IOVEC pc
        \<and> unat in_len \<le> length in_vec \<and> PSA_MAX_IOVEC pc < unat out_len
        \<and> PSA_MAX_IOVEC pc < length out_vec \<longrightarrow>
      psa_call_client pc erpc in_elements out_elements h t in_vec in_len out_vec out_len s
        = Inl Over_Store)
    \<and> (PSA_MAX_IOVEC pc < unat in_count \<and> unat in_count \<le> length in_elems \<longrightarrow>
      erpc_psa_call_server psa in_array out_array h t in_elems in_count out_elems out_count s
        = Inl Over_Store)
    \<and> (unat in_count \<le> PSA_MAX_IOVEC pc \<and> unat in_count \<le> length in_elems
        \<and> PSA_MAX_IOVEC pc < unat out_count \<and> unat out_count \<le> length out_elems \<longrightarrow>
      erpc_psa_call_server psa in_array out_array h t in_elems in_count out_elems out_count s
        = Inl Over_Store)"
proof -
  have M: "unat (of_nat (PSA_MAX_IOVEC pc) :: u64) = PSA_MAX_IOVEC pc"
    using assms(1) by (simp add: unat_of_nat)
  have "unat in_len + unat out_len < 2 ^ 64 \<Longrightarrow> unat (in_len + out_len) = unat in_len + unat out_len"
    by (simp add: unat_word_ariths)
  then show ?thesis
    using assms(2-5) M
    by (auto simp: psa_call_client_def erpc_psa_call_server_def word_less_nat_alt not_less Let_def
        copy_loop_over_store copy_loop_replace)
qed

theorem erpc_vector_count_guards_witness:
  "psa_call_client psa_codes_example (\<lambda>h t i il ob ol s. Inr (0, ob, s))
     (replicate 4 \<lparr>bin_data = 0, dataLength = 0\<rparr>) (replicate 4 \<lparr>bin_data = 0, dataLength = 0\<rparr>)
     1 7 (replicate 5 \<lparr>hbase = 0, hlen = 0\<rparr>) 0xFFFFFFFFFFFFFFFF [] 2 (0 :: nat) = Inl Over_Store
   \<and> erpc_psa_call_server (psa_of toy_core) (replicate 4 \<lparr>base = 0, len = 0\<rparr>)
       (replicate 4 \<lparr>base = 0, len = 0\<rparr>) 1 7 [] 0 (replicate 5 \<lparr>bin_data = 0, dataLength = 0\<rparr>) 5 0
     = Inl Over_Store"
proof -
  let ?b = "replicate 4 \<lparr>bin_data = 0, dataLength = 0\<rparr>" and ?v = "replicate 4 \<lparr>base = 0, len = 0\<rparr>"
  show ?thesis
    using erpc_vector_count_guards [of psa_codes_example ?b ?b ?v ?v "0xFFFFFFFFFFFFFFFF" 2
        "\<lambda>h t i il ob ol s. Inr (0, ob, s)" 1 7 "replicate 5 \<lparr>hbase = 0, hlen = 0\<rparr>" "[]" "0 :: nat"
        0 "[]" "psa_of toy_core" "replicate 5 \<lparr>bin_data = 0, dataLength = 0\<rparr>" 5]
    by (simp add: psa_codes_example_def)
qed

section \<open>The host programs\<close>

text \<open>
  What the host programs call: the option parser of the C library (it yields the two flags, the
  reordered arguments and \<open>optind\<close>), \<open>atoi\<close>, the transports, the client runtime and the PSA API.
\<close>

datatype transport_build = ERPC_TRANSPORT_UART | ERPC_TRANSPORT_TCP | TRANSPORT_BY_ARGUMENTS

datatype transport_choice = Uart string | Tcp string string

datatype printf_arg = Str string | Num int | Byte u8

datatype host_event =
    Printf string "printf_arg list"
  | Serial_Init string int | Tcp_Init string int
  | Mbf_Dynamic_Init | Client_Init ptr
  | Framework_Version | Hash_Compute "u8 list" | Ns_Reg_Test_Start

record host_env =
  getopt_long :: "string list \<Rightarrow> bool \<times> bool \<times> string list \<times> nat"
  atoi :: "string \<Rightarrow> int"
  serial_init :: "string \<Rightarrow> int \<Rightarrow> ptr"
  tcp_init :: "string \<Rightarrow> int \<Rightarrow> ptr"
  PORT_NAME :: string
  ERPC_HOST :: string
  ERPC_PORT :: int
  framework_version :: int
  hash_compute :: "u8 list \<Rightarrow> int \<times> u8 list \<times> int"

definition nl :: string where "nl = [CHR 0x0D, CHR 0x0A]"

definition ARGC_UART :: nat where "ARGC_UART = 3"
definition ARGC_TCP :: nat where "ARGC_TCP = 4"

definition parse_transport :: "host_env \<Rightarrow> string list \<Rightarrow> host_event list + transport_choice" where
  "parse_transport env argv =
     (let argc = length argv in
      if argc \<noteq> ARGC_UART \<and> argc \<noteq> ARGC_TCP
      then Inl [Printf (''Incorrect argument numbers.'' @ nl) [],
                Printf (''Please input --UART PORT or --TCP HOST PORT'' @ nl) []]
      else
        let (erpc_uart_flag, erpc_tcp_flag, argv, optind) = getopt_long env argv in
        if \<not> erpc_uart_flag \<and> \<not> erpc_tcp_flag
        then Inl [Printf (''No valid transportation layer selected.'' @ nl) []]
        else if erpc_uart_flag \<and> erpc_tcp_flag
        then Inl [Printf (''UART and TCP cannot be set at the same time.'' @ nl) []]
        else if erpc_uart_flag then
          (if int argc - int optind \<noteq> 1
           then Inl [Printf (''Incorrect argument numbers for --UART.'' @ nl) []]
           else Inr (Uart (argv ! optind)))
        else
          (if int argc - int optind \<noteq> 2
           then Inl [Printf (''Incorrect argument numbers for --TCP.'' @ nl) []]
           else Inr (Tcp (argv ! optind) (argv ! (optind + 1)))))"

definition erpc_client_start :: "ptr \<Rightarrow> host_event list" where
  "erpc_client_start transport = [Mbf_Dynamic_Init, Client_Init transport]"

definition open_transport_example :: "host_env \<Rightarrow> transport_choice \<Rightarrow> ptr \<times> host_event list" where
  "open_transport_example env c =
     (case c of
        Uart dev \<Rightarrow> (serial_init env dev 115200,
          [Printf (''UART device is setting to %s'' @ nl) [Str dev], Serial_Init dev 115200])
      | Tcp host port \<Rightarrow> (tcp_init env host (atoi env port),
          [Printf (''TCP host is setting to %s'' @ [CHR 0x09]) [Str host],
           Printf (''TCP port is setting to %s'' @ nl) [Str port], Tcp_Init host (atoi env port)]))"

definition open_transport_reg :: "host_env \<Rightarrow> transport_choice \<Rightarrow> ptr \<times> host_event list" where
  "open_transport_reg env c =
     (case c of
        Uart dev \<Rightarrow> (serial_init env dev 115200,
          [Printf (''UART device is being set to %s'' @ nl) [Str dev], Serial_Init dev 115200])
      | Tcp host port \<Rightarrow> (tcp_init env host (atoi env port),
          [Printf (''TCP connection is being set to %s:%s'' @ nl) [Str host, Str port],
           Tcp_Init host (atoi env port)]))"

text \<open>The choice of the transport: an early exit, or the transport and the calls so far.\<close>

definition choose_transport ::
  "(host_env \<Rightarrow> transport_choice \<Rightarrow> ptr \<times> host_event list) \<Rightarrow> transport_build \<Rightarrow> host_env
   \<Rightarrow> string list \<Rightarrow> host_event list + ptr \<times> host_event list" where
  "choose_transport opener build env argv =
     (case build of
        ERPC_TRANSPORT_UART \<Rightarrow>
          Inr (serial_init env (PORT_NAME env) 115200, [Serial_Init (PORT_NAME env) 115200])
      | ERPC_TRANSPORT_TCP \<Rightarrow>
          Inr (tcp_init env (ERPC_HOST env) (ERPC_PORT env), [Tcp_Init (ERPC_HOST env) (ERPC_PORT env)])
      | TRANSPORT_BY_ARGUMENTS \<Rightarrow> map_sum id (opener env) (parse_transport env argv))"

definition test_msg :: "u8 list" where "test_msg = [0x74, 0x65, 0x73, 0x74]"

definition test_call :: "host_env \<Rightarrow> host_event list" where
  "test_call env =
     (let (status, hash, hash_size) = hash_compute env test_msg
      in [Hash_Compute test_msg, Printf (''psa_hash_compute: %d'' @ nl) [Num status],
          Printf (''> hash_size = %zu'' @ nl) [Num hash_size], Printf ''> hash = '' []]
         @ map (\<lambda>b. Printf ''%02hhX'' [Byte b]) hash @ [Printf nl []])"

definition host_example_main :: "transport_build \<Rightarrow> host_env \<Rightarrow> string list \<Rightarrow> int \<times> host_event list" where
  "host_example_main build env argv =
     (case choose_transport open_transport_example build env argv of
        Inl es \<Rightarrow> (1, es)
      | Inr (transport, es) \<Rightarrow>
          if transport = NULL then (1, es @ [Printf (''eRPC transport init failed!'' @ nl) []])
          else (0, es @ erpc_client_start transport
                   @ [Framework_Version,
                      Printf (''psa_framework_version: %d'' @ nl) [Num (framework_version env)]]
                   @ test_call env))"

definition reg_tests_main :: "transport_build \<Rightarrow> host_env \<Rightarrow> string list \<Rightarrow> int \<times> host_event list" where
  "reg_tests_main build env argv =
     (case choose_transport open_transport_reg build env argv of
        Inl es \<Rightarrow> (1, es)
      | Inr (transport, es) \<Rightarrow>
          if transport = NULL then (1, es @ [Printf (''eRPC transport initialization failed!'' @ nl) []])
          else (0, es @ [Printf (''eRPC transport initialization succeeded.'' @ nl) []]
                   @ erpc_client_start transport
                   @ [Framework_Version,
                      Printf (''psa_framework_version: 0x%x'' @ nl) [Num (framework_version env)],
                      Ns_Reg_Test_Start]))"

text \<open>The regression host program runs the tests exactly when it exits with 0, and then with a
  client started on an open transport. With the transport chosen on the command line that is
  exactly the case where there are 3 or 4 arguments, one of the two transport flags is given
  and the other is not, the number of the remaining arguments is the one that transport takes
  (1 for a UART, 2 for TCP), and the transport opens; in every other case the program exits
  with 1 and starts neither a client nor a test.\<close>

lemma reg_tests_main_runs_iff:
  assumes "getopt_long env argv = (uart, tcp, args, optind)"
    and "run = reg_tests_main TRANSPORT_BY_ARGUMENTS env argv"
  shows "(fst run = 0 \<longleftrightarrow> length argv \<in> {3, 4} \<and>
      (uart \<and> \<not> tcp \<and> int (length argv) = int optind + 1
         \<and> serial_init env (args ! optind) 115200 \<noteq> 0
       \<or> tcp \<and> \<not> uart \<and> int (length argv) = int optind + 2
         \<and> tcp_init env (args ! optind) (atoi env (args ! (optind + 1))) \<noteq> 0))
    \<and> (fst run = 0 \<longleftrightarrow> Ns_Reg_Test_Start \<in> set (snd run))
    \<and> (fst run = 0 \<longleftrightarrow> (\<exists>t. t \<noteq> 0 \<and> Client_Init t \<in> set (snd run)))
    \<and> fst run \<in> {0, 1}"
  using assms
  by (auto simp: reg_tests_main_def choose_transport_def parse_transport_def open_transport_reg_def
      erpc_client_start_def ARGC_UART_def ARGC_TCP_def NULL_def Let_def split: if_splits)

end
