(* ===== verification/Boot.thy ===== *)
theory Boot
  imports Os_Wrapper
begin

text \<open>
  Start-up of the non-secure image: \<^verbatim>\<open>src/app_broker/main_ns.c\<close>, the test threads of
  \<^verbatim>\<open>src/tests_reg/test_app.c\<close> and \<^verbatim>\<open>src/tests_psa_arch/test_app.c\<close>, and the eRPC server
  application \<^verbatim>\<open>src/erpc/server/app/erpc_app.c\<close> with \<^verbatim>\<open>erpc_server_start.c\<close>.

  What the code calls outside the repository (drivers, the kernel, the secure core, the eRPC
  runtime) is the record \<open>board\<close>. The state records the sequence of those calls. The
  functions that never return give the place where they stay for ever.
\<close>

section \<open>The outside\<close>

datatype boot_event =
    Stdio_Init | Stdio_Uninit | Kernel_Initialize | Log_Msg string
  | Wait_Secure_Cpu | Mailbox_Init | Interface_Init
  | Thread_New string osThreadAttr_t | Kernel_Start
  | Reg_Test_Start | Val_Entry | Thread_Exit
  | Uart_Transport_Init | Server_Init ptr | Add_Service | Server_Run

datatype halt =
    Platform_Init_Failed | Cp_Init_Failed | Sync_Failed | Mailbox_Init_Failed
  | Kernel_Start_Returned | Thread_Exited | Server_Stopped

record 's board =
  ARM_DRIVER_OK :: i32
  MAILBOX_OK :: i32
  wait_for_s_cpu_ready :: "'s \<Rightarrow> i32 \<times> 's"
  mailbox_init :: "'s \<Rightarrow> i32 \<times> 's"
  uart_transport_init :: "'s \<Rightarrow> ptr \<times> 's"
  side_effect :: "boot_event \<Rightarrow> 's \<Rightarrow> 's"

record boot_config =
  TFM_NS_MAILBOX_API :: bool
  TFM_MULTI_CORE_NS_OS_MAILBOX_THREAD :: bool
  FLOAT_ABI_HARD_GNUC :: bool
  TFM_NS_REG_TEST :: bool

record 's boot =
  calls :: "boot_event list"
  CPACR :: u32
  outside :: 's

definition call :: "'s board \<Rightarrow> boot_event \<Rightarrow> ('s boot, unit) state" where
  "call b e = modify (\<lambda>s. s\<lparr>calls := calls s @ [e], outside := side_effect b e (outside s)\<rparr>)"

definition ask :: "boot_event \<Rightarrow> ('s \<Rightarrow> 'r \<times> 's) \<Rightarrow> ('s boot, 'r) state" where
  "ask e f = State_Monad.bind (modify (\<lambda>s. s\<lparr>calls := calls s @ [e]\<rparr>))
     (\<lambda>_. lift_call outside (\<lambda>w s. s\<lparr>outside := w\<rparr>) f)"

section \<open>The main program\<close>

definition thread_attr :: osThreadAttr_t where
  "thread_attr = \<lparr>at_name = Some ''test_thread'', at_attr_bits = 0, at_cb_mem = NULL,
     at_cb_size = 0, at_stack_mem = NULL, at_stack_size = 4096, at_priority = 0,
     at_tz_module = TFM_DEFAULT_NSID\<rparr>"

definition mailbox_thread_attr :: osThreadAttr_t where
  "mailbox_thread_attr = \<lparr>at_name = Some ''mailbox_thread'', at_attr_bits = 0, at_cb_mem = NULL,
     at_cb_size = 0, at_stack_mem = NULL, at_stack_size = 1024, at_priority = 0,
     at_tz_module = 0\<rparr>"

text \<open>The outcome \<open>Some h\<close> is an endless loop; \<open>None\<close> is a return.\<close>

definition tfm_ns_multi_core_boot :: "'s board \<Rightarrow> ('s boot, halt option) state" where
  "tfm_ns_multi_core_boot b =
     State_Monad.bind (call b (Log_Msg (''Non-secure code running on non-secure core.'' @ [CHR 0x0D, CHR 0x0A]))) (\<lambda>_.
     State_Monad.bind (ask Wait_Secure_Cpu (wait_for_s_cpu_ready b)) (\<lambda>r.
     if r \<noteq> 0 then
       State_Monad.bind (call b (Log_Msg (''Error sync'' @ [CHR 0x27] @ ''ing with secure core.'' @ [CHR 0x0D, CHR 0x0A])))
         (\<lambda>_. return (Some Sync_Failed))
     else
       State_Monad.bind (ask Mailbox_Init (mailbox_init b)) (\<lambda>r.
       if r \<noteq> MAILBOX_OK b then
         State_Monad.bind (call b (Log_Msg (''Non-secure mailbox initialization failed.'' @ [CHR 0x0D, CHR 0x0A])))
           (\<lambda>_. return (Some Mailbox_Init_Failed))
       else return None)))"

text \<open>The two weak hooks, as they are when no platform overrides them.\<close>

definition tfm_ns_platform_init :: "'s board \<Rightarrow> ('s boot, i32) state" where
  "tfm_ns_platform_init b =
     State_Monad.bind (call b Stdio_Init) (\<lambda>_. return (ARM_DRIVER_OK b))"

definition tfm_ns_platform_uninit :: "'s board \<Rightarrow> ('s boot, i32) state" where
  "tfm_ns_platform_uninit b =
     State_Monad.bind (call b Stdio_Uninit) (\<lambda>_. return (ARM_DRIVER_OK b))"

definition tfm_ns_cp_init :: "boot_config \<Rightarrow> 's board \<Rightarrow> ('s boot, i32) state" where
  "tfm_ns_cp_init cfg b =
     (if FLOAT_ABI_HARD_GNUC cfg then
        State_Monad.bind (modify (\<lambda>s. s\<lparr>CPACR := or (CPACR s) (or (push_bit (10 * 2) 3) (push_bit (11 * 2) 3))\<rparr>))
          (\<lambda>_. return (ARM_DRIVER_OK b))
      else return (ARM_DRIVER_OK b))"

definition start_threads :: "boot_config \<Rightarrow> 's board \<Rightarrow> ('s boot, halt) state" where
  "start_threads cfg b =
     State_Monad.bind
       (if TFM_MULTI_CORE_NS_OS_MAILBOX_THREAD cfg
        then call b (Thread_New ''tfm_ns_mailbox_thread_runner'' mailbox_thread_attr) else return ()) (\<lambda>_.
     State_Monad.bind (call b (Thread_New ''test_app'' thread_attr)) (\<lambda>_.
     State_Monad.bind (call b (Log_Msg (''Non-Secure system starting...'' @ [CHR 0x0D, CHR 0x0A]))) (\<lambda>_.
     State_Monad.bind (call b Kernel_Start) (\<lambda>_. return Kernel_Start_Returned))))"

definition ns_main ::
  "boot_config \<Rightarrow> 's board \<Rightarrow> ('s boot, i32) state \<Rightarrow> ('s boot, i32) state \<Rightarrow> ('s boot, halt) state" where
  "ns_main cfg b platform_init cp_init =
     State_Monad.bind platform_init (\<lambda>r.
     if r \<noteq> ARM_DRIVER_OK b then return Platform_Init_Failed else
     State_Monad.bind cp_init (\<lambda>r.
     if r \<noteq> ARM_DRIVER_OK b then return Cp_Init_Failed else
     State_Monad.bind (call b Kernel_Initialize) (\<lambda>_.
     if TFM_NS_MAILBOX_API cfg then
       State_Monad.bind (tfm_ns_multi_core_boot b) (\<lambda>h.
         case h of Some h \<Rightarrow> return h | None \<Rightarrow> start_threads cfg b)
     else
       State_Monad.bind (call b Interface_Init) (\<lambda>_. start_threads cfg b))))"

section \<open>The test threads\<close>

definition reg_test_app :: "boot_config \<Rightarrow> 's board \<Rightarrow> ('s boot, halt) state" where
  "reg_test_app cfg b =
     State_Monad.bind (if TFM_NS_REG_TEST cfg then call b Reg_Test_Start else return ()) (\<lambda>_.
     State_Monad.bind (call b (Log_Msg [CHR 0x04])) (\<lambda>_.
     State_Monad.bind (call b Thread_Exit) (\<lambda>_. return Thread_Exited)))"

definition psa_arch_test_app :: "'s board \<Rightarrow> ('s boot, halt) state" where
  "psa_arch_test_app b =
     State_Monad.bind (call b Val_Entry) (\<lambda>_.
     State_Monad.bind (call b (Log_Msg [CHR 0x04])) (\<lambda>_.
     State_Monad.bind (call b Thread_Exit) (\<lambda>_. return Thread_Exited)))"

definition erpc_server_start :: "'s board \<Rightarrow> ptr \<Rightarrow> ('s boot, unit) state" where
  "erpc_server_start b transport =
     State_Monad.bind (call b (Server_Init transport)) (\<lambda>_.
     State_Monad.bind (call b Add_Service) (\<lambda>_. call b Server_Run))"

definition erpc_test_app :: "'s board \<Rightarrow> ('s boot, halt) state" where
  "erpc_test_app b =
     State_Monad.bind (ask Uart_Transport_Init (uart_transport_init b)) (\<lambda>transport.
     State_Monad.bind
       (if transport = NULL
        then call b (Log_Msg (''eRPC transport init failed!'' @ [CHR 0x0D, CHR 0x0A])) else return ()) (\<lambda>_.
     State_Monad.bind (erpc_server_start b transport) (\<lambda>_. return Server_Stopped)))"

section \<open>Properties\<close>

lemmas boot_defs = ns_main_def tfm_ns_multi_core_boot_def start_threads_def call_def ask_def

definition crlf :: string where "crlf = [CHR 0x0D, CHR 0x0A]"

text \<open>The calls after the two hooks, by the place where start-up ends.\<close>

definition boot_calls :: "boot_config \<Rightarrow> halt \<Rightarrow> boot_event list" where
  "boot_calls cfg h =
     (let core = [Kernel_Initialize, Log_Msg (''Non-secure code running on non-secure core.'' @ crlf),
                  Wait_Secure_Cpu]
      in case h of
           Sync_Failed \<Rightarrow> core @ [Log_Msg (''Error sync'' @ [CHR 0x27] @ ''ing with secure core.'' @ crlf)]
         | Mailbox_Init_Failed \<Rightarrow>
             core @ [Mailbox_Init, Log_Msg (''Non-secure mailbox initialization failed.'' @ crlf)]
         | Kernel_Start_Returned \<Rightarrow>
             (if TFM_NS_MAILBOX_API cfg then core @ [Mailbox_Init] else [Kernel_Initialize, Interface_Init])
             @ (if TFM_MULTI_CORE_NS_OS_MAILBOX_THREAD cfg
                then [Thread_New ''tfm_ns_mailbox_thread_runner'' mailbox_thread_attr] else [])
             @ [Thread_New ''test_app'' thread_attr,
                Log_Msg (''Non-Secure system starting...'' @ crlf), Kernel_Start]
         | _ \<Rightarrow> [])"

lemma run_call [run_simps]:
  "run_state (call b e) s = ((), s\<lparr>calls := calls s @ [e], outside := side_effect b e (outside s)\<rparr>)"
  by (simp add: call_def)

lemma run_ask [run_simps]:
  "run_state (ask e f) s = (fst (f (outside s)), s\<lparr>calls := calls s @ [e], outside := snd (f (outside s))\<rparr>)"
  by (simp add: ask_def run_simps)

lemma run_start_threads:
  "run_state (start_threads cfg b) s = (h, s') \<Longrightarrow> h = Kernel_Start_Returned \<and>
     calls s' = calls s @ (if TFM_MULTI_CORE_NS_OS_MAILBOX_THREAD cfg
       then [Thread_New ''tfm_ns_mailbox_thread_runner'' mailbox_thread_attr] else [])
     @ [Thread_New ''test_app'' thread_attr, Log_Msg (''Non-Secure system starting...'' @ crlf), Kernel_Start]"
  by (auto simp: start_threads_def run_simps crlf_def split: if_splits)

lemma cp_mask: "i \<in> {20..23} \<Longrightarrow> bit (or c (or (push_bit (10 * 2) 3) (push_bit (11 * 2) 3)) :: u32) i"
proof -
  assume "i \<in> {20..23}"
  then have "i = 20 \<or> i = 21 \<or> i = 22 \<or> i = 23" by auto
  moreover have "bit (3 :: u32) 0" "bit (3 :: u32) 1" by code_simp+
  ultimately show ?thesis by (auto simp: bit_or_iff bit_push_bit_iff)
qed

lemma start_threads_CPACR: "run_state (start_threads cfg b) s = (h, s') \<Longrightarrow> CPACR s' = CPACR s"
  by (auto simp: start_threads_def run_simps split: if_splits)

lemma multi_core_boot_calls:
  assumes "run_state (tfm_ns_multi_core_boot b) s = (h, s')"
  shows "CPACR s' = CPACR s \<and> (h = None \<or> h = Some Sync_Failed \<or> h = Some Mailbox_Init_Failed)
    \<and> calls s' = calls s @ (case h of
          None \<Rightarrow> [Log_Msg (''Non-secure code running on non-secure core.'' @ crlf), Wait_Secure_Cpu,
                   Mailbox_Init]
        | Some h \<Rightarrow> tl (boot_calls cfg h))"
  using assms
  by (auto simp: tfm_ns_multi_core_boot_def run_simps boot_calls_def crlf_def split: if_splits)


definition quiet_board :: "i32 \<Rightarrow> nat board" where
  "quiet_board sync = \<lparr>ARM_DRIVER_OK = 0, MAILBOX_OK = 0, wait_for_s_cpu_ready = \<lambda>s. (sync, s),
     mailbox_init = \<lambda>s. (0, s), uart_transport_init = \<lambda>s. (0, s), side_effect = \<lambda>e s. s\<rparr>"

definition mailbox_config :: boot_config where
  "mailbox_config = \<lparr>TFM_NS_MAILBOX_API = True, TFM_MULTI_CORE_NS_OS_MAILBOX_THREAD = True,
     FLOAT_ABI_HARD_GNUC = True, TFM_NS_REG_TEST = True\<rparr>"


text \<open>When its transport cannot be opened the eRPC server application reports the failure and
  then starts the server on that missing transport all the same: the server is initialised with
  a null transport, the service is added and the server is run.\<close>

lemma erpc_app_ignores_transport_failure:
  assumes "uart_transport_init b (outside s) = (NULL, w)"
  shows "calls (snd (run_state (erpc_test_app b) s)) = calls s @
    [Uart_Transport_Init, Log_Msg (''eRPC transport init failed!'' @ crlf),
     Server_Init NULL, Add_Service, Server_Run]"
  using assms by (simp add: erpc_test_app_def erpc_server_start_def run_simps crlf_def)

end
