(* ===== verification/Psa_Status.thy ===== *)
theory Psa_Status
  imports Prelude
begin

text \<open>
  The status codes of the PSA APIs that the test code compares. Their numbers are defined
  outside the repository; the code only relies on their being different, so they are the
  constructors of a datatype, and every other value of the integer type is \<open>Other_Status\<close>.
\<close>

datatype psa_status =
    PSA_SUCCESS
  | PSA_ERROR_PROGRAMMER_ERROR
  | PSA_ERROR_NOT_SUPPORTED
  | PSA_ERROR_INVALID_ARGUMENT
  | PSA_ERROR_INVALID_HANDLE
  | PSA_ERROR_BAD_STATE
  | PSA_ERROR_BUFFER_TOO_SMALL
  | PSA_ERROR_NOT_PERMITTED
  | PSA_ERROR_ALREADY_EXISTS
  | PSA_ERROR_DOES_NOT_EXIST
  | PSA_ERROR_INSUFFICIENT_STORAGE
  | PSA_ERROR_GENERIC_ERROR
  | Other_Status int

end
