(* ===== verification/Nv_Counters.thy ===== *)
theory Nv_Counters
  imports Psa_Status
begin

text \<open>
  The non-volatile counters that replace those of the Protected Storage partition in the
  rollback tests, \<^verbatim>\<open>src/tests_reg/test/secure_fw/suites/ps/secure/nv_counters/test_ps_nv_counters.c\<close>.

  The locale \<open>counter_bank\<close> is the contract of a bank of bounded counters with an enable
  switch: what each operation returns and changes, in terms of the values that reads return. It is
  interpreted on the operations of the code; its lemmas about runs of increments give the
  properties.
\<close>

section \<open>Data\<close>

text \<open>The identifiers the switch names; all others of the platform's enumeration are \<open>OTHER_COUNTER\<close>.\<close>

datatype tfm_nv_counter_t =
  TFM_PS_NV_COUNTER_1 | TFM_PS_NV_COUNTER_2 | TFM_PS_NV_COUNTER_3 | OTHER_COUNTER nat

definition DISABLE_INCREMENT :: u8 where "DISABLE_INCREMENT = 0"
definition ENABLE_INCREMENT :: u8 where "ENABLE_INCREMENT = 1"
definition TOTAL_PS_NV_COUNTERS :: nat where "TOTAL_PS_NV_COUNTERS = 3"
definition INIT_NV_COUNTERS_VALUE :: u32 where "INIT_NV_COUNTERS_VALUE = 42"
definition UINT32_MAX :: u32 where "UINT32_MAX = 0xFFFFFFFF"

record nv_state =
  nv_increment_status :: u8
  test_nv_counters :: "u32 list"

definition nv_boot :: nv_state where
  "nv_boot = \<lparr>nv_increment_status = ENABLE_INCREMENT,
     test_nv_counters = replicate TOTAL_PS_NV_COUNTERS INIT_NV_COUNTERS_VALUE\<rparr>"

section \<open>Operations\<close>

fun get_nv_counter_position :: "tfm_nv_counter_t \<Rightarrow> nat" where
  "get_nv_counter_position TFM_PS_NV_COUNTER_1 = 0"
| "get_nv_counter_position TFM_PS_NV_COUNTER_2 = 1"
| "get_nv_counter_position TFM_PS_NV_COUNTER_3 = 2"
| "get_nv_counter_position (OTHER_COUNTER _) = TOTAL_PS_NV_COUNTERS"

text \<open>The second component is what is stored to \<open>*val\<close>, if anything is.\<close>

definition ps_read_nv_counter :: "tfm_nv_counter_t \<Rightarrow> nv_state \<Rightarrow> psa_status \<times> u32 option" where
  "ps_read_nv_counter counter_id s =
     (let nv_pos = get_nv_counter_position counter_id
      in if nv_pos \<ge> TOTAL_PS_NV_COUNTERS then (PSA_ERROR_GENERIC_ERROR, None)
         else (PSA_SUCCESS, Some (test_nv_counters s ! nv_pos)))"

definition ps_increment_nv_counter :: "tfm_nv_counter_t \<Rightarrow> nv_state \<Rightarrow> psa_status \<times> nv_state" where
  "ps_increment_nv_counter counter_id s =
     (if nv_increment_status s = DISABLE_INCREMENT then (PSA_ERROR_GENERIC_ERROR, s)
      else let nv_pos = get_nv_counter_position counter_id
           in if nv_pos \<ge> TOTAL_PS_NV_COUNTERS then (PSA_ERROR_GENERIC_ERROR, s)
              else if test_nv_counters s ! nv_pos = UINT32_MAX then (PSA_ERROR_GENERIC_ERROR, s)
              else (PSA_SUCCESS, s\<lparr>test_nv_counters := (test_nv_counters s)
                     [nv_pos := test_nv_counters s ! nv_pos + 1]\<rparr>))"

definition test_ps_disable_increment_nv_counter :: "nv_state \<Rightarrow> nv_state" where
  "test_ps_disable_increment_nv_counter s = s\<lparr>nv_increment_status := DISABLE_INCREMENT\<rparr>"

definition test_ps_enable_increment_nv_counter :: "nv_state \<Rightarrow> nv_state" where
  "test_ps_enable_increment_nv_counter s = s\<lparr>nv_increment_status := ENABLE_INCREMENT\<rparr>"

definition test_ps_read_nv_counter :: "tfm_nv_counter_t \<Rightarrow> nv_state \<Rightarrow> psa_status \<times> u32 option" where
  "test_ps_read_nv_counter counter_id s = ps_read_nv_counter counter_id s"

definition test_ps_increment_nv_counter :: "tfm_nv_counter_t \<Rightarrow> nv_state \<Rightarrow> psa_status \<times> nv_state" where
  "test_ps_increment_nv_counter counter_id s = ps_increment_nv_counter counter_id s"

definition test_ps_decrement_nv_counter :: "tfm_nv_counter_t \<Rightarrow> nv_state \<Rightarrow> psa_status \<times> nv_state" where
  "test_ps_decrement_nv_counter counter_id s =
     (let nv_pos = get_nv_counter_position counter_id
      in if nv_pos \<ge> TOTAL_PS_NV_COUNTERS then (PSA_ERROR_GENERIC_ERROR, s)
         else if test_nv_counters s ! nv_pos = 0 then (PSA_ERROR_GENERIC_ERROR, s)
         else (PSA_SUCCESS, s\<lparr>test_nv_counters := (test_nv_counters s)
                [nv_pos := test_nv_counters s ! nv_pos - 1]\<rparr>))"

definition test_ps_set_nv_counter :: "tfm_nv_counter_t \<Rightarrow> u32 \<Rightarrow> nv_state \<Rightarrow> psa_status \<times> nv_state" where
  "test_ps_set_nv_counter counter_id new_value s =
     (let nv_pos = get_nv_counter_position counter_id
      in if nv_pos \<ge> TOTAL_PS_NV_COUNTERS then (PSA_ERROR_GENERIC_ERROR, s)
         else (PSA_SUCCESS, s\<lparr>test_nv_counters := (test_nv_counters s)[nv_pos := new_value]\<rparr>))"

section \<open>The contract\<close>

text \<open>
  \<open>val s c\<close> is the value of counter \<open>c\<close>, \<open>None\<close> for an identifier that names no counter. An
  operation that fails changes nothing; one that succeeds changes its own counter only.
\<close>

locale counter_bank =
  fixes invar :: "'s \<Rightarrow> bool"
    and enabled :: "'s \<Rightarrow> bool"
    and val :: "'s \<Rightarrow> 'c \<Rightarrow> nat option"
    and top :: nat
    and incr decr :: "'c \<Rightarrow> 's \<Rightarrow> bool \<times> 's"
  assumes incr_ok: "\<lbrakk>invar s; enabled s; val s c = Some n; n < top\<rbrakk> \<Longrightarrow>
      \<exists>s'. incr c s = (True, s') \<and> invar s' \<and> enabled s' \<and> val s' = (val s)(c \<mapsto> Suc n)"
    and incr_refused: "invar s \<Longrightarrow> \<not> enabled s \<or> val s c = None \<or> val s c = Some top \<Longrightarrow>
      incr c s = (False, s)"
    and decr_ok: "\<lbrakk>invar s; val s c = Some (Suc n)\<rbrakk> \<Longrightarrow>
      \<exists>s'. decr c s = (True, s') \<and> invar s' \<and> enabled s' = enabled s \<and> val s' = (val s)(c \<mapsto> n)"
    and decr_refused: "invar s \<Longrightarrow> val s c = None \<or> val s c = Some 0 \<Longrightarrow> decr c s = (False, s)"
    and bounded: "\<lbrakk>invar s; val s c = Some n\<rbrakk> \<Longrightarrow> n \<le> top"
begin

lemma incr_many:
  assumes "invar s" "enabled s" "val s c = Some n"
  shows "let s' = ((\<lambda>s. snd (incr c s)) ^^ k) s in
    invar s' \<and> enabled s' \<and> val s' = (val s)(c \<mapsto> min top (n + k))"
proof (induction k)
  case 0
  have "(val s)(c \<mapsto> min top n) = val s" using assms bounded [of s c n] by auto
  then show ?case using assms by simp
next
  case (Suc k)
  let ?s = "((\<lambda>s. snd (incr c s)) ^^ k) s"
  have s: "invar ?s" "enabled ?s" "val ?s = (val s)(c \<mapsto> min top (n + k))"
    using Suc unfolding Let_def by blast+
  show ?case
  proof (cases "n + k < top")
    case True
    then obtain s' where "incr c ?s = (True, s')" "invar s'" "enabled s'"
        "val s' = (val ?s)(c \<mapsto> Suc (n + k))"
      using incr_ok [OF s(1,2), of c "n + k"] s(3) by auto
    then show ?thesis using True s(3) by (simp add: Let_def fun_eq_iff)
  next
    case False
    then have "incr c ?s = (False, ?s)" using incr_refused [OF s(1), of c] s(3) by simp
    then show ?thesis using False s by (simp add: Let_def fun_eq_iff)
  qed
qed

lemma incr_decr:
  assumes "invar s" "enabled s" "val s c = Some n" "n < top"
  shows "\<exists>s' s''. incr c s = (True, s') \<and> decr c s' = (True, s'') \<and> val s'' = val s"
proof -
  from incr_ok [OF assms] obtain s' where s': "incr c s = (True, s')" "invar s'"
    "val s' = (val s)(c \<mapsto> Suc n)" by blast
  with decr_ok [of s' c n] obtain s'' where "decr c s' = (True, s'')" "val s'' = (val s')(c \<mapsto> n)"
    by auto
  then show ?thesis using s' assms(3) by auto
qed

end

section \<open>The counters meet the contract\<close>

definition nv_wf :: "nv_state \<Rightarrow> bool" where
  "nv_wf s \<longleftrightarrow> length (test_nv_counters s) = TOTAL_PS_NV_COUNTERS"

definition nv_value :: "nv_state \<Rightarrow> tfm_nv_counter_t \<Rightarrow> nat option" where
  "nv_value s c = map_option unat (snd (ps_read_nv_counter c s))"

definition ok :: "psa_status \<times> 'a \<Rightarrow> bool \<times> 'a" where
  "ok r = (fst r = PSA_SUCCESS, snd r)"

lemma nv_value_None: "nv_value s c = None \<longleftrightarrow> get_nv_counter_position c \<ge> TOTAL_PS_NV_COUNTERS"
  by (simp add: nv_value_def ps_read_nv_counter_def Let_def)

lemma nv_value_Some:
  "nv_value s c = Some n \<longleftrightarrow> get_nv_counter_position c < TOTAL_PS_NV_COUNTERS
     \<and> n = unat (test_nv_counters s ! get_nv_counter_position c)"
  by (auto simp: nv_value_def ps_read_nv_counter_def Let_def)

lemma position_inj:
  "\<lbrakk>get_nv_counter_position c < TOTAL_PS_NV_COUNTERS;
    get_nv_counter_position d = get_nv_counter_position c\<rbrakk> \<Longrightarrow> d = c"
  by (cases c; cases d) (simp_all add: TOTAL_PS_NV_COUNTERS_def)

lemma nv_value_update:
  assumes "nv_wf s" and "get_nv_counter_position c < TOTAL_PS_NV_COUNTERS"
  shows "nv_value (s\<lparr>test_nv_counters := (test_nv_counters s)[get_nv_counter_position c := v]\<rparr>)
    = (nv_value s)(c \<mapsto> unat v)"
proof
  fix d
  show "nv_value (s\<lparr>test_nv_counters := (test_nv_counters s)[get_nv_counter_position c := v]\<rparr>) d
    = ((nv_value s)(c \<mapsto> unat v)) d"
    using assms position_inj [of c d]
    by (auto simp: nv_value_def ps_read_nv_counter_def nv_wf_def Let_def nth_list_update)
qed

lemma unat_eq_top: "unat (x :: u32) = 4294967295 \<longleftrightarrow> x = 0xFFFFFFFF"
  by (simp add: word_unat_eq_iff)

lemma nv_increment_ok:
  assumes s: "nv_wf s" "nv_increment_status s \<noteq> DISABLE_INCREMENT" "nv_value s c = Some n"
    "n < 4294967295"
  shows "\<exists>s'. ok (ps_increment_nv_counter c s) = (True, s') \<and> nv_wf s'
      \<and> nv_increment_status s' \<noteq> DISABLE_INCREMENT \<and> nv_value s' = (nv_value s)(c \<mapsto> Suc n)"
proof -
  let ?p = "get_nv_counter_position c" and ?x = "test_nv_counters s ! get_nv_counter_position c"
  have p: "?p < TOTAL_PS_NV_COUNTERS" "n = unat ?x" using s(3) by (simp_all add: nv_value_Some)
  have "?x < UINT32_MAX" using p(2) s(4) by (simp add: word_less_nat_alt UINT32_MAX_def)
  then have "unat (?x + 1) = Suc n" using unat_inc_less p(2) by metis
  then show ?thesis
    using s p nv_value_update [OF s(1) p(1), of "?x + 1"] \<open>?x < UINT32_MAX\<close>
    by (auto simp: ok_def ps_increment_nv_counter_def nv_wf_def Let_def)
qed

lemma nv_decrement_ok:
  assumes s: "nv_wf s" "nv_value s c = Some (Suc n)"
  shows "\<exists>s'. ok (test_ps_decrement_nv_counter c s) = (True, s') \<and> nv_wf s'
      \<and> (nv_increment_status s' \<noteq> DISABLE_INCREMENT) = (nv_increment_status s \<noteq> DISABLE_INCREMENT)
      \<and> nv_value s' = (nv_value s)(c \<mapsto> n)"
proof -
  let ?p = "get_nv_counter_position c" and ?x = "test_nv_counters s ! get_nv_counter_position c"
  have p: "?p < TOTAL_PS_NV_COUNTERS" "Suc n = unat ?x" using s(2) by (simp_all add: nv_value_Some)
  then have "?x \<noteq> 0" by (metis nat.distinct(1) unat_0)
  then have "unat (?x - 1) = n" using p(2) by (simp add: unat_minus_one)
  then show ?thesis
    using s p nv_value_update [OF s(1) p(1), of "?x - 1"] \<open>?x \<noteq> 0\<close>
    by (auto simp: ok_def test_ps_decrement_nv_counter_def nv_wf_def Let_def)
qed

lemma nv_operations_refuse:
  "nv_increment_status s = DISABLE_INCREMENT \<or> nv_value s c = None \<or> nv_value s c = Some 4294967295 \<Longrightarrow>
    ok (ps_increment_nv_counter c s) = (False, s)"
  "nv_value s c = None \<or> nv_value s c = Some 0 \<Longrightarrow> ok (test_ps_decrement_nv_counter c s) = (False, s)"
  by (auto simp: ok_def ps_increment_nv_counter_def test_ps_decrement_nv_counter_def nv_value_None
      nv_value_Some UINT32_MAX_def unat_eq_top unat_eq_zero dest!: sym [of 4294967295] sym [of 0])

lemma nv_value_bound: "nv_value s c = Some n \<Longrightarrow> n \<le> 4294967295"
  using unat_u32_bound [of "test_nv_counters s ! get_nv_counter_position c"]
  by (simp add: nv_value_Some)

interpretation nv: counter_bank nv_wf "\<lambda>s. nv_increment_status s \<noteq> DISABLE_INCREMENT" nv_value
  4294967295 "\<lambda>c s. ok (ps_increment_nv_counter c s)" "\<lambda>c s. ok (test_ps_decrement_nv_counter c s)"
  by unfold_locales
    (use nv_increment_ok nv_decrement_ok nv_operations_refuse nv_value_bound in blast)+

section \<open>Properties\<close>

text \<open>C32. Increments count up and stop at the maximum: after any number of increments of one
  counter, with increments enabled, that counter reads its old value plus that number, or
  \<open>UINT32_MAX\<close> when that would be exceeded (the counter never wraps), and every other counter
  reads what it read before.\<close>

theorem nv_increments_saturate:
  assumes "nv_wf s" and "nv_increment_status s \<noteq> DISABLE_INCREMENT"
    and "ps_read_nv_counter c s = (PSA_SUCCESS, Some v)"
    and "s' = ((\<lambda>s. snd (ps_increment_nv_counter c s)) ^^ k) s"
  shows "\<exists>v'. ps_read_nv_counter c s' = (PSA_SUCCESS, Some v')
      \<and> unat v' = min (2 ^ 32 - 1) (unat v + k)
      \<and> (\<forall>d. d \<noteq> c \<longrightarrow> ps_read_nv_counter d s' = ps_read_nv_counter d s)"
proof -
  have step: "(\<lambda>s. snd (ok (ps_increment_nv_counter c s))) = (\<lambda>s. snd (ps_increment_nv_counter c s))"
    by (simp add: ok_def)
  have "nv_value s c = Some (unat v)" using assms(3) by (simp add: nv_value_def)
  from nv.incr_many [OF assms(1,2) this, of k]
  have val: "nv_value s' = (nv_value s)(c \<mapsto> min 4294967295 (unat v + k))"
    unfolding step assms(4) Let_def by simp
  have read: "ps_read_nv_counter d t = (case snd (ps_read_nv_counter d t) of
      None \<Rightarrow> (PSA_ERROR_GENERIC_ERROR, None) | Some x \<Rightarrow> (PSA_SUCCESS, Some x))" for d t
    by (simp add: ps_read_nv_counter_def Let_def)
  obtain v' where v': "snd (ps_read_nv_counter c s') = Some v'"
      "unat v' = min 4294967295 (unat v + k)"
    using fun_cong [OF val, of c] by (auto simp: nv_value_def)
  have "snd (ps_read_nv_counter d s') = snd (ps_read_nv_counter d s)" if "d \<noteq> c" for d
  proof -
    have "map_option unat (snd (ps_read_nv_counter d s')) = map_option unat (snd (ps_read_nv_counter d s))"
      using fun_cong [OF val, of d] that by (simp add: nv_value_def)
    then show ?thesis
      by (cases "snd (ps_read_nv_counter d s')"; cases "snd (ps_read_nv_counter d s)")
        (simp_all add: word_unat_eq_iff)
  qed
  then have "\<forall>d. d \<noteq> c \<longrightarrow> ps_read_nv_counter d s' = ps_read_nv_counter d s"
    using read by metis
  moreover have "ps_read_nv_counter c s' = (PSA_SUCCESS, Some v')"
    using read [of c s'] v'(1) by simp
  ultimately show ?thesis using v'(2) by simp
qed

theorem nv_increments_saturate_witness:
  "\<exists>v'. ps_read_nv_counter TFM_PS_NV_COUNTER_2
       (((\<lambda>s. snd (ps_increment_nv_counter TFM_PS_NV_COUNTER_2 s)) ^^ 3) nv_boot) = (PSA_SUCCESS, Some v')
     \<and> unat v' = 45"
proof -
  have "nv_wf nv_boot" "nv_increment_status nv_boot \<noteq> DISABLE_INCREMENT"
    "ps_read_nv_counter TFM_PS_NV_COUNTER_2 nv_boot = (PSA_SUCCESS, Some 42)"
    by code_simp+
  from nv_increments_saturate [OF this refl, of 3] show ?thesis by auto
qed



end
