(* ===== verification/Suites.thy ===== *)
theory Suites
  imports Test_Framework
begin

text \<open>
  The lists of test suites of the regression images and their entry points:
  \<^verbatim>\<open>non_secure_suites.c\<close>, \<^verbatim>\<open>secure_suites.c\<close>, \<^verbatim>\<open>bl1_1_suites.c\<close>, \<^verbatim>\<open>bl1_2_suites.c\<close> and
  \<^verbatim>\<open>mcuboot_suites.c\<close> under \<^verbatim>\<open>src/tests_reg/test\<close>.

  A list depends on the build options; \<open>d F\<close> says that the option \<open>F\<close> is defined. A suite is
  named after its registration function, and \<open>reg\<close> gives those functions. The framework's
  reference execution then says what a regression run returns.
\<close>

section \<open>The lists\<close>

datatype build_flag =
    TEST_NS_IPC | TEST_NS_SFN_BACKEND | TEST_NS_PS | TEST_NS_ITS | TEST_NS_CRYPTO | TEST_NS_PLATFORM
  | TEST_NS_ATTESTATION | TEST_NS_QCBOR | TEST_NS_T_COSE | TEST_NS_FWU | TEST_NS_MULTI_CORE
  | TEST_NS_MANAGE_NSID | TEST_NS_SLIH_IRQ | TEST_NS_FLIH_IRQ | TEST_NS_FPU | EXTRA_NS_TEST_SUITE
  | TEST_S_IPC | TEST_S_SFN_BACKEND | TEST_S_PS | PS_TEST_NV_COUNTERS | PS_ROLLBACK_PROTECTION_1
  | TEST_S_ITS | TEST_S_CRYPTO | TEST_S_ATTESTATION | TEST_S_PLATFORM | TEST_S_FWU | TEST_S_FPU
  | EXTRA_S_TEST_SUITE | EXTRA_BL1_1_TEST_SUITE | EXTRA_BL1_2_TEST_SUITE

datatype register_fn =
    register_testsuite_ns_ipc_interface | register_testsuite_ns_sfn_interface
  | register_testsuite_ns_psa_ps_interface | register_testsuite_ns_psa_its_interface
  | register_testsuite_ns_crypto_interface | register_testsuite_ns_platform_interface
  | register_testsuite_ns_attestation_interface | register_testsuite_ns_qcbor
  | register_testsuite_ns_t_cose | register_testsuite_ns_psa_fwu_interface
  | register_testsuite_multi_core_ns_interface | register_testsuite_nsid_test
  | register_testsuite_irq_test | register_testsuite_ns_fpu_interface
  | register_testsuite_extra_ns_interface
  | register_testsuite_s_ipc_interface | register_testsuite_s_sfn_interface
  | register_testsuite_s_psa_ps_interface | register_testsuite_s_psa_ps_reliability
  | register_testsuite_s_rollback_protection
  | register_testsuite_s_psa_its_interface | register_testsuite_s_psa_its_reliability
  | register_testsuite_s_crypto_interface | register_testsuite_s_attestation_interface
  | register_testsuite_s_platform_interface | register_testsuite_s_psa_fwu_interface
  | register_testsuite_s_fpu_interface | register_testsuite_extra_s_interface
  | register_testsuite_bl1_crypto_interface | register_testsuite_bl1_trng_interface
  | register_testsuite_bl1_1_integration | register_testsuite_extra_bl1_1
  | register_testsuite_bl1_2_integration | register_testsuite_extra_bl1_2
  | register_testsuite_mcuboot_integration

definition ifdef :: "bool \<Rightarrow> 'a list \<Rightarrow> 'a list" where
  "ifdef b xs = (if b then xs else [])"

definition non_secure_suites :: "(build_flag \<Rightarrow> bool) \<Rightarrow> register_fn list" where
  "non_secure_suites d =
     ifdef (d TEST_NS_IPC) [register_testsuite_ns_ipc_interface]
   @ ifdef (d TEST_NS_SFN_BACKEND) [register_testsuite_ns_sfn_interface]
   @ ifdef (d TEST_NS_PS) [register_testsuite_ns_psa_ps_interface]
   @ ifdef (d TEST_NS_ITS) [register_testsuite_ns_psa_its_interface]
   @ ifdef (d TEST_NS_CRYPTO) [register_testsuite_ns_crypto_interface]
   @ ifdef (d TEST_NS_PLATFORM) [register_testsuite_ns_platform_interface]
   @ ifdef (d TEST_NS_ATTESTATION) [register_testsuite_ns_attestation_interface]
   @ ifdef (d TEST_NS_QCBOR) [register_testsuite_ns_qcbor]
   @ ifdef (d TEST_NS_T_COSE) [register_testsuite_ns_t_cose]
   @ ifdef (d TEST_NS_FWU) [register_testsuite_ns_psa_fwu_interface]
   @ ifdef (d TEST_NS_MULTI_CORE) [register_testsuite_multi_core_ns_interface]
   @ ifdef (d TEST_NS_MANAGE_NSID) [register_testsuite_nsid_test]
   @ ifdef (d TEST_NS_SLIH_IRQ \<or> d TEST_NS_FLIH_IRQ) [register_testsuite_irq_test]
   @ ifdef (d TEST_NS_FPU) [register_testsuite_ns_fpu_interface]
   @ ifdef (d EXTRA_NS_TEST_SUITE) [register_testsuite_extra_ns_interface]"

definition secure_suites :: "(build_flag \<Rightarrow> bool) \<Rightarrow> register_fn list" where
  "secure_suites d =
     ifdef (d TEST_S_IPC) [register_testsuite_s_ipc_interface]
   @ ifdef (d TEST_S_SFN_BACKEND) [register_testsuite_s_sfn_interface]
   @ ifdef (d TEST_S_PS)
       ([register_testsuite_s_psa_ps_interface, register_testsuite_s_psa_ps_reliability]
        @ ifdef (d PS_TEST_NV_COUNTERS)
            (ifdef (d PS_ROLLBACK_PROTECTION_1) [register_testsuite_s_rollback_protection]))
   @ ifdef (d TEST_S_ITS)
       [register_testsuite_s_psa_its_interface, register_testsuite_s_psa_its_reliability]
   @ ifdef (d TEST_S_CRYPTO) [register_testsuite_s_crypto_interface]
   @ ifdef (d TEST_S_ATTESTATION) [register_testsuite_s_attestation_interface]
   @ ifdef (d TEST_S_PLATFORM) [register_testsuite_s_platform_interface]
   @ ifdef (d TEST_S_FWU) [register_testsuite_s_psa_fwu_interface]
   @ ifdef (d TEST_S_FPU) [register_testsuite_s_fpu_interface]
   @ ifdef (d EXTRA_S_TEST_SUITE) [register_testsuite_extra_s_interface]"

definition bl1_1_suites :: "(build_flag \<Rightarrow> bool) \<Rightarrow> register_fn list" where
  "bl1_1_suites d =
     [register_testsuite_bl1_crypto_interface, register_testsuite_bl1_trng_interface,
      register_testsuite_bl1_1_integration]
   @ ifdef (d EXTRA_BL1_1_TEST_SUITE) [register_testsuite_extra_bl1_1]"

definition bl1_2_suites :: "(build_flag \<Rightarrow> bool) \<Rightarrow> register_fn list" where
  "bl1_2_suites d =
     [register_testsuite_bl1_2_integration]
   @ ifdef (d EXTRA_BL1_2_TEST_SUITE) [register_testsuite_extra_bl1_2]"

definition mcuboot_suites :: "register_fn list" where
  "mcuboot_suites = [register_testsuite_mcuboot_integration]"

type_synonym 'w registry = "register_fn \<Rightarrow> 'w suite_fields \<Rightarrow> ('w env, 'w suite_fields) state"

text \<open>The array: an entry \<open>{&f, 0, 0, 0}\<close> per suite and the entry \<open>{0, 0, 0, 0}\<close> at the end.\<close>

definition zero_fields :: "'w suite_fields" where
  "zero_fields = \<lparr>ts_test_list = [], ts_list_size = 0, ts_name = None, ts_val = TEST_PASSED\<rparr>"

definition suite_array :: "'w registry \<Rightarrow> register_fn list \<Rightarrow> 'w test_suite_t list" where
  "suite_array reg fs =
     map (\<lambda>f. \<lparr>ts_freg = Some (reg f), ts_fields = zero_fields\<rparr>) fs
     @ [\<lparr>ts_freg = None, ts_fields = zero_fields\<rparr>]"

section \<open>The entry points\<close>

definition ns_reg_test_start ::
  "(build_flag \<Rightarrow> bool) \<Rightarrow> 'w registry \<Rightarrow> ('w env, test_suite_err_t) state" where
  "ns_reg_test_start d reg = do {
     (r, _) \<leftarrow> run_test ''Non-secure'' (suite_array reg (non_secure_suites d));
     return r
   }"

text \<open>The setup and the tear-down of the secure image are empty functions.\<close>

definition setup_integ_test :: "('w env, unit) state" where "setup_integ_test = return ()"
definition tear_down_integ_test :: "('w env, unit) state" where "tear_down_integ_test = return ()"

definition s_reg_test_start ::
  "(build_flag \<Rightarrow> bool) \<Rightarrow> 'w registry \<Rightarrow> ('w env, test_suite_err_t) state" where
  "s_reg_test_start d reg = do {
     setup_integ_test;
     (retval, _) \<leftarrow> run_test ''Secure'' (suite_array reg (secure_suites d));
     tear_down_integ_test;
     return retval
   }"

definition run_bl1_1_testsuite ::
  "(build_flag \<Rightarrow> bool) \<Rightarrow> 'w registry \<Rightarrow> ('w env, test_suite_err_t) state" where
  "run_bl1_1_testsuite d reg = do {
     (r, _) \<leftarrow> run_test ''BL1_1'' (suite_array reg (bl1_1_suites d));
     return r
   }"

definition run_bl1_2_testsuite ::
  "(build_flag \<Rightarrow> bool) \<Rightarrow> 'w registry \<Rightarrow> ('w env, test_suite_err_t) state" where
  "run_bl1_2_testsuite d reg = do {
     (r, _) \<leftarrow> run_test ''BL1_2'' (suite_array reg (bl1_2_suites d));
     return r
   }"

definition run_mcuboot_testsuite :: "'w registry \<Rightarrow> ('w env, test_suite_err_t) state" where
  "run_mcuboot_testsuite reg = do {
     (r, _) \<leftarrow> run_test ''MCUBOOT'' (suite_array reg mcuboot_suites);
     return r
   }"

section \<open>Properties\<close>

text \<open>
  The suites are registered properly: every registration function of the list stores the name
  and the tests that \<open>what\<close> gives it, at least one and each with a function and a name.
\<close>

definition registers :: "'w registry \<Rightarrow> (register_fn \<Rightarrow> string \<times> 'w test_t list) \<Rightarrow> register_fn list \<Rightarrow> bool"
  where
  "registers reg what fs \<longleftrightarrow>
     (\<forall>f \<in> set fs. reg f = register_with (fst (what f)) (snd (what f)) \<and> valid_tests (snd (what f))
        \<and> snd (what f) \<noteq> [] \<and> length (snd (what f)) < 2 ^ 32)"

lemma suite_array_good:
  assumes "registers reg what fs"
  shows "good_suites (map (\<lambda>f. \<lparr>ts_freg = Some (reg f), ts_fields = zero_fields\<rparr>) fs) (map what fs)"
  using assms
  by (simp add: good_suites_def good_suite_def registers_def list_all2_conv_all_nth)

lemma run_suite_array:
  assumes "registers reg what fs"
    and "run_state (exec_suites (map what fs)) (snd (run_state (area_banner ty) e)) = (vss, e1)"
  shows "fst (fst (run_state (run_test ty (suite_array reg fs)) e)) =
      (if \<exists>vs \<in> set vss. TEST_FAILED \<in> set vs
       then TEST_SUITE_ERR_TEST_FAILED else TEST_SUITE_ERR_NO_ERROR)"
    and "world (snd (run_state (run_test ty (suite_array reg fs)) e)) = world e1"
  using run_test_exec [OF suite_array_good [OF assms(1)] _ refl assms(2), of _ "[]"]
  by (simp_all add: suite_array_def terminator_def)

text \<open>
  The suites each image has to run, suite by suite: the condition on the build options under
  which a suite belongs to the non-secure and to the secure image.
\<close>

fun ns_selected :: "(build_flag \<Rightarrow> bool) \<Rightarrow> register_fn \<Rightarrow> bool" where
  "ns_selected d register_testsuite_ns_ipc_interface = d TEST_NS_IPC"
| "ns_selected d register_testsuite_ns_sfn_interface = d TEST_NS_SFN_BACKEND"
| "ns_selected d register_testsuite_ns_psa_ps_interface = d TEST_NS_PS"
| "ns_selected d register_testsuite_ns_psa_its_interface = d TEST_NS_ITS"
| "ns_selected d register_testsuite_ns_crypto_interface = d TEST_NS_CRYPTO"
| "ns_selected d register_testsuite_ns_platform_interface = d TEST_NS_PLATFORM"
| "ns_selected d register_testsuite_ns_attestation_interface = d TEST_NS_ATTESTATION"
| "ns_selected d register_testsuite_ns_qcbor = d TEST_NS_QCBOR"
| "ns_selected d register_testsuite_ns_t_cose = d TEST_NS_T_COSE"
| "ns_selected d register_testsuite_ns_psa_fwu_interface = d TEST_NS_FWU"
| "ns_selected d register_testsuite_multi_core_ns_interface = d TEST_NS_MULTI_CORE"
| "ns_selected d register_testsuite_nsid_test = d TEST_NS_MANAGE_NSID"
| "ns_selected d register_testsuite_irq_test = (d TEST_NS_SLIH_IRQ \<or> d TEST_NS_FLIH_IRQ)"
| "ns_selected d register_testsuite_ns_fpu_interface = d TEST_NS_FPU"
| "ns_selected d register_testsuite_extra_ns_interface = d EXTRA_NS_TEST_SUITE"
| "ns_selected d _ = False"

fun s_selected :: "(build_flag \<Rightarrow> bool) \<Rightarrow> register_fn \<Rightarrow> bool" where
  "s_selected d register_testsuite_s_ipc_interface = d TEST_S_IPC"
| "s_selected d register_testsuite_s_sfn_interface = d TEST_S_SFN_BACKEND"
| "s_selected d register_testsuite_s_psa_ps_interface = d TEST_S_PS"
| "s_selected d register_testsuite_s_psa_ps_reliability = d TEST_S_PS"
| "s_selected d register_testsuite_s_rollback_protection =
     (d TEST_S_PS \<and> d PS_TEST_NV_COUNTERS \<and> d PS_ROLLBACK_PROTECTION_1)"
| "s_selected d register_testsuite_s_psa_its_interface = d TEST_S_ITS"
| "s_selected d register_testsuite_s_psa_its_reliability = d TEST_S_ITS"
| "s_selected d register_testsuite_s_crypto_interface = d TEST_S_CRYPTO"
| "s_selected d register_testsuite_s_attestation_interface = d TEST_S_ATTESTATION"
| "s_selected d register_testsuite_s_platform_interface = d TEST_S_PLATFORM"
| "s_selected d register_testsuite_s_psa_fwu_interface = d TEST_S_FWU"
| "s_selected d register_testsuite_s_fpu_interface = d TEST_S_FPU"
| "s_selected d register_testsuite_extra_s_interface = d EXTRA_S_TEST_SUITE"
| "s_selected d _ = False"

lemma set_ifdef: "set (ifdef b xs) = (if b then set xs else {})"
  by (simp add: ifdef_def)

lemma distinct_ifdef: "distinct (ifdef b xs) \<longleftrightarrow> (b \<longrightarrow> distinct xs)"
  by (simp add: ifdef_def)

lemma suites_selected:
  "f \<in> set (non_secure_suites d) \<longleftrightarrow> ns_selected d f" "f \<in> set (secure_suites d) \<longleftrightarrow> s_selected d f"
  unfolding non_secure_suites_def secure_suites_def by (cases f; simp add: set_ifdef)+

lemma suites_distinct: "distinct (non_secure_suites d)" "distinct (secure_suites d)"
  unfolding non_secure_suites_def secure_suites_def by (simp_all add: set_ifdef distinct_ifdef)

lemma length_suite_verdicts:
  "run_state (exec_suites (map what fs)) e = (vss, e1) \<Longrightarrow> length vss = length fs"
  using length_exec_suites [of "map what fs" e] by simp

lemma some_suite_failed:
  assumes "length vss = length fs" and "\<And>f. f \<in> set fs \<longleftrightarrow> sel f"
  shows "(\<exists>vs \<in> set vss. TEST_FAILED \<in> set vs) \<longleftrightarrow>
    (\<exists>f vs. sel f \<and> (f, vs) \<in> set (zip fs vss) \<and> TEST_FAILED \<in> set vs)"
  using assms by (fastforce simp: in_set_zip in_set_conv_nth)

text \<open>C27. A regression run of either image executes the suites that its build options select,
  each of them once: the suites of the run are exactly those whose own option is defined (the
  tables \<open>ns_selected\<close> and \<open>s_selected\<close> say which option selects which suite; the interrupt
  suite has two, the rollback suite three), the platform's extra suite is the last one. The run
  returns "test failed" exactly when some test of a selected suite failed and "no error"
  otherwise, and its effect on the system is that of those tests.\<close>

theorem regression_run_verdict:
  assumes "registers reg what (non_secure_suites d)" and "registers reg what (secure_suites d)"
    and "run_state (exec_suites (map what (non_secure_suites d)))
        (snd (run_state (area_banner ''Non-secure'') e)) = (ns_verdicts, ns_end)"
    and "run_state (exec_suites (map what (secure_suites d)))
        (snd (run_state (area_banner ''Secure'') e)) = (s_verdicts, s_end)"
  shows "set (non_secure_suites d) = {f. ns_selected d f} \<and> distinct (non_secure_suites d)
    \<and> (d EXTRA_NS_TEST_SUITE \<longrightarrow> last (non_secure_suites d) = register_testsuite_extra_ns_interface)
    \<and> fst (run_state (ns_reg_test_start d reg) e) =
        (if \<exists>f vs. ns_selected d f \<and> (f, vs) \<in> set (zip (non_secure_suites d) ns_verdicts)
              \<and> TEST_FAILED \<in> set vs
         then TEST_SUITE_ERR_TEST_FAILED else TEST_SUITE_ERR_NO_ERROR)
    \<and> world (snd (run_state (ns_reg_test_start d reg) e)) = world ns_end
    \<and> set (secure_suites d) = {f. s_selected d f} \<and> distinct (secure_suites d)
    \<and> (d EXTRA_S_TEST_SUITE \<longrightarrow> last (secure_suites d) = register_testsuite_extra_s_interface)
    \<and> fst (run_state (s_reg_test_start d reg) e) =
        (if \<exists>f vs. s_selected d f \<and> (f, vs) \<in> set (zip (secure_suites d) s_verdicts)
              \<and> TEST_FAILED \<in> set vs
         then TEST_SUITE_ERR_TEST_FAILED else TEST_SUITE_ERR_NO_ERROR)
    \<and> world (snd (run_state (s_reg_test_start d reg) e)) = world s_end"
proof -
  note failed =
    some_suite_failed [OF length_suite_verdicts [OF assms(3)] suites_selected(1)]
    some_suite_failed [OF length_suite_verdicts [OF assms(4)] suites_selected(2)]
  have "set (non_secure_suites d) = {f. ns_selected d f}" "set (secure_suites d) = {f. s_selected d f}"
    using suites_selected by blast+
  moreover have
    "d EXTRA_NS_TEST_SUITE \<longrightarrow> last (non_secure_suites d) = register_testsuite_extra_ns_interface"
    "d EXTRA_S_TEST_SUITE \<longrightarrow> last (secure_suites d) = register_testsuite_extra_s_interface"
    by (simp_all add: non_secure_suites_def secure_suites_def ifdef_def)
  moreover have
    "fst (run_state (ns_reg_test_start d reg) e) = (if \<exists>vs \<in> set ns_verdicts. TEST_FAILED \<in> set vs
       then TEST_SUITE_ERR_TEST_FAILED else TEST_SUITE_ERR_NO_ERROR)"
    "fst (run_state (s_reg_test_start d reg) e) = (if \<exists>vs \<in> set s_verdicts. TEST_FAILED \<in> set vs
       then TEST_SUITE_ERR_TEST_FAILED else TEST_SUITE_ERR_NO_ERROR)"
    "world (snd (run_state (ns_reg_test_start d reg) e)) = world ns_end"
    "world (snd (run_state (s_reg_test_start d reg) e)) = world s_end"
    using run_suite_array [OF assms(1,3)] run_suite_array [OF assms(2,4)]
    by (simp_all add: ns_reg_test_start_def s_reg_test_start_def setup_integ_test_def
        tear_down_integ_test_def case_prod_beta)
  ultimately show ?thesis using suites_distinct failed by simp
qed

definition one_suite :: "unit registry" where
  "one_suite f = register_with ''S'' [sample_test TEST_PASSED, sample_test TEST_SKIPPED]"

theorem regression_run_verdict_witness:
  "set (non_secure_suites (\<lambda>f. f = TEST_NS_ITS)) = {register_testsuite_ns_psa_its_interface}
   \<and> fst (run_state (ns_reg_test_start (\<lambda>f. f = TEST_NS_ITS) one_suite)
     \<lparr>console = [], ub = False, world = ()\<rparr>) = TEST_SUITE_ERR_NO_ERROR"
proof -
  let ?d = "\<lambda>f. f = TEST_NS_ITS" and ?e = "\<lparr>console = [], ub = False, world = ()\<rparr>"
  let ?what = "\<lambda>f :: register_fn. (''S'', [sample_test TEST_PASSED, sample_test TEST_SKIPPED])"
  have reg: "registers one_suite ?what fs" for fs
    by (simp add: registers_def one_suite_def sample_test_def valid_tests_def)
  have suites: "non_secure_suites ?d = [register_testsuite_ns_psa_its_interface]"
    by (simp add: non_secure_suites_def ifdef_def)
  then have "fst (run_state (exec_suites (map ?what (non_secure_suites ?d)))
      (snd (run_state (area_banner ''Non-secure'') ?e))) = [[TEST_PASSED, TEST_SKIPPED]]"
    by (simp add: case_prod_beta sample_exec)
  with regression_run_verdict [OF reg reg surjective_pairing surjective_pairing, of ?d ?e]
  show ?thesis by (simp add: suites)
qed

text \<open>No build option selects a suite twice, in any image; a suite is in the list of an image
  only through its own options; and the platform's extra suite, where it is enabled, is the
  last one, so that the platform can run code after all other tests. With no option defined the
  non-secure and the secure list are empty.\<close>

lemma suite_lists_well_formed:
  "distinct (non_secure_suites d) \<and> distinct (secure_suites d) \<and> distinct (bl1_1_suites d)
   \<and> distinct (bl1_2_suites d) \<and> set (non_secure_suites d) \<inter> set (secure_suites d) = {}
   \<and> (register_testsuite_extra_ns_interface \<in> set (non_secure_suites d) \<longleftrightarrow> d EXTRA_NS_TEST_SUITE)
   \<and> (register_testsuite_irq_test \<in> set (non_secure_suites d) \<longleftrightarrow> d TEST_NS_SLIH_IRQ \<or> d TEST_NS_FLIH_IRQ)
   \<and> (register_testsuite_s_rollback_protection \<in> set (secure_suites d) \<longleftrightarrow>
        d TEST_S_PS \<and> d PS_TEST_NV_COUNTERS \<and> d PS_ROLLBACK_PROTECTION_1)
   \<and> (d EXTRA_NS_TEST_SUITE \<longrightarrow> last (non_secure_suites d) = register_testsuite_extra_ns_interface)
   \<and> (d EXTRA_S_TEST_SUITE \<longrightarrow> last (secure_suites d) = register_testsuite_extra_s_interface)
   \<and> (d EXTRA_BL1_1_TEST_SUITE \<longrightarrow> last (bl1_1_suites d) = register_testsuite_extra_bl1_1)
   \<and> (d EXTRA_BL1_2_TEST_SUITE \<longrightarrow> last (bl1_2_suites d) = register_testsuite_extra_bl1_2)
   \<and> non_secure_suites (\<lambda>_. False) = [] \<and> secure_suites (\<lambda>_. False) = []"
proof -
  have "distinct (non_secure_suites d)" "distinct (secure_suites d)" by (rule suites_distinct)+
  moreover have "distinct (bl1_1_suites d)" "distinct (bl1_2_suites d)"
    by (simp_all add: bl1_1_suites_def bl1_2_suites_def ifdef_def)
  moreover have "set (non_secure_suites d) \<inter> set (secure_suites d) = {}"
    unfolding non_secure_suites_def secure_suites_def
    by (simp add: set_ifdef)
  moreover have "register_testsuite_extra_ns_interface \<in> set (non_secure_suites d) \<longleftrightarrow> d EXTRA_NS_TEST_SUITE"
    "register_testsuite_irq_test \<in> set (non_secure_suites d) \<longleftrightarrow> d TEST_NS_SLIH_IRQ \<or> d TEST_NS_FLIH_IRQ"
    "register_testsuite_s_rollback_protection \<in> set (secure_suites d) \<longleftrightarrow>
        d TEST_S_PS \<and> d PS_TEST_NV_COUNTERS \<and> d PS_ROLLBACK_PROTECTION_1"
    unfolding non_secure_suites_def secure_suites_def by (simp_all add: set_ifdef)
  moreover have "d EXTRA_NS_TEST_SUITE \<longrightarrow> last (non_secure_suites d) = register_testsuite_extra_ns_interface"
    "d EXTRA_S_TEST_SUITE \<longrightarrow> last (secure_suites d) = register_testsuite_extra_s_interface"
    "d EXTRA_BL1_1_TEST_SUITE \<longrightarrow> last (bl1_1_suites d) = register_testsuite_extra_bl1_1"
    "d EXTRA_BL1_2_TEST_SUITE \<longrightarrow> last (bl1_2_suites d) = register_testsuite_extra_bl1_2"
    unfolding non_secure_suites_def secure_suites_def bl1_1_suites_def bl1_2_suites_def
    by (simp_all add: ifdef_def)
  moreover have "non_secure_suites (\<lambda>_. False) = []" "secure_suites (\<lambda>_. False) = []"
    by (simp_all add: non_secure_suites_def secure_suites_def ifdef_def)
  ultimately show ?thesis by blast
qed

end
