(* ===== verification/Nsid_Tests.thy ===== *)
theory Nsid_Tests
  imports Tz_Shim Test_Framework
begin

text \<open>
  The NSID test suite, \<^verbatim>\<open>nsid_testsuite.c\<close> and \<^verbatim>\<open>nsid_svc_handler.c\<close> under
  \<^verbatim>\<open>src/tests_reg/test/secure_fw/suites/nsid/non_secure\<close>.

  The tests drive the secure client extension (the record \<open>nsce_api\<close> of \<open>Tz_Shim\<close>) through
  supervisor calls, from inside a thread that itself holds a loaded context; the last test calls
  it in thread mode, which is a second record of the same type. The world of a test is the state
  of the shim with the two counters of the test file.

  The contract of the extension is the small reference machine \<open>ref_*\<close> over the number of
  acquired contexts and the loaded token, and \<open>nsce_conforms\<close> says that an extension refines
  it. The theorems: every test of the suite passes on every conforming extension and leaves the
  thread's own context loaded, so that the whole suite passes; and where the tests overwrite
  a failure that was already recorded.
\<close>

section \<open>Constants and state\<close>

definition MAKE_NS_CLIENT_TOKEN :: "u32 \<Rightarrow> u32 \<Rightarrow> u32 \<Rightarrow> u32" where
  "MAKE_NS_CLIENT_TOKEN tid gid idx =
     and (or (or (and tid 0xff) (push_bit 8 (and gid 0xff))) (push_bit 16 (and idx 0xff))) 0x00ffffff"

definition VALID_INDEX :: u32 where "VALID_INDEX = 0x00"
definition VALID_GROUP_ID :: u8 where "VALID_GROUP_ID = 0x00"
definition VALID_THREAD_ID_MIN :: u8 where "VALID_THREAD_ID_MIN = 0x00"
definition VALID_THREAD_ID_MAX :: u8 where "VALID_THREAD_ID_MAX = 0xFF"
definition VALID_NSID_MAX :: i32 where "VALID_NSID_MAX = - 1"
definition VALID_NSID_MIN :: i32 where "VALID_NSID_MIN = 0x80000000"
definition INVALID_INDEX :: u32 where "INVALID_INDEX = 0x01"
definition INVALID_GROUP_ID :: u8 where "INVALID_GROUP_ID = 0x01"
definition INVALID_RESERVED_TOKEN_BIT :: u32 where "INVALID_RESERVED_TOKEN_BIT = 0x10000000"
definition TFM_NS_CONTEXT_MAX :: u32 where "TFM_NS_CONTEXT_MAX = 1"

record 's nsid_world =
  shim :: "'s tz_state"
  thread_id :: u8
  nsid_value :: i32

definition nsid_boot :: "'s tz_state \<Rightarrow> 's nsid_world" where
  "nsid_boot st = \<lparr>shim = st, thread_id = 0x20, nsid_value = - 500\<rparr>"

section \<open>Supervisor calls\<close>

datatype svc_entry =
    User_Svc_Count nat
  | Entry_init | Entry_acquire_ctx | Entry_release_ctx | Entry_load_ctx | Entry_save_ctx

definition SVC_NS_CLIENT_EXT_INIT :: nat where "SVC_NS_CLIENT_EXT_INIT = 1"
definition SVC_NS_CLIENT_ACQUIRE_CTX :: nat where "SVC_NS_CLIENT_ACQUIRE_CTX = 2"
definition SVC_NS_CLIENT_RELEASE_CTX :: nat where "SVC_NS_CLIENT_RELEASE_CTX = 3"
definition SVC_NS_CLIENT_LOAD_CTX :: nat where "SVC_NS_CLIENT_LOAD_CTX = 4"
definition SVC_NS_CLIENT_SAVE_CTX :: nat where "SVC_NS_CLIENT_SAVE_CTX = 5"
definition SVC_TFM_MAX :: nat where "SVC_TFM_MAX = 6"
definition USER_SVC_COUNT :: nat where "USER_SVC_COUNT = SVC_TFM_MAX - 1"

definition osRtxUserSVC :: "svc_entry list" where
  "osRtxUserSVC = [User_Svc_Count USER_SVC_COUNT, Entry_init, Entry_acquire_ctx, Entry_release_ctx,
     Entry_load_ctx, Entry_save_ctx]"

definition on_nsce :: "('s \<Rightarrow> u32 \<times> 's) \<Rightarrow> ('s nsid_world env, u32) state" where
  "on_nsce f = lift_call (\<lambda>e. nsce (shim (world e)))
     (\<lambda>s e. e\<lparr>world := (world e)\<lparr>shim := (shim (world e))\<lparr>nsce := s\<rparr>\<rparr>\<rparr>) f"

text \<open>
  A supervisor call with number \<open>n\<close> enters handler mode and calls the entry \<open>n\<close> of the table
  with the registers of the caller.
\<close>

definition SVC :: "'s nsce_api \<Rightarrow> nat \<Rightarrow> u32 \<Rightarrow> u32 \<Rightarrow> ('s nsid_world env, u32) state" where
  "SVC api n r0 r1 =
     (case osRtxUserSVC ! n of
        User_Svc_Count _ \<Rightarrow> return r0
      | Entry_init \<Rightarrow> on_nsce (tfm_nsce_init api r0)
      | Entry_acquire_ctx \<Rightarrow> on_nsce (tfm_nsce_acquire_ctx api (ucast r0) (ucast r1))
      | Entry_release_ctx \<Rightarrow> on_nsce (tfm_nsce_release_ctx api r0)
      | Entry_load_ctx \<Rightarrow> on_nsce (tfm_nsce_load_ctx api r0 r1)
      | Entry_save_ctx \<Rightarrow> on_nsce (tfm_nsce_save_ctx api r0))"

definition nsid_ext_init_svc :: "'s nsce_api \<Rightarrow> u32 \<Rightarrow> ('s nsid_world env, u32) state" where
  "nsid_ext_init_svc api ctx_requested = SVC api SVC_NS_CLIENT_EXT_INIT ctx_requested 0"

definition nsid_acquire_ctx_svc :: "'s nsce_api \<Rightarrow> u8 \<Rightarrow> u8 \<Rightarrow> ('s nsid_world env, u32) state" where
  "nsid_acquire_ctx_svc api group_id tid =
     SVC api SVC_NS_CLIENT_ACQUIRE_CTX (ucast group_id) (ucast tid)"

definition nsid_release_ctx_svc :: "'s nsce_api \<Rightarrow> u32 \<Rightarrow> ('s nsid_world env, u32) state" where
  "nsid_release_ctx_svc api tok = SVC api SVC_NS_CLIENT_RELEASE_CTX tok 0"

definition nsid_load_ctx_svc :: "'s nsce_api \<Rightarrow> u32 \<Rightarrow> i32 \<Rightarrow> ('s nsid_world env, u32) state" where
  "nsid_load_ctx_svc api tok n = SVC api SVC_NS_CLIENT_LOAD_CTX tok n"

definition nsid_save_ctx_svc :: "'s nsce_api \<Rightarrow> u32 \<Rightarrow> ('s nsid_world env, u32) state" where
  "nsid_save_ctx_svc api tok = SVC api SVC_NS_CLIENT_SAVE_CTX tok 0"

text \<open>A direct call of the extension, in thread mode.\<close>

definition thread_call :: "('s \<Rightarrow> u32 \<times> 's) \<Rightarrow> ('s nsid_world env, u32) state" where
  "thread_call f = on_nsce f"

section \<open>The test cases\<close>

definition nsid_file :: string where "nsid_file = ''nsid_testsuite.c''"

definition nsid_test_case_init :: "'s nsce_api \<Rightarrow> 's nsid_world test_fun" where
  "nsid_test_case_init api ret = do {
     tok \<leftarrow> gets (\<lambda>e. current_active_token (shim (world e)));
     r \<leftarrow> nsid_save_ctx_svc api tok;
     let ret = (if r \<noteq> TFM_NS_CLIENT_ERR_SUCCESS api
                then TEST_FAIL nsid_file 49 (''SAVE fail when saving test thread ctx'' @ CRLF) ret
                else ret);
     modify (\<lambda>e. e\<lparr>world := (world e)\<lparr>nsid_value := nsid_value (world e) - 1,
                                       thread_id := thread_id (world e) + 1\<rparr>\<rparr>);
     return ret
   }"

definition nsid_test_case_finish :: "'s nsce_api \<Rightarrow> 's nsid_world test_fun" where
  "nsid_test_case_finish api ret = do {
     tok \<leftarrow> gets (\<lambda>e. current_active_token (shim (world e)));
     n \<leftarrow> gets (\<lambda>e. nsid_mgr_query_nsid (TFM_NS_CLIENT_INVALID_TOKEN api) tok
                      (token_table (shim (world e))));
     r \<leftarrow> nsid_load_ctx_svc api tok n;
     return (if r \<noteq> TFM_NS_CLIENT_ERR_SUCCESS api
             then TEST_FAIL nsid_file 67 (''LOAD fail when re-loading test thread ctx'' @ CRLF) ret
             else ret)
   }"

text \<open>
  The body of a failed check, \<open>TEST_FAIL(msg); nsid_test_case_finish(ret); return;\<close>, with the line
  it stands on.
\<close>

definition nsid_fail :: "'s nsce_api \<Rightarrow> u32 \<Rightarrow> string \<Rightarrow> 's nsid_world test_fun" where
  "nsid_fail api ln msg ret = nsid_test_case_finish api (TEST_FAIL nsid_file ln msg ret)"

definition tfm_nsid_test_case_1 :: "'s nsce_api \<Rightarrow> 's nsid_world test_fun" where
  "tfm_nsid_test_case_1 api ret = do {
     ret \<leftarrow> nsid_test_case_init api ret;
     r \<leftarrow> nsid_ext_init_svc api 0;
     if r \<noteq> TFM_NS_CONTEXT_MAX
     then nsid_fail api 78 (''INITIALIZE shall return TFM_NS_CONTEXT_MAX'' @ CRLF) ret
     else do {
     r \<leftarrow> nsid_ext_init_svc api 1;
     if r \<noteq> 1
     then nsid_fail api 84 (''INITIALIZE shall return 1'' @ CRLF) ret
     else do {
     r \<leftarrow> nsid_ext_init_svc api (TFM_NS_CONTEXT_MAX + 1);
     if r \<noteq> TFM_NS_CONTEXT_MAX
     then nsid_fail api 90 (''INITIALIZE shall return TFM_NS_CONTEXT_MAX'' @ CRLF) ret
     else do {
     nsid_test_case_finish api (ret\<lparr>val := TEST_PASSED\<rparr>)
   }}}}"

definition tfm_nsid_test_case_2 :: "'s nsce_api \<Rightarrow> 's nsid_world test_fun" where
  "tfm_nsid_test_case_2 api ret = do {
     ret \<leftarrow> nsid_test_case_init api ret;
     tid \<leftarrow> gets (thread_id \<circ> world);
     n \<leftarrow> gets (nsid_value \<circ> world);
     token \<leftarrow> nsid_acquire_ctx_svc api VALID_GROUP_ID tid;
     if token \<noteq> (MAKE_NS_CLIENT_TOKEN (ucast tid) (ucast VALID_GROUP_ID) VALID_INDEX)
     then nsid_fail api 110 (''ACQUIRE shall return a valid token'' @ CRLF) ret
     else do {
     r \<leftarrow> nsid_load_ctx_svc api token n;
     if r \<noteq> (TFM_NS_CLIENT_ERR_SUCCESS api)
     then nsid_fail api 116 (''LOAD shall success with valid token value'' @ CRLF) ret
     else do {
     r \<leftarrow> nsid_save_ctx_svc api token;
     if r \<noteq> (TFM_NS_CLIENT_ERR_SUCCESS api)
     then nsid_fail api 122 (''SAVE shall success with valid token value'' @ CRLF) ret
     else do {
     r \<leftarrow> nsid_release_ctx_svc api token;
     if r \<noteq> (TFM_NS_CLIENT_ERR_SUCCESS api)
     then nsid_fail api 128 (''RELEASE shall success with valid token value'' @ CRLF) ret
     else do {
     nsid_test_case_finish api (ret\<lparr>val := TEST_PASSED\<rparr>)
   }}}}}"

definition tfm_nsid_test_case_3 :: "'s nsce_api \<Rightarrow> 's nsid_world test_fun" where
  "tfm_nsid_test_case_3 api ret = do {
     ret \<leftarrow> nsid_test_case_init api ret;
     tid \<leftarrow> gets (thread_id \<circ> world);
     token \<leftarrow> nsid_acquire_ctx_svc api VALID_GROUP_ID tid;
     if token \<noteq> (MAKE_NS_CLIENT_TOKEN (ucast tid) (ucast VALID_GROUP_ID) VALID_INDEX)
     then nsid_fail api 148 (''ACQUIRE shall return a valid token'' @ CRLF) ret
     else do {
     r \<leftarrow> nsid_release_ctx_svc api token;
     if r \<noteq> (TFM_NS_CLIENT_ERR_SUCCESS api)
     then nsid_fail api 154 (''RELEASE shall success with valid token value'' @ CRLF) ret
     else do {
     nsid_test_case_finish api (ret\<lparr>val := TEST_PASSED\<rparr>)
   }}}"

definition tfm_nsid_test_case_4 :: "'s nsce_api \<Rightarrow> 's nsid_world test_fun" where
  "tfm_nsid_test_case_4 api ret = do {
     ret \<leftarrow> nsid_test_case_init api ret;
     tid \<leftarrow> gets (thread_id \<circ> world);
     n \<leftarrow> gets (nsid_value \<circ> world);
     token \<leftarrow> nsid_acquire_ctx_svc api VALID_GROUP_ID tid;
     if token \<noteq> (MAKE_NS_CLIENT_TOKEN (ucast tid) (ucast VALID_GROUP_ID) VALID_INDEX)
     then nsid_fail api 174 (''ACQUIRE shall return a valid token'' @ CRLF) ret
     else do {
     r \<leftarrow> nsid_load_ctx_svc api token n;
     if r \<noteq> (TFM_NS_CLIENT_ERR_SUCCESS api)
     then nsid_fail api 180 (''LOAD shall success with valid token value'' @ CRLF) ret
     else do {
     r \<leftarrow> nsid_release_ctx_svc api token;
     if r \<noteq> (TFM_NS_CLIENT_ERR_SUCCESS api)
     then nsid_fail api 186 (''RELEASE shall success with valid token value'' @ CRLF) ret
     else do {
     nsid_test_case_finish api (ret\<lparr>val := TEST_PASSED\<rparr>)
   }}}}"

definition tfm_nsid_test_case_5 :: "'s nsce_api \<Rightarrow> 's nsid_world test_fun" where
  "tfm_nsid_test_case_5 api ret = do {
     ret \<leftarrow> nsid_test_case_init api ret;
     tid \<leftarrow> gets (thread_id \<circ> world);
     n \<leftarrow> gets (nsid_value \<circ> world);
     token_a \<leftarrow> nsid_acquire_ctx_svc api VALID_GROUP_ID tid;
     token_b \<leftarrow> nsid_acquire_ctx_svc api VALID_GROUP_ID (tid + 1);
     if token_a \<noteq> (MAKE_NS_CLIENT_TOKEN (ucast tid) (ucast VALID_GROUP_ID) VALID_INDEX) \<or> token_b \<noteq> (MAKE_NS_CLIENT_TOKEN (ucast tid + 1) (ucast VALID_GROUP_ID) VALID_INDEX)
     then nsid_fail api 209 (''ACQUIRE shall return a valid token'' @ CRLF) ret
     else do {
     r \<leftarrow> nsid_load_ctx_svc api token_a n;
     if r \<noteq> (TFM_NS_CLIENT_ERR_SUCCESS api)
     then nsid_fail api 215 (''LOAD shall success with valid token value'' @ CRLF) ret
     else do {
     r \<leftarrow> nsid_save_ctx_svc api token_a;
     if r \<noteq> (TFM_NS_CLIENT_ERR_SUCCESS api)
     then nsid_fail api 221 (''SAVE shall success with valid token value'' @ CRLF) ret
     else do {
     r \<leftarrow> nsid_load_ctx_svc api token_b n;
     if r \<noteq> (TFM_NS_CLIENT_ERR_SUCCESS api)
     then nsid_fail api 227 (''LOAD shall success with valid token value'' @ CRLF) ret
     else do {
     r \<leftarrow> nsid_save_ctx_svc api token_b;
     if r \<noteq> (TFM_NS_CLIENT_ERR_SUCCESS api)
     then nsid_fail api 233 (''SAVE shall success with valid token value'' @ CRLF) ret
     else do {
     r \<leftarrow> nsid_release_ctx_svc api token_a;
     if r \<noteq> (TFM_NS_CLIENT_ERR_SUCCESS api)
     then nsid_fail api 239 (''RELEASE shall success with valid token value'' @ CRLF) ret
     else do {
     r \<leftarrow> nsid_release_ctx_svc api token_b;
     if r \<noteq> (TFM_NS_CLIENT_ERR_SUCCESS api)
     then nsid_fail api 245 (''RELEASE shall success with valid token value'' @ CRLF) ret
     else do {
     nsid_test_case_finish api (ret\<lparr>val := TEST_PASSED\<rparr>)
   }}}}}}}}"

definition tfm_nsid_test_case_6 :: "'s nsce_api \<Rightarrow> 's nsid_world test_fun" where
  "tfm_nsid_test_case_6 api ret = do {
     ret \<leftarrow> nsid_test_case_init api ret;
     tid \<leftarrow> gets (thread_id \<circ> world);
     n \<leftarrow> gets (nsid_value \<circ> world);
     token_a \<leftarrow> nsid_acquire_ctx_svc api VALID_GROUP_ID tid;
     token_b \<leftarrow> nsid_acquire_ctx_svc api VALID_GROUP_ID (tid + 1);
     if token_a \<noteq> (MAKE_NS_CLIENT_TOKEN (ucast tid) (ucast VALID_GROUP_ID) VALID_INDEX) \<or> token_b \<noteq> (MAKE_NS_CLIENT_TOKEN (ucast tid + 1) (ucast VALID_GROUP_ID) VALID_INDEX)
     then nsid_fail api 268 (''ACQUIRE shall return a valid token'' @ CRLF) ret
     else do {
     r \<leftarrow> nsid_load_ctx_svc api token_a n;
     if r \<noteq> (TFM_NS_CLIENT_ERR_SUCCESS api)
     then nsid_fail api 274 (''LOAD shall success with valid token value'' @ CRLF) ret
     else do {
     r \<leftarrow> nsid_release_ctx_svc api token_b;
     if r \<noteq> (TFM_NS_CLIENT_ERR_SUCCESS api)
     then nsid_fail api 280 (''RELEASE shall success with valid token value'' @ CRLF) ret
     else do {
     r \<leftarrow> nsid_release_ctx_svc api token_a;
     if r \<noteq> (TFM_NS_CLIENT_ERR_SUCCESS api)
     then nsid_fail api 286 (''RELEASE shall success with valid token value'' @ CRLF) ret
     else do {
     nsid_test_case_finish api (ret\<lparr>val := TEST_PASSED\<rparr>)
   }}}}}"

definition tfm_nsid_test_case_7 :: "'s nsce_api \<Rightarrow> 's nsid_world test_fun" where
  "tfm_nsid_test_case_7 api ret = do {
     ret \<leftarrow> nsid_test_case_init api ret;
     tid \<leftarrow> gets (thread_id \<circ> world);
     token \<leftarrow> nsid_acquire_ctx_svc api VALID_GROUP_ID tid;
     if token \<noteq> (MAKE_NS_CLIENT_TOKEN (ucast tid) (ucast VALID_GROUP_ID) VALID_INDEX)
     then nsid_fail api 306 (''ACQUIRE shall return a valid token'' @ CRLF) ret
     else do {
     r \<leftarrow> nsid_load_ctx_svc api token VALID_NSID_MAX;
     if r \<noteq> (TFM_NS_CLIENT_ERR_SUCCESS api)
     then nsid_fail api 313 (''LOAD shall success with valid token value'' @ CRLF) ret
     else do {
     r \<leftarrow> nsid_save_ctx_svc api token;
     if r \<noteq> (TFM_NS_CLIENT_ERR_SUCCESS api)
     then nsid_fail api 319 (''SAVE shall success with valid token value'' @ CRLF) ret
     else do {
     r \<leftarrow> nsid_release_ctx_svc api token;
     if r \<noteq> (TFM_NS_CLIENT_ERR_SUCCESS api)
     then nsid_fail api 325 (''RELEASE shall success with valid token value'' @ CRLF) ret
     else do {
     nsid_test_case_finish api (ret\<lparr>val := TEST_PASSED\<rparr>)
   }}}}}"

definition tfm_nsid_test_case_8 :: "'s nsce_api \<Rightarrow> 's nsid_world test_fun" where
  "tfm_nsid_test_case_8 api ret = do {
     ret \<leftarrow> nsid_test_case_init api ret;
     tid \<leftarrow> gets (thread_id \<circ> world);
     token \<leftarrow> nsid_acquire_ctx_svc api VALID_GROUP_ID tid;
     if token \<noteq> (MAKE_NS_CLIENT_TOKEN (ucast tid) (ucast VALID_GROUP_ID) VALID_INDEX)
     then nsid_fail api 345 (''ACQUIRE shall return a valid token'' @ CRLF) ret
     else do {
     r \<leftarrow> nsid_load_ctx_svc api token VALID_NSID_MIN;
     if r \<noteq> (TFM_NS_CLIENT_ERR_SUCCESS api)
     then nsid_fail api 352 (''LOAD shall success with valid token value'' @ CRLF) ret
     else do {
     r \<leftarrow> nsid_save_ctx_svc api token;
     if r \<noteq> (TFM_NS_CLIENT_ERR_SUCCESS api)
     then nsid_fail api 358 (''SAVE shall success with valid token value'' @ CRLF) ret
     else do {
     r \<leftarrow> nsid_release_ctx_svc api token;
     if r \<noteq> (TFM_NS_CLIENT_ERR_SUCCESS api)
     then nsid_fail api 364 (''RELEASE shall success with valid token value'' @ CRLF) ret
     else do {
     nsid_test_case_finish api (ret\<lparr>val := TEST_PASSED\<rparr>)
   }}}}}"

definition tfm_nsid_test_case_9 :: "'s nsce_api \<Rightarrow> 's nsid_world test_fun" where
  "tfm_nsid_test_case_9 api ret = do {
     ret \<leftarrow> nsid_test_case_init api ret;
     n \<leftarrow> gets (nsid_value \<circ> world);
     token \<leftarrow> nsid_acquire_ctx_svc api VALID_GROUP_ID VALID_THREAD_ID_MIN;
     if token \<noteq> (MAKE_NS_CLIENT_TOKEN 0x00 (ucast VALID_GROUP_ID) VALID_INDEX)
     then nsid_fail api 384 (''ACQUIRE shall return a valid token'' @ CRLF) ret
     else do {
     r \<leftarrow> nsid_load_ctx_svc api token n;
     if r \<noteq> (TFM_NS_CLIENT_ERR_SUCCESS api)
     then nsid_fail api 390 (''LOAD shall success with valid token value'' @ CRLF) ret
     else do {
     r \<leftarrow> nsid_save_ctx_svc api token;
     if r \<noteq> (TFM_NS_CLIENT_ERR_SUCCESS api)
     then nsid_fail api 396 (''SAVE shall success with valid token value'' @ CRLF) ret
     else do {
     r \<leftarrow> nsid_release_ctx_svc api token;
     if r \<noteq> (TFM_NS_CLIENT_ERR_SUCCESS api)
     then nsid_fail api 402 (''RELEASE shall success with valid token value'' @ CRLF) ret
     else do {
     nsid_test_case_finish api (ret\<lparr>val := TEST_PASSED\<rparr>)
   }}}}}"

definition tfm_nsid_test_case_10 :: "'s nsce_api \<Rightarrow> 's nsid_world test_fun" where
  "tfm_nsid_test_case_10 api ret = do {
     ret \<leftarrow> nsid_test_case_init api ret;
     n \<leftarrow> gets (nsid_value \<circ> world);
     token \<leftarrow> nsid_acquire_ctx_svc api VALID_GROUP_ID VALID_THREAD_ID_MAX;
     if token \<noteq> (MAKE_NS_CLIENT_TOKEN 0xFF (ucast VALID_GROUP_ID) VALID_INDEX)
     then nsid_fail api 422 (''ACQUIRE shall return a valid token'' @ CRLF) ret
     else do {
     r \<leftarrow> nsid_load_ctx_svc api token n;
     if r \<noteq> (TFM_NS_CLIENT_ERR_SUCCESS api)
     then nsid_fail api 428 (''LOAD shall success with valid token value'' @ CRLF) ret
     else do {
     r \<leftarrow> nsid_save_ctx_svc api token;
     if r \<noteq> (TFM_NS_CLIENT_ERR_SUCCESS api)
     then nsid_fail api 434 (''SAVE shall success with valid token value'' @ CRLF) ret
     else do {
     r \<leftarrow> nsid_release_ctx_svc api token;
     if r \<noteq> (TFM_NS_CLIENT_ERR_SUCCESS api)
     then nsid_fail api 440 (''RELEASE shall success with valid token value'' @ CRLF) ret
     else do {
     nsid_test_case_finish api (ret\<lparr>val := TEST_PASSED\<rparr>)
   }}}}}"

definition tfm_nsid_test_case_11 :: "'s nsce_api \<Rightarrow> 's nsid_world test_fun" where
  "tfm_nsid_test_case_11 api ret = do {
     ret \<leftarrow> nsid_test_case_init api ret;
     tid \<leftarrow> gets (thread_id \<circ> world);
     n \<leftarrow> gets (nsid_value \<circ> world);
     token_a \<leftarrow> nsid_acquire_ctx_svc api VALID_GROUP_ID tid;
     token_b \<leftarrow> nsid_acquire_ctx_svc api VALID_GROUP_ID (tid + 1);
     if token_a \<noteq> (MAKE_NS_CLIENT_TOKEN (ucast tid) (ucast VALID_GROUP_ID) VALID_INDEX) \<or> token_b \<noteq> (MAKE_NS_CLIENT_TOKEN (ucast tid + 1) (ucast VALID_GROUP_ID) VALID_INDEX)
     then nsid_fail api 463 (''ACQUIRE shall return a valid token'' @ CRLF) ret
     else do {
     r \<leftarrow> nsid_load_ctx_svc api token_a n;
     if r \<noteq> (TFM_NS_CLIENT_ERR_SUCCESS api)
     then nsid_fail api 469 (''LOAD shall success with valid token value'' @ CRLF) ret
     else do {
     r \<leftarrow> nsid_load_ctx_svc api token_b n;
     if r \<noteq> (TFM_NS_CLIENT_ERR_SUCCESS api)
     then nsid_fail api 475 (''LOAD shall success with valid token value'' @ CRLF) ret
     else do {
     r \<leftarrow> nsid_release_ctx_svc api token_a;
     if r \<noteq> (TFM_NS_CLIENT_ERR_SUCCESS api)
     then nsid_fail api 481 (''RELEASE shall success with valid token value'' @ CRLF) ret
     else do {
     r \<leftarrow> nsid_release_ctx_svc api token_b;
     if r \<noteq> (TFM_NS_CLIENT_ERR_SUCCESS api)
     then nsid_fail api 487 (''RELEASE shall success with valid token value'' @ CRLF) ret
     else do {
     nsid_test_case_finish api (ret\<lparr>val := TEST_PASSED\<rparr>)
   }}}}}}"

definition tfm_nsid_test_case_12 :: "'s nsce_api \<Rightarrow> 's nsid_world test_fun" where
  "tfm_nsid_test_case_12 api ret = do {
     ret \<leftarrow> nsid_test_case_init api ret;
     modify (\<lambda>e. e\<lparr>world := (world e)\<lparr>thread_id := thread_id (world e) + 1\<rparr>\<rparr>);
     tid \<leftarrow> gets (thread_id \<circ> world);
     token \<leftarrow> nsid_acquire_ctx_svc api VALID_GROUP_ID tid;
     if token \<noteq> (MAKE_NS_CLIENT_TOKEN (ucast tid) (ucast VALID_GROUP_ID) VALID_INDEX)
     then nsid_fail api 509 (''ACQUIRE shall return a valid token'' @ CRLF) ret
     else do {
     r \<leftarrow> nsid_load_ctx_svc api token 0;
     if r \<noteq> (TFM_NS_CLIENT_ERR_INVALID_NSID api)
     then nsid_fail api 515 (''LOAD shall fail with non-negative NSID'' @ CRLF) ret
     else do {
     r \<leftarrow> nsid_load_ctx_svc api token 1;
     if r \<noteq> (TFM_NS_CLIENT_ERR_INVALID_NSID api)
     then nsid_fail api 521 (''LOAD shall fail with non-negative NSID'' @ CRLF) ret
     else do {
     r \<leftarrow> nsid_load_ctx_svc api token 50;
     if r \<noteq> (TFM_NS_CLIENT_ERR_INVALID_NSID api)
     then nsid_fail api 527 (''LOAD shall fail with non-negative NSID'' @ CRLF) ret
     else do {
     r \<leftarrow> nsid_release_ctx_svc api token;
     if r \<noteq> (TFM_NS_CLIENT_ERR_SUCCESS api)
     then nsid_fail api 533 (''RELEASE shall success with valid token value'' @ CRLF) ret
     else do {
     ret \<leftarrow> nsid_test_case_finish api ret;
     return (ret\<lparr>val := TEST_PASSED\<rparr>)
   }}}}}}"

definition tfm_nsid_test_case_13 :: "'s nsce_api \<Rightarrow> 's nsid_world test_fun" where
  "tfm_nsid_test_case_13 api ret = do {
     ret \<leftarrow> nsid_test_case_init api ret;
     tid \<leftarrow> gets (thread_id \<circ> world);
     n \<leftarrow> gets (nsid_value \<circ> world);
     token \<leftarrow> nsid_acquire_ctx_svc api VALID_GROUP_ID tid;
     if token \<noteq> (MAKE_NS_CLIENT_TOKEN (ucast tid) (ucast VALID_GROUP_ID) VALID_INDEX)
     then nsid_fail api 553 (''ACQUIRE shall return a valid token'' @ CRLF) ret
     else do {
     r \<leftarrow> nsid_load_ctx_svc api (TFM_NS_CLIENT_INVALID_TOKEN api) n;
     if r \<noteq> (TFM_NS_CLIENT_ERR_INVALID_TOKEN api)
     then nsid_fail api 560 (''LOAD shall fail with invalid token'' @ CRLF) ret
     else do {
     r \<leftarrow> nsid_release_ctx_svc api token;
     if r \<noteq> (TFM_NS_CLIENT_ERR_SUCCESS api)
     then nsid_fail api 566 (''RELEASE shall success with valid token value'' @ CRLF) ret
     else do {
     nsid_test_case_finish api (ret\<lparr>val := TEST_PASSED\<rparr>)
   }}}}"

definition tfm_nsid_test_case_14 :: "'s nsce_api \<Rightarrow> 's nsid_world test_fun" where
  "tfm_nsid_test_case_14 api ret = do {
     ret \<leftarrow> nsid_test_case_init api ret;
     tid \<leftarrow> gets (thread_id \<circ> world);
     n \<leftarrow> gets (nsid_value \<circ> world);
     token \<leftarrow> nsid_acquire_ctx_svc api VALID_GROUP_ID tid;
     if token \<noteq> (MAKE_NS_CLIENT_TOKEN (ucast tid) (ucast VALID_GROUP_ID) VALID_INDEX)
     then nsid_fail api 586 (''ACQUIRE shall return a valid token'' @ CRLF) ret
     else do {
     r \<leftarrow> nsid_load_ctx_svc api token n;
     if r \<noteq> (TFM_NS_CLIENT_ERR_SUCCESS api)
     then nsid_fail api 592 (''LOAD shall pass with valid token'' @ CRLF) ret
     else do {
     r \<leftarrow> nsid_save_ctx_svc api (TFM_NS_CLIENT_INVALID_TOKEN api);
     if r \<noteq> (TFM_NS_CLIENT_ERR_INVALID_TOKEN api)
     then nsid_fail api 599 (''SAVE shall fail with invalid token'' @ CRLF) ret
     else do {
     r \<leftarrow> nsid_release_ctx_svc api token;
     if r \<noteq> (TFM_NS_CLIENT_ERR_SUCCESS api)
     then nsid_fail api 605 (''RELEASE shall success with valid token value'' @ CRLF) ret
     else do {
     nsid_test_case_finish api (ret\<lparr>val := TEST_PASSED\<rparr>)
   }}}}}"

definition tfm_nsid_test_case_15 :: "'s nsce_api \<Rightarrow> 's nsid_world test_fun" where
  "tfm_nsid_test_case_15 api ret = do {
     ret \<leftarrow> nsid_test_case_init api ret;
     tid \<leftarrow> gets (thread_id \<circ> world);
     token \<leftarrow> nsid_acquire_ctx_svc api VALID_GROUP_ID tid;
     if token \<noteq> (MAKE_NS_CLIENT_TOKEN (ucast tid) (ucast VALID_GROUP_ID) VALID_INDEX)
     then nsid_fail api 625 (''ACQUIRE shall return a valid token'' @ CRLF) ret
     else do {
     r \<leftarrow> nsid_release_ctx_svc api (TFM_NS_CLIENT_INVALID_TOKEN api);
     if r \<noteq> (TFM_NS_CLIENT_ERR_INVALID_TOKEN api)
     then nsid_fail api 632 (''RELEASE shall fail with invalid token'' @ CRLF) ret
     else do {
     r \<leftarrow> nsid_release_ctx_svc api token;
     if r \<noteq> (TFM_NS_CLIENT_ERR_SUCCESS api)
     then nsid_fail api 638 (''RELEASE shall success with valid token value'' @ CRLF) ret
     else do {
     nsid_test_case_finish api (ret\<lparr>val := TEST_PASSED\<rparr>)
   }}}}"

definition tfm_nsid_test_case_16 :: "'s nsce_api \<Rightarrow> 's nsid_world test_fun" where
  "tfm_nsid_test_case_16 api ret = do {
     ret \<leftarrow> nsid_test_case_init api ret;
     r \<leftarrow> nsid_acquire_ctx_svc api 0x01 INVALID_GROUP_ID;
     if r \<noteq> (TFM_NS_CLIENT_INVALID_TOKEN api)
     then nsid_fail api 655 (''ACQUIRE shall fail with invalid GID'' @ CRLF) ret
     else do {
     r \<leftarrow> nsid_acquire_ctx_svc api 0x50 INVALID_GROUP_ID;
     if r \<noteq> (TFM_NS_CLIENT_INVALID_TOKEN api)
     then nsid_fail api 662 (''ACQUIRE shall fail with invalid GID'' @ CRLF) ret
     else do {
     r \<leftarrow> nsid_acquire_ctx_svc api 0xFF INVALID_GROUP_ID;
     if r \<noteq> (TFM_NS_CLIENT_INVALID_TOKEN api)
     then nsid_fail api 669 (''ACQUIRE shall fail with invalid GID'' @ CRLF) ret
     else do {
     nsid_test_case_finish api (ret\<lparr>val := TEST_PASSED\<rparr>)
   }}}}"

definition tfm_nsid_test_case_17 :: "'s nsce_api \<Rightarrow> 's nsid_world test_fun" where
  "tfm_nsid_test_case_17 api ret = do {
     ret \<leftarrow> nsid_test_case_init api ret;
     tid \<leftarrow> gets (thread_id \<circ> world);
     n \<leftarrow> gets (nsid_value \<circ> world);
     token \<leftarrow> nsid_acquire_ctx_svc api VALID_GROUP_ID tid;
     if token \<noteq> (MAKE_NS_CLIENT_TOKEN (ucast tid) (ucast VALID_GROUP_ID) VALID_INDEX)
     then nsid_fail api 689 (''ACQUIRE shall return a valid token'' @ CRLF) ret
     else do {
     r \<leftarrow> nsid_load_ctx_svc api (MAKE_NS_CLIENT_TOKEN (ucast tid) (ucast INVALID_GROUP_ID) VALID_INDEX) n;
     if r \<noteq> (TFM_NS_CLIENT_ERR_INVALID_TOKEN api)
     then nsid_fail api 698 (''LOAD shall fail with token with wrong GID'' @ CRLF) ret
     else do {
     r \<leftarrow> nsid_load_ctx_svc api (MAKE_NS_CLIENT_TOKEN (ucast tid) (ucast VALID_GROUP_ID) INVALID_INDEX) n;
     if r \<noteq> (TFM_NS_CLIENT_ERR_INVALID_TOKEN api)
     then nsid_fail api 707 (''LOAD shall fail with token with wrong index'' @ CRLF) ret
     else do {
     r \<leftarrow> nsid_load_ctx_svc api (or (MAKE_NS_CLIENT_TOKEN (ucast tid) (ucast VALID_GROUP_ID) VALID_INDEX) INVALID_RESERVED_TOKEN_BIT) n;
     if r \<noteq> (TFM_NS_CLIENT_ERR_INVALID_TOKEN api)
     then nsid_fail api 717 (''LOAD shall fail with token with wrong reserved bits'' @ CRLF) ret
     else do {
     r \<leftarrow> nsid_load_ctx_svc api token n;
     if r \<noteq> (TFM_NS_CLIENT_ERR_SUCCESS api)
     then nsid_fail api 723 (''LOAD shall pass with valid token'' @ CRLF) ret
     else do {
     r \<leftarrow> nsid_save_ctx_svc api (MAKE_NS_CLIENT_TOKEN 0xF0 (ucast VALID_GROUP_ID) VALID_INDEX);
     if r \<noteq> (TFM_NS_CLIENT_ERR_INVALID_TOKEN api)
     then nsid_fail api 732 (''SAVE shall fail with token with wrong TID'' @ CRLF) ret
     else do {
     r \<leftarrow> nsid_save_ctx_svc api (MAKE_NS_CLIENT_TOKEN (ucast tid) (ucast INVALID_GROUP_ID) VALID_INDEX);
     if r \<noteq> (TFM_NS_CLIENT_ERR_INVALID_TOKEN api)
     then nsid_fail api 741 (''SAVE shall fail with token with wrong GID'' @ CRLF) ret
     else do {
     r \<leftarrow> nsid_save_ctx_svc api (MAKE_NS_CLIENT_TOKEN (ucast tid) (ucast VALID_GROUP_ID) INVALID_INDEX);
     if r \<noteq> (TFM_NS_CLIENT_ERR_INVALID_TOKEN api)
     then nsid_fail api 750 (''SAVE shall fail with token with wrong index'' @ CRLF) ret
     else do {
     r \<leftarrow> nsid_save_ctx_svc api (or (MAKE_NS_CLIENT_TOKEN (ucast tid) (ucast VALID_GROUP_ID) VALID_INDEX) INVALID_RESERVED_TOKEN_BIT);
     if r \<noteq> (TFM_NS_CLIENT_ERR_INVALID_TOKEN api)
     then nsid_fail api 760 (''SAVE shall fail with token with wrong reserved bits'' @ CRLF) ret
     else do {
     r \<leftarrow> nsid_save_ctx_svc api token;
     if r \<noteq> (TFM_NS_CLIENT_ERR_SUCCESS api)
     then nsid_fail api 766 (''SAVE shall pass with valid token'' @ CRLF) ret
     else do {
     r \<leftarrow> nsid_release_ctx_svc api (MAKE_NS_CLIENT_TOKEN (ucast tid) (ucast INVALID_GROUP_ID) VALID_INDEX);
     if r \<noteq> (TFM_NS_CLIENT_ERR_INVALID_TOKEN api)
     then nsid_fail api 775 (''RELEASE shall fail with token with wrong GID'' @ CRLF) ret
     else do {
     r \<leftarrow> nsid_release_ctx_svc api (MAKE_NS_CLIENT_TOKEN (ucast tid) (ucast VALID_GROUP_ID) INVALID_INDEX);
     if r \<noteq> (TFM_NS_CLIENT_ERR_INVALID_TOKEN api)
     then nsid_fail api 784 (''RELEASE shall fail with token with wrong index'' @ CRLF) ret
     else do {
     r \<leftarrow> nsid_release_ctx_svc api (or (MAKE_NS_CLIENT_TOKEN (ucast tid) (ucast VALID_GROUP_ID) VALID_INDEX) INVALID_RESERVED_TOKEN_BIT);
     if r \<noteq> (TFM_NS_CLIENT_ERR_INVALID_TOKEN api)
     then nsid_fail api 794 (''RELEASE shall fail with token with wrong reserved bits'' @ CRLF) ret
     else do {
     r \<leftarrow> nsid_release_ctx_svc api token;
     if r \<noteq> (TFM_NS_CLIENT_ERR_SUCCESS api)
     then nsid_fail api 800 (''RELEASE shall success with valid token value'' @ CRLF) ret
     else do {
     nsid_test_case_finish api (ret\<lparr>val := TEST_PASSED\<rparr>)
   }}}}}}}}}}}}}}}"

definition tfm_nsid_test_case_18 :: "'s nsce_api \<Rightarrow> 's nsid_world test_fun" where
  "tfm_nsid_test_case_18 api ret = do {
     ret \<leftarrow> nsid_test_case_init api ret;
     tid \<leftarrow> gets (thread_id \<circ> world);
     token \<leftarrow> nsid_acquire_ctx_svc api VALID_GROUP_ID tid;
     if token \<noteq> (MAKE_NS_CLIENT_TOKEN (ucast tid) (ucast VALID_GROUP_ID) VALID_INDEX)
     then nsid_fail api 820 (''ACQUIRE shall return a valid token'' @ CRLF) ret
     else do {
     r \<leftarrow> nsid_save_ctx_svc api token;
     if r \<noteq> (TFM_NS_CLIENT_ERR_INVALID_TOKEN api)
     then nsid_fail api 826 (''SAVE shall fail when not loaded'' @ CRLF) ret
     else do {
     r \<leftarrow> nsid_release_ctx_svc api token;
     if r \<noteq> (TFM_NS_CLIENT_ERR_SUCCESS api)
     then nsid_fail api 832 (''RELEASE shall success with valid token value'' @ CRLF) ret
     else do {
     nsid_test_case_finish api (ret\<lparr>val := TEST_PASSED\<rparr>)
   }}}}"

definition tfm_nsid_test_case_19 :: "'s nsce_api \<Rightarrow> 's nsid_world test_fun" where
  "tfm_nsid_test_case_19 api ret = do {
     ret \<leftarrow> nsid_test_case_init api ret;
     tid \<leftarrow> gets (thread_id \<circ> world);
     token \<leftarrow> nsid_acquire_ctx_svc api VALID_GROUP_ID tid;
     if token \<noteq> (MAKE_NS_CLIENT_TOKEN (ucast tid) (ucast VALID_GROUP_ID) VALID_INDEX)
     then nsid_fail api 852 (''ACQUIRE shall return a valid token'' @ CRLF) ret
     else do {
     r \<leftarrow> nsid_release_ctx_svc api token;
     if r \<noteq> (TFM_NS_CLIENT_ERR_SUCCESS api)
     then nsid_fail api 858 (''RELEASE shall success with valid token value'' @ CRLF) ret
     else do {
     r \<leftarrow> nsid_save_ctx_svc api token;
     if r \<noteq> (TFM_NS_CLIENT_ERR_INVALID_TOKEN api)
     then nsid_fail api 864 (''SAVE shall fail with released token value'' @ CRLF) ret
     else do {
     nsid_test_case_finish api (ret\<lparr>val := TEST_PASSED\<rparr>)
   }}}}"

definition tfm_nsid_test_case_20 :: "'s nsce_api \<Rightarrow> 's nsid_world test_fun" where
  "tfm_nsid_test_case_20 api ret = do {
     ret \<leftarrow> nsid_test_case_init api ret;
     tid \<leftarrow> gets (thread_id \<circ> world);
     n \<leftarrow> gets (nsid_value \<circ> world);
     token_a \<leftarrow> nsid_acquire_ctx_svc api VALID_GROUP_ID tid;
     token_b \<leftarrow> nsid_acquire_ctx_svc api VALID_GROUP_ID (tid + 1);
     if token_a \<noteq> (MAKE_NS_CLIENT_TOKEN (ucast tid) (ucast VALID_GROUP_ID) VALID_INDEX) \<or> token_b \<noteq> (MAKE_NS_CLIENT_TOKEN (ucast tid + 1) (ucast VALID_GROUP_ID) VALID_INDEX)
     then nsid_fail api 887 (''ACQUIRE shall return a valid token'' @ CRLF) ret
     else do {
     r \<leftarrow> nsid_load_ctx_svc api token_a n;
     if r \<noteq> (TFM_NS_CLIENT_ERR_SUCCESS api)
     then nsid_fail api 893 (''LOAD shall success with valid token value'' @ CRLF) ret
     else do {
     r \<leftarrow> nsid_save_ctx_svc api token_b;
     if r \<noteq> (TFM_NS_CLIENT_ERR_INVALID_TOKEN api)
     then nsid_fail api 899 (''SAVE shall fail with inactive token value'' @ CRLF) ret
     else do {
     r \<leftarrow> nsid_release_ctx_svc api token_a;
     if r \<noteq> (TFM_NS_CLIENT_ERR_SUCCESS api)
     then nsid_fail api 905 (''RELEASE shall success with valid token value'' @ CRLF) ret
     else do {
     r \<leftarrow> nsid_release_ctx_svc api token_b;
     if r \<noteq> (TFM_NS_CLIENT_ERR_SUCCESS api)
     then nsid_fail api 911 (''RELEASE shall success with valid token value'' @ CRLF) ret
     else do {
     nsid_test_case_finish api (ret\<lparr>val := TEST_PASSED\<rparr>)
   }}}}}}"

definition tfm_nsid_test_case_21 :: "'s nsce_api \<Rightarrow> 's nsce_api \<Rightarrow> 's nsid_world test_fun" where
  "tfm_nsid_test_case_21 api thr ret = do {
     ret \<leftarrow> nsid_test_case_init api ret;
     tid \<leftarrow> gets (thread_id \<circ> world);
     n \<leftarrow> gets (nsid_value \<circ> world);
     r \<leftarrow> thread_call (tfm_nsce_init thr 0);
     if r \<noteq> 0
     then nsid_fail api 929 (''INITIALIZE shall not success in thread mode'' @ CRLF) ret
     else do {
     token \<leftarrow> thread_call (tfm_nsce_acquire_ctx thr VALID_GROUP_ID tid);
     if token \<noteq> (TFM_NS_CLIENT_ERR_INVALID_ACCESS api)
     then nsid_fail api 937 (''ACQUIRE shall not success in thread mode'' @ CRLF) ret
     else do {
     r \<leftarrow> thread_call (tfm_nsce_load_ctx thr token n);
     if r \<noteq> (TFM_NS_CLIENT_ERR_INVALID_ACCESS api)
     then nsid_fail api 943 (''LOAD shall not success in thread mode'' @ CRLF) ret
     else do {
     r \<leftarrow> thread_call (tfm_nsce_save_ctx thr token);
     if r \<noteq> (TFM_NS_CLIENT_ERR_INVALID_ACCESS api)
     then nsid_fail api 949 (''SAVE shall not success in thread mode'' @ CRLF) ret
     else do {
     r \<leftarrow> thread_call (tfm_nsce_release_ctx thr token);
     if r \<noteq> (TFM_NS_CLIENT_ERR_INVALID_ACCESS api)
     then nsid_fail api 955 (''RELEASE shall not success in thread mode'' @ CRLF) ret
     else do {
     nsid_test_case_finish api (ret\<lparr>val := TEST_PASSED\<rparr>)
   }}}}}}"

definition nsid_test_cases :: "'s nsce_api \<Rightarrow> 's nsce_api \<Rightarrow> 's nsid_world test_t list" where
  "nsid_test_cases api thr =
     [test_case (tfm_nsid_test_case_1 api) ''TFM_NS_NSID_TEST_1001'' ''NSID management initialize ctx pass'',
      test_case (tfm_nsid_test_case_2 api) ''TFM_NS_NSID_TEST_1002'' ''NSID management normal full sequence pass'',
      test_case (tfm_nsid_test_case_3 api) ''TFM_NS_NSID_TEST_1003'' ''NSID management acquire-release sequence pass'',
      test_case (tfm_nsid_test_case_4 api) ''TFM_NS_NSID_TEST_1004'' ''NSID management acquire-load-release sequence pass'',
      test_case (tfm_nsid_test_case_5 api) ''TFM_NS_NSID_TEST_1005'' ''NSID management switching contexts pass'',
      test_case (tfm_nsid_test_case_6 api) ''TFM_NS_NSID_TEST_1006'' ''NSID management releasing inactive context pass'',
      test_case (tfm_nsid_test_case_7 api) ''TFM_NS_NSID_TEST_1007'' ''NSID management pass with max valid NSID'',
      test_case (tfm_nsid_test_case_8 api) ''TFM_NS_NSID_TEST_1008'' ''NSID management pass with min valid NSID'',
      test_case (tfm_nsid_test_case_9 api) ''TFM_NS_NSID_TEST_1009'' ''NSID management pass with min TID'',
      test_case (tfm_nsid_test_case_10 api) ''TFM_NS_NSID_TEST_1010'' ''NSID management pass with max TID'',
      test_case (tfm_nsid_test_case_11 api) ''TFM_NS_NSID_TEST_1011'' ''NSID management pass when loading B without saving A'',
      test_case (tfm_nsid_test_case_12 api) ''TFM_NS_NSID_TEST_1012'' ''NSID management loading fail with non-negative NSID'',
      test_case (tfm_nsid_test_case_13 api) ''TFM_NS_NSID_TEST_1013'' ''NSID management fail when loading with invalid token'',
      test_case (tfm_nsid_test_case_14 api) ''TFM_NS_NSID_TEST_1014'' ''NSID management fail when saving with invalid token'',
      test_case (tfm_nsid_test_case_15 api) ''TFM_NS_NSID_TEST_1015'' ''NSID management fail when releasing with invalid token'',
      test_case (tfm_nsid_test_case_16 api) ''TFM_NS_NSID_TEST_1016'' ''NSID management fail when acquiring with undefault GID'',
      test_case (tfm_nsid_test_case_17 api) ''TFM_NS_NSID_TEST_1017'' ''NSID management fail with token containing wrong info'',
      test_case (tfm_nsid_test_case_18 api) ''TFM_NS_NSID_TEST_1018'' ''NSID management fail when saving without loading'',
      test_case (tfm_nsid_test_case_19 api) ''TFM_NS_NSID_TEST_1019'' ''NSID management fail when saving released token'',
      test_case (tfm_nsid_test_case_20 api) ''TFM_NS_NSID_TEST_1020'' ''NSID management fail when saving inactive token'',
      test_case (tfm_nsid_test_case_21 api thr) ''TFM_NS_NSID_TEST_1021'' ''NSID management fail when called in thread mode'']"

definition register_testsuite_nsid_test ::
  "'s nsce_api \<Rightarrow> 's nsce_api \<Rightarrow> 's nsid_world suite_fields
   \<Rightarrow> ('s nsid_world env, 's nsid_world suite_fields) state" where
  "register_testsuite_nsid_test api thr =
     register_with ''TFM NSID Test (TFM_NSID_TEST_1xxx)'' (nsid_test_cases api thr)"

section \<open>The contract of the secure extension\<close>

text \<open>
  The reference machine: how many contexts are acquired and which token is loaded. A token is
  good when its group, its index and its reserved bits are 0, the only group and the only
  context there are.
\<close>

record nsce_view =
  v_refs :: nat
  v_active :: "u32 option"

definition good_token :: "u32 \<Rightarrow> bool" where
  "good_token tok \<longleftrightarrow> drop_bit 8 tok = 0"

definition ref_init :: "u32 \<Rightarrow> nsce_view \<Rightarrow> u32 \<times> nsce_view" where
  "ref_init n v = (if n = 0 \<or> n > 1 then 1 else n, v)"

definition ref_acquire :: "'s nsce_api \<Rightarrow> u8 \<Rightarrow> u8 \<Rightarrow> nsce_view \<Rightarrow> u32 \<times> nsce_view" where
  "ref_acquire api gid tid v =
     (if gid = 0 \<and> v_refs v < 255 then (ucast tid, v\<lparr>v_refs := Suc (v_refs v)\<rparr>)
      else (TFM_NS_CLIENT_INVALID_TOKEN api, v))"

definition ref_release :: "'s nsce_api \<Rightarrow> u32 \<Rightarrow> nsce_view \<Rightarrow> u32 \<times> nsce_view" where
  "ref_release api tok v =
     (if good_token tok \<and> 0 < v_refs v
      then (TFM_NS_CLIENT_ERR_SUCCESS api,
            v\<lparr>v_refs := v_refs v - 1, v_active := (if v_active v = Some tok then None else v_active v)\<rparr>)
      else (TFM_NS_CLIENT_ERR_INVALID_TOKEN api, v))"

definition ref_load :: "'s nsce_api \<Rightarrow> u32 \<Rightarrow> i32 \<Rightarrow> nsce_view \<Rightarrow> u32 \<times> nsce_view" where
  "ref_load api tok n v =
     (if sint n \<ge> 0 then (TFM_NS_CLIENT_ERR_INVALID_NSID api, v)
      else if good_token tok \<and> 0 < v_refs v
      then (TFM_NS_CLIENT_ERR_SUCCESS api, v\<lparr>v_active := Some tok\<rparr>)
      else (TFM_NS_CLIENT_ERR_INVALID_TOKEN api, v))"

definition ref_save :: "'s nsce_api \<Rightarrow> u32 \<Rightarrow> nsce_view \<Rightarrow> u32 \<times> nsce_view" where
  "ref_save api tok v =
     (if v_active v = Some tok then (TFM_NS_CLIENT_ERR_SUCCESS api, v\<lparr>v_active := None\<rparr>)
      else (TFM_NS_CLIENT_ERR_INVALID_TOKEN api, v))"

text \<open>An extension conforms when \<open>view\<close> maps its behaviour to that of the reference machine.\<close>

definition nsce_conforms :: "'s nsce_api \<Rightarrow> ('s \<Rightarrow> nsce_view) \<Rightarrow> bool" where
  "nsce_conforms api view \<longleftrightarrow>
     (\<forall>s n. map_prod id view (tfm_nsce_init api n s) = ref_init n (view s))
   \<and> (\<forall>s g t. map_prod id view (tfm_nsce_acquire_ctx api g t s) = ref_acquire api g t (view s))
   \<and> (\<forall>s tok. map_prod id view (tfm_nsce_release_ctx api tok s) = ref_release api tok (view s))
   \<and> (\<forall>s tok n. map_prod id view (tfm_nsce_load_ctx api tok n s) = ref_load api tok n (view s))
   \<and> (\<forall>s tok. map_prod id view (tfm_nsce_save_ctx api tok s) = ref_save api tok (view s))
   \<and> \<not> good_token (TFM_NS_CLIENT_INVALID_TOKEN api)"

text \<open>In thread mode every call is refused.\<close>

definition nsce_refuses :: "'s nsce_api \<Rightarrow> 's nsce_api \<Rightarrow> ('s \<Rightarrow> nsce_view) \<Rightarrow> bool" where
  "nsce_refuses api thr view \<longleftrightarrow>
     (\<forall>s n. map_prod id view (tfm_nsce_init thr n s) = (0, view s))
   \<and> (\<forall>s g t. map_prod id view (tfm_nsce_acquire_ctx thr g t s)
        = (TFM_NS_CLIENT_ERR_INVALID_ACCESS api, view s))
   \<and> (\<forall>s tok. map_prod id view (tfm_nsce_release_ctx thr tok s)
        = (TFM_NS_CLIENT_ERR_INVALID_ACCESS api, view s))
   \<and> (\<forall>s tok n. map_prod id view (tfm_nsce_load_ctx thr tok n s)
        = (TFM_NS_CLIENT_ERR_INVALID_ACCESS api, view s))
   \<and> (\<forall>s tok. map_prod id view (tfm_nsce_save_ctx thr tok s)
        = (TFM_NS_CLIENT_ERR_INVALID_ACCESS api, view s))"

section \<open>Symbolic execution\<close>

text \<open>
  The state in the middle of a test: the view of the extension, and the parts of the world that
  the calls do not change (\<open>k\<close>: the active token, the token table, the console and the mark of
  undefined behaviour).
\<close>

definition ns_at ::
  "('s \<Rightarrow> nsce_view) \<Rightarrow> nat \<Rightarrow> u32 option \<Rightarrow> u32 \<times> nsid_table \<times> string list \<times> bool \<Rightarrow> u8 \<Rightarrow> i32
   \<Rightarrow> 's nsid_world env \<Rightarrow> bool" where
  "ns_at view r a k t n e \<longleftrightarrow>
     view (nsce (shim (world e))) = \<lparr>v_refs = r, v_active = a\<rparr>
     \<and> (current_active_token (shim (world e)), token_table (shim (world e)), console e, ub e) = k
     \<and> thread_id (world e) = t \<and> nsid_value (world e) = n"

lemma spec_call:
  assumes "\<forall>s. map_prod id view (g s) = ref (view s)"
    and "spec (ns_at view (v_refs (snd (ref \<lparr>v_refs = r, v_active = a\<rparr>)))
           (v_active (snd (ref \<lparr>v_refs = r, v_active = a\<rparr>))) k t n)
         (f (fst (ref \<lparr>v_refs = r, v_active = a\<rparr>))) Q"
  shows "spec (ns_at view r a k t n) (State_Monad.bind (on_nsce g) f) Q"
  unfolding spec_def
proof (intro allI impI)
  fix e :: "'a nsid_world env"
  assume at: "ns_at view r a k t n e"
  let ?s = "nsce (shim (world e))" and ?v = "\<lparr>v_refs = r, v_active = a\<rparr>"
  let ?e = "e\<lparr>world := (world e)\<lparr>shim := (shim (world e))\<lparr>nsce := snd (g ?s)\<rparr>\<rparr>\<rparr>"
  have "map_prod id view (g ?s) = ref ?v" using assms(1) at by (simp add: ns_at_def)
  then have g: "fst (g ?s) = fst (ref ?v)" "view (snd (g ?s)) = snd (ref ?v)"
    by (simp_all add: prod_eq_iff)
  have "ns_at view (v_refs (snd (ref ?v))) (v_active (snd (ref ?v))) k t n ?e"
    using at g(2) by (simp add: ns_at_def)
  then show "case run_state (State_Monad.bind (on_nsce g) f) e of (x, xa) \<Rightarrow> Q x xa"
    using assms(2) g(1) by (simp add: spec_def on_nsce_def)
qed

lemma ucast_u8 [simp]: "ucast (ucast (x :: u8) :: u32) = x"
  by (rule bit_word_eqI) (simp add: bit_simps)

lemma svc_entries:
  "nsid_ext_init_svc api c = on_nsce (tfm_nsce_init api c)"
  "nsid_acquire_ctx_svc api g i = on_nsce (tfm_nsce_acquire_ctx api g i)"
  "nsid_release_ctx_svc api tok = on_nsce (tfm_nsce_release_ctx api tok)"
  "nsid_load_ctx_svc api tok m = on_nsce (tfm_nsce_load_ctx api tok m)"
  "nsid_save_ctx_svc api tok = on_nsce (tfm_nsce_save_ctx api tok)"
  by (simp_all add: nsid_ext_init_svc_def nsid_acquire_ctx_svc_def nsid_release_ctx_svc_def
      nsid_load_ctx_svc_def nsid_save_ctx_svc_def SVC_def osRtxUserSVC_def SVC_NS_CLIENT_EXT_INIT_def
      SVC_NS_CLIENT_ACQUIRE_CTX_def SVC_NS_CLIENT_RELEASE_CTX_def SVC_NS_CLIENT_LOAD_CTX_def
      SVC_NS_CLIENT_SAVE_CTX_def)

text \<open>Tokens: those the tests build are good exactly when group and index are the valid ones.\<close>

lemma mask_numerals: "(0xff :: u32) = mask 8" "(0x00ffffff :: u32) = mask 24"
  by (simp_all add: mask_eq_exp_minus_1)

lemma bit_make_token: "bit (MAKE_NS_CLIENT_TOKEN t g x) n \<longleftrightarrow>
    n < 8 \<and> bit t n \<or> 8 \<le> n \<and> n < 16 \<and> bit g (n - 8) \<or> 16 \<le> n \<and> n < 24 \<and> bit x (n - 16)"
  unfolding MAKE_NS_CLIENT_TOKEN_def mask_numerals
  by (cases "n < 8"; cases "n < 16"; cases "n < 24") (auto simp: bit_simps bit_mask_iff)

lemma good_token_iff: "good_token tok \<longleftrightarrow> (\<forall>n. 8 \<le> n \<longrightarrow> \<not> bit tok n)"
proof -
  have "bit (drop_bit 8 tok) n \<longleftrightarrow> bit tok (n + 8)" for n
    by (simp add: bit_drop_bit_eq add.commute)
  then have "drop_bit 8 tok = 0 \<longleftrightarrow> (\<forall>n. \<not> bit tok (n + 8))"
    by (metis bit_eqI bit_0_eq bot_apply bot_bool_def)
  also have "\<dots> \<longleftrightarrow> (\<forall>n. 8 \<le> n \<longrightarrow> \<not> bit tok n)"
    by (metis le_add2 le_add_diff_inverse2)
  finally show ?thesis unfolding good_token_def .
qed

lemma make_token_low: "MAKE_NS_CLIENT_TOKEN x 0 0 = ucast (ucast x :: u8)"
  by (rule bit_word_eqI) (auto simp: bit_make_token bit_simps)

lemma make_token_valid [simp]:
  "MAKE_NS_CLIENT_TOKEN (ucast (t :: u8)) 0 0 = ucast t"
  "MAKE_NS_CLIENT_TOKEN (ucast (t :: u8) + 1) 0 0 = ucast (t + 1)"
proof -
  have "(ucast (ucast t + 1 :: u32) :: u8) = t + 1"
    by transfer (simp add: take_bit_eq_mod mod_simps mod_mod_cancel)
  then show "MAKE_NS_CLIENT_TOKEN (ucast (t :: u8)) 0 0 = ucast t"
    "MAKE_NS_CLIENT_TOKEN (ucast (t :: u8) + 1) 0 0 = ucast (t + 1)"
    by (simp_all add: make_token_low)
qed

lemma make_token_consts [simp]:
  "MAKE_NS_CLIENT_TOKEN 0 0 0 = 0" "MAKE_NS_CLIENT_TOKEN 0xFF 0 0 = 0xFF"
  "MAKE_NS_CLIENT_TOKEN 0xF0 0 0 = 0xF0"
  using make_token_valid(1) [of 0] make_token_valid(1) [of "0xFF"] make_token_valid(1) [of "0xF0"]
  by simp_all

lemma good_token_ucast [simp]: "good_token (ucast (t :: u8))"
proof -
  have "\<not> bit t n" if "8 \<le> n" for n using bit_imp_le_length [of t n] that by auto
  then show ?thesis by (simp add: good_token_iff bit_simps)
qed

lemma good_token_consts [simp]: "good_token 0" "good_token 0xFF"
  using good_token_ucast [of 0] good_token_ucast [of "0xFF"] by simp_all

lemma bad_tokens [simp]:
  "\<not> good_token (MAKE_NS_CLIENT_TOKEN t 1 x)" "\<not> good_token (MAKE_NS_CLIENT_TOKEN t 0 1)"
  "\<not> good_token (or t INVALID_RESERVED_TOKEN_BIT)"
proof -
  have "bit (or t (2 ^ 28)) 28" by (simp only: bit_or_iff bit_exp_iff) simp
  then have "bit (or t INVALID_RESERVED_TOKEN_BIT) 28" by (simp add: INVALID_RESERVED_TOKEN_BIT_def)
  then show "\<not> good_token (or t INVALID_RESERVED_TOKEN_BIT)" unfolding good_token_iff by force
  show "\<not> good_token (MAKE_NS_CLIENT_TOKEN t 1 x)"
    by (auto simp: good_token_iff bit_make_token intro!: exI [of _ 8])
  show "\<not> good_token (MAKE_NS_CLIENT_TOKEN t 0 1)"
    by (auto simp: good_token_iff bit_make_token intro!: exI [of _ 16])
qed

lemma ucast_u8_eq [simp]: "(ucast (t :: u8) :: u32) = ucast s \<longleftrightarrow> t = s"
  by (metis ucast_u8)

lemma spec_tid [step_rules]:
  "spec (ns_at view r a k t n) (f t) Q \<Longrightarrow>
   spec (ns_at view r a k t n) (State_Monad.bind (gets (thread_id \<circ> world)) f) Q"
  by (simp add: spec_def ns_at_def)

lemma spec_nsid [step_rules]:
  "spec (ns_at view r a k t n) (f n) Q \<Longrightarrow>
   spec (ns_at view r a k t n) (State_Monad.bind (gets (nsid_value \<circ> world)) f) Q"
  by (simp add: spec_def ns_at_def)

lemma conforms_steps:
  assumes "nsce_conforms api view"
  shows "spec (ns_at view r a k t n) (f (if c = 0 \<or> c > 1 then 1 else c)) Q \<Longrightarrow>
      spec (ns_at view r a k t n) (State_Monad.bind (nsid_ext_init_svc api c) f) Q"
    and "spec (ns_at view (if g = 0 \<and> r < 255 then Suc r else r) a k t n)
        (f (if g = 0 \<and> r < 255 then ucast i else TFM_NS_CLIENT_INVALID_TOKEN api)) Q \<Longrightarrow>
      spec (ns_at view r a k t n) (State_Monad.bind (nsid_acquire_ctx_svc api g i) f) Q"
    and "spec (ns_at view (if good_token tok \<and> 0 < r then r - 1 else r)
          (if good_token tok \<and> 0 < r \<and> a = Some tok then None else a) k t n)
        (f (if good_token tok \<and> 0 < r then TFM_NS_CLIENT_ERR_SUCCESS api
            else TFM_NS_CLIENT_ERR_INVALID_TOKEN api)) Q \<Longrightarrow>
      spec (ns_at view r a k t n) (State_Monad.bind (nsid_release_ctx_svc api tok) f) Q"
    and "spec (ns_at view r (if sint m < 0 \<and> good_token tok \<and> 0 < r then Some tok else a) k t n)
        (f (if sint m \<ge> 0 then TFM_NS_CLIENT_ERR_INVALID_NSID api
            else if good_token tok \<and> 0 < r then TFM_NS_CLIENT_ERR_SUCCESS api
            else TFM_NS_CLIENT_ERR_INVALID_TOKEN api)) Q \<Longrightarrow>
      spec (ns_at view r a k t n) (State_Monad.bind (nsid_load_ctx_svc api tok m) f) Q"
    and "spec (ns_at view r (if a = Some tok then None else a) k t n)
        (f (if a = Some tok then TFM_NS_CLIENT_ERR_SUCCESS api
            else TFM_NS_CLIENT_ERR_INVALID_TOKEN api)) Q \<Longrightarrow>
      spec (ns_at view r a k t n) (State_Monad.bind (nsid_save_ctx_svc api tok) f) Q"
proof -
  note c = assms [unfolded nsce_conforms_def]
  show "spec (ns_at view r a k t n) (f (if c = 0 \<or> c > 1 then 1 else c)) Q \<Longrightarrow>
      spec (ns_at view r a k t n) (State_Monad.bind (nsid_ext_init_svc api c) f) Q"
    unfolding svc_entries
    by (rule spec_call [where ref = "ref_init c"]) (use c in \<open>simp_all add: ref_init_def\<close>)
  show "spec (ns_at view (if g = 0 \<and> r < 255 then Suc r else r) a k t n)
        (f (if g = 0 \<and> r < 255 then ucast i else TFM_NS_CLIENT_INVALID_TOKEN api)) Q \<Longrightarrow>
      spec (ns_at view r a k t n) (State_Monad.bind (nsid_acquire_ctx_svc api g i) f) Q"
    unfolding svc_entries
    by (rule spec_call [where ref = "ref_acquire api g i"])
      (use c in \<open>auto simp: ref_acquire_def split: if_splits\<close>)
  show "spec (ns_at view (if good_token tok \<and> 0 < r then r - 1 else r)
          (if good_token tok \<and> 0 < r \<and> a = Some tok then None else a) k t n)
        (f (if good_token tok \<and> 0 < r then TFM_NS_CLIENT_ERR_SUCCESS api
            else TFM_NS_CLIENT_ERR_INVALID_TOKEN api)) Q \<Longrightarrow>
      spec (ns_at view r a k t n) (State_Monad.bind (nsid_release_ctx_svc api tok) f) Q"
    unfolding svc_entries
    by (rule spec_call [where ref = "ref_release api tok"])
      (use c in \<open>auto simp: ref_release_def split: if_splits\<close>)
  show "spec (ns_at view r (if sint m < 0 \<and> good_token tok \<and> 0 < r then Some tok else a) k t n)
        (f (if sint m \<ge> 0 then TFM_NS_CLIENT_ERR_INVALID_NSID api
            else if good_token tok \<and> 0 < r then TFM_NS_CLIENT_ERR_SUCCESS api
            else TFM_NS_CLIENT_ERR_INVALID_TOKEN api)) Q \<Longrightarrow>
      spec (ns_at view r a k t n) (State_Monad.bind (nsid_load_ctx_svc api tok m) f) Q"
    unfolding svc_entries
    by (rule spec_call [where ref = "ref_load api tok m"])
      (use c in \<open>auto simp: ref_load_def split: if_splits\<close>)
  show "spec (ns_at view r (if a = Some tok then None else a) k t n)
        (f (if a = Some tok then TFM_NS_CLIENT_ERR_SUCCESS api
            else TFM_NS_CLIENT_ERR_INVALID_TOKEN api)) Q \<Longrightarrow>
      spec (ns_at view r a k t n) (State_Monad.bind (nsid_save_ctx_svc api tok) f) Q"
    unfolding svc_entries
    by (rule spec_call [where ref = "ref_save api tok"])
      (use c in \<open>auto simp: ref_save_def split: if_splits\<close>)
qed

text \<open>
  A test starts in a thread whose own context is loaded and registered, with few enough contexts
  acquired, and ends the same way.
\<close>

definition nsid_ready :: "'s nsce_api \<Rightarrow> ('s \<Rightarrow> nsce_view) \<Rightarrow> 's nsid_world env \<Rightarrow> bool" where
  "nsid_ready api view e \<longleftrightarrow>
     (let st = shim (world e); tok = current_active_token st; v = view (nsce st)
      in v_active v = Some tok \<and> good_token tok \<and> 0 < v_refs v \<and> v_refs v < 254
         \<and> sint (nsid_mgr_query_nsid (TFM_NS_CLIENT_INVALID_TOKEN api) tok (token_table st)) < 0)"

definition nsid_test_ok :: "'s nsce_api \<Rightarrow> ('s \<Rightarrow> nsce_view) \<Rightarrow> (u8 \<Rightarrow> bool) \<Rightarrow> u8 \<Rightarrow> 's nsid_world test_fun \<Rightarrow> bool"
  where
  "nsid_test_ok api view tid_ok used f \<longleftrightarrow>
     (\<forall>ret e. nsid_ready api view e \<and> - (2 ^ 31) < sint (nsid_value (world e))
        \<and> sint (nsid_value (world e)) < 0 \<and> tid_ok (thread_id (world e)) \<longrightarrow>
      (case run_state (f ret) e of (ret', e') \<Rightarrow>
         val ret' = TEST_PASSED \<and> nsid_ready api view e'
         \<and> nsid_value (world e') = nsid_value (world e) - 1
         \<and> thread_id (world e') = thread_id (world e) + used
         \<and> ub e' = ub e \<and> console e' = console e))"

lemma sint_pred:
  assumes "- (2 ^ 31) < sint (n :: i32)"
  shows "sint (n - 1) = sint n - 1"
proof -
  have "sint n < 2 ^ 31" using sint_lt [of n] by simp
  then show ?thesis using assms by (simp add: sint_word_ariths signed_take_bit_int_eq_self)
qed

lemma spec_finish:
  assumes conf: "nsce_conforms api view" and "0 < r" "r < 254" "good_token (fst k)"
    and "sint (nsid_mgr_query_nsid (TFM_NS_CLIENT_INVALID_TOKEN api) (fst k) (fst (snd k))) < 0"
    and Q: "\<And>e. ns_at view r (Some (fst k)) k t n e \<Longrightarrow> Q ret e"
  shows "spec (ns_at view r a k t n) (nsid_test_case_finish api ret) Q"
proof -
  have "spec (ns_at view r a k t n) (State_Monad.bind (nsid_load_ctx_svc api (fst k)
      (nsid_mgr_query_nsid (TFM_NS_CLIENT_INVALID_TOKEN api) (fst k) (fst (snd k))))
      (\<lambda>r. return (if r \<noteq> TFM_NS_CLIENT_ERR_SUCCESS api
             then TEST_FAIL nsid_file 67 (''LOAD fail when re-loading test thread ctx'' @ CRLF) ret
             else ret))) Q"
    by (rule conforms_steps(4) [OF conf]) (use assms in \<open>simp add: spec_return\<close>)
  then show ?thesis
    by (auto simp: spec_def nsid_test_case_finish_def ns_at_def)
qed

lemma spec_init:
  assumes conf: "nsce_conforms api view" and a: "a = Some (fst k)"
    and "spec (ns_at view r None k (t + 1) (n - 1)) (f ret) Q"
  shows "spec (ns_at view r a k t n) (State_Monad.bind (nsid_test_case_init api ret) f) Q"
proof -
  let ?upd = "\<lambda>e. e\<lparr>world := (world e)\<lparr>nsid_value := nsid_value (world e) - 1,
       thread_id := thread_id (world e) + 1\<rparr>\<rparr>"
  have "spec (ns_at view r a k t n) (State_Monad.bind (nsid_save_ctx_svc api (fst k))
      (\<lambda>r. State_Monad.bind (modify ?upd) (\<lambda>_. f (if r \<noteq> TFM_NS_CLIENT_ERR_SUCCESS api
         then TEST_FAIL nsid_file 49 (''SAVE fail when saving test thread ctx'' @ CRLF) ret
         else ret)))) Q"
    by (rule conforms_steps(5) [OF conf])
      (use a assms(3) in \<open>auto simp: spec_def ns_at_def\<close>)
  then show ?thesis
    by (auto simp: spec_def nsid_test_case_init_def ns_at_def Let_def)
qed

lemma nsid_test_okI:
  assumes "\<And>ret r k t n. \<lbrakk>0 < r; r < 254; good_token (fst k);
      sint (nsid_mgr_query_nsid (TFM_NS_CLIENT_INVALID_TOKEN api) (fst k) (fst (snd k))) < 0;
      sint (n - 1) < 0; tid_ok t\<rbrakk> \<Longrightarrow>
    spec (ns_at view r (Some (fst k)) k t n) (f ret)
      (\<lambda>ret' e. val ret' = TEST_PASSED \<and> ns_at view r (Some (fst k)) k (t + used) (n - 1) e)"
  shows "nsid_test_ok api view tid_ok used f"
  unfolding nsid_test_ok_def
proof (intro allI impI, elim conjE)
  fix ret and e :: "'a nsid_world env"
  assume ready: "nsid_ready api view e" and n: "- (2 ^ 31) < sint (nsid_value (world e))"
    "sint (nsid_value (world e)) < 0" and tid: "tid_ok (thread_id (world e))"
  let ?st = "shim (world e)"
  let ?k = "(current_active_token ?st, token_table ?st, console e, ub e)"
  let ?r = "v_refs (view (nsce ?st))"
  have "ns_at view ?r (Some (fst ?k)) ?k (thread_id (world e)) (nsid_value (world e)) e"
    using ready by (simp add: nsid_ready_def ns_at_def Let_def)
  moreover have "sint (nsid_value (world e) - 1) < 0" using n sint_pred by fastforce
  ultimately have "case run_state (f ret) e of (ret', e') \<Rightarrow> val ret' = TEST_PASSED \<and>
      ns_at view ?r (Some (fst ?k)) ?k (thread_id (world e) + used) (nsid_value (world e) - 1) e'"
    using assms [of ?r ?k "nsid_value (world e)" "thread_id (world e)" ret] ready n tid
    by (simp add: spec_def nsid_ready_def Let_def)
  then show "case run_state (f ret) e of (ret', e') \<Rightarrow>
         val ret' = TEST_PASSED \<and> nsid_ready api view e'
         \<and> nsid_value (world e') = nsid_value (world e) - 1
         \<and> thread_id (world e') = thread_id (world e) + used
         \<and> ub e' = ub e \<and> console e' = console e"
    using ready by (auto simp: nsid_ready_def ns_at_def Let_def)
qed

lemmas nsid_consts = VALID_GROUP_ID_def VALID_INDEX_def INVALID_GROUP_ID_def INVALID_INDEX_def
  VALID_THREAD_ID_MIN_def VALID_THREAD_ID_MAX_def VALID_NSID_MAX_def VALID_NSID_MIN_def
  TFM_NS_CONTEXT_MAX_def

lemma bad_token_neq [simp]:
  "ucast (t :: u8) \<noteq> MAKE_NS_CLIENT_TOKEN x 1 y" "ucast (t :: u8) \<noteq> MAKE_NS_CLIENT_TOKEN x 0 1"
  "ucast (t :: u8) \<noteq> or x INVALID_RESERVED_TOKEN_BIT" "(ucast (t :: u8) :: u32) = 0xF0 \<longleftrightarrow> t = 0xF0"
  using bad_tokens good_token_ucast ucast_u8_eq [of t "0xF0"] by (metis, metis, metis, simp)

lemma conforms_invalid_token:
  assumes "nsce_conforms api view"
  shows "\<not> good_token (TFM_NS_CLIENT_INVALID_TOKEN api)"
    and "ucast (t :: u8) \<noteq> TFM_NS_CLIENT_INVALID_TOKEN api"
  using assms good_token_ucast [of t] unfolding nsce_conforms_def by metis+

lemmas nsid_test_defs = tfm_nsid_test_case_1_def tfm_nsid_test_case_2_def tfm_nsid_test_case_3_def tfm_nsid_test_case_4_def tfm_nsid_test_case_5_def tfm_nsid_test_case_6_def tfm_nsid_test_case_7_def tfm_nsid_test_case_8_def tfm_nsid_test_case_9_def tfm_nsid_test_case_10_def tfm_nsid_test_case_11_def tfm_nsid_test_case_12_def tfm_nsid_test_case_13_def tfm_nsid_test_case_14_def tfm_nsid_test_case_15_def tfm_nsid_test_case_16_def tfm_nsid_test_case_17_def tfm_nsid_test_case_18_def tfm_nsid_test_case_19_def tfm_nsid_test_case_20_def

text \<open>
  The tests from the first to the twentieth except the twelfth: each passes, restores the
  thread's context and uses one thread identifier. The one identifier excluded is the one that
  the seventeenth test uses as a wrong one.
\<close>

lemma nsid_tests_pass:
  assumes conf: "nsce_conforms api view"
  shows "nsid_test_ok api view (\<lambda>t. t + 1 \<noteq> 0xF0) 1 (tfm_nsid_test_case_1 api)"
    and "nsid_test_ok api view (\<lambda>t. t + 1 \<noteq> 0xF0) 1 (tfm_nsid_test_case_2 api)"
    and "nsid_test_ok api view (\<lambda>t. t + 1 \<noteq> 0xF0) 1 (tfm_nsid_test_case_3 api)"
    and "nsid_test_ok api view (\<lambda>t. t + 1 \<noteq> 0xF0) 1 (tfm_nsid_test_case_4 api)"
    and "nsid_test_ok api view (\<lambda>t. t + 1 \<noteq> 0xF0) 1 (tfm_nsid_test_case_5 api)"
    and "nsid_test_ok api view (\<lambda>t. t + 1 \<noteq> 0xF0) 1 (tfm_nsid_test_case_6 api)"
    and "nsid_test_ok api view (\<lambda>t. t + 1 \<noteq> 0xF0) 1 (tfm_nsid_test_case_7 api)"
    and "nsid_test_ok api view (\<lambda>t. t + 1 \<noteq> 0xF0) 1 (tfm_nsid_test_case_8 api)"
    and "nsid_test_ok api view (\<lambda>t. t + 1 \<noteq> 0xF0) 1 (tfm_nsid_test_case_9 api)"
    and "nsid_test_ok api view (\<lambda>t. t + 1 \<noteq> 0xF0) 1 (tfm_nsid_test_case_10 api)"
    and "nsid_test_ok api view (\<lambda>t. t + 1 \<noteq> 0xF0) 1 (tfm_nsid_test_case_11 api)"
    and "nsid_test_ok api view (\<lambda>t. t + 1 \<noteq> 0xF0) 1 (tfm_nsid_test_case_13 api)"
    and "nsid_test_ok api view (\<lambda>t. t + 1 \<noteq> 0xF0) 1 (tfm_nsid_test_case_14 api)"
    and "nsid_test_ok api view (\<lambda>t. t + 1 \<noteq> 0xF0) 1 (tfm_nsid_test_case_15 api)"
    and "nsid_test_ok api view (\<lambda>t. t + 1 \<noteq> 0xF0) 1 (tfm_nsid_test_case_16 api)"
    and "nsid_test_ok api view (\<lambda>t. t + 1 \<noteq> 0xF0) 1 (tfm_nsid_test_case_17 api)"
    and "nsid_test_ok api view (\<lambda>t. t + 1 \<noteq> 0xF0) 1 (tfm_nsid_test_case_18 api)"
    and "nsid_test_ok api view (\<lambda>t. t + 1 \<noteq> 0xF0) 1 (tfm_nsid_test_case_19 api)"
    and "nsid_test_ok api view (\<lambda>t. t + 1 \<noteq> 0xF0) 1 (tfm_nsid_test_case_20 api)"
  supply conforms_invalid_token [OF conf, simp]
  unfolding nsid_test_defs nsid_consts
  by (rule nsid_test_okI, rule spec_init [OF conf], simp,
      ((rule step_rules conforms_steps [OF conf]; simp?)+)?, rule spec_finish [OF conf]; simp)+

lemma spec_next_tid [step_rules]:
  "spec (ns_at view r a k (t + 1) n) (f ()) Q \<Longrightarrow>
   spec (ns_at view r a k t n) (State_Monad.bind
     (modify (\<lambda>e. e\<lparr>world := (world e)\<lparr>thread_id := thread_id (world e) + 1\<rparr>\<rparr>)) f) Q"
  by (simp add: spec_def ns_at_def)

lemma nsid_test_12_passes:
  assumes conf: "nsce_conforms api view"
  shows "nsid_test_ok api view (\<lambda>_. True) 2 (tfm_nsid_test_case_12 api)"
  unfolding nsid_test_defs nsid_consts
  by (rule nsid_test_okI, rule spec_init [OF conf], simp,
      (rule step_rules conforms_steps [OF conf]; simp?)+, rule spec_bind,
      rule spec_finish [OF conf]; simp add: spec_def ac_simps)

lemma thread_call_refused:
  assumes "\<forall>s. map_prod id view (g s) = (v, view s)" and "spec (ns_at view r a k t n) (f v) Q"
  shows "spec (ns_at view r a k t n) (State_Monad.bind (thread_call g) f) Q"
  unfolding thread_call_def
  by (rule spec_call [where ref = "\<lambda>x. (v, x)"]) (use assms in simp_all)

lemma nsid_test_21_passes:
  assumes conf: "nsce_conforms api view" and ref: "nsce_refuses api thr view"
  shows "nsid_test_ok api view (\<lambda>_. True) 1 (tfm_nsid_test_case_21 api thr)"
  unfolding tfm_nsid_test_case_21_def nsid_consts
  by (rule nsid_test_okI, rule spec_init [OF conf], simp,
      (rule step_rules, (rule step_rules)?)?,
      (rule thread_call_refused,
       use ref [unfolded nsce_refuses_def] in \<open>simp only:, blast?\<close>, simp)+,
      rule spec_finish [OF conf]; simp)

section \<open>The whole suite\<close>

text \<open>What a sequence of tests asks of the thread identifier it starts with.\<close>

fun tids_ok :: "u8 \<Rightarrow> ((u8 \<Rightarrow> bool) \<times> u8) list \<Rightarrow> bool" where
  "tids_ok t [] = True"
| "tids_ok t (p # ps) = (fst p t \<and> tids_ok (t + snd p) ps)"

definition nsid_case_passes ::
  "'s nsce_api \<Rightarrow> ('s \<Rightarrow> nsce_view) \<Rightarrow> (u8 \<Rightarrow> bool) \<times> u8 \<Rightarrow> 's nsid_world test_t \<Rightarrow> bool" where
  "nsid_case_passes api view p c \<longleftrightarrow>
     (\<exists>f nm ds. c = test_case f nm ds \<and> nsid_test_ok api view (fst p) (snd p) f)"

definition short_case :: "'w test_t \<Rightarrow> bool" where
  "short_case c \<longleftrightarrow> short (the (tc_name c)) \<and> short (the (tc_desc c))"

definition nsid_case_ok ::
  "'s nsce_api \<Rightarrow> ('s \<Rightarrow> nsce_view) \<Rightarrow> (u8 \<Rightarrow> bool) \<times> u8 \<Rightarrow> 's nsid_world test_t \<Rightarrow> bool" where
  "nsid_case_ok api view p c \<longleftrightarrow> nsid_case_passes api view p c \<and> short_case c"

lemma run_one_nsid_test:
  assumes ok: "nsid_test_ok api view tid_ok used f" and ready: "nsid_ready api view e"
    and n: "- (2 ^ 31) < sint (nsid_value (world e))" "sint (nsid_value (world e)) < 0"
    and tid: "tid_ok (thread_id (world e))" and short: "short nm" "short ds"
  shows "case run_state (run_one_test f (Some nm) (Some ds) ret) e of (ret', e') \<Rightarrow>
      val ret' = TEST_PASSED \<and> nsid_ready api view e'
      \<and> sint (nsid_value (world e')) = sint (nsid_value (world e)) - 1
      \<and> thread_id (world e') = thread_id (world e) + used \<and> ub e' = ub e"
proof -
  obtain e1 ret' e2 e3 where w: "world e1 = world e" "ub e1 = ub e"
    and run: "run_state (f (ret\<lparr>val := TEST_PASSED\<rparr>)) e1 = (ret', e2)"
    and w3: "world e3 = world e2" "val ret' \<noteq> TEST_FAILED \<or> reportable ret' \<longrightarrow> ub e3 = ub e2"
    and one: "run_state (run_one_test f (Some nm) (Some ds) ret) e = (ret', e3)"
    by (rule run_one_test_frame [OF short])
  have "nsid_ready api view e1" using ready w(1) by (simp add: nsid_ready_def)
  then have "val ret' = TEST_PASSED" "nsid_ready api view e2"
      "nsid_value (world e2) = nsid_value (world e) - 1"
      "thread_id (world e2) = thread_id (world e) + used" "ub e2 = ub e"
    using ok [unfolded nsid_test_ok_def, rule_format, of e1 "ret\<lparr>val := TEST_PASSED\<rparr>"] n tid w run
    by simp_all
  then show ?thesis
    using one w3 sint_pred [OF n(1)] by (simp add: nsid_ready_def)
qed

lemma exec_nsid_tests:
  assumes "list_all2 (nsid_case_ok api view) ps cs" and "nsid_ready api view e"
    and "tids_ok (thread_id (world e)) ps"
    and "- (2 ^ 31) + int (length cs) < sint (nsid_value (world e))" "sint (nsid_value (world e)) < 0"
  shows "case run_state (exec_tests cs ret) e of (vs, e') \<Rightarrow>
    vs = replicate (length cs) TEST_PASSED \<and> nsid_ready api view e' \<and> ub e' = ub e"
  using assms
proof (induction ps cs arbitrary: ret e rule: list_all2_induct)
  case (Cons p ps c cs)
  then obtain f nm ds where c: "c = test_case f nm ds" "short nm" "short ds"
    and ok: "nsid_test_ok api view (fst p) (snd p) f"
    by (auto simp: nsid_case_ok_def nsid_case_passes_def short_case_def test_case_def)
  obtain r e1 where run: "run_state (run_one_test f (Some nm) (Some ds) ret) e = (r, e1)" by fastforce
  have post: "val r = TEST_PASSED" "nsid_ready api view e1" "ub e1 = ub e"
      "sint (nsid_value (world e1)) = sint (nsid_value (world e)) - 1"
      "thread_id (world e1) = thread_id (world e) + snd p"
    using run_one_nsid_test [OF ok, of e nm ds ret] Cons.prems run c(2,3) by simp_all
  then have "case run_state (exec_tests cs r) e1 of (vs, e') \<Rightarrow>
      vs = replicate (length cs) TEST_PASSED \<and> nsid_ready api view e' \<and> ub e' = ub e1"
    using Cons.prems by (intro Cons.IH) simp_all
  then show ?case using run post unfolding c(1) exec_tests_Cons by (simp add: case_prod_beta Let_def)
qed simp

definition nsid_plan :: "((u8 \<Rightarrow> bool) \<times> u8) list" where
  "nsid_plan = replicate 11 (\<lambda>t. t + 1 \<noteq> 0xF0, 1) @ [(\<lambda>_. True, 2)]
     @ replicate 8 (\<lambda>t. t + 1 \<noteq> 0xF0, 1) @ [(\<lambda>_. True, 1)]"

lemma nsid_cases_pass:
  assumes "nsce_conforms api view" and "nsce_refuses api thr view"
  shows "list_all2 (nsid_case_passes api view) nsid_plan (nsid_test_cases api thr)"
proof -
  have ok: "nsid_test_ok api view (fst p) (snd p) f \<Longrightarrow> nsid_case_passes api view p (test_case f nm ds)"
    for p f nm ds by (auto simp: nsid_case_passes_def)
  show ?thesis
    using nsid_tests_pass [OF assms(1)] nsid_test_12_passes [OF assms(1)] nsid_test_21_passes [OF assms]
    unfolding nsid_plan_def nsid_test_cases_def
    by (simp add: ok eval_nat_numeral)
qed

lemma nsid_cases_short: "list_all short_case (nsid_test_cases api thr)"
  by (simp add: nsid_test_cases_def short_case_def test_case_def short_def)

lemma nsid_cases_ok:
  assumes "nsce_conforms api view" and "nsce_refuses api thr view"
  shows "list_all2 (nsid_case_ok api view) nsid_plan (nsid_test_cases api thr)"
  using nsid_cases_pass [OF assms] nsid_cases_short [of api thr]
  by (simp add: list_all2_conv_all_nth list_all_length nsid_case_ok_def)

text \<open>C10. On every secure client extension that refines the reference machine, and refuses calls
  in thread mode, the whole NSID suite passes when it is run by the framework from its initial
  counters in a thread whose context is loaded and registered, with fewer than 254 contexts held
  (so that the tests can acquire theirs): the run ends without error, the
  suite is marked passed, no undefined behaviour occurs, and the thread's own context is loaded
  again at the end.\<close>

theorem nsid_suite_passes:
  assumes "nsce_conforms api view" and "nsce_refuses api thr view"
    and "nsid_ready api view e" and "world e = nsid_boot st"
    and "ts_freg s = Some (register_testsuite_nsid_test api thr)"
  shows "\<exists>s' e'. run_state (run_testsuite (Some s)) e = ((TEST_SUITE_ERR_NO_ERROR, Some s'), e')
    \<and> ts_val (ts_fields s') = TEST_PASSED \<and> nsid_ready api view e' \<and> ub e' = ub e"
proof -
  let ?nm = "''TFM NSID Test (TFM_NSID_TEST_1xxx)''" and ?cs = "nsid_test_cases api thr"
  let ?e0 = "snd (run_state (suite_banner (Some ?nm)) e)"
  have good: "good_suite s ?nm ?cs"
    using assms(5) by (simp add: good_suite_def register_testsuite_nsid_test_def nsid_test_cases_def
        valid_tests_def test_case_def)
  obtain vs e1 where run: "run_state (exec_tests ?cs null_result) ?e0 = (vs, e1)" by fastforce
  have w0: "world ?e0 = world e" "ub ?e0 = ub e" by (simp_all add: only_logsD short_def)
  have len: "length ?cs = 21" by (simp add: nsid_test_cases_def)
  moreover have "tids_ok 0x20 nsid_plan" by code_simp
  ultimately have "vs = replicate 21 TEST_PASSED \<and> nsid_ready api view e1 \<and> ub e1 = ub e"
    using exec_nsid_tests [OF nsid_cases_ok [OF assms(1,2)], of ?e0 null_result] assms(3,4) run w0
    by (simp add: nsid_boot_def nsid_ready_def)
  then show ?thesis
    using run by (auto simp: run_testsuite_exec [OF good] exec_suite_def case_prod_beta finish_suite_def
        verdict_of_def nsid_ready_def only_logsD only_logs_report len)
qed

text \<open>The reference machine is itself an extension.\<close>

definition nsce_codes :: "nsce_view nsce_api" where
  "nsce_codes = \<lparr>TFM_NS_CLIENT_INVALID_TOKEN = 0xFFFFFFFF, TFM_NS_CLIENT_ERR_SUCCESS = 0,
     TFM_NS_CLIENT_ERR_INVALID_TOKEN = 1, TFM_NS_CLIENT_ERR_INVALID_NSID = 2,
     TFM_NS_CLIENT_ERR_INVALID_ACCESS = 3, tfm_nsce_init = \<lambda>_ v. (0, v),
     tfm_nsce_acquire_ctx = \<lambda>_ _ v. (3, v), tfm_nsce_release_ctx = \<lambda>_ v. (3, v),
     tfm_nsce_load_ctx = \<lambda>_ _ v. (3, v), tfm_nsce_save_ctx = \<lambda>_ v. (3, v)\<rparr>"

definition ref_nsce :: "nsce_view nsce_api" where
  "ref_nsce = nsce_codes\<lparr>tfm_nsce_init := ref_init, tfm_nsce_acquire_ctx := ref_acquire nsce_codes,
     tfm_nsce_release_ctx := ref_release nsce_codes, tfm_nsce_load_ctx := ref_load nsce_codes,
     tfm_nsce_save_ctx := ref_save nsce_codes\<rparr>"

lemma ref_nsce_conforms: "nsce_conforms ref_nsce id"
proof -
  have "drop_bit 8 (0xFFFFFFFF :: u32) \<noteq> 0" by code_simp
  then show ?thesis
    by (auto simp: nsce_conforms_def ref_nsce_def nsce_codes_def ref_acquire_def ref_release_def
        ref_load_def ref_save_def good_token_def fun_eq_iff prod.map_id0)
qed

lemma ref_nsce_refuses: "nsce_refuses ref_nsce nsce_codes id"
  by (simp add: nsce_refuses_def ref_nsce_def nsce_codes_def)

definition nsid_start :: "nsce_view nsid_world env" where
  "nsid_start = \<lparr>console = [], ub = False, world = nsid_boot \<lparr>nsid_mgr_thread_id = 2,
     current_active_token = 1, token_table = [\<lparr>token = 1, nsid = - 2\<rparr>],
     nsce = \<lparr>v_refs = 1, v_active = Some 1\<rparr>\<rparr>\<rparr>"

theorem nsid_suite_passes_witness:
  "\<exists>s' e'. run_state (run_testsuite (Some \<lparr>ts_freg = Some (register_testsuite_nsid_test ref_nsce nsce_codes),
       ts_fields = \<lparr>ts_test_list = [], ts_list_size = 0, ts_name = None, ts_val = TEST_PASSED\<rparr>\<rparr>)) nsid_start
     = ((TEST_SUITE_ERR_NO_ERROR, Some s'), e') \<and> ts_val (ts_fields s') = TEST_PASSED"
proof -
  have "nsid_ready ref_nsce id nsid_start"
    by (simp add: nsid_ready_def nsid_start_def nsid_boot_def ref_nsce_def nsce_codes_def
        nsid_mgr_query_nsid_def good_token_def drop_bit_eq_div)
  from nsid_suite_passes [OF ref_nsce_conforms ref_nsce_refuses this]
  show ?thesis by (force simp: nsid_start_def)
qed

text \<open>A failure of the test setup is lost: when the thread's own context cannot be saved at
  the start of a test, the failure is recorded, but a test whose own checks succeed then
  overwrites the verdict and reports itself passed (here the third test; all twenty-one
  have the same frame).\<close>

lemma nsid_setup_failure_masked:
  assumes "tok = current_active_token (shim (world e))" and "t = thread_id (world e) + 1"
    and "q = nsid_mgr_query_nsid (TFM_NS_CLIENT_INVALID_TOKEN api) tok (token_table (shim (world e)))"
    and "tfm_nsce_save_ctx api tok (nsce (shim (world e))) = (err, s1)"
    and "err \<noteq> TFM_NS_CLIENT_ERR_SUCCESS api"
    and "tfm_nsce_acquire_ctx api 0 t s1 = (ucast t, s2)"
    and "tfm_nsce_release_ctx api (ucast t) s2 = (TFM_NS_CLIENT_ERR_SUCCESS api, s3)"
    and "tfm_nsce_load_ctx api tok q s3 = (TFM_NS_CLIENT_ERR_SUCCESS api, s4)"
  shows "\<exists>ret' e'. run_state (tfm_nsid_test_case_3 api ret) e = (ret', e') \<and> val ret' = TEST_PASSED
    \<and> info_msg ret' = Some (''SAVE fail when saving test thread ctx'' @ CRLF)"
  using assms
  by (simp add: tfm_nsid_test_case_3_def nsid_test_case_init_def nsid_test_case_finish_def
      svc_entries on_nsce_def VALID_GROUP_ID_def VALID_INDEX_def TEST_FAIL_def Let_def)

end
