(* ===== verification/Erpc_Stubs.thy ===== *)
theory Erpc_Stubs
  imports Os_Wrapper "HOL-Library.Multiset"
begin

text \<open>
  The generated eRPC shims of the PSA client API: \<^verbatim>\<open>src/erpc/generated_files/tfm_erpc_client.cpp\<close>,
  \<^verbatim>\<open>tfm_erpc_server.cpp\<close>, \<^verbatim>\<open>tfm_erpc.h\<close> and \<^verbatim>\<open>tfm_erpc_server.h\<close>, and the two
  \<^verbatim>\<open>erpc_config.h\<close> files.

  The eRPC runtime (the codec, the client manager, the message-buffer factory and the allocator
  behind \<open>erpc_malloc\<close>) and the served PSA functions are outside the sources and enter as
  arguments. A codec is an object of any type \<open>'c\<close> with the methods of \<open>codec_api\<close>; a method that
  changes the object returns the changed object. Memory is carried by value: a \<open>buffer\<close> is an
  address together with the bytes of the block there, and \<open>live\<close> lists the blocks the allocator
  has handed out. An access outside a block, a use of a value nobody initialised, an access
  through a null pointer and the release of a block that is not live are the result \<open>None\<close>.
  A size computation is in 32 bits, as on the server's target.
\<close>

section \<open>Configuration and identifiers\<close>

datatype erpc_allocation_policy = ERPC_ALLOCATION_POLICY_DYNAMIC | ERPC_ALLOCATION_POLICY_STATIC

datatype erpc_threads =
  ERPC_THREADS_NONE | ERPC_THREADS_PTHREADS | ERPC_THREADS_FREERTOS | ERPC_THREADS_ZEPHYR
| ERPC_THREADS_MBED | ERPC_THREADS_WIN32 | ERPC_THREADS_THREADX

text \<open>The options of \<^verbatim>\<open>erpc_config.h\<close>; \<open>None\<close> is an option the file leaves commented out, so that
  the runtime's default holds.\<close>

record erpc_config =
  ERPC_ALLOCATION_POLICY :: "erpc_allocation_policy option"
  ERPC_CODEC_COUNT :: "nat option"
  ERPC_MESSAGE_LOGGERS_COUNT :: "nat option"
  ERPC_CLIENTS_THREADS_AMOUNT :: "nat option"
  ERPC_THREADS :: "erpc_threads option"
  ERPC_DEFAULT_BUFFER_SIZE :: "nat option"
  ERPC_DEFAULT_BUFFERS_COUNT :: "nat option"
  ERPC_NOEXCEPT :: "bool option"
  ERPC_NESTED_CALLS :: "bool option"
  ERPC_NESTED_CALLS_DETECTION :: "bool option"
  ERPC_MESSAGE_LOGGING :: "bool option"
  ERPC_TRANSPORT_MU_USE_MCMGR :: "bool option"
  ERPC_PRE_POST_ACTION :: "bool option"
  ERPC_PRE_POST_ACTION_DEFAULT :: "bool option"

definition server_erpc_config :: erpc_config where
  "server_erpc_config =
    \<lparr>ERPC_ALLOCATION_POLICY = None, ERPC_CODEC_COUNT = None, ERPC_MESSAGE_LOGGERS_COUNT = None,
     ERPC_CLIENTS_THREADS_AMOUNT = None, ERPC_THREADS = Some ERPC_THREADS_NONE,
     ERPC_DEFAULT_BUFFER_SIZE = Some 3072, ERPC_DEFAULT_BUFFERS_COUNT = None,
     ERPC_NOEXCEPT = None, ERPC_NESTED_CALLS = None, ERPC_NESTED_CALLS_DETECTION = None,
     ERPC_MESSAGE_LOGGING = None, ERPC_TRANSPORT_MU_USE_MCMGR = None,
     ERPC_PRE_POST_ACTION = None, ERPC_PRE_POST_ACTION_DEFAULT = None\<rparr>"

definition client_erpc_config :: erpc_config where
  "client_erpc_config =
    \<lparr>ERPC_ALLOCATION_POLICY = None, ERPC_CODEC_COUNT = None, ERPC_MESSAGE_LOGGERS_COUNT = None,
     ERPC_CLIENTS_THREADS_AMOUNT = None, ERPC_THREADS = None,
     ERPC_DEFAULT_BUFFER_SIZE = Some 3072, ERPC_DEFAULT_BUFFERS_COUNT = None,
     ERPC_NOEXCEPT = None, ERPC_NESTED_CALLS = None, ERPC_NESTED_CALLS_DETECTION = None,
     ERPC_MESSAGE_LOGGING = None, ERPC_TRANSPORT_MU_USE_MCMGR = None,
     ERPC_PRE_POST_ACTION = None, ERPC_PRE_POST_ACTION_DEFAULT = None\<rparr>"

text \<open>The switches the shims test after the runtime has filled in its defaults.\<close>

record stub_config =
  pre_post_action :: bool
  nested_calls_detection :: bool

definition kpsa_client_api_service_id :: u32 where "kpsa_client_api_service_id = 1"
definition kpsa_client_api_psa_framework_version_id :: u32 where
  "kpsa_client_api_psa_framework_version_id = 1"
definition kpsa_client_api_psa_version_id :: u32 where "kpsa_client_api_psa_version_id = 2"
definition kpsa_client_api_erpc_psa_call_id :: u32 where "kpsa_client_api_erpc_psa_call_id = 3"
definition kpsa_client_api_psa_connect_id :: u32 where "kpsa_client_api_psa_connect_id = 4"
definition kpsa_client_api_psa_close_id :: u32 where "kpsa_client_api_psa_close_id = 5"

lemmas psa_ids = kpsa_client_api_service_id_def kpsa_client_api_psa_framework_version_id_def
  kpsa_client_api_psa_version_id_def kpsa_client_api_erpc_psa_call_id_def
  kpsa_client_api_psa_connect_id_def kpsa_client_api_psa_close_id_def

section \<open>The runtime the shims call\<close>

datatype erpc_status_t =
  kErpcStatus_Success | kErpcStatus_InvalidArgument | kErpcStatus_MemoryError | kErpcStatus_Other nat

datatype message_type_t = kInvocationMessage | kReplyMessage

record 'c codec_api =
  getStatus :: "'c \<Rightarrow> erpc_status_t"
  updateStatus :: "erpc_status_t \<Rightarrow> 'c \<Rightarrow> 'c"
  codec_reset :: "'c \<Rightarrow> 'c"
  startWriteMessage :: "message_type_t \<Rightarrow> u32 \<Rightarrow> u32 \<Rightarrow> u32 \<Rightarrow> 'c \<Rightarrow> 'c"
  write_u32 :: "u32 \<Rightarrow> 'c \<Rightarrow> 'c"
  write_i32 :: "i32 \<Rightarrow> 'c \<Rightarrow> 'c"
  writeBinary :: "u32 \<Rightarrow> u8 list \<Rightarrow> 'c \<Rightarrow> 'c"
  startWriteList :: "u32 \<Rightarrow> 'c \<Rightarrow> 'c"
  read_u32 :: "'c \<Rightarrow> u32 \<times> 'c"
  read_i32 :: "'c \<Rightarrow> i32 \<times> 'c"
  readBinary :: "'c \<Rightarrow> (u32 \<times> u8 list) \<times> 'c"
  startReadList :: "'c \<Rightarrow> u32 \<times> 'c"

record ('c, 'w) client_manager =
  getPreCB :: "'w \<Rightarrow> ('w \<Rightarrow> 'w) option"
  createRequest :: "bool \<Rightarrow> 'w \<Rightarrow> ('c option \<times> u32) \<times> 'w"
  performRequest :: "'c \<Rightarrow> u32 \<Rightarrow> 'w \<Rightarrow> 'c \<times> 'w"
  releaseRequest :: "u32 \<Rightarrow> 'w \<Rightarrow> 'w"
  callErrorHandler :: "erpc_status_t \<Rightarrow> u32 \<Rightarrow> 'w \<Rightarrow> 'w"
  getPostCB :: "'w \<Rightarrow> ('w \<Rightarrow> 'w) option"

section \<open>Data\<close>

record buffer =
  address :: ptr
  contents :: "u8 list"

text \<open>\<open>binary_t\<close> and \<open>list_binary_1_t\<close>: the element array has the entries of \<open>elems\<close>, of which
  \<open>None\<close> is one that nobody has written yet.\<close>

record blob_t =
  data :: buffer
  data_length :: u32

record list_binary_1_t =
  elements :: ptr
  elems :: "blob_t option list"
  elementsCount :: u32

definition null_buffer :: buffer where
  "null_buffer = \<lparr>address = NULL, contents = []\<rparr>"

text \<open>\<open>&(l->elements[i])\<close> as the reading functions use it: an outer \<open>None\<close> is an access outside
  the array or to an uninitialised entry, an inner \<open>None\<close> the null pointer, which a null array
  yields at index 0.\<close>

definition elem_ref :: "list_binary_1_t \<Rightarrow> nat \<Rightarrow> blob_t option option" where
  "elem_ref l i =
     (if elements l = NULL then (if i = 0 then Some None else None)
      else case array_read (elems l) i of
             None \<Rightarrow> None
           | Some e \<Rightarrow> map_option Some e)"

section \<open>The client shims\<close>

definition write_binary_t_struct :: "'c codec_api \<Rightarrow> blob_t option \<Rightarrow> 'c \<Rightarrow> 'c option" where
  "write_binary_t_struct cd d c =
     (case d of
        None \<Rightarrow> Some c
      | Some b \<Rightarrow>
          if length (contents (data b)) < unat (data_length b) then None
          else Some (writeBinary cd (data_length b) (contents (data b)) c))"

function write_elems :: "'c codec_api \<Rightarrow> list_binary_1_t \<Rightarrow> nat \<Rightarrow> nat \<Rightarrow> 'c \<Rightarrow> 'c option" where
  "write_elems cd l n i c =
     (if i < n then
        (case elem_ref l i of
           None \<Rightarrow> None
         | Some d \<Rightarrow>
             (case write_binary_t_struct cd d c of
                None \<Rightarrow> None
              | Some c \<Rightarrow> write_elems cd l n (Suc i) c))
      else Some c)"
  by pat_completeness auto
termination by (relation "measure (\<lambda>(cd, l, n, i, c). n - i)") auto

declare write_elems.simps [simp del]

definition write_list_binary_1_t_struct ::
  "'c codec_api \<Rightarrow> list_binary_1_t option \<Rightarrow> 'c \<Rightarrow> 'c option" where
  "write_list_binary_1_t_struct cd d c =
     (case d of
        None \<Rightarrow> Some c
      | Some l \<Rightarrow> write_elems cd l (unat (elementsCount l)) 0 (startWriteList cd (elementsCount l) c))"

definition read_binary_t_struct ::
  "'c codec_api \<Rightarrow> blob_t option \<Rightarrow> 'c \<Rightarrow> (blob_t option \<times> 'c) option" where
  "read_binary_t_struct cd d c =
     (case d of
        None \<Rightarrow> Some (None, c)
      | Some b \<Rightarrow>
          let ((n, data_local), c) = readBinary cd c
          in if length data_local < unat n \<or> length (contents (data b)) < unat n then None
             else Some (Some (b\<lparr>data_length := n,
                                data := (data b)\<lparr>contents := take (unat n) data_local
                                                         @ drop (unat n) (contents (data b))\<rparr>\<rparr>), c))"

function read_elems ::
  "'c codec_api \<Rightarrow> nat \<Rightarrow> nat \<Rightarrow> list_binary_1_t \<Rightarrow> 'c \<Rightarrow> (list_binary_1_t \<times> 'c) option" where
  "read_elems cd n i l c =
     (if i < n then
        (case elem_ref l i of
           None \<Rightarrow> None
         | Some d \<Rightarrow>
             (case read_binary_t_struct cd d c of
                None \<Rightarrow> None
              | Some (d, c) \<Rightarrow>
                  read_elems cd n (Suc i) (case d of None \<Rightarrow> l | Some b \<Rightarrow> l\<lparr>elems := (elems l)[i := Some b]\<rparr>) c))
      else Some (l, c))"
  by pat_completeness auto
termination by (relation "measure (\<lambda>(cd, n, i, l, c). n - i)") auto

declare read_elems.simps [simp del]

definition read_list_binary_1_t_struct ::
  "'c codec_api \<Rightarrow> list_binary_1_t option \<Rightarrow> 'c \<Rightarrow> (list_binary_1_t option \<times> 'c) option" where
  "read_list_binary_1_t_struct cd d c =
     (case d of
        None \<Rightarrow> Some (None, c)
      | Some l \<Rightarrow>
          let (n, c) = startReadList cd c
          in map_option (\<lambda>(l, c). (Some l, c)) (read_elems cd (unat n) 0 (l\<lparr>elementsCount := n\<rparr>) c))"

text \<open>The pre and post actions, when the build has them.\<close>

definition run_cb :: "stub_config \<Rightarrow> ('w \<Rightarrow> 'w) option \<Rightarrow> 'w \<Rightarrow> 'w" where
  "run_cb cfg cb w = (if pre_post_action cfg then (case cb of None \<Rightarrow> w | Some f \<Rightarrow> f w) else w)"

text \<open>The variable \<open>result\<close> has no value until it is read from the reply; the arbitrary 0 below
  stands for it in the branch without a codec, whose \<open>err\<close> makes the shim overwrite it.\<close>

definition psa_framework_version ::
  "stub_config \<Rightarrow> 'c codec_api \<Rightarrow> ('c, 'w) client_manager \<Rightarrow> 'w \<Rightarrow> u32 \<times> 'w" where
  "psa_framework_version cfg cd g_client w =
     (let w = run_cb cfg (getPreCB g_client w) w;
          ((codec, sequence), w) = createRequest g_client False w;
          (err, result, w) =
            (case codec of
               None \<Rightarrow> (kErpcStatus_MemoryError, 0, w)
             | Some c \<Rightarrow>
                 let c = startWriteMessage cd kInvocationMessage kpsa_client_api_service_id
                           kpsa_client_api_psa_framework_version_id sequence c;
                     (c, w) = performRequest g_client c sequence w;
                     (result, c) = read_u32 cd c
                 in (getStatus cd c, result, w));
          w = releaseRequest g_client sequence w;
          w = callErrorHandler g_client err kpsa_client_api_psa_framework_version_id w;
          w = run_cb cfg (getPostCB g_client w) w
      in (if err \<noteq> kErpcStatus_Success then 0xFFFFFFFF else result, w))"

definition psa_version ::
  "stub_config \<Rightarrow> 'c codec_api \<Rightarrow> ('c, 'w) client_manager \<Rightarrow> u32 \<Rightarrow> 'w \<Rightarrow> u32 \<times> 'w" where
  "psa_version cfg cd g_client sid w =
     (let w = run_cb cfg (getPreCB g_client w) w;
          ((codec, sequence), w) = createRequest g_client False w;
          (err, result, w) =
            (case codec of
               None \<Rightarrow> (kErpcStatus_MemoryError, 0, w)
             | Some c \<Rightarrow>
                 let c = startWriteMessage cd kInvocationMessage kpsa_client_api_service_id
                           kpsa_client_api_psa_version_id sequence c;
                     c = write_u32 cd sid c;
                     (c, w) = performRequest g_client c sequence w;
                     (result, c) = read_u32 cd c
                 in (getStatus cd c, result, w));
          w = releaseRequest g_client sequence w;
          w = callErrorHandler g_client err kpsa_client_api_psa_version_id w;
          w = run_cb cfg (getPostCB g_client w) w
      in (if err \<noteq> kErpcStatus_Success then 0xFFFFFFFF else result, w))"

definition erpc_psa_call ::
  "stub_config \<Rightarrow> 'c codec_api \<Rightarrow> ('c, 'w) client_manager \<Rightarrow> i32 \<Rightarrow> i32 \<Rightarrow> list_binary_1_t option
   \<Rightarrow> list_binary_1_t option \<Rightarrow> 'w \<Rightarrow> (i32 \<times> list_binary_1_t option \<times> 'w) option" where
  "erpc_psa_call cfg cd g_client handle t erpc_in_vec erpc_out_vec w =
     (let w = run_cb cfg (getPreCB g_client w) w;
          ((codec, sequence), w) = createRequest g_client False w
      in case (case codec of
                 None \<Rightarrow> Some (kErpcStatus_MemoryError, 0, erpc_out_vec, w)
               | Some c \<Rightarrow>
                   let c = startWriteMessage cd kInvocationMessage kpsa_client_api_service_id
                             kpsa_client_api_erpc_psa_call_id sequence c;
                       c = write_i32 cd handle c;
                       c = write_i32 cd t c
                   in (case write_list_binary_1_t_struct cd erpc_in_vec c of
                         None \<Rightarrow> None
                       | Some c \<Rightarrow>
                       case write_list_binary_1_t_struct cd erpc_out_vec c of
                         None \<Rightarrow> None
                       | Some c \<Rightarrow>
                         let (c, w) = performRequest g_client c sequence w
                         in (case read_list_binary_1_t_struct cd erpc_out_vec c of
                               None \<Rightarrow> None
                             | Some (erpc_out_vec, c) \<Rightarrow>
                                 let (result, c) = read_i32 cd c
                                 in Some (getStatus cd c, result, erpc_out_vec, w)))) of
           None \<Rightarrow> None
         | Some (err, result, erpc_out_vec, w) \<Rightarrow>
             let w = releaseRequest g_client sequence w;
                 w = callErrorHandler g_client err kpsa_client_api_erpc_psa_call_id w;
                 w = run_cb cfg (getPostCB g_client w) w
             in Some (if err \<noteq> kErpcStatus_Success then - 1 else result, erpc_out_vec, w))"

definition psa_connect ::
  "stub_config \<Rightarrow> 'c codec_api \<Rightarrow> ('c, 'w) client_manager \<Rightarrow> u32 \<Rightarrow> u32 \<Rightarrow> 'w \<Rightarrow> i32 \<times> 'w" where
  "psa_connect cfg cd g_client sid ver w =
     (let w = run_cb cfg (getPreCB g_client w) w;
          ((codec, sequence), w) = createRequest g_client False w;
          (err, result, w) =
            (case codec of
               None \<Rightarrow> (kErpcStatus_MemoryError, 0, w)
             | Some c \<Rightarrow>
                 let c = startWriteMessage cd kInvocationMessage kpsa_client_api_service_id
                           kpsa_client_api_psa_connect_id sequence c;
                     c = write_u32 cd sid c;
                     c = write_u32 cd ver c;
                     (c, w) = performRequest g_client c sequence w;
                     (result, c) = read_i32 cd c
                 in (getStatus cd c, result, w));
          w = releaseRequest g_client sequence w;
          w = callErrorHandler g_client err kpsa_client_api_psa_connect_id w;
          w = run_cb cfg (getPostCB g_client w) w
      in (if err \<noteq> kErpcStatus_Success then - 1 else result, w))"

definition psa_close ::
  "stub_config \<Rightarrow> 'c codec_api \<Rightarrow> ('c, 'w) client_manager \<Rightarrow> i32 \<Rightarrow> 'w \<Rightarrow> 'w" where
  "psa_close cfg cd g_client handle w =
     (let w = run_cb cfg (getPreCB g_client w) w;
          ((codec, sequence), w) = createRequest g_client False w;
          (err, w) =
            (case codec of
               None \<Rightarrow> (kErpcStatus_MemoryError, w)
             | Some c \<Rightarrow>
                 let c = startWriteMessage cd kInvocationMessage kpsa_client_api_service_id
                           kpsa_client_api_psa_close_id sequence c;
                     c = write_i32 cd handle c;
                     (c, w) = performRequest g_client c sequence w
                 in (getStatus cd c, w));
          w = releaseRequest g_client sequence w;
          w = callErrorHandler g_client err kpsa_client_api_psa_close_id w
      in run_cb cfg (getPostCB g_client w) w)"

section \<open>The server shims\<close>

text \<open>The served functions, and the state of the server: the live blocks of its heap, the flag of
  the nested-call detection and the state behind the served functions.\<close>

record 's served_api =
  api_framework_version :: "'s \<Rightarrow> u32 \<times> 's"
  api_version :: "u32 \<Rightarrow> 's \<Rightarrow> u32 \<times> 's"
  api_call :: "i32 \<Rightarrow> i32 \<Rightarrow> list_binary_1_t \<Rightarrow> list_binary_1_t \<Rightarrow> 's
               \<Rightarrow> (i32 \<times> list_binary_1_t \<times> 's) option"
  api_connect :: "u32 \<Rightarrow> u32 \<Rightarrow> 's \<Rightarrow> i32 \<times> 's"
  api_close :: "i32 \<Rightarrow> 's \<Rightarrow> 's"

record 's server_world =
  live :: "ptr list"
  nestingDetection :: bool
  served :: 's

type_synonym allocator = "u32 \<Rightarrow> ptr list \<Rightarrow> ptr"
type_synonym 'c send_factory = "'c \<Rightarrow> erpc_status_t \<times> 'c"

definition erpc_malloc :: "allocator \<Rightarrow> u32 \<Rightarrow> ptr list \<Rightarrow> ptr \<times> ptr list" where
  "erpc_malloc mal n lv = (let p = mal n lv in (p, if p = NULL then lv else p # lv))"

definition erpc_free :: "ptr \<Rightarrow> ptr list \<Rightarrow> ptr list option" where
  "erpc_free p lv = (if p \<in> set lv then Some (remove1 p lv) else None)"

definition sizeof_binary_t :: u32 where "sizeof_binary_t = 8"
definition sizeof_list_binary_1_t :: u32 where "sizeof_list_binary_1_t = 8"

definition srv_read_binary_t_struct ::
  "'c codec_api \<Rightarrow> allocator \<Rightarrow> bool \<Rightarrow> 'c \<Rightarrow> ptr list \<Rightarrow> (blob_t option \<times> 'c \<times> ptr list) option" where
  "srv_read_binary_t_struct cd mal is_null c lv =
     (if is_null then Some (None, c, lv)
      else
        let ((n, data_local), c) = readBinary cd c;
            (p, lv) = erpc_malloc mal n lv
        in if p = NULL \<and> 0 < n
           then Some (Some \<lparr>data = null_buffer, data_length = n\<rparr>,
                      updateStatus cd kErpcStatus_MemoryError c, lv)
           else if length data_local < unat n then None
           else Some (Some \<lparr>data = \<lparr>address = p, contents = take (unat n) data_local\<rparr>, data_length = n\<rparr>,
                      c, lv))"

text \<open>The destination \<open>&(data->elements[i])\<close> of the reading loop is the null pointer for a null
  array at index 0; at another index of a null array, or past the end of the array, the loop
  stores outside every object.\<close>

function srv_read_elems ::
  "'c codec_api \<Rightarrow> allocator \<Rightarrow> nat \<Rightarrow> nat \<Rightarrow> list_binary_1_t \<Rightarrow> 'c \<Rightarrow> ptr list
   \<Rightarrow> (list_binary_1_t \<times> 'c \<times> ptr list) option" where
  "srv_read_elems cd mal n i l c lv =
     (if i < n then
        if elements l = NULL \<and> 0 < i \<or> elements l \<noteq> NULL \<and> length (elems l) \<le> i then None
        else
          (case srv_read_binary_t_struct cd mal (elements l = NULL) c lv of
             None \<Rightarrow> None
           | Some (d, c, lv) \<Rightarrow>
               srv_read_elems cd mal n (Suc i)
                 (case d of None \<Rightarrow> l | Some b \<Rightarrow> l\<lparr>elems := (elems l)[i := Some b]\<rparr>) c lv)
      else Some (l, c, lv))"
  by pat_completeness auto
termination by (relation "measure (\<lambda>(cd, mal, n, i, l, c, lv). n - i)") auto

declare srv_read_elems.simps [simp del]

definition srv_read_list_binary_1_t_struct ::
  "'c codec_api \<Rightarrow> allocator \<Rightarrow> ptr \<Rightarrow> 'c \<Rightarrow> ptr list
   \<Rightarrow> (list_binary_1_t option \<times> 'c \<times> ptr list) option" where
  "srv_read_list_binary_1_t_struct cd mal dest c lv =
     (if dest = NULL then Some (None, c, lv)
      else
        let (n, c) = startReadList cd c;
            (p, lv) = erpc_malloc mal (n * sizeof_binary_t) lv;
            c = (if p = NULL \<and> 0 < n then updateStatus cd kErpcStatus_MemoryError c else c)
        in map_option (\<lambda>(l, c, lv). (Some l, c, lv))
             (srv_read_elems cd mal (unat n) 0
                \<lparr>elements = p,
                 elems = replicate (unat (n * sizeof_binary_t) div unat sizeof_binary_t) None,
                 elementsCount = n\<rparr> c lv))"

definition srv_write_binary_t_struct :: "'c codec_api \<Rightarrow> blob_t option \<Rightarrow> 'c \<Rightarrow> 'c option" where
  "srv_write_binary_t_struct cd d c =
     (case d of
        None \<Rightarrow> Some c
      | Some b \<Rightarrow>
          if length (contents (data b)) < unat (data_length b) then None
          else Some (writeBinary cd (data_length b) (contents (data b)) c))"

function srv_write_elems :: "'c codec_api \<Rightarrow> list_binary_1_t \<Rightarrow> nat \<Rightarrow> nat \<Rightarrow> 'c \<Rightarrow> 'c option" where
  "srv_write_elems cd l n i c =
     (if i < n then
        (case elem_ref l i of
           None \<Rightarrow> None
         | Some d \<Rightarrow>
             (case srv_write_binary_t_struct cd d c of
                None \<Rightarrow> None
              | Some c \<Rightarrow> srv_write_elems cd l n (Suc i) c))
      else Some c)"
  by pat_completeness auto
termination by (relation "measure (\<lambda>(cd, l, n, i, c). n - i)") auto

declare srv_write_elems.simps [simp del]

definition srv_write_list_binary_1_t_struct ::
  "'c codec_api \<Rightarrow> list_binary_1_t option \<Rightarrow> 'c \<Rightarrow> 'c option" where
  "srv_write_list_binary_1_t_struct cd d c =
     (case d of
        None \<Rightarrow> Some c
      | Some l \<Rightarrow>
          srv_write_elems cd l (unat (elementsCount l)) 0 (startWriteList cd (elementsCount l) c))"

definition free_binary_t_struct :: "blob_t option \<Rightarrow> ptr list \<Rightarrow> ptr list option" where
  "free_binary_t_struct d lv =
     (case d of
        None \<Rightarrow> None
      | Some b \<Rightarrow> if address (data b) \<noteq> NULL then erpc_free (address (data b)) lv else Some lv)"

function free_elems :: "list_binary_1_t \<Rightarrow> nat \<Rightarrow> nat \<Rightarrow> ptr list \<Rightarrow> ptr list option" where
  "free_elems l n i lv =
     (if i < n then
        (case elem_ref l i of
           None \<Rightarrow> None
         | Some d \<Rightarrow>
             (case free_binary_t_struct d lv of
                None \<Rightarrow> None
              | Some lv \<Rightarrow> free_elems l n (Suc i) lv))
      else Some lv)"
  by pat_completeness auto
termination by (relation "measure (\<lambda>(l, n, i, lv). n - i)") auto

declare free_elems.simps [simp del]

definition free_list_binary_1_t_struct :: "list_binary_1_t \<Rightarrow> ptr list \<Rightarrow> ptr list option" where
  "free_list_binary_1_t_struct l lv =
     (case free_elems l (unat (elementsCount l)) 0 lv of
        None \<Rightarrow> None
      | Some lv \<Rightarrow> if elements l \<noteq> NULL then erpc_free (elements l) lv else Some lv)"

definition enter_served :: "stub_config \<Rightarrow> 's server_world \<Rightarrow> 's server_world" where
  "enter_served cfg sv = (if nested_calls_detection cfg then sv\<lparr>nestingDetection := True\<rparr> else sv)"

definition leave_served :: "stub_config \<Rightarrow> 's server_world \<Rightarrow> 's server_world" where
  "leave_served cfg sv = (if nested_calls_detection cfg then sv\<lparr>nestingDetection := False\<rparr> else sv)"

text \<open>The release of a vector at the end of the shim: the block's contents and then the block
  itself, both under the test that its pointer is not null.\<close>

definition free_vec :: "ptr \<Rightarrow> list_binary_1_t option \<Rightarrow> ptr list \<Rightarrow> ptr list option" where
  "free_vec p d lv =
     (if p = NULL then Some lv
      else case d of
             None \<Rightarrow> None
           | Some l \<Rightarrow>
               (case free_list_binary_1_t_struct l lv of
                  None \<Rightarrow> None
                | Some lv \<Rightarrow> erpc_free p lv))"

definition psa_framework_version_shim ::
  "stub_config \<Rightarrow> 'c codec_api \<Rightarrow> 's served_api \<Rightarrow> 'c send_factory \<Rightarrow> u32 \<Rightarrow> 'c \<Rightarrow> 's server_world
   \<Rightarrow> erpc_status_t \<times> 'c \<times> 's server_world" where
  "psa_framework_version_shim cfg cd api messageFactory sequence c sv =
     (let err = getStatus cd c;
          (err, result, c, sv) =
            (if err = kErpcStatus_Success then
               let sv = enter_served cfg sv;
                   (result, s) = api_framework_version api (served sv);
                   sv = leave_served cfg (sv\<lparr>served := s\<rparr>);
                   (err, c) = messageFactory c
               in (err, result, c, sv)
             else (err, 0, c, sv))
      in if err = kErpcStatus_Success then
           let c = codec_reset cd c;
               c = startWriteMessage cd kReplyMessage kpsa_client_api_service_id
                     kpsa_client_api_psa_framework_version_id sequence c;
               c = write_u32 cd result c
           in (getStatus cd c, c, sv)
         else (err, c, sv))"

definition psa_version_shim ::
  "stub_config \<Rightarrow> 'c codec_api \<Rightarrow> 's served_api \<Rightarrow> 'c send_factory \<Rightarrow> u32 \<Rightarrow> 'c \<Rightarrow> 's server_world
   \<Rightarrow> erpc_status_t \<times> 'c \<times> 's server_world" where
  "psa_version_shim cfg cd api messageFactory sequence c sv =
     (let (sid, c) = read_u32 cd c;
          err = getStatus cd c;
          (err, result, c, sv) =
            (if err = kErpcStatus_Success then
               let sv = enter_served cfg sv;
                   (result, s) = api_version api sid (served sv);
                   sv = leave_served cfg (sv\<lparr>served := s\<rparr>);
                   (err, c) = messageFactory c
               in (err, result, c, sv)
             else (err, 0, c, sv))
      in if err = kErpcStatus_Success then
           let c = codec_reset cd c;
               c = startWriteMessage cd kReplyMessage kpsa_client_api_service_id
                     kpsa_client_api_psa_version_id sequence c;
               c = write_u32 cd result c
           in (getStatus cd c, c, sv)
         else (err, c, sv))"

text \<open>The shim of \<open>erpc_psa_call\<close> by its stages: allocating and reading the vectors, invoking the
  served function, building the reply, releasing the vectors.\<close>

definition call_read ::
  "'c codec_api \<Rightarrow> allocator \<Rightarrow> 'c \<Rightarrow> ptr list
   \<Rightarrow> (ptr \<times> ptr \<times> i32 \<times> i32 \<times> list_binary_1_t option \<times> list_binary_1_t option \<times> 'c \<times> ptr list) option" where
  "call_read cd mal c lv =
     (let (p_in, lv) = erpc_malloc mal sizeof_list_binary_1_t lv;
          c = (if p_in = NULL then updateStatus cd kErpcStatus_MemoryError c else c);
          (p_out, lv) = erpc_malloc mal sizeof_list_binary_1_t lv;
          c = (if p_out = NULL then updateStatus cd kErpcStatus_MemoryError c else c);
          (handle, c) = read_i32 cd c;
          (t, c) = read_i32 cd c
      in case srv_read_list_binary_1_t_struct cd mal p_in c lv of
           None \<Rightarrow> None
         | Some (i, c, lv) \<Rightarrow>
      case srv_read_list_binary_1_t_struct cd mal p_out c lv of
           None \<Rightarrow> None
         | Some (out, c, lv) \<Rightarrow> Some (p_in, p_out, handle, t, i, out, c, lv))"

definition call_invoke ::
  "stub_config \<Rightarrow> 's served_api \<Rightarrow> 'c send_factory \<Rightarrow> i32 \<Rightarrow> i32 \<Rightarrow> list_binary_1_t option
   \<Rightarrow> list_binary_1_t option \<Rightarrow> 'c \<Rightarrow> 's server_world
   \<Rightarrow> (erpc_status_t \<times> i32 \<times> list_binary_1_t option \<times> 'c \<times> 's server_world) option" where
  "call_invoke cfg api messageFactory handle t erpc_in_vec erpc_out_vec c sv =
     (case (erpc_in_vec, erpc_out_vec) of
        (Some i, Some out) \<Rightarrow>
          let sv = enter_served cfg sv
          in (case api_call api handle t i out (served sv) of
                None \<Rightarrow> None
              | Some (result, out, s) \<Rightarrow>
                  let sv = leave_served cfg (sv\<lparr>served := s\<rparr>);
                      (err, c) = messageFactory c
                  in Some (err, result, Some out, c, sv))
      | _ \<Rightarrow> None)"

definition call_reply ::
  "'c codec_api \<Rightarrow> u32 \<Rightarrow> list_binary_1_t option \<Rightarrow> i32 \<Rightarrow> 'c \<Rightarrow> (erpc_status_t \<times> 'c) option" where
  "call_reply cd sequence erpc_out_vec result c =
     (let c = codec_reset cd c;
          c = startWriteMessage cd kReplyMessage kpsa_client_api_service_id
                kpsa_client_api_erpc_psa_call_id sequence c
      in case srv_write_list_binary_1_t_struct cd erpc_out_vec c of
           None \<Rightarrow> None
         | Some c \<Rightarrow> let c = write_i32 cd result c in Some (getStatus cd c, c))"

definition call_free ::
  "ptr \<Rightarrow> ptr \<Rightarrow> list_binary_1_t option \<Rightarrow> list_binary_1_t option \<Rightarrow> ptr list \<Rightarrow> ptr list option" where
  "call_free p_in p_out i out lv =
     (case free_vec p_in i lv of None \<Rightarrow> None | Some lv \<Rightarrow> free_vec p_out out lv)"

definition erpc_psa_call_shim ::
  "stub_config \<Rightarrow> 'c codec_api \<Rightarrow> 's served_api \<Rightarrow> allocator \<Rightarrow> 'c send_factory \<Rightarrow> u32 \<Rightarrow> 'c
   \<Rightarrow> 's server_world \<Rightarrow> (erpc_status_t \<times> 'c \<times> 's server_world) option" where
  "erpc_psa_call_shim cfg cd api mal messageFactory sequence c sv =
     (case call_read cd mal c (live sv) of
        None \<Rightarrow> None
      | Some (p_in, p_out, handle, t, erpc_in_vec, erpc_out_vec, c, lv) \<Rightarrow>
      let sv = sv\<lparr>live := lv\<rparr>;
          err = getStatus cd c
      in case (if err = kErpcStatus_Success
               then call_invoke cfg api messageFactory handle t erpc_in_vec erpc_out_vec c sv
               else Some (err, 0, erpc_out_vec, c, sv)) of
        None \<Rightarrow> None
      | Some (err, result, erpc_out_vec, c, sv) \<Rightarrow>
      case (if err = kErpcStatus_Success then call_reply cd sequence erpc_out_vec result c
            else Some (err, c)) of
        None \<Rightarrow> None
      | Some (err, c) \<Rightarrow>
      case call_free p_in p_out erpc_in_vec erpc_out_vec (live sv) of
        None \<Rightarrow> None
      | Some lv \<Rightarrow> Some (err, c, sv\<lparr>live := lv\<rparr>))"

definition psa_connect_shim ::
  "stub_config \<Rightarrow> 'c codec_api \<Rightarrow> 's served_api \<Rightarrow> 'c send_factory \<Rightarrow> u32 \<Rightarrow> 'c \<Rightarrow> 's server_world
   \<Rightarrow> erpc_status_t \<times> 'c \<times> 's server_world" where
  "psa_connect_shim cfg cd api messageFactory sequence c sv =
     (let (sid, c) = read_u32 cd c;
          (ver, c) = read_u32 cd c;
          err = getStatus cd c;
          (err, result, c, sv) =
            (if err = kErpcStatus_Success then
               let sv = enter_served cfg sv;
                   (result, s) = api_connect api sid ver (served sv);
                   sv = leave_served cfg (sv\<lparr>served := s\<rparr>);
                   (err, c) = messageFactory c
               in (err, result, c, sv)
             else (err, 0, c, sv))
      in if err = kErpcStatus_Success then
           let c = codec_reset cd c;
               c = startWriteMessage cd kReplyMessage kpsa_client_api_service_id
                     kpsa_client_api_psa_connect_id sequence c;
               c = write_i32 cd result c
           in (getStatus cd c, c, sv)
         else (err, c, sv))"

definition psa_close_shim ::
  "stub_config \<Rightarrow> 'c codec_api \<Rightarrow> 's served_api \<Rightarrow> 'c send_factory \<Rightarrow> u32 \<Rightarrow> 'c \<Rightarrow> 's server_world
   \<Rightarrow> erpc_status_t \<times> 'c \<times> 's server_world" where
  "psa_close_shim cfg cd api messageFactory sequence c sv =
     (let (handle, c) = read_i32 cd c;
          err = getStatus cd c;
          (err, c, sv) =
            (if err = kErpcStatus_Success then
               let sv = enter_served cfg sv;
                   sv = leave_served cfg (sv\<lparr>served := api_close api handle (served sv)\<rparr>);
                   (err, c) = messageFactory c
               in (err, c, sv)
             else (err, c, sv))
      in if err = kErpcStatus_Success then
           let c = codec_reset cd c;
               c = startWriteMessage cd kReplyMessage kpsa_client_api_service_id
                     kpsa_client_api_psa_close_id sequence c
           in (getStatus cd c, c, sv)
         else (err, c, sv))"

definition handleInvocation ::
  "stub_config \<Rightarrow> 'c codec_api \<Rightarrow> 's served_api \<Rightarrow> allocator \<Rightarrow> 'c send_factory \<Rightarrow> u32 \<Rightarrow> u32 \<Rightarrow> 'c
   \<Rightarrow> 's server_world \<Rightarrow> (erpc_status_t \<times> 'c \<times> 's server_world) option" where
  "handleInvocation cfg cd api mal messageFactory methodId sequence c sv =
     (if methodId = kpsa_client_api_psa_framework_version_id
      then Some (psa_framework_version_shim cfg cd api messageFactory sequence c sv)
      else if methodId = kpsa_client_api_psa_version_id
      then Some (psa_version_shim cfg cd api messageFactory sequence c sv)
      else if methodId = kpsa_client_api_erpc_psa_call_id
      then erpc_psa_call_shim cfg cd api mal messageFactory sequence c sv
      else if methodId = kpsa_client_api_psa_connect_id
      then Some (psa_connect_shim cfg cd api messageFactory sequence c sv)
      else if methodId = kpsa_client_api_psa_close_id
      then Some (psa_close_shim cfg cd api messageFactory sequence c sv)
      else Some (kErpcStatus_InvalidArgument, c, sv))"

text \<open>Creating and destroying the service: on the heap under the dynamic policy, in the static
  object \<open>s_psa_client_api_service\<close> under the static one.\<close>

record service_world =
  service_heap :: "ptr list"
  s_psa_client_api_service :: bool

definition create_psa_client_api_service ::
  "erpc_allocation_policy \<Rightarrow> (ptr list \<Rightarrow> ptr) \<Rightarrow> ptr \<Rightarrow> service_world \<Rightarrow> ptr \<times> service_world" where
  "create_psa_client_api_service policy new_nothrow static_address w =
     (case policy of
        ERPC_ALLOCATION_POLICY_DYNAMIC \<Rightarrow>
          let p = new_nothrow (service_heap w)
          in (p, if p = NULL then w else w\<lparr>service_heap := p # service_heap w\<rparr>)
      | ERPC_ALLOCATION_POLICY_STATIC \<Rightarrow> (static_address, w\<lparr>s_psa_client_api_service := True\<rparr>))"

definition destroy_psa_client_api_service ::
  "erpc_allocation_policy \<Rightarrow> ptr \<Rightarrow> service_world \<Rightarrow> service_world option" where
  "destroy_psa_client_api_service policy service w =
     (case policy of
        ERPC_ALLOCATION_POLICY_DYNAMIC \<Rightarrow>
          if service \<noteq> NULL
          then map_option (\<lambda>h. w\<lparr>service_heap := h\<rparr>) (erpc_free service (service_heap w))
          else Some w
      | ERPC_ALLOCATION_POLICY_STATIC \<Rightarrow> Some (w\<lparr>s_psa_client_api_service := False\<rparr>))"

end
