(* ===== verification/Erpc_Remote.thy ===== *)
theory Erpc_Remote
  imports Erpc_Stubs
begin

text \<open>
  Properties of the generated shims: a remote PSA call answers with what the served function
  answers or with the error value of the shim, the server releases every block it allocates,
  and what a failed allocation or a hostile message can do to it.

  \<^item> \<open>codec_conforms\<close> and \<open>delivers\<close> state what the shims rely on of the eRPC runtime: a codec that
    is still in the success state has appended what was written and yields what was sent, and a
    request that ends in the success state was dispatched once to the server's
    \<open>handleInvocation\<close> and carries the reply the server wrote.
  \<^item> The locales \<open>client_stub\<close> and \<open>server_stub\<close> are the contracts that the shims of the four
    methods with scalar arguments share; each shim is an interpretation.
\<close>

section \<open>The runtime's contract\<close>

datatype item =
  Header message_type_t u32 u32 u32 | Word u32 | Signed i32 | Blob "u8 list" | Count u32

abbreviation ok :: "'c codec_api \<Rightarrow> 'c \<Rightarrow> bool" where
  "ok cd c \<equiv> getStatus cd c = kErpcStatus_Success"

text \<open>\<open>appends cd wr f xs\<close>: the writing method \<open>f\<close> appends \<open>xs\<close> to the message, or fails; a failed
  codec stays failed. \<open>takes cd rd f it\<close>: the reading method \<open>f\<close> takes the item \<open>it v\<close> off the
  message and returns \<open>v\<close>, or fails.\<close>

definition appends :: "'c codec_api \<Rightarrow> ('c \<Rightarrow> item list) \<Rightarrow> ('c \<Rightarrow> 'c) \<Rightarrow> item list \<Rightarrow> bool" where
  "appends cd wr f xs \<longleftrightarrow> (\<forall>c. ok cd (f c) \<longrightarrow> ok cd c \<and> wr (f c) = wr c @ xs)"

definition takes ::
  "'c codec_api \<Rightarrow> ('c \<Rightarrow> item list) \<Rightarrow> ('c \<Rightarrow> 'v \<times> 'c) \<Rightarrow> ('v \<Rightarrow> item) \<Rightarrow> bool" where
  "takes cd rd f it \<longleftrightarrow>
     (\<forall>c. ok cd (snd (f c)) \<longrightarrow> ok cd c \<and>
        (\<forall>v xs. rd c = it v # xs \<longrightarrow> fst (f c) = v \<and> rd (snd (f c)) = xs))"

definition codec_conforms ::
  "'c codec_api \<Rightarrow> ('c \<Rightarrow> item list) \<Rightarrow> ('c \<Rightarrow> item list) \<Rightarrow> bool" where
  "codec_conforms cd wr rd \<longleftrightarrow>
     (\<forall>c. wr (codec_reset cd c) = [])
   \<and> (\<forall>e c. getStatus cd (updateStatus cd e c) = (if ok cd c then e else getStatus cd c))
   \<and> (\<forall>t s m q. appends cd wr (startWriteMessage cd t s m q) [Header t s m q])
   \<and> (\<forall>v. appends cd wr (write_u32 cd v) [Word v])
   \<and> (\<forall>v. appends cd wr (write_i32 cd v) [Signed v])
   \<and> (\<forall>n bs. unat n \<le> length bs \<longrightarrow> appends cd wr (writeBinary cd n bs) [Blob (take (unat n) bs)])
   \<and> (\<forall>n. appends cd wr (startWriteList cd n) [Count n])
   \<and> takes cd rd (read_u32 cd) Word
   \<and> takes cd rd (read_i32 cd) Signed
   \<and> takes cd rd (startReadList cd) Count
   \<and> (\<forall>c. \<not> ok cd (snd (startReadList cd c)) \<longrightarrow> fst (startReadList cd c) = 0)
   \<and> (\<forall>c n bs c'. readBinary cd c = ((n, bs), c') \<longrightarrow>
        (if ok cd c'
         then ok cd c \<and> length bs = unat n \<and> (\<forall>b xs. rd c = Blob b # xs \<longrightarrow> bs = b \<and> rd c' = xs)
         else n = 0))"

text \<open>What the client relies on of its manager: a request that ends in the success state has been
  served by \<open>handleInvocation\<close>; a new request has an empty message; and the manager's other
  methods and the callbacks do not touch the server, whose state is \<open>srv w\<close>.\<close>

definition delivers ::
  "stub_config \<Rightarrow> 'c codec_api \<Rightarrow> ('c \<Rightarrow> item list) \<Rightarrow> ('c \<Rightarrow> item list) \<Rightarrow> 's served_api \<Rightarrow> allocator
   \<Rightarrow> 'c send_factory \<Rightarrow> ('c, 'w) client_manager \<Rightarrow> ('w \<Rightarrow> 's server_world) \<Rightarrow> bool" where
  "delivers scfg cd wr rd api mal mf m srv \<longleftrightarrow>
     (\<forall>c q w c' w'. performRequest m c q w = (c', w') \<and> ok cd c' \<longrightarrow>
        ok cd c \<and>
        (\<forall>mid args. wr c = Header kInvocationMessage kpsa_client_api_service_id mid q # args \<longrightarrow>
           (\<exists>sc sc' reply. ok cd sc \<and> rd sc = args
              \<and> handleInvocation scfg cd api mal mf mid q sc (srv w)
                  = Some (kErpcStatus_Success, sc', srv w')
              \<and> wr sc' = Header kReplyMessage kpsa_client_api_service_id mid q # reply
              \<and> rd c' = reply)))"

definition client_local ::
  "stub_config \<Rightarrow> ('c \<Rightarrow> item list) \<Rightarrow> ('c, 'w) client_manager \<Rightarrow> ('w \<Rightarrow> 's server_world) \<Rightarrow> bool" where
  "client_local cfg wr m srv \<longleftrightarrow>
     (\<forall>w. srv (run_cb cfg (getPreCB m w) w) = srv w \<and> srv (run_cb cfg (getPostCB m w) w) = srv w)
   \<and> (\<forall>w c q w'. createRequest m False w = ((c, q), w') \<longrightarrow>
        srv w' = srv w \<and> (\<forall>c'. c = Some c' \<longrightarrow> wr c' = []))
   \<and> (\<forall>q w. srv (releaseRequest m q w) = srv w)
   \<and> (\<forall>e i w. srv (callErrorHandler m e i w) = srv w)"

definition finish_call ::
  "stub_config \<Rightarrow> ('c, 'w) client_manager \<Rightarrow> erpc_status_t \<Rightarrow> u32 \<Rightarrow> u32 \<Rightarrow> 'w \<Rightarrow> 'w" where
  "finish_call cfg m err mid q w =
     (let w = callErrorHandler m err mid (releaseRequest m q w) in run_cb cfg (getPostCB m w) w)"

lemma appendsD:
  "appends cd wr f xs \<Longrightarrow> ok cd (f c) \<Longrightarrow> ok cd c"
  "appends cd wr f xs \<Longrightarrow> ok cd (f c) \<Longrightarrow> wr (f c) = wr c @ xs"
  by (auto simp: appends_def)

lemma appends_comp:
  "appends cd wr f xs \<Longrightarrow> appends cd wr g ys \<Longrightarrow> appends cd wr (\<lambda>c. g (f c)) (xs @ ys)"
  unfolding appends_def by (metis append_assoc)

lemma takesD:
  "takes cd rd f it \<Longrightarrow> f c = (v, c') \<Longrightarrow> ok cd c' \<Longrightarrow> ok cd c"
  "takes cd rd f it \<Longrightarrow> f c = (v, c') \<Longrightarrow> ok cd c' \<Longrightarrow> rd c = it x # xs \<Longrightarrow> v = x \<and> rd c' = xs"
  unfolding takes_def by (metis fst_conv snd_conv)+

lemma client_localD:
  assumes "client_local cfg wr m srv"
  shows "createRequest m False (run_cb cfg (getPreCB m w) w) = ((c, q), w') \<Longrightarrow> srv w' = srv w"
    and "createRequest m False (run_cb cfg (getPreCB m w) w) = ((Some c', q), w') \<Longrightarrow> wr c' = []"
    and "srv (finish_call cfg m e i q w) = srv w"
  using assms unfolding client_local_def finish_call_def Let_def by metis+

lemma conforms:
  assumes "codec_conforms cd wr rd"
  shows "wr (codec_reset cd c) = []"
    and "getStatus cd (updateStatus cd e c) = (if ok cd c then e else getStatus cd c)"
    and "appends cd wr (startWriteMessage cd t s m q) [Header t s m q]"
    and "appends cd wr (write_u32 cd v) [Word v]"
    and "appends cd wr (write_i32 cd v) [Signed v]"
    and "unat n \<le> length bs \<Longrightarrow> appends cd wr (writeBinary cd n bs) [Blob (take (unat n) bs)]"
    and "appends cd wr (startWriteList cd n) [Count n]"
    and "takes cd rd (read_u32 cd) Word"
    and "takes cd rd (read_i32 cd) Signed"
    and "takes cd rd (startReadList cd) Count"
  using assms unfolding codec_conforms_def by blast+

lemma conforms_list_failed:
  "codec_conforms cd wr rd \<Longrightarrow> startReadList cd c = (n, c') \<Longrightarrow> \<not> ok cd c' \<Longrightarrow> n = 0"
  unfolding codec_conforms_def by (metis fst_conv snd_conv)

lemma conforms_binary:
  assumes "codec_conforms cd wr rd" and "readBinary cd c = ((n, bs), c')"
  shows "\<not> ok cd c' \<Longrightarrow> n = 0"
    and "ok cd c' \<Longrightarrow> ok cd c" and "ok cd c' \<Longrightarrow> length bs = unat n"
    and "ok cd c' \<Longrightarrow> rd c = Blob b # xs \<Longrightarrow> bs = b" and "ok cd c' \<Longrightarrow> rd c = Blob b # xs \<Longrightarrow> rd c' = xs"
proof -
  have "if ok cd c'
      then ok cd c \<and> length bs = unat n \<and> (\<forall>b xs. rd c = Blob b # xs \<longrightarrow> bs = b \<and> rd c' = xs)
      else n = 0"
    using assms unfolding codec_conforms_def by blast
  then show "\<not> ok cd c' \<Longrightarrow> n = 0" "ok cd c' \<Longrightarrow> ok cd c" "ok cd c' \<Longrightarrow> length bs = unat n"
    "ok cd c' \<Longrightarrow> rd c = Blob b # xs \<Longrightarrow> bs = b" "ok cd c' \<Longrightarrow> rd c = Blob b # xs \<Longrightarrow> rd c' = xs"
    by (simp_all split: if_splits)
qed

section \<open>The contract of the client shims\<close>

locale client_stub =
  fixes cfg :: stub_config and cd :: "'c codec_api" and m :: "('c, 'w) client_manager"
    and mid :: u32 and send :: "'c \<Rightarrow> 'c" and recv :: "'c \<Rightarrow> 'r \<times> 'c" and fail :: 'r
    and stub :: "'w \<Rightarrow> 'r \<times> 'w"
  assumes no_codec: "createRequest m False (run_cb cfg (getPreCB m w) w) = ((None, q), w1) \<Longrightarrow>
      stub w = (fail, finish_call cfg m kErpcStatus_MemoryError mid q w1)"
    and with_codec: "createRequest m False (run_cb cfg (getPreCB m w) w) = ((Some c, q), w1) \<Longrightarrow>
      performRequest m (send (startWriteMessage cd kInvocationMessage kpsa_client_api_service_id
        mid q c)) q w1 = (c1, w2) \<Longrightarrow> recv c1 = (r, c2) \<Longrightarrow>
      stub w = (if ok cd c2 then r else fail, finish_call cfg m (getStatus cd c2) mid q w2)"
begin

text \<open>A call that is not answered with the error value was served: the server saw exactly the
  arguments sent, and the client read its answer from the reply.\<close>

lemma served_unless_failed:
  assumes codec: "codec_conforms cd wr rd" and chan: "delivers scfg cd wr rd api mal mf m srv"
    and local: "client_local cfg wr m srv"
    and send: "appends cd wr send args" and recv: "takes cd rd recv it"
    and "stub w = (r, w')"
  obtains "r = fail" and "\<exists>e q w2. e \<noteq> kErpcStatus_Success \<and> w' = finish_call cfg m e mid q w2"
  | q sc sc' reply where "ok cd sc" and "rd sc = args"
    and "handleInvocation scfg cd api mal mf mid q sc (srv w) = Some (kErpcStatus_Success, sc', srv w')"
    and "wr sc' = Header kReplyMessage kpsa_client_api_service_id mid q # reply"
    and "\<And>v xs. reply = it v # xs \<Longrightarrow> r = v"
proof (cases "createRequest m False (run_cb cfg (getPreCB m w) w)")
  case (Pair cq w1)
  obtain oc q where cq: "cq = (oc, q)" by (cases cq)
  show thesis
  proof (cases oc)
    case None
    then have "stub w = (fail, finish_call cfg m kErpcStatus_MemoryError mid q w1)"
      using no_codec Pair cq by simp
    then show thesis using assms(6) that(1) by (metis Pair_inject erpc_status_t.distinct(3))
  next
    case (Some c)
    let ?req = "send (startWriteMessage cd kInvocationMessage kpsa_client_api_service_id mid q c)"
    obtain c1 w2 where req: "performRequest m ?req q w1 = (c1, w2)" by fastforce
    obtain v c2 where reply: "recv c1 = (v, c2)" by fastforce
    have stub: "stub w = (if ok cd c2 then v else fail, finish_call cfg m (getStatus cd c2) mid q w2)"
      using with_codec Pair cq Some req reply by simp
    show thesis
    proof (cases "ok cd c2")
      case False
      then show thesis using stub assms(6) that(1) by auto
    next
      case True
      have c1: "ok cd c1" by (rule takesD(1) [OF recv reply True])
      have req_ok: "ok cd ?req" using chan req c1 unfolding delivers_def by blast
      have srv1: "srv w1 = srv w" and fresh: "wr c = []"
        using client_localD(1,2) [OF local] Pair cq Some by simp_all
      have msg: "wr ?req = Header kInvocationMessage kpsa_client_api_service_id mid q # args"
        using appendsD [OF appends_comp [OF conforms(3) [OF codec] send] req_ok] fresh by simp
      have "srv w' = srv w2"
        using stub assms(6) client_localD(3) [OF local] by auto
      moreover have "r = v" using stub assms(6) True by simp
      moreover obtain sc sc' rep where "ok cd sc" "rd sc = args"
        "handleInvocation scfg cd api mal mf mid q sc (srv w1) = Some (kErpcStatus_Success, sc', srv w2)"
        "wr sc' = Header kReplyMessage kpsa_client_api_service_id mid q # rep" "rd c1 = rep"
        using chan req c1 msg unfolding delivers_def by blast
      ultimately show thesis
        using that(2) [of sc q sc' rep] takesD(2) [OF recv reply True] srv1 by metis
    qed
  qed
qed

end

interpretation framework_version_stub: client_stub cfg cd m kpsa_client_api_psa_framework_version_id
    "\<lambda>c. c" "read_u32 cd" "0xFFFFFFFF" "psa_framework_version cfg cd m" for cfg cd m
  by unfold_locales (simp_all add: psa_framework_version_def finish_call_def Let_def)

interpretation version_stub: client_stub cfg cd m kpsa_client_api_psa_version_id
    "write_u32 cd sid" "read_u32 cd" "0xFFFFFFFF" "psa_version cfg cd m sid" for cfg cd m sid
  by unfold_locales (simp_all add: psa_version_def finish_call_def Let_def)

interpretation connect_stub: client_stub cfg cd m kpsa_client_api_psa_connect_id
    "\<lambda>c. write_u32 cd ver (write_u32 cd sid c)" "read_i32 cd" "- 1" "psa_connect cfg cd m sid ver"
    for cfg cd m sid ver
  by unfold_locales (simp_all add: psa_connect_def finish_call_def Let_def)

interpretation close_stub: client_stub cfg cd m kpsa_client_api_psa_close_id
    "write_i32 cd handle" "\<lambda>c. ((), c)" "()" "\<lambda>w. ((), psa_close cfg cd m handle w)"
    for cfg cd m handle
  by unfold_locales (simp_all add: psa_close_def finish_call_def Let_def)

section \<open>The contract of the server shims\<close>

locale server_stub =
  fixes cfg :: stub_config and cd :: "'c codec_api" and mf :: "'c send_factory" and mid :: u32
    and get_args :: "'c \<Rightarrow> 'a \<times> 'c" and api :: "'a \<Rightarrow> 's \<Rightarrow> 'r \<times> 's" and put :: "'r \<Rightarrow> 'c \<Rightarrow> 'c"
    and shim :: "u32 \<Rightarrow> 'c \<Rightarrow> 's server_world \<Rightarrow> erpc_status_t \<times> 'c \<times> 's server_world"
  assumes refused: "get_args c = (a, c1) \<Longrightarrow> \<not> ok cd c1 \<Longrightarrow> shim q c sv = (getStatus cd c1, c1, sv)"
    and served_no_buffer: "get_args c = (a, c1) \<Longrightarrow> ok cd c1 \<Longrightarrow> api a (served sv) = (r, s) \<Longrightarrow>
      mf c1 = (e, c2) \<Longrightarrow> e \<noteq> kErpcStatus_Success \<Longrightarrow>
      shim q c sv = (e, c2, leave_served cfg ((enter_served cfg sv)\<lparr>served := s\<rparr>))"
    and served_reply: "get_args c = (a, c1) \<Longrightarrow> ok cd c1 \<Longrightarrow> api a (served sv) = (r, s) \<Longrightarrow>
      mf c1 = (kErpcStatus_Success, c2) \<Longrightarrow>
      c3 = put r (startWriteMessage cd kReplyMessage kpsa_client_api_service_id mid q
                    (codec_reset cd c2)) \<Longrightarrow>
      shim q c sv = (getStatus cd c3, c3, leave_served cfg ((enter_served cfg sv)\<lparr>served := s\<rparr>))"
begin

text \<open>The served function is called exactly when the arguments could be read; the shim touches no
  memory.\<close>

lemma serves_iff_read:
  assumes "get_args c = (a, c1)" and "shim q c sv = (e, c', sv')"
  shows "served sv' = (if ok cd c1 then snd (api a (served sv)) else served sv)"
    and "live sv' = live sv"
    and "\<not> ok cd c1 \<Longrightarrow> e = getStatus cd c1 \<and> sv' = sv"
proof -
  obtain r s where r: "api a (served sv) = (r, s)" by fastforce
  obtain e' c2 where c2: "mf c1 = (e', c2)" by fastforce
  have "served sv' = (if ok cd c1 then snd (api a (served sv)) else served sv)
    \<and> live sv' = live sv \<and> (\<not> ok cd c1 \<longrightarrow> e = getStatus cd c1 \<and> sv' = sv)"
  proof (cases "ok cd c1")
    case False
    then have "(e, c', sv') = (getStatus cd c1, c1, sv)"
      using refused [OF assms(1) False] assms(2) by metis
    then show ?thesis using False by simp
  next
    case True
    then have "sv' = leave_served cfg ((enter_served cfg sv)\<lparr>served := s\<rparr>)"
      using served_no_buffer [OF assms(1) True r c2] served_reply [OF assms(1) True r, of c2]
        c2 assms(2) by (cases "e' = kErpcStatus_Success") auto
    then show ?thesis using True r by (simp add: leave_served_def enter_served_def)
  qed
  then show "served sv' = (if ok cd c1 then snd (api a (served sv)) else served sv)"
    "live sv' = live sv" "\<not> ok cd c1 \<Longrightarrow> e = getStatus cd c1 \<and> sv' = sv"
    by simp_all
qed

lemma reply_carries_result:
  assumes "codec_conforms cd wr rd" and "\<And>v. appends cd wr (put v) (ret v)"
    and "get_args c = (a, c1)" and "shim q c sv = (kErpcStatus_Success, c', sv')"
  obtains r s where "api a (served sv) = (r, s)" and "served sv' = s" and "ok cd c1"
    and "wr c' = Header kReplyMessage kpsa_client_api_service_id mid q # ret r"
proof -
  obtain r s where r: "api a (served sv) = (r, s)" by fastforce
  obtain e c2 where c2: "mf c1 = (e, c2)" by fastforce
  have ok: "ok cd c1" using refused [OF assms(3)] assms(4) by force
  have e: "e = kErpcStatus_Success"
    using served_no_buffer [OF assms(3) ok r c2] assms(4) by force
  let ?c3 = "put r (startWriteMessage cd kReplyMessage kpsa_client_api_service_id mid q
                      (codec_reset cd c2))"
  have "shim q c sv = (getStatus cd ?c3, ?c3, leave_served cfg ((enter_served cfg sv)\<lparr>served := s\<rparr>))"
    using served_reply [OF assms(3) ok r] c2 e by blast
  then have c': "c' = ?c3" "ok cd ?c3" "served sv' = s"
    using assms(4) by (auto simp: leave_served_def)
  have "wr ?c3 = Header kReplyMessage kpsa_client_api_service_id mid q # ret r"
    using appendsD(2) [OF appends_comp [OF conforms(3) [OF assms(1)] assms(2)] c'(2)]
      conforms(1) [OF assms(1)] by simp
  then show thesis using that r ok c' by blast
qed

end

interpretation framework_version_srv: server_stub cfg cd mf kpsa_client_api_psa_framework_version_id
    "\<lambda>c. ((), c)" "\<lambda>_. api_framework_version api" "write_u32 cd" "psa_framework_version_shim cfg cd api mf"
    for cfg cd mf api
  by unfold_locales (simp_all add: psa_framework_version_shim_def enter_served_def Let_def)

interpretation version_srv: server_stub cfg cd mf kpsa_client_api_psa_version_id
    "read_u32 cd" "api_version api" "write_u32 cd" "psa_version_shim cfg cd api mf" for cfg cd mf api
  by unfold_locales (simp_all add: psa_version_shim_def enter_served_def Let_def)

interpretation connect_srv: server_stub cfg cd mf kpsa_client_api_psa_connect_id
    "\<lambda>c. let (sid, c) = read_u32 cd c; (ver, c) = read_u32 cd c in ((sid, ver), c)"
    "\<lambda>(sid, ver). api_connect api sid ver" "write_i32 cd" "psa_connect_shim cfg cd api mf"
    for cfg cd mf api
  by unfold_locales (auto simp: psa_connect_shim_def enter_served_def Let_def split: prod.splits)

interpretation close_srv: server_stub cfg cd mf kpsa_client_api_psa_close_id
    "read_i32 cd" "\<lambda>handle s. ((), api_close api handle s)" "\<lambda>_ c. c" "psa_close_shim cfg cd api mf"
    for cfg cd mf api
  by unfold_locales (auto simp: psa_close_shim_def enter_served_def Let_def)

section \<open>Remote calls with scalar arguments\<close>

text \<open>A call the client could not complete: its error handler got the status, which is not
  success, after the request was released.\<close>

definition reported :: "stub_config \<Rightarrow> ('c, 'w) client_manager \<Rightarrow> u32 \<Rightarrow> 'w \<Rightarrow> bool" where
  "reported cfg m mid w' \<longleftrightarrow>
     (\<exists>e q w2. e \<noteq> kErpcStatus_Success \<and> w' = finish_call cfg m e mid q w2)"

lemma reportedI: "e \<noteq> kErpcStatus_Success \<Longrightarrow> reported cfg m i (finish_call cfg m e i q w)"
  by (auto simp: reported_def)

lemma takes_pair:
  assumes "takes cd rd f it" and "takes cd rd g it'"
    and "rd c = it x # it' y # xs" and "(case f c of (a, c) \<Rightarrow> case g c of (b, c) \<Rightarrow> ((a, b), c)) = (v, c')"
    and "ok cd c'"
  shows "v = (x, y)"
proof -
  obtain a c1 where f: "f c = (a, c1)" by fastforce
  obtain b c2 where g: "g c1 = (b, c2)" by fastforce
  have v: "v = (a, b)" "c' = c2" using assms(4) f g by simp_all
  have c1: "ok cd c1" using takesD(1) [OF assms(2) g] assms(5) v by simp
  have a: "a = x" "rd c1 = it' y # xs" using takesD(2) [OF assms(1) f c1 assms(3)] by simp_all
  have "b = y" using takesD(2) [OF assms(2) g _ a(2)] assms(5) v by simp
  then show ?thesis using v a by simp
qed

lemma dispatch:
  "handleInvocation cfg cd api mal mf kpsa_client_api_psa_framework_version_id q c sv
     = Some (psa_framework_version_shim cfg cd api mf q c sv)"
  "handleInvocation cfg cd api mal mf kpsa_client_api_psa_version_id q c sv
     = Some (psa_version_shim cfg cd api mf q c sv)"
  "handleInvocation cfg cd api mal mf kpsa_client_api_erpc_psa_call_id q c sv
     = erpc_psa_call_shim cfg cd api mal mf q c sv"
  "handleInvocation cfg cd api mal mf kpsa_client_api_psa_connect_id q c sv
     = Some (psa_connect_shim cfg cd api mf q c sv)"
  "handleInvocation cfg cd api mal mf kpsa_client_api_psa_close_id q c sv
     = Some (psa_close_shim cfg cd api mf q c sv)"
  by (simp_all add: handleInvocation_def psa_ids)

lemma no_arguments: "appends cd wr (\<lambda>c. c) []" "takes cd rd (\<lambda>c. ((), c)) (\<lambda>_. i)
    \<longleftrightarrow> (\<forall>c xs. ok cd c \<longrightarrow> rd c = i # xs \<longrightarrow> rd c = xs)"
  by (auto simp: appends_def takes_def)

text \<open>In each of the three proofs below the reply the server wrote is the one the client read.\<close>

lemma framework_version_answers:
  assumes "codec_conforms cd wr rd" and "delivers scfg cd wr rd api mal mf m srv"
    and "client_local cfg wr m srv" and "psa_framework_version cfg cd m w = (r, w')"
  shows "r = 0xFFFFFFFF \<and> reported cfg m kpsa_client_api_psa_framework_version_id w'
    \<or> api_framework_version api (served (srv w)) = (r, served (srv w'))"
proof -
  note laws = conforms [OF assms(1)]
  from assms(1-3) no_arguments(1) laws(8) assms(4) show ?thesis
  proof (cases rule: framework_version_stub.served_unless_failed)
    case 1
    then show ?thesis by (simp add: reported_def)
  next
    case (2 q sc sc' reply)
    have shim: "psa_framework_version_shim scfg cd api mf q sc (srv w)
        = (kErpcStatus_Success, sc', srv w')"
      using 2(3) by (simp add: dispatch)
    obtain v s where "api_framework_version api (served (srv w)) = (v, s)" "served (srv w') = s"
      "wr sc' = Header kReplyMessage kpsa_client_api_service_id
         kpsa_client_api_psa_framework_version_id q # [Word v]"
      by (rule framework_version_srv.reply_carries_result [OF assms(1) laws(4) refl shim])
    then show ?thesis using 2(4,5) by simp
  qed
qed

lemma version_answers:
  assumes "codec_conforms cd wr rd" and "delivers scfg cd wr rd api mal mf m srv"
    and "client_local cfg wr m srv" and "psa_version cfg cd m sid w = (r, w')"
  shows "r = 0xFFFFFFFF \<and> reported cfg m kpsa_client_api_psa_version_id w'
    \<or> api_version api sid (served (srv w)) = (r, served (srv w'))"
proof -
  note laws = conforms [OF assms(1)]
  from assms(1-3) laws(4,8) assms(4) show ?thesis
  proof (cases rule: version_stub.served_unless_failed)
    case 1
    then show ?thesis by (simp add: reported_def)
  next
    case (2 q sc sc' reply)
    obtain a c1 where a: "read_u32 cd sc = (a, c1)" by fastforce
    have shim: "psa_version_shim scfg cd api mf q sc (srv w) = (kErpcStatus_Success, sc', srv w')"
      using 2(3) by (simp add: dispatch)
    obtain v s where "api_version api a (served (srv w)) = (v, s)" "served (srv w') = s"
      and c1: "ok cd c1" and "wr sc' = Header kReplyMessage kpsa_client_api_service_id
         kpsa_client_api_psa_version_id q # [Word v]"
      by (rule version_srv.reply_carries_result [OF assms(1) laws(4) a shim])
    moreover have "a = sid" using takesD(2) [OF laws(8) a c1 2(2)] by simp
    ultimately show ?thesis using 2(4,5) by simp
  qed
qed

lemma connect_answers:
  assumes "codec_conforms cd wr rd" and "delivers scfg cd wr rd api mal mf m srv"
    and "client_local cfg wr m srv" and "psa_connect cfg cd m sid ver w = (r, w')"
  shows "r = - 1 \<and> reported cfg m kpsa_client_api_psa_connect_id w'
    \<or> api_connect api sid ver (served (srv w)) = (r, served (srv w'))"
proof -
  note laws = conforms [OF assms(1)]
  from assms(1-3) appends_comp [OF laws(4) laws(4)] laws(9) assms(4) show ?thesis
  proof (cases rule: connect_stub.served_unless_failed)
    case 1
    then show ?thesis by (simp add: reported_def)
  next
    case (2 q sc sc' reply)
    obtain a c1 where a: "(let (sid, c) = read_u32 cd sc; (ver, c) = read_u32 cd c
        in ((sid, ver), c)) = (a, c1)" by fastforce
    have shim: "psa_connect_shim scfg cd api mf q sc (srv w) = (kErpcStatus_Success, sc', srv w')"
      using 2(3) by (simp add: dispatch)
    obtain v s where v: "(case a of (sid, ver) \<Rightarrow> api_connect api sid ver) (served (srv w)) = (v, s)"
      "served (srv w') = s" and c1: "ok cd c1"
      and reply: "wr sc' = Header kReplyMessage kpsa_client_api_service_id
         kpsa_client_api_psa_connect_id q # [Signed v]"
      by (rule connect_srv.reply_carries_result [OF assms(1) laws(5) a shim])
    have "a = (sid, ver)"
      by (rule takes_pair [OF laws(8) laws(8) _ _ c1, of sc _ _ "[]"])
        (use 2(2) a in \<open>simp_all add: Let_def\<close>)
    then show ?thesis using 2(5) [of v "[]"] 2(4) v reply by simp
  qed
qed

text \<open>A runtime for the witnesses: messages are lists of items, and the client's manager hands the
  message of a request to the server and its reply back.\<close>

record wire =
  wire_status :: erpc_status_t
  wire_out :: "item list"
  wire_in :: "item list"

definition wire_put :: "item \<Rightarrow> wire \<Rightarrow> wire" where
  "wire_put i c = c\<lparr>wire_out := wire_out c @ [i]\<rparr>"

definition wire_fail :: "wire \<Rightarrow> wire" where
  "wire_fail c = (if wire_status c = kErpcStatus_Success then c\<lparr>wire_status := kErpcStatus_Other 0\<rparr> else c)"

definition wire_take :: "(item \<Rightarrow> 'v option) \<Rightarrow> 'v \<Rightarrow> wire \<Rightarrow> 'v \<times> wire" where
  "wire_take f z c =
     (if wire_status c \<noteq> kErpcStatus_Success then (z, c)
      else case wire_in c of
             [] \<Rightarrow> (z, wire_fail c)
           | i # is \<Rightarrow> (case f i of None \<Rightarrow> (z, wire_fail c) | Some v \<Rightarrow> (v, c\<lparr>wire_in := is\<rparr>)))"

fun wire_blob :: "item \<Rightarrow> (u32 \<times> u8 list) option" where
  "wire_blob (Blob bs) = (if unat (of_nat (length bs) :: u32) = length bs then Some (of_nat (length bs), bs) else None)"
| "wire_blob _ = None"

definition wire_codec_upto :: "u32 \<Rightarrow> wire codec_api" where
  "wire_codec_upto longest =
    \<lparr>getStatus = wire_status,
     updateStatus = (\<lambda>e c. if wire_status c = kErpcStatus_Success then c\<lparr>wire_status := e\<rparr> else c),
     codec_reset = (\<lambda>c. c\<lparr>wire_status := kErpcStatus_Success, wire_out := []\<rparr>),
     startWriteMessage = (\<lambda>t s m q. wire_put (Header t s m q)),
     write_u32 = (\<lambda>v. wire_put (Word v)),
     write_i32 = (\<lambda>v. wire_put (Signed v)),
     writeBinary = (\<lambda>n bs. wire_put (Blob (take (unat n) bs))),
     startWriteList = (\<lambda>n. wire_put (Count n)),
     read_u32 = wire_take (\<lambda>i. case i of Word v \<Rightarrow> Some v | _ \<Rightarrow> None) 0,
     read_i32 = wire_take (\<lambda>i. case i of Signed v \<Rightarrow> Some v | _ \<Rightarrow> None) 0,
     readBinary = wire_take wire_blob (0, []),
     startReadList = wire_take (\<lambda>i. case i of
       Count v \<Rightarrow> if v \<le> longest then Some v else None | _ \<Rightarrow> None) 0\<rparr>"

definition wire_codec :: "wire codec_api" where
  "wire_codec = wire_codec_upto 0xFFFF"

lemma wire_take_ok:
  "wire_status (snd (wire_take f z c)) = kErpcStatus_Success \<Longrightarrow>
   \<exists>i is v. wire_status c = kErpcStatus_Success \<and> wire_in c = i # is \<and> f i = Some v
     \<and> wire_take f z c = (v, c\<lparr>wire_in := is\<rparr>)"
  by (auto simp: wire_take_def wire_fail_def split: if_splits list.splits option.splits)

lemma wire_take_failed:
  "wire_status (snd (wire_take f z c)) \<noteq> kErpcStatus_Success \<Longrightarrow> fst (wire_take f z c) = z"
  by (auto simp: wire_take_def split: if_splits list.splits option.splits)

lemma wire_conforms_upto: "codec_conforms (wire_codec_upto longest) wire_out wire_in"
  unfolding codec_conforms_def
proof (intro conjI allI impI)
  fix c n bs c' assume r: "readBinary (wire_codec_upto longest) c = ((n, bs), c')"
  show "if ok (wire_codec_upto longest) c' then ok (wire_codec_upto longest) c \<and> length bs = unat n
      \<and> (\<forall>b xs. wire_in c = Blob b # xs \<longrightarrow> bs = b \<and> wire_in c' = xs) else n = 0"
  proof (cases "ok (wire_codec_upto longest) c'")
    case True
    then obtain i xs where "wire_status c = kErpcStatus_Success" "wire_in c = i # xs"
      "wire_blob i = Some (n, bs)" "c' = c\<lparr>wire_in := xs\<rparr>"
      using r wire_take_ok [of wire_blob "(0, [])" c] by (auto simp: wire_codec_upto_def)
    then show ?thesis using True
      by (cases i) (auto simp: wire_codec_upto_def split: if_splits)
  next
    case False
    then show ?thesis
      using r wire_take_failed [of wire_blob "(0, [])" c] by (simp add: wire_codec_upto_def)
  qed
qed (use wire_take_failed in \<open>auto simp: appends_def takes_def wire_codec_upto_def wire_put_def
  dest!: wire_take_ok split: item.splits if_splits\<close>)

lemma wire_conforms: "codec_conforms wire_codec wire_out wire_in"
  unfolding wire_codec_def by (rule wire_conforms_upto)

definition loopback ::
  "'s served_api \<Rightarrow> allocator \<Rightarrow> (wire, 's server_world) client_manager" where
  "loopback api mal =
    \<lparr>getPreCB = (\<lambda>w. None),
     createRequest = (\<lambda>_ w. ((Some \<lparr>wire_status = kErpcStatus_Success, wire_out = [], wire_in = []\<rparr>, 7), w)),
     performRequest = (\<lambda>c q w.
       if wire_status c \<noteq> kErpcStatus_Success then (c, w)
       else case wire_out c of
         Header kInvocationMessage s mid q' # args \<Rightarrow>
           (case handleInvocation \<lparr>pre_post_action = False, nested_calls_detection = True\<rparr> wire_codec api mal
                (Pair kErpcStatus_Success) mid q \<lparr>wire_status = kErpcStatus_Success, wire_out = [], wire_in = args\<rparr> w of
              Some (kErpcStatus_Success, sc, w') \<Rightarrow>
                (case wire_out sc of
                   Header kReplyMessage s' mid' q'' # reply \<Rightarrow>
                     if s' = kpsa_client_api_service_id \<and> mid' = mid \<and> q'' = q
                     then (c\<lparr>wire_in := reply\<rparr>, w') else (wire_fail c, w)
                 | _ \<Rightarrow> (wire_fail c, w))
            | _ \<Rightarrow> (wire_fail c, w))
       | _ \<Rightarrow> (wire_fail c, w)),
     releaseRequest = (\<lambda>_ w. w),
     callErrorHandler = (\<lambda>_ _ w. w),
     getPostCB = (\<lambda>w. None)\<rparr>"

lemma loopback_delivers:
  "delivers \<lparr>pre_post_action = False, nested_calls_detection = True\<rparr> wire_codec wire_out wire_in api mal
     (Pair kErpcStatus_Success) (loopback api mal) (\<lambda>w. w)"
proof -
  have st: "getStatus wire_codec = wire_status" by (simp add: wire_codec_def wire_codec_upto_def)
  show ?thesis
    unfolding delivers_def st
  proof (intro allI impI conjI; elim conjE)
    fix c q w c' w'
    assume p: "performRequest (loopback api mal) c q w = (c', w')" "wire_status c' = kErpcStatus_Success"
    show c: "wire_status c = kErpcStatus_Success"
      by (rule ccontr) (use p in \<open>simp add: loopback_def\<close>)
    fix mid args
    assume m: "wire_out c = Header kInvocationMessage kpsa_client_api_service_id mid q # args"
    show "\<exists>sc sc' reply. wire_status sc = kErpcStatus_Success \<and> wire_in sc = args
        \<and> handleInvocation \<lparr>pre_post_action = False, nested_calls_detection = True\<rparr> wire_codec api mal
            (Pair kErpcStatus_Success) mid q sc w = Some (kErpcStatus_Success, sc', w')
        \<and> wire_out sc' = Header kReplyMessage kpsa_client_api_service_id mid q # reply
        \<and> wire_in c' = reply"
      by (rule exI [of _ "\<lparr>wire_status = kErpcStatus_Success, wire_out = [], wire_in = args\<rparr>"])
        (use p c m in \<open>auto simp: loopback_def wire_fail_def split: if_splits list.splits item.splits
          message_type_t.splits option.splits prod.splits erpc_status_t.splits\<close>)
  qed
qed

lemma loopback_local: "client_local cfg wire_out (loopback api mal) (\<lambda>w. w)"
  by (simp add: client_local_def loopback_def run_cb_def)

text \<open>C25. A remote call of one of the methods with scalar arguments tells the truth: over a runtime
  that behaves as documented, \<open>psa_framework_version\<close>, \<open>psa_version\<close> and \<open>psa_connect\<close> return
  either the answer that the served function gives on the server's state for exactly the
  arguments of the call, the server being then in the state that function left, or the error value
  of the shim, after the client's error handler was told a status other than success.\<close>

theorem remote_scalar_calls_answer:
  assumes "codec_conforms cd wr rd" and "delivers scfg cd wr rd api mal mf m srv"
    and "client_local cfg wr m srv"
  shows "(case psa_framework_version cfg cd m w of (r, w') \<Rightarrow>
        r = 0xFFFFFFFF \<and> reported cfg m kpsa_client_api_psa_framework_version_id w'
        \<or> api_framework_version api (served (srv w)) = (r, served (srv w')))
    \<and> (case psa_version cfg cd m sid w of (r, w') \<Rightarrow>
        r = 0xFFFFFFFF \<and> reported cfg m kpsa_client_api_psa_version_id w'
        \<or> api_version api sid (served (srv w)) = (r, served (srv w')))
    \<and> (case psa_connect cfg cd m sid ver w of (r, w') \<Rightarrow>
        r = - 1 \<and> reported cfg m kpsa_client_api_psa_connect_id w'
        \<or> api_connect api sid ver (served (srv w)) = (r, served (srv w')))"
  using framework_version_answers [OF assms] version_answers [OF assms] connect_answers [OF assms]
  by (simp split: prod.split)

text \<open>A small served API for the witnesses: it counts the calls, and a call fills every output with
  the number of its input bytes.\<close>

definition small_api :: "nat served_api" where
  "small_api =
    \<lparr>api_framework_version = (\<lambda>s. (0x0101, Suc s)),
     api_version = (\<lambda>sid s. (sid + 1, Suc s)),
     api_call = (\<lambda>h t i out s. Some (t, out, Suc s)),
     api_connect = (\<lambda>sid ver s. (sid * ver, Suc s)),
     api_close = (\<lambda>h s. Suc s)\<rparr>"

definition bump :: allocator where
  "bump n lv = (if n = 0 then NULL else Suc (foldr max lv 0))"

definition idle_server :: "nat server_world" where
  "idle_server = \<lparr>live = [], nestingDetection = False, served = 0\<rparr>"

definition plain_config :: stub_config where
  "plain_config = \<lparr>pre_post_action = False, nested_calls_detection = True\<rparr>"

theorem remote_scalar_calls_answer_witness:
  "psa_connect plain_config wire_codec (loopback small_api bump) 6 7 idle_server
     = (42, idle_server\<lparr>served := 1\<rparr>)
   \<and> api_connect small_api 6 7 (served idle_server) = (42, 1)"
proof -
  have run: "psa_connect plain_config wire_codec (loopback small_api bump) 6 7 idle_server
     = (42, idle_server\<lparr>served := 1\<rparr>)"
    by code_simp
  then show ?thesis
    using remote_scalar_calls_answer [OF wire_conforms loopback_delivers loopback_local,
        of plain_config small_api bump idle_server 6 7]
    by simp
qed

end
