(* ===== verification/Erpc_Vectors.thy ===== *)
theory Erpc_Vectors
  imports Erpc_Remote
begin

text \<open>
  The call with vectors: the reading, writing and releasing of \<open>list_binary_1_t\<close> on both sides, the
  repository's server wrapper (\<^verbatim>\<open>src/erpc/server/erpc_server_wrapper.c\<close>) as the function that the
  shim serves, and the transparency of \<open>erpc_psa_call\<close> from the client's shim to the PSA call
  behind that wrapper.
\<close>

section \<open>Vectors and their contents\<close>

definition payload :: "blob_t \<Rightarrow> u8 list" where
  "payload b = take (unat (data_length b)) (contents (data b))"

fun blob_ok :: "blob_t option \<Rightarrow> bool" where
  "blob_ok None = False"
| "blob_ok (Some b) = (unat (data_length b) \<le> length (contents (data b)))"

abbreviation cnt :: "list_binary_1_t \<Rightarrow> nat" where
  "cnt l \<equiv> unat (elementsCount l)"

definition entries :: "list_binary_1_t \<Rightarrow> blob_t list" where
  "entries l = map the (take (cnt l) (elems l))"

definition blobs :: "list_binary_1_t \<Rightarrow> u8 list list" where
  "blobs l = map payload (entries l)"

definition vec_ok :: "list_binary_1_t \<Rightarrow> bool" where
  "vec_ok l \<longleftrightarrow> (elements l = NULL \<longrightarrow> elementsCount l = 0) \<and> cnt l \<le> length (elems l)
     \<and> list_all blob_ok (take (cnt l) (elems l))"

lemma blob_okE: "blob_ok e \<Longrightarrow> (\<And>b. e = Some b \<Longrightarrow> unat (data_length b) \<le> length (contents (data b)) \<Longrightarrow> P) \<Longrightarrow> P"
  by (cases e) auto

lemma vec_ok_nth:
  assumes "vec_ok l" and "i < cnt l"
  obtains b where "elem_ref l i = Some (Some b)" and "elems l ! i = Some b" and "i < length (elems l)"
    and "unat (data_length b) \<le> length (contents (data b))" and "entries l ! i = b"
    and "elements l \<noteq> NULL"
proof -
  have i: "i < length (elems l)" "elements l \<noteq> NULL" using assms by (auto simp: vec_ok_def)
  have "blob_ok (elems l ! i)" using assms i by (auto simp: vec_ok_def list_all_length)
  then obtain b where b: "elems l ! i = Some b" "unat (data_length b) \<le> length (contents (data b))"
    by (rule blob_okE)
  show thesis
    by (rule that [of b]) (use b i assms in \<open>simp_all add: elem_ref_def entries_def\<close>)
qed

lemma length_entries [simp]: "vec_ok l \<Longrightarrow> length (entries l) = cnt l"
  by (simp add: entries_def vec_ok_def)

lemma length_blobs [simp]: "vec_ok l \<Longrightarrow> length (blobs l) = cnt l"
  by (simp add: blobs_def)

lemma drop_blobs:
  "vec_ok l \<Longrightarrow> i < cnt l \<Longrightarrow> drop i (blobs l) = payload (entries l ! i) # drop (Suc i) (blobs l)"
  by (simp add: blobs_def drop_map flip: Cons_nth_drop_Suc)

section \<open>Writing\<close>

lemma write_elems_ok:
  assumes "codec_conforms cd wr rd" and "vec_ok l"
  shows "\<exists>c'. write_elems cd l (cnt l) i c = Some c'
    \<and> (ok cd c' \<longrightarrow> ok cd c \<and> wr c' = wr c @ map Blob (drop i (blobs l)))"
proof (induction "cnt l - i" arbitrary: i c)
  case 0
  then show ?case using assms(2) by (subst write_elems.simps) simp
next
  case (Suc k)
  have i: "i < cnt l" using Suc(2) by simp
  obtain b where b: "elem_ref l i = Some (Some b)" "unat (data_length b) \<le> length (contents (data b))"
      "entries l ! i = b"
    using vec_ok_nth [OF assms(2) i] by metis
  let ?c = "writeBinary cd (data_length b) (contents (data b)) c"
  have a: "appends cd wr (writeBinary cd (data_length b) (contents (data b))) [Blob (payload b)]"
    using conforms(6) [OF assms(1) b(2)] by (simp add: payload_def)
  obtain c' where c': "write_elems cd l (cnt l) (Suc i) ?c = Some c'"
    "ok cd c' \<longrightarrow> ok cd ?c \<and> wr c' = wr ?c @ map Blob (drop (Suc i) (blobs l))"
    using Suc by (metis Suc_diff_Suc diff_Suc_Suc i nat.inject)
  have "write_elems cd l (cnt l) i c = Some c'"
    using i b c'(1) by (subst write_elems.simps) (simp add: write_binary_t_struct_def)
  then show ?case
    using c'(2) appendsD [OF a, of c] drop_blobs [OF assms(2) i] b(3) by auto
qed

lemma write_list_ok:
  assumes "codec_conforms cd wr rd" and "vec_ok l"
  shows "\<exists>c'. write_list_binary_1_t_struct cd (Some l) c = Some c'
    \<and> (ok cd c' \<longrightarrow> ok cd c \<and> wr c' = wr c @ Count (elementsCount l) # map Blob (blobs l))"
proof -
  obtain c' where "write_list_binary_1_t_struct cd (Some l) c = Some c'"
    "ok cd c' \<longrightarrow> ok cd (startWriteList cd (elementsCount l) c)
       \<and> wr c' = wr (startWriteList cd (elementsCount l) c) @ map Blob (blobs l)"
    using write_elems_ok [OF assms, of 0] unfolding write_list_binary_1_t_struct_def by force
  then show ?thesis using appendsD [OF conforms(7) [OF assms(1)]] by auto
qed

text \<open>The two generated files write a vector in the same way.\<close>

lemma srv_write_list:
  "srv_write_list_binary_1_t_struct cd d c = write_list_binary_1_t_struct cd d c"
proof -
  have b: "srv_write_binary_t_struct cd d c = write_binary_t_struct cd d c" for cd :: "'a codec_api" and d c
    by (simp add: srv_write_binary_t_struct_def write_binary_t_struct_def)
  have "srv_write_elems cd l n i c = write_elems cd l n i c" for l n i c
    by (induction cd l n i c rule: write_elems.induct)
      (subst write_elems.simps, subst srv_write_elems.simps, auto simp: b split: option.split)
  then show ?thesis
    by (cases d) (simp_all add: srv_write_list_binary_1_t_struct_def write_list_binary_1_t_struct_def)
qed

section \<open>Reading on the server\<close>

text \<open>The reading loop as a recursion on the number of entries still to read.\<close>

fun srv_blobs :: "'c codec_api \<Rightarrow> allocator \<Rightarrow> nat \<Rightarrow> 'c \<Rightarrow> ptr list \<Rightarrow> (blob_t list \<times> 'c \<times> ptr list) option" where
  "srv_blobs cd mal 0 c lv = Some ([], c, lv)"
| "srv_blobs cd mal (Suc k) c lv =
     (case srv_read_binary_t_struct cd mal False c lv of
        Some (Some b, c, lv) \<Rightarrow> map_option (\<lambda>(bs, c, lv). (b # bs, c, lv)) (srv_blobs cd mal k c lv)
      | _ \<Rightarrow> None)"

lemma srv_read_binary_not_null:
  "srv_read_binary_t_struct cd mal False c lv \<noteq> Some (None, c', lv')"
  by (auto simp: srv_read_binary_t_struct_def Let_def split: prod.splits if_splits)

lemma srv_read_elems_blobs:
  assumes "elements l \<noteq> NULL" and "n \<le> length (elems l)" and "i \<le> n"
  shows "srv_read_elems cd mal n i l c lv
    = map_option (\<lambda>(bs, c, lv). (l\<lparr>elems := take i (elems l) @ map Some bs @ drop n (elems l)\<rparr>, c, lv))
        (srv_blobs cd mal (n - i) c lv)"
  using assms
proof (induction "n - i" arbitrary: i l c lv)
  case 0
  then show ?case by (subst srv_read_elems.simps) simp
next
  case (Suc k)
  have i: "i < n" and k: "n - i = Suc (n - Suc i)" "k = n - Suc i" using Suc(2) by simp_all
  note step = srv_read_elems.simps [of cd mal n i l c lv]
  show ?case
  proof (cases "srv_read_binary_t_struct cd mal False c lv")
    case None
    then show ?thesis using i k(1) Suc(3,4) by (simp add: step)
  next
    case (Some x)
    then obtain b c1 lv1 where x: "srv_read_binary_t_struct cd mal False c lv = Some (Some b, c1, lv1)"
      using srv_read_binary_not_null by (metis not_None_eq surj_pair)
    let ?l = "l\<lparr>elems := (elems l)[i := Some b]\<rparr>"
    have "srv_read_elems cd mal n i l c lv = srv_read_elems cd mal n (Suc i) ?l c1 lv1"
      using i x Suc(3,4) by (simp add: step)
    also have "\<dots> = map_option (\<lambda>(bs, c, lv).
        (?l\<lparr>elems := take (Suc i) (elems ?l) @ map Some bs @ drop n (elems ?l)\<rparr>, c, lv))
        (srv_blobs cd mal (n - Suc i) c1 lv1)"
      using Suc(1) [OF k(2), of ?l c1 lv1] Suc(3,4) i by simp
    finally show ?thesis
      using x k(1) i Suc(4)
      by (simp add: take_Suc_conv_app_nth list_update_append option.map_comp comp_def case_prod_unfold)
  qed
qed

definition owned :: "blob_t list \<Rightarrow> ptr list" where
  "owned bs = filter (\<lambda>p. p \<noteq> NULL) (map (address \<circ> data) bs)"

lemma owned_simps [simp]:
  "owned [] = []"
  "owned (b # bs) = (if address (data b) \<noteq> NULL then [address (data b)] else []) @ owned bs"
  by (simp_all add: owned_def)

lemma srv_read_binary_ok:
  assumes "codec_conforms cd wr rd"
  shows "\<exists>b c' lv'. srv_read_binary_t_struct cd mal False c lv = Some (Some b, c', lv')
    \<and> mset lv' = mset (owned [b]) + mset lv
    \<and> (ok cd c' \<longrightarrow> ok cd c \<and> blob_ok (Some b)
        \<and> (\<forall>x xs. rd c = Blob x # xs \<longrightarrow> payload b = x \<and> rd c' = xs))"
proof -
  obtain n bs c1 where r: "readBinary cd c = ((n, bs), c1)" by (metis surj_pair)
  note law = conforms_binary [OF assms r]
  have len: "unat n \<le> length bs" using law(1,3) by (cases "ok cd c1") simp_all
  define p where "p = mal n lv"
  define lv' where "lv' = (if p = NULL then lv else p # lv)"
  show ?thesis
  proof (cases "p = NULL \<and> 0 < n")
    case True
    have "\<not> ok cd (updateStatus cd kErpcStatus_MemoryError c1)"
      using conforms(2) [OF assms] by simp
    then show ?thesis
      using True r
      by (intro exI [of _ "\<lparr>data = null_buffer, data_length = n\<rparr>"] exI [of _ lv']
          exI [of _ "updateStatus cd kErpcStatus_MemoryError c1"])
        (auto simp: srv_read_binary_t_struct_def erpc_malloc_def Let_def null_buffer_def p_def lv'_def)
  next
    case False
    then show ?thesis
      using r len law
      by (intro exI [of _ "\<lparr>data = \<lparr>address = p, contents = take (unat n) bs\<rparr>, data_length = n\<rparr>"]
          exI [of _ c1] exI [of _ lv'])
        (auto simp: srv_read_binary_t_struct_def erpc_malloc_def Let_def payload_def p_def lv'_def)
  qed
qed

lemma srv_blobs_ok:
  assumes "codec_conforms cd wr rd"
  shows "\<exists>bs c' lv'. srv_blobs cd mal k c lv = Some (bs, c', lv') \<and> length bs = k
    \<and> mset lv' = mset (owned bs) + mset lv
    \<and> (ok cd c' \<longrightarrow> ok cd c \<and> list_all blob_ok (map Some bs)
        \<and> (\<forall>xs ys. length xs = k \<longrightarrow> rd c = map Blob xs @ ys \<longrightarrow> map payload bs = xs \<and> rd c' = ys))"
proof (induction k arbitrary: c lv)
  case 0
  then show ?case by simp
next
  case (Suc k)
  obtain b c1 lv1 where b: "srv_read_binary_t_struct cd mal False c lv = Some (Some b, c1, lv1)"
    "mset lv1 = mset (owned [b]) + mset lv"
    "ok cd c1 \<longrightarrow> ok cd c \<and> blob_ok (Some b)
        \<and> (\<forall>x xs. rd c = Blob x # xs \<longrightarrow> payload b = x \<and> rd c1 = xs)"
    using srv_read_binary_ok [OF assms] by blast
  obtain bs c2 lv2 where bs: "srv_blobs cd mal k c1 lv1 = Some (bs, c2, lv2)" "length bs = k"
    "mset lv2 = mset (owned bs) + mset lv1"
    "ok cd c2 \<longrightarrow> ok cd c1 \<and> list_all blob_ok (map Some bs)
        \<and> (\<forall>xs ys. length xs = k \<longrightarrow> rd c1 = map Blob xs @ ys \<longrightarrow> map payload bs = xs \<and> rd c2 = ys)"
    using Suc by blast
  have "map payload (b # bs) = xs \<and> rd c2 = ys"
    if "ok cd c2" "length xs = Suc k" "rd c = map Blob xs @ ys" for xs ys
    using that bs(4) b(3) by (cases xs) auto
  then show ?case
    using b bs by (intro exI [of _ "b # bs"] exI [of _ c2] exI [of _ lv2]) auto
qed

lemma capacity: "unat n < 2 ^ 29 \<Longrightarrow> unat (n * sizeof_binary_t) div unat sizeof_binary_t = unat n"
  by (simp add: sizeof_binary_t_def unat_word_ariths)

text \<open>A vector as the server builds it, once its element array could be allocated.\<close>

lemma srv_read_list_allocated:
  assumes "codec_conforms cd wr rd" and "dest \<noteq> NULL" and "startReadList cd c = (n, c1)"
    and "unat n < 2 ^ 29" and "p = mal (n * sizeof_binary_t) lv" and "p \<noteq> NULL \<or> n = 0"
  shows "\<exists>bs c' lv'. srv_read_list_binary_1_t_struct cd mal dest c lv
        = Some (Some \<lparr>elements = p, elems = map Some bs, elementsCount = n\<rparr>, c', lv')
    \<and> length bs = unat n \<and> mset lv' = mset (owned bs) + mset (if p = NULL then lv else p # lv)
    \<and> (ok cd c' \<longrightarrow> ok cd c1 \<and> list_all blob_ok (map Some bs)
        \<and> (\<forall>xs ys. length xs = unat n \<longrightarrow> rd c1 = map Blob xs @ ys \<longrightarrow> map payload bs = xs \<and> rd c' = ys))"
proof -
  let ?lv = "if p = NULL then lv else p # lv"
  let ?l = "\<lparr>elements = p, elems = replicate (unat n) None, elementsCount = n\<rparr>"
  obtain bs c' lv' where bs: "srv_blobs cd mal (unat n) c1 ?lv = Some (bs, c', lv')" "length bs = unat n"
    "mset lv' = mset (owned bs) + mset ?lv"
    "ok cd c' \<longrightarrow> ok cd c1 \<and> list_all blob_ok (map Some bs)
        \<and> (\<forall>xs ys. length xs = unat n \<longrightarrow> rd c1 = map Blob xs @ ys \<longrightarrow> map payload bs = xs \<and> rd c' = ys)"
    using srv_blobs_ok [OF assms(1)] by blast
  have "srv_read_elems cd mal (unat n) 0 ?l c1 ?lv = Some (?l\<lparr>elems := map Some bs\<rparr>, c', lv')"
  proof (cases "p = NULL")
    case True
    then have "n = 0" using assms(6) by simp
    then show ?thesis using bs by (subst srv_read_elems.simps) simp
  next
    case False
    then show ?thesis using bs srv_read_elems_blobs [of ?l "unat n" 0 cd mal c1 ?lv] by simp
  qed
  then have "srv_read_list_binary_1_t_struct cd mal dest c lv
      = Some (Some \<lparr>elements = p, elems = map Some bs, elementsCount = n\<rparr>, c', lv')"
    using assms(2-6) capacity [OF assms(4)]
    by (auto simp: srv_read_list_binary_1_t_struct_def erpc_malloc_def Let_def)
  then show ?thesis using bs(2-4) by blast
qed

text \<open>When the element array of a non-empty vector could not be allocated, the reading fails or
  leaves the codec in an error state.\<close>

lemma srv_read_list_unallocated:
  assumes "codec_conforms cd wr rd" and "dest \<noteq> NULL" and "startReadList cd c = (n, c1)"
    and "mal (n * sizeof_binary_t) lv = NULL" and "n \<noteq> 0"
    and "srv_read_list_binary_1_t_struct cd mal dest c lv = Some (l, c', lv')"
  shows "\<not> ok cd c'" and "unat n = 1" and "\<exists>es. l = Some \<lparr>elements = NULL, elems = es, elementsCount = n\<rparr>"
proof -
  let ?l = "\<lparr>elements = NULL, elems = replicate (unat (n * sizeof_binary_t) div unat sizeof_binary_t) None,
      elementsCount = n\<rparr>"
  let ?c = "updateStatus cd kErpcStatus_MemoryError c1"
  have "0 < n" using assms(5) by (simp add: word_neq_0_conv)
  then have run: "map_option (\<lambda>(l, c, lv). (Some l, c, lv)) (srv_read_elems cd mal (unat n) 0 ?l ?c lv)
      = Some (l, c', lv')"
    using assms(2-4,6) by (simp add: srv_read_list_binary_1_t_struct_def erpc_malloc_def Let_def)
  have n: "0 < unat n" using \<open>0 < n\<close> by (simp add: word_less_nat_alt)
  have "srv_read_elems cd mal (unat n) 0 ?l ?c lv = srv_read_elems cd mal (unat n) (Suc 0) ?l ?c lv"
    using n by (subst srv_read_elems.simps) (simp add: srv_read_binary_t_struct_def)
  also have "\<dots> = (if Suc 0 < unat n then None else Some (?l, ?c, lv))"
    by (subst srv_read_elems.simps) simp
  finally have l: "\<not> Suc 0 < unat n" "l = Some ?l" "c' = ?c"
    using run by (auto split: if_splits)
  have "\<not> ok cd ?c" using conforms(2) [OF assms(1)] by simp
  then show "\<not> ok cd c'" "unat n = 1" "\<exists>es. l = Some \<lparr>elements = NULL, elems = es, elementsCount = n\<rparr>"
    using l n by auto
qed

lemma srv_read_list_received:
  assumes "codec_conforms cd wr rd" and "srv_read_list_binary_1_t_struct cd mal dest c lv = Some (l, c', lv')"
    and "dest \<noteq> NULL" and "ok cd c'"
    and "rd c = Count n # map Blob xs @ ys" and "length xs = unat n" and "unat n < 2 ^ 29"
  obtains v where "l = Some v" and "vec_ok v" and "elementsCount v = n" and "blobs v = xs"
    and "rd c' = ys" and "ok cd c"
proof -
  obtain k c1 where start: "startReadList cd c = (k, c1)" by fastforce
  note list_law = conforms(10) [OF assms(1)]
  show thesis
  proof (cases "ok cd c1")
    case True
    then have k: "k = n" "rd c1 = map Blob xs @ ys" and c: "ok cd c"
      using takesD [OF list_law start] assms(5) by auto
    have p: "mal (n * sizeof_binary_t) lv \<noteq> NULL \<or> n = 0"
      using srv_read_list_unallocated(1) [OF assms(1,3) start _ _ assms(2)] assms(4) k(1) by blast
    obtain bs where bs: "l = Some \<lparr>elements = mal (n * sizeof_binary_t) lv, elems = map Some bs, elementsCount = n\<rparr>"
      "length bs = unat n" "list_all blob_ok (map Some bs)" "map payload bs = xs" "rd c' = ys"
      using srv_read_list_allocated [OF assms(1,3) start _ refl, of mal lv] p k assms(2,4,6,7) by auto
    show thesis
      by (rule that [OF bs(1)])
        (use bs p c in \<open>auto simp: vec_ok_def blobs_def entries_def comp_def\<close>)
  next
    case False
    then have k: "k = 0" using conforms_list_failed [OF assms(1) start] by simp
    then have "ok cd c1"
      using srv_read_list_allocated [OF assms(1,3) start _ refl, of mal lv] assms(2,4) by auto
    then show thesis using False by simp
  qed
qed

section \<open>Reading on the client\<close>

fun cl_blobs :: "'c codec_api \<Rightarrow> blob_t list \<Rightarrow> 'c \<Rightarrow> (blob_t list \<times> 'c) option" where
  "cl_blobs cd [] c = Some ([], c)"
| "cl_blobs cd (b # bs) c =
     (case read_binary_t_struct cd (Some b) c of
        Some (Some b, c) \<Rightarrow> map_option (\<lambda>(bs, c). (b # bs, c)) (cl_blobs cd bs c)
      | _ \<Rightarrow> None)"

lemma read_binary_not_null: "read_binary_t_struct cd (Some b) c \<noteq> Some (None, c')"
  by (auto simp: read_binary_t_struct_def Let_def split: prod.splits if_splits)

lemma read_elems_blobs:
  assumes "elements l \<noteq> NULL" and "n \<le> length (elems l)" and "i \<le> n"
    and "\<And>j. i \<le> j \<Longrightarrow> j < n \<Longrightarrow> elems l ! j \<noteq> None"
  shows "read_elems cd n i l c
    = map_option (\<lambda>(bs, c). (l\<lparr>elems := take i (elems l) @ map Some bs @ drop n (elems l)\<rparr>, c))
        (cl_blobs cd (map the (drop i (take n (elems l)))) c)"
  using assms
proof (induction "n - i" arbitrary: i l c)
  case 0
  then show ?case by (subst read_elems.simps) simp
next
  case (Suc k)
  have i: "i < n" "i < length (elems l)" and k: "k = n - Suc i" using Suc(2,4) by simp_all
  obtain e where e: "elems l ! i = Some e" using Suc(6) [of i] i by auto
  have rest: "map the (drop i (take n (elems l))) = e # map the (drop (Suc i) (take n (elems l)))"
    using i e by (subst Cons_nth_drop_Suc [symmetric]) simp_all
  have ref: "elem_ref l i = Some (Some e)" using i e Suc(3) by (simp add: elem_ref_def)
  note step = read_elems.simps [of cd n i l c]
  show ?case
  proof (cases "read_binary_t_struct cd (Some e) c")
    case None
    then show ?thesis using i rest ref by (simp add: step)
  next
    case (Some x)
    then obtain b c1 where x: "read_binary_t_struct cd (Some e) c = Some (Some b, c1)"
      using read_binary_not_null by (metis not_None_eq surj_pair)
    let ?l = "l\<lparr>elems := (elems l)[i := Some b]\<rparr>"
    have "read_elems cd n i l c = read_elems cd n (Suc i) ?l c1" using i x ref by (simp add: step)
    also have "\<dots> = map_option (\<lambda>(bs, c).
        (?l\<lparr>elems := take (Suc i) (elems ?l) @ map Some bs @ drop n (elems ?l)\<rparr>, c))
        (cl_blobs cd (map the (drop (Suc i) (take n (elems ?l)))) c1)"
      by (rule Suc(1) [OF k]) (use Suc(3,4,6) i in simp_all)
    finally show ?thesis
      using x rest i
      by (simp add: take_Suc_conv_app_nth list_update_append option.map_comp comp_def case_prod_unfold
          drop_take)
  qed
qed

lemma cl_blobs_ok:
  assumes "codec_conforms cd wr rd"
    and "ok cd c \<Longrightarrow> rd c = map Blob xs @ ys \<and> list_all2 (\<lambda>x b. length x \<le> length (contents (data b))) xs es"
  shows "\<exists>bs c'. cl_blobs cd es c = Some (bs, c') \<and> length bs = length es
    \<and> (ok cd c' \<longrightarrow> ok cd c \<and> map payload bs = xs \<and> rd c' = ys \<and> list_all blob_ok (map Some bs))"
  using assms(2)
proof (induction es arbitrary: c xs)
  case Nil
  then show ?case by auto
next
  case (Cons e es)
  obtain n b c1 where r: "readBinary cd c = ((n, b), c1)" by (metis surj_pair)
  note law = conforms_binary [OF assms(1) r]
  have x: "\<exists>x xs'. xs = x # xs' \<and> b = x \<and> rd c1 = map Blob xs' @ ys \<and> length x \<le> length (contents (data e))
      \<and> list_all2 (\<lambda>x b. length x \<le> length (contents (data b))) xs' es" if "ok cd c1"
    using law(2,4,5) that Cons(2) by (cases xs) auto
  have len: "unat n \<le> length b \<and> unat n \<le> length (contents (data e))"
    using law(1,3) x by (cases "ok cd c1") auto
  let ?b = "e\<lparr>data_length := n, data := (data e)\<lparr>contents := take (unat n) b
      @ drop (unat n) (contents (data e))\<rparr>\<rparr>"
  have step: "read_binary_t_struct cd (Some e) c = Some (Some ?b, c1)"
    using len r by (simp add: read_binary_t_struct_def Let_def)
  obtain bs c2 where bs: "cl_blobs cd es c1 = Some (bs, c2)" "length bs = length es"
    "ok cd c2 \<longrightarrow> ok cd c1 \<and> map payload bs = tl xs \<and> rd c2 = ys \<and> list_all blob_ok (map Some bs)"
    using Cons(1) [of c1 "tl xs"] x by fastforce
  have "payload ?b = take (unat n) b" "blob_ok (Some ?b)" using len by (simp_all add: payload_def)
  then show ?case
    using step bs x law(2,3) by (auto simp: hd_Cons_tl)
qed

lemma read_list_received:
  assumes "codec_conforms cd wr rd" and "vec_ok l"
    and "ok cd c \<Longrightarrow> rd c = Count (elementsCount l) # map Blob xs @ ys
           \<and> list_all2 (\<lambda>x b. length x \<le> length (contents (data b))) xs (entries l)"
  shows "\<exists>l' c'. read_list_binary_1_t_struct cd (Some l) c = Some (Some l', c')
    \<and> (ok cd c' \<longrightarrow> ok cd c \<and> vec_ok l' \<and> blobs l' = xs \<and> rd c' = ys \<and> elementsCount l' = elementsCount l)"
proof -
  obtain n c1 where start: "startReadList cd c = (n, c1)" by fastforce
  have n: "ok cd c1 \<Longrightarrow> ok cd c \<and> n = elementsCount l \<and> rd c1 = map Blob xs @ ys"
    using takesD [OF conforms(10) [OF assms(1)] start] assms(3) by blast
  have n0: "\<not> ok cd c1 \<Longrightarrow> n = 0" using conforms_list_failed [OF assms(1) start] .
  let ?l = "l\<lparr>elementsCount := n\<rparr>"
  show ?thesis
  proof (cases "n = 0")
    case True
    then have "read_list_binary_1_t_struct cd (Some l) c = Some (Some ?l, c1)"
      using start by (simp add: read_list_binary_1_t_struct_def read_elems.simps)
    then show ?thesis
      using True n assms(2,3) by (auto simp: vec_ok_def blobs_def entries_def)
  next
    case False
    then have c1: "ok cd c1" and n: "ok cd c" "n = elementsCount l" "rd c1 = map Blob xs @ ys"
      using n n0 by blast+
    have l: "?l = l" using n(2) by simp
    have nn: "elements l \<noteq> NULL" "cnt l \<le> length (elems l)" using assms(2) False n(2) by (auto simp: vec_ok_def)
    obtain bs c' where bs: "cl_blobs cd (entries l) c1 = Some (bs, c')" "length bs = length (entries l)"
      "ok cd c' \<longrightarrow> map payload bs = xs \<and> rd c' = ys \<and> list_all blob_ok (map Some bs)"
      using cl_blobs_ok [OF assms(1), of c1 xs ys "entries l"] n(3) assms(3) [OF n(1)] by auto
    have "read_elems cd (cnt l) 0 l c1 = Some (l\<lparr>elems := map Some bs @ drop (cnt l) (elems l)\<rparr>, c')"
      using bs(1) read_elems_blobs [of l "cnt l" 0 cd c1] nn vec_ok_nth [OF assms(2)]
      by (simp add: entries_def) (metis option.distinct(1) option.simps(9) prod.case bs(1) entries_def)
    then have "read_list_binary_1_t_struct cd (Some l) c
        = Some (Some (l\<lparr>elems := map Some bs @ drop (cnt l) (elems l)\<rparr>), c')"
      using start n(2) l by (simp add: read_list_binary_1_t_struct_def)
    then show ?thesis
      using bs n assms(2) by (auto simp: vec_ok_def blobs_def entries_def comp_def)
  qed
qed

section \<open>The served call\<close>

text \<open>
  The wrapper that the server shim calls, over vectors that carry their contents: it copies the
  received vectors into its two arrays of \<open>PSA_MAX_IOVEC\<close> elements (a store past them is
  \<open>None\<close>), calls \<open>psa_call\<close>, and copies the lengths back. \<open>psa_call\<close> is the client API of the
  device: it is given the vectors and returns the status and, for each output vector, the
  contents of its buffer and its length after the call.
\<close>

type_synonym 's psa_fn = "i32 \<Rightarrow> i32 \<Rightarrow> blob_t list \<Rightarrow> blob_t list \<Rightarrow> 's \<Rightarrow> i32 \<times> (u8 list \<times> u32) list \<times> 's"

function copy_vec :: "nat \<Rightarrow> list_binary_1_t \<Rightarrow> nat \<Rightarrow> nat \<Rightarrow> blob_t list option" where
  "copy_vec max_iovec l n i =
     (if i < n then
        (case elem_ref l i of
           Some (Some b) \<Rightarrow>
             if i < max_iovec then map_option (\<lambda>bs. b # bs) (copy_vec max_iovec l n (Suc i)) else None
         | _ \<Rightarrow> None)
      else Some [])"
  by pat_completeness auto
termination by (relation "measure (\<lambda>(max_iovec, l, n, i). n - i)") auto

declare copy_vec.simps [simp del]

definition served_psa_call ::
  "nat \<Rightarrow> 's psa_fn \<Rightarrow> i32 \<Rightarrow> i32 \<Rightarrow> list_binary_1_t \<Rightarrow> list_binary_1_t \<Rightarrow> 's
   \<Rightarrow> (i32 \<times> list_binary_1_t \<times> 's) option" where
  "served_psa_call max_iovec psa_call handle t erpc_in_vec erpc_out_vec s =
     (case copy_vec max_iovec erpc_in_vec (cnt erpc_in_vec) 0 of
        None \<Rightarrow> None
      | Some in_vec \<Rightarrow>
      case copy_vec max_iovec erpc_out_vec (cnt erpc_out_vec) 0 of
        None \<Rightarrow> None
      | Some out_vec \<Rightarrow>
      let (status, results, s) = psa_call handle t in_vec out_vec s;
          out_vec = map2 (\<lambda>b (bytes, len). b\<lparr>data := (data b)\<lparr>contents := bytes\<rparr>, data_length := len\<rparr>)
                      out_vec results
      in Some (status,
               erpc_out_vec\<lparr>elems := map Some out_vec @ drop (cnt erpc_out_vec) (elems erpc_out_vec)\<rparr>, s))"

text \<open>
  What \<open>psa_call\<close> promises: its answer depends on the contents of the vectors (\<open>core\<close> is its
  meaning on them), it has one result per output vector, it writes within the buffers, and the
  length it leaves in an output vector is at most the length it was given.
\<close>

type_synonym 's call_core = "i32 \<Rightarrow> i32 \<Rightarrow> u8 list list \<Rightarrow> u8 list list \<Rightarrow> 's \<Rightarrow> i32 \<times> u8 list list \<times> 's"

definition psa_conforms :: "'s psa_fn \<Rightarrow> 's call_core \<Rightarrow> bool" where
  "psa_conforms psa core \<longleftrightarrow>
     (\<forall>h t iv ov s. list_all blob_ok (map Some iv) \<longrightarrow> list_all blob_ok (map Some ov) \<longrightarrow>
        (case psa h t iv ov s of (st, results, s') \<Rightarrow>
           core h t (map payload iv) (map payload ov) s
             = (st, map (\<lambda>(bytes, len). take (unat len) bytes) results, s')
         \<and> list_all2 (\<lambda>(bytes, len) b. length bytes = length (contents (data b))
             \<and> unat len \<le> unat (data_length b)) results ov))"

definition same_blocks :: "list_binary_1_t \<Rightarrow> list_binary_1_t \<Rightarrow> bool" where
  "same_blocks l l' \<longleftrightarrow> elements l' = elements l \<and> elementsCount l' = elementsCount l
     \<and> map (address \<circ> data) (entries l') = map (address \<circ> data) (entries l)"

text \<open>The server of the repository: the functions of the API, with the wrapper for the call.\<close>

definition wrapper_api :: "nat \<Rightarrow> 's psa_fn \<Rightarrow> 's served_api \<Rightarrow> 's served_api" where
  "wrapper_api max_iovec psa api = api\<lparr>api_call := served_psa_call max_iovec psa\<rparr>"

lemma copy_vec_ok:
  assumes "vec_ok l" and "cnt l \<le> max_iovec"
  shows "copy_vec max_iovec l (cnt l) i = Some (drop i (entries l))"
proof (induction "cnt l - i" arbitrary: i)
  case 0
  then show ?case using assms(1) by (subst copy_vec.simps) simp
next
  case (Suc k)
  then have i: "i < cnt l" by simp
  obtain b where b: "elem_ref l i = Some (Some b)" "entries l ! i = b" by (rule vec_ok_nth [OF assms(1) i])
  have "drop i (entries l) = b # drop (Suc i) (entries l)"
    using i b(2) assms(1) by (simp flip: Cons_nth_drop_Suc)
  then show ?case
    using i b(1) assms(2) Suc(1) [of "Suc i"] Suc(2) by (subst copy_vec.simps) simp
qed

lemma copy_vec_overrun:
  assumes "max_iovec < n" and "i \<le> max_iovec"
  shows "copy_vec max_iovec l n i = None"
  using assms
proof (induction "max_iovec - i" arbitrary: i)
  case 0
  then show ?case by (subst copy_vec.simps) (auto split: option.split)
next
  case (Suc k)
  then show ?case by (subst copy_vec.simps) (auto split: option.split)
qed

lemma wrapper_overrun:
  assumes "max_iovec < cnt i \<or> max_iovec < cnt out"
  shows "served_psa_call max_iovec psa h t i out s = None"
  using assms by (auto simp: served_psa_call_def copy_vec_overrun split: option.split)

lemma wrapper_vector:
  assumes out: "vec_ok out" and len: "list_all2 (\<lambda>(bytes, len) b. length bytes = length (contents (data b))
      \<and> unat len \<le> unat (data_length b)) results (entries out)"
  defines "bs \<equiv> map2 (\<lambda>b (bytes, len). b\<lparr>data := (data b)\<lparr>contents := bytes\<rparr>, data_length := len\<rparr>)
      (entries out) results"
  defines "out' \<equiv> out\<lparr>elems := map Some bs @ drop (cnt out) (elems out)\<rparr>"
  shows "vec_ok out'" and "blobs out' = map (\<lambda>(bytes, len). take (unat len) bytes) results"
    and "same_blocks out out'" and "list_all2 (\<lambda>x y. length x \<le> length y) (blobs out') (blobs out)"
proof -
  have n: "length results = cnt out" "length bs = cnt out"
    using list_all2_lengthD [OF len] out by (simp_all add: bs_def)
  have ent: "entries out' = bs" using n by (simp add: out'_def entries_def)
  have fits: "unat (data_length (entries out ! j)) \<le> length (contents (data (entries out ! j)))"
    if "j < cnt out" for j using vec_ok_nth [OF out that] by metis
  have res: "length (fst (results ! j)) = length (contents (data (entries out ! j)))"
      "unat (snd (results ! j)) \<le> unat (data_length (entries out ! j))" if "j < cnt out" for j
    using list_all2_nthD [OF len, of j] that n(1) by (simp_all add: case_prod_beta)
  have nth: "bs ! j = (entries out ! j)\<lparr>data := (data (entries out ! j))\<lparr>contents := fst (results ! j)\<rparr>,
      data_length := snd (results ! j)\<rparr>" if "j < cnt out" for j
    using that n out by (simp add: bs_def case_prod_beta)
  show "vec_ok out'"
    using out n fits res nth
    by (fastforce simp: vec_ok_def out'_def list_all_length intro: order_trans)
  show bl: "blobs out' = map (\<lambda>(bytes, len). take (unat len) bytes) results"
    by (rule nth_equalityI) (simp_all add: blobs_def ent n payload_def nth case_prod_beta)
  show "same_blocks out out'"
    by (simp add: same_blocks_def ent) (simp add: out'_def, rule nth_equalityI, simp_all add: n out nth)
  show "list_all2 (\<lambda>x y. length x \<le> length y) (blobs out') (blobs out)"
    unfolding bl using n out fits res
    by (auto simp: list_all2_conv_all_nth blobs_def payload_def case_prod_beta intro: min.coboundedI2)
qed

section \<open>The call with vectors\<close>

text \<open>The served call as the shims see it, for vectors of at most \<open>max_iovec\<close> elements: it depends
  on the contents of the vectors only, it does not allocate, move or release their blocks, and
  it shortens outputs or leaves their length. The wrapper is such a call.\<close>

definition served_as :: "nat \<Rightarrow> 's served_api \<Rightarrow> 's call_core \<Rightarrow> bool" where
  "served_as max_iovec api core \<longleftrightarrow>
     (\<forall>h t i out s. vec_ok i \<longrightarrow> vec_ok out \<longrightarrow> cnt i \<le> max_iovec \<longrightarrow> cnt out \<le> max_iovec \<longrightarrow>
        (case core h t (blobs i) (blobs out) s of (st, outs, s') \<Rightarrow>
           list_all2 (\<lambda>x y. length x \<le> length y) outs (blobs out)
         \<and> (\<exists>out'. api_call api h t i out s = Some (st, out', s') \<and> vec_ok out' \<and> blobs out' = outs
              \<and> same_blocks out out')))"

lemma entries_ok: "vec_ok l \<Longrightarrow> list_all blob_ok (map Some (entries l))"
  by (auto simp: list_all_length elim: vec_ok_nth)

lemma wrapper_served:
  assumes "psa_conforms psa core"
  shows "served_as max_iovec (wrapper_api max_iovec psa api) core"
  unfolding served_as_def
proof (intro allI impI)
  fix h t i out s
  assume v: "vec_ok i" "vec_ok out" "cnt i \<le> max_iovec" "cnt out \<le> max_iovec"
  obtain st results s' where psa: "psa h t (entries i) (entries out) s = (st, results, s')"
    by (metis surj_pair)
  note law = assms [unfolded psa_conforms_def, rule_format, OF entries_ok [OF v(1)] entries_ok [OF v(2)],
      of h t s, unfolded psa prod.case, folded blobs_def]
  note w = wrapper_vector [OF v(2) conjunct2 [OF law]]
  have "served_psa_call max_iovec psa h t i out s = Some (st, out\<lparr>elems := map Some
      (map2 (\<lambda>b (bytes, len). b\<lparr>data := (data b)\<lparr>contents := bytes\<rparr>, data_length := len\<rparr>) (entries out) results)
      @ drop (cnt out) (elems out)\<rparr>, s')"
    using v by (simp add: served_psa_call_def copy_vec_ok psa)
  then show "case core h t (blobs i) (blobs out) s of (st, outs, s') \<Rightarrow>
      list_all2 (\<lambda>x y. length x \<le> length y) outs (blobs out)
    \<and> (\<exists>out'. api_call (wrapper_api max_iovec psa api) h t i out s = Some (st, out', s')
         \<and> vec_ok out' \<and> blobs out' = outs \<and> same_blocks out out')"
    using law w by (simp add: wrapper_api_def)
qed

lemma served_asE:
  assumes "served_as max_iovec api core" and "vec_ok i" and "vec_ok out"
    and "cnt i \<le> max_iovec" and "cnt out \<le> max_iovec"
  obtains st outs s' out' where "core h t (blobs i) (blobs out) s = (st, outs, s')"
    and "list_all2 (\<lambda>x y. length x \<le> length y) outs (blobs out)"
    and "api_call api h t i out s = Some (st, out', s')" and "vec_ok out'" and "blobs out' = outs"
    and "same_blocks out out'"
proof -
  obtain st outs s' where c: "core h t (blobs i) (blobs out) s = (st, outs, s')" by (metis surj_pair)
  note assms(1) [unfolded served_as_def, rule_format, OF assms(2-5), of h t s]
  then show thesis using c that by auto
qed

lemma srv_read_elems_sticky:
  assumes "codec_conforms cd wr rd"
  shows "srv_read_elems cd mal n i l c lv = Some (l', c', lv') \<Longrightarrow> ok cd c' \<Longrightarrow> ok cd c"
  using assms
proof (induction cd mal n i l c lv rule: srv_read_elems.induct)
  case (1 cd mal n i l c lv)
  have step: "ok cd c1 \<Longrightarrow> ok cd c"
    if "srv_read_binary_t_struct cd mal (elements l = NULL) c lv = Some (d, c1, lv1)" for d c1 lv1
    using that srv_read_binary_ok [OF 1(4), of mal c lv]
    by (cases "elements l = NULL") (auto simp: srv_read_binary_t_struct_def)
  show ?case
    using 1(1) [OF _ _ _ refl refl _ _ 1(4)] 1(2,3) step
    by (subst (asm) (2) srv_read_elems.simps) (fastforce split: if_splits option.splits)
qed

lemma srv_read_list_sticky:
  assumes "codec_conforms cd wr rd"
    and "srv_read_list_binary_1_t_struct cd mal dest c lv = Some (l, c', lv')" and "ok cd c'"
  shows "ok cd c"
proof (cases "dest = NULL")
  case True
  then show ?thesis using assms(2,3) by (simp add: srv_read_list_binary_1_t_struct_def)
next
  case False
  obtain n c1 where start: "startReadList cd c = (n, c1)" by fastforce
  obtain p lv1 where p: "erpc_malloc mal (n * sizeof_binary_t) lv = (p, lv1)" by fastforce
  define c2 where "c2 = (if p = NULL \<and> 0 < n then updateStatus cd kErpcStatus_MemoryError c1 else c1)"
  obtain l0 l1 where "srv_read_elems cd mal (unat n) 0 l0 c2 lv1 = Some (l1, c', lv')"
    using assms(2) False
    by (auto simp: srv_read_list_binary_1_t_struct_def Let_def start p c2_def [symmetric])
  then have "ok cd c2" using srv_read_elems_sticky [OF assms(1)] assms(3) by blast
  then have "ok cd c1" using conforms(2) [OF assms(1)] by (simp add: c2_def split: if_splits)
  then show ?thesis by (rule takesD(1) [OF conforms(10) [OF assms(1)] start])
qed

lemma call_read_received:
  assumes "codec_conforms cd wr rd"
    and "call_read cd mal c lv = Some (p_in, p_out, h, t, i, out, c', lv')" and "ok cd c'"
    and "rd c = Signed h0 # Signed t0 # Count ni # map Blob xs @ Count no # map Blob ys"
    and "length xs = unat ni" and "length ys = unat no" and "unat ni < 2 ^ 29" and "unat no < 2 ^ 29"
  obtains vi vo where "h = h0" and "t = t0" and "i = Some vi" and "out = Some vo" and "vec_ok vi"
    and "vec_ok vo" and "blobs vi = xs" and "blobs vo = ys" and "elementsCount vo = no"
proof -
  obtain q_in lv1 where m1: "erpc_malloc mal sizeof_list_binary_1_t lv = (q_in, lv1)" by fastforce
  obtain q_out lv2 where m2: "erpc_malloc mal sizeof_list_binary_1_t lv1 = (q_out, lv2)" by fastforce
  define c0 where "c0 = (if q_in = NULL then updateStatus cd kErpcStatus_MemoryError c else c)"
  define c1 where "c1 = (if q_out = NULL then updateStatus cd kErpcStatus_MemoryError c0 else c0)"
  obtain h' c2 where h: "read_i32 cd c1 = (h', c2)" by fastforce
  obtain t' c3 where t: "read_i32 cd c2 = (t', c3)" by fastforce
  obtain i' c4 lv3 out' c5 lv4 where i: "srv_read_list_binary_1_t_struct cd mal q_in c3 lv2 = Some (i', c4, lv3)"
    and out: "srv_read_list_binary_1_t_struct cd mal q_out c4 lv3 = Some (out', c5, lv4)"
    and eqs: "h = h'" "t = t'" "i = i'" "out = out'" "c' = c5"
    using assms(2) unfolding call_read_def Let_def m1 m2 prod.case c0_def [symmetric]
      c1_def [symmetric] h t by (auto split: option.splits)
  note laws = conforms [OF assms(1)] and sticky = srv_read_list_sticky [OF assms(1)]
  have c4: "ok cd c4" using sticky [OF out] assms(3) eqs(5) by simp
  have c3: "ok cd c3" by (rule sticky [OF i c4])
  have c2: "ok cd c2" by (rule takesD(1) [OF laws(9) t c3])
  have c1: "ok cd c1" by (rule takesD(1) [OF laws(9) h c2])
  have nn: "q_in \<noteq> NULL" "q_out \<noteq> NULL" and c: "c1 = c"
    using c1 laws(2) by (auto simp: c0_def c1_def split: if_splits)
  have h': "h' = h0" and rd2: "rd c2 = Signed t0 # Count ni # map Blob xs @ Count no # map Blob ys"
    using takesD(2) [OF laws(9) h c2] assms(4) c by simp_all
  have t': "t' = t0" and rd3: "rd c3 = Count ni # map Blob xs @ Count no # map Blob ys"
    using takesD(2) [OF laws(9) t c3 rd2] by simp_all
  obtain vi where vi: "i' = Some vi" "vec_ok vi" "blobs vi = xs"
    and rd4: "rd c4 = Count no # map Blob ys @ []"
    using srv_read_list_received [OF assms(1) i nn(1) c4 rd3 assms(5,7)] by auto
  obtain vo where vo: "out' = Some vo" "vec_ok vo" "blobs vo = ys" "elementsCount vo = no"
    using srv_read_list_received [OF assms(1) out nn(2) _ rd4 assms(6,8)] assms(3) eqs(5) by auto
  show thesis by (rule that [of vi vo]) (use eqs h' t' vi vo in simp_all)
qed

lemma call_shim_answers:
  assumes "codec_conforms cd wr rd" and "served_as max_iovec api core"
    and "erpc_psa_call_shim cfg cd api mal mf q c sv = Some (kErpcStatus_Success, c', sv')"
    and "rd c = Signed h # Signed t # Count ni # map Blob xs @ Count no # map Blob ys"
    and "length xs = unat ni" and "length ys = unat no" and "unat ni \<le> max_iovec"
    and "unat no \<le> max_iovec" and "max_iovec < 2 ^ 29"
  obtains st outs s where "core h t xs ys (served sv) = (st, outs, s)" and "served sv' = s"
    and "list_all2 (\<lambda>x y. length x \<le> length y) outs ys"
    and "wr c' = Header kReplyMessage kpsa_client_api_service_id kpsa_client_api_erpc_psa_call_id q
           # Count no # map Blob outs @ [Signed st]"
proof -
  note laws = conforms [OF assms(1)]
  obtain p_in p_out h1 t1 i out c1 lv where read:
    "call_read cd mal c (live sv) = Some (p_in, p_out, h1, t1, i, out, c1, lv)"
    using assms(3) by (auto simp: erpc_psa_call_shim_def split: option.splits)
  have c1: "ok cd c1"
    using assms(3) by (auto simp: erpc_psa_call_shim_def read Let_def split: option.splits if_splits)
  obtain vi vo where v: "h1 = h" "t1 = t" "i = Some vi" "out = Some vo" "vec_ok vi" "vec_ok vo"
    "blobs vi = xs" "blobs vo = ys" "elementsCount vo = no"
    by (rule call_read_received [OF assms(1) read c1 assms(4-6)]) (use assms(7-9) in auto)
  have max: "cnt vi \<le> max_iovec" "cnt vo \<le> max_iovec"
    using length_blobs [OF v(5)] length_blobs [OF v(6)] v(7,8) assms(5-8) by simp_all
  obtain st outs s vo' where core: "core h t (blobs vi) (blobs vo) (served sv) = (st, outs, s)"
    and len: "list_all2 (\<lambda>x y. length x \<le> length y) outs (blobs vo)"
    and call: "api_call api h t vi vo (served sv) = Some (st, vo', s)"
    and vo': "vec_ok vo'" "blobs vo' = outs" "same_blocks vo vo'"
    by (rule served_asE [OF assms(2) v(5,6) max])
  obtain c2 where mf: "mf c1 = (kErpcStatus_Success, c2)" and
    reply: "call_reply cd q (Some vo') st c2 = Some (kErpcStatus_Success, c')" and sv': "served sv' = s"
    using assms(3) call
    by (auto simp: erpc_psa_call_shim_def read Let_def c1 v call_invoke_def enter_served_def
        leave_served_def split: option.splits if_splits prod.splits)
  let ?hd = "startWriteMessage cd kReplyMessage kpsa_client_api_service_id
      kpsa_client_api_erpc_psa_call_id q (codec_reset cd c2)"
  obtain c3 where w: "write_list_binary_1_t_struct cd (Some vo') ?hd = Some c3"
    "ok cd c3 \<longrightarrow> ok cd ?hd \<and> wr c3 = wr ?hd @ Count (elementsCount vo') # map Blob (blobs vo')"
    using write_list_ok [OF assms(1) vo'(1)] by blast
  have c': "c' = write_i32 cd st c3" "ok cd (write_i32 cd st c3)"
    using reply w(1) by (auto simp: call_reply_def Let_def srv_write_list)
  have "wr c' = Header kReplyMessage kpsa_client_api_service_id kpsa_client_api_erpc_psa_call_id q
           # Count no # map Blob outs @ [Signed st]"
    using appendsD [OF laws(5) c'(2)] w(2) appendsD(2) [OF laws(3)] laws(1) c'(1) vo' v(9)
    by (simp add: same_blocks_def)
  then show thesis using that core sv' len v(7,8) by simp
qed

definition call_args :: "i32 \<Rightarrow> i32 \<Rightarrow> list_binary_1_t \<Rightarrow> list_binary_1_t \<Rightarrow> item list" where
  "call_args h t i out = Signed h # Signed t # Count (elementsCount i) # map Blob (blobs i)
     @ Count (elementsCount out) # map Blob (blobs out)"

lemma call_written:
  assumes "codec_conforms cd wr rd" and "vec_ok i" and "vec_ok out" and "wr c = []"
  shows "\<exists>c1 c2. write_list_binary_1_t_struct cd (Some i) (write_i32 cd t (write_i32 cd h
      (startWriteMessage cd kInvocationMessage kpsa_client_api_service_id
        kpsa_client_api_erpc_psa_call_id q c))) = Some c1
    \<and> write_list_binary_1_t_struct cd (Some out) c1 = Some c2
    \<and> (ok cd c2 \<longrightarrow> wr c2 = Header kInvocationMessage kpsa_client_api_service_id
        kpsa_client_api_erpc_psa_call_id q # call_args h t i out)"
proof -
  note laws = conforms [OF assms(1)]
  let ?hd = "write_i32 cd t (write_i32 cd h (startWriteMessage cd kInvocationMessage
      kpsa_client_api_service_id kpsa_client_api_erpc_psa_call_id q c))"
  obtain c1 where c1: "write_list_binary_1_t_struct cd (Some i) ?hd = Some c1"
    "ok cd c1 \<longrightarrow> ok cd ?hd \<and> wr c1 = wr ?hd @ Count (elementsCount i) # map Blob (blobs i)"
    using write_list_ok [OF assms(1,2)] by blast
  obtain c2 where c2: "write_list_binary_1_t_struct cd (Some out) c1 = Some c2"
    "ok cd c2 \<longrightarrow> ok cd c1 \<and> wr c2 = wr c1 @ Count (elementsCount out) # map Blob (blobs out)"
    using write_list_ok [OF assms(1,3)] by blast
  have "wr ?hd = [Header kInvocationMessage kpsa_client_api_service_id
      kpsa_client_api_erpc_psa_call_id q, Signed h, Signed t]" if "ok cd ?hd"
    using appendsD(2) [OF appends_comp [OF appends_comp [OF laws(3) laws(5)] laws(5)] that] assms(4)
    by simp
  then show ?thesis using c1 c2 by (auto simp: call_args_def)
qed

lemma call_delivered:
  assumes "codec_conforms cd wr rd" and "delivers scfg cd wr rd api mal mf m srv" and "served_as max_iovec api core"
    and "vec_ok i" and "vec_ok out" and "cnt i \<le> max_iovec" and "cnt out \<le> max_iovec"
    and "max_iovec < 2 ^ 29" and "performRequest m c q w = (c', w')" and "ok cd c'"
    and "ok cd c \<Longrightarrow> wr c = Header kInvocationMessage kpsa_client_api_service_id
      kpsa_client_api_erpc_psa_call_id q # call_args h t i out"
  obtains st outs where "core h t (blobs i) (blobs out) (served (srv w)) = (st, outs, served (srv w'))"
    and "list_all2 (\<lambda>x y. length x \<le> length y) outs (blobs out)"
    and "rd c' = Count (elementsCount out) # map Blob outs @ [Signed st]"
proof -
  have "ok cd c" using assms(2,9,10) unfolding delivers_def by blast
  then obtain sc sc' reply where sc: "rd sc = call_args h t i out"
    "erpc_psa_call_shim scfg cd api mal mf q sc (srv w) = Some (kErpcStatus_Success, sc', srv w')"
    "wr sc' = Header kReplyMessage kpsa_client_api_service_id kpsa_client_api_erpc_psa_call_id q # reply"
    "rd c' = reply"
    using assms(2,9-11) unfolding delivers_def by (metis dispatch(3))
  obtain st outs s where "core h t (blobs i) (blobs out) (served (srv w)) = (st, outs, s)"
    "served (srv w') = s" "list_all2 (\<lambda>x y. length x \<le> length y) outs (blobs out)"
    "wr sc' = Header kReplyMessage kpsa_client_api_service_id kpsa_client_api_erpc_psa_call_id q
       # Count (elementsCount out) # map Blob outs @ [Signed st]"
    by (rule call_shim_answers [OF assms(1,3) sc(2) sc(1) [unfolded call_args_def]])
      (use assms(4-8) in simp_all)
  then show thesis using that sc(3,4) by simp
qed

lemma lengths_fit:
  "vec_ok l \<Longrightarrow> list_all2 (\<lambda>x y. length x \<le> length y) xs (blobs l) \<Longrightarrow>
   list_all2 (\<lambda>x b. length x \<le> length (contents (data b))) xs (entries l)"
  unfolding blobs_def list_all2_map2 payload_def by (erule list_all2_mono) simp

lemma call_performed:
  assumes "codec_conforms cd wr rd" and "delivers scfg cd wr rd api mal mf m srv"
    and "client_local cfg wr m srv" and "served_as max_iovec api core"
    and "vec_ok i" and "vec_ok out" and "cnt i \<le> max_iovec" and "cnt out \<le> max_iovec"
    and "max_iovec < 2 ^ 29" and start: "createRequest m False (run_cb cfg (getPreCB m w) w) = ((Some c, q), w1)"
  obtains r out' status w2 where "erpc_psa_call cfg cd m h t (Some i) (Some out) w
      = Some (if status = kErpcStatus_Success then r else - 1, Some out',
          finish_call cfg m status kpsa_client_api_erpc_psa_call_id q w2)"
    and "status = kErpcStatus_Success \<longrightarrow> vec_ok out' \<and> elementsCount out' = elementsCount out
       \<and> core h t (blobs i) (blobs out) (served (srv w)) = (r, blobs out', served (srv w2))"
proof -
  note laws = conforms [OF assms(1)]
  have fresh: "wr c = []" and srv1: "srv w1 = srv w"
    using client_localD(1,2) [OF assms(3)] start by simp_all
  obtain c1 c2 where w: "write_list_binary_1_t_struct cd (Some i) (write_i32 cd t (write_i32 cd h
      (startWriteMessage cd kInvocationMessage kpsa_client_api_service_id
        kpsa_client_api_erpc_psa_call_id q c))) = Some c1"
      "write_list_binary_1_t_struct cd (Some out) c1 = Some c2"
    and msg: "ok cd c2 \<longrightarrow> wr c2 = Header kInvocationMessage kpsa_client_api_service_id
        kpsa_client_api_erpc_psa_call_id q # call_args h t i out"
    using call_written [OF assms(1,5,6) fresh] by blast
  obtain c3 w2 where req: "performRequest m c2 q w1 = (c3, w2)" by fastforce
  obtain st outs where srv: "ok cd c3 \<longrightarrow>
        core h t (blobs i) (blobs out) (served (srv w)) = (st, outs, served (srv w2))
      \<and> list_all2 (\<lambda>x y. length x \<le> length y) outs (blobs out)
      \<and> rd c3 = Count (elementsCount out) # map Blob outs @ [Signed st]"
    using call_delivered [OF assms(1,2,4-9) req] msg srv1 by metis
  obtain out' c4 where rl: "read_list_binary_1_t_struct cd (Some out) c3 = Some (Some out', c4)"
      "ok cd c4 \<longrightarrow> ok cd c3 \<and> vec_ok out' \<and> blobs out' = outs \<and> rd c4 = [Signed st]
         \<and> elementsCount out' = elementsCount out"
    using read_list_received [OF assms(1,6), of c3 outs "[Signed st]"] srv lengths_fit [OF assms(6)]
    by auto
  obtain r c5 where r: "read_i32 cd c4 = (r, c5)" by fastforce
  have "ok cd c4 \<and> r = st" if "ok cd c5" using takesD [OF laws(9) r that] rl(2) by blast
  then show thesis
    using that [of "getStatus cd c5" r out' w2] start w req rl r srv
    by (simp add: erpc_psa_call_def finish_call_def Let_def)
qed


text \<open>A PSA API for the witness: a call answers with its type and empties every output.\<close>

definition clearing_psa :: "nat psa_fn" where
  "clearing_psa h t iv ov s = (t, map (\<lambda>b. (contents (data b), 0)) ov, Suc s)"

definition clearing_api :: "nat served_api" where
  "clearing_api = wrapper_api 4 clearing_psa small_api"

lemma clearing_conforms: "psa_conforms clearing_psa (\<lambda>h t xs ys s. (t, map (\<lambda>_. []) ys, Suc s))"
  by (auto simp: psa_conforms_def clearing_psa_def list_all2_map1 list_all2_refl comp_def)

definition sample_vec :: "ptr \<Rightarrow> u8 list \<Rightarrow> list_binary_1_t" where
  "sample_vec p bs = \<lparr>elements = p, elems = [Some \<lparr>data = \<lparr>address = Suc p, contents = bs\<rparr>,
     data_length = of_nat (length bs)\<rparr>, None, None, None], elementsCount = 1\<rparr>"


end
