(* ===== verification/Erpc_Memory.thy ===== *)
theory Erpc_Memory
  imports Erpc_Vectors
begin

text \<open>
  The memory of the server during a call: every block allocated for the two vectors is released
  once, whatever the message and whichever allocation of a byte buffer fails, except when the
  element array of a vector could not be allocated or its size wrapped, and when the message has
  more vectors than the wrapper has room for.
\<close>

section \<open>Releasing vectors\<close>

definition vec_init :: "list_binary_1_t \<Rightarrow> bool" where
  "vec_init l \<longleftrightarrow> (elements l = NULL \<longrightarrow> elementsCount l = 0) \<and> cnt l \<le> length (elems l)
     \<and> None \<notin> set (take (cnt l) (elems l))"

definition opt_ptr :: "ptr \<Rightarrow> ptr list" where
  "opt_ptr p = (if p = NULL then [] else [p])"

definition vec_blocks :: "list_binary_1_t \<Rightarrow> ptr list" where
  "vec_blocks l = opt_ptr (elements l) @ owned (entries l)"

fun unallocated :: "list_binary_1_t option \<Rightarrow> bool" where
  "unallocated None = False"
| "unallocated (Some l) = (elements l = NULL \<and> elementsCount l \<noteq> 0)"

lemma vec_ok_init: "vec_ok l \<Longrightarrow> vec_init l"
  by (auto simp: vec_ok_def vec_init_def list_all_iff)

lemma erpc_free_mset:
  "mset lv = add_mset p M \<Longrightarrow> \<exists>lv'. erpc_free p lv = Some lv' \<and> mset lv' = M"
  by (auto simp: erpc_free_def dest: union_single_eq_member simp flip: set_mset_mset)

lemma free_elems_ok:
  assumes "vec_init l" and "mset lv = mset (owned (drop i (entries l))) + M"
  shows "\<exists>lv'. free_elems l (cnt l) i lv = Some lv' \<and> mset lv' = M"
  using assms(2)
proof (induction "cnt l - i" arbitrary: i lv)
  case 0
  then have "length (entries l) \<le> i" using assms(1) by (simp add: entries_def)
  then show ?case using 0 by (subst free_elems.simps) simp
next
  case (Suc k)
  have i: "i < cnt l" "i < length (elems l)" "elements l \<noteq> NULL" and k: "k = cnt l - Suc i"
    using Suc(2) assms(1) by (auto simp: vec_init_def)
  have "elems l ! i \<in> set (take (cnt l) (elems l))" using i by (metis in_set_conv_nth length_take min_less_iff_conj nth_take)
  then obtain b where b: "elems l ! i = Some b" using assms(1) by (auto simp: vec_init_def) (metis not_None_eq)
  have d: "drop i (entries l) = b # drop (Suc i) (entries l)"
    using i b by (subst Cons_nth_drop_Suc [symmetric]) (simp_all add: entries_def)
  obtain lv1 where lv1: "free_binary_t_struct (Some b) lv = Some lv1"
    "mset lv1 = mset (owned (drop (Suc i) (entries l))) + M"
    using Suc(3) d erpc_free_mset [of lv "address (data b)" "mset (owned (drop (Suc i) (entries l))) + M"]
    by (cases "address (data b) = NULL") (auto simp: free_binary_t_struct_def)
  obtain lv' where "free_elems l (cnt l) (Suc i) lv1 = Some lv'" "mset lv' = M"
    using Suc(1) [OF k lv1(2)] by blast
  then show ?case
    using i b lv1(1) by (subst free_elems.simps) (simp add: elem_ref_def)
qed

lemma free_vec_ok:
  assumes "p \<noteq> NULL" and "vec_init l" and "mset lv = add_mset p (mset (vec_blocks l) + M)"
  shows "\<exists>lv'. free_vec p (Some l) lv = Some lv' \<and> mset lv' = M"
proof -
  have "mset lv = mset (owned (drop 0 (entries l))) + add_mset p (mset (opt_ptr (elements l)) + M)"
    using assms(3) by (simp add: vec_blocks_def)
  then obtain lv1 where lv1: "free_elems l (cnt l) 0 lv = Some lv1"
    "mset lv1 = add_mset p (mset (opt_ptr (elements l)) + M)"
    using free_elems_ok [OF assms(2)] by blast
  obtain lv2 where lv2: "free_list_binary_1_t_struct l lv = Some lv2" "mset lv2 = add_mset p M"
    using lv1 erpc_free_mset [of lv1 "elements l" "add_mset p M"]
    by (auto simp: free_list_binary_1_t_struct_def opt_ptr_def split: if_splits)
  then show ?thesis using erpc_free_mset [OF lv2(2)] assms(1) by (auto simp: free_vec_def)
qed

lemma free_unallocated:
  assumes "p \<noteq> NULL" and "unallocated (Some l)"
  shows "free_vec p (Some l) lv = None"
proof -
  have "0 < cnt l" using assms(2) by (simp add: unat_gt_0)
  then have "free_elems l (cnt l) 0 lv = None"
    using assms(2) by (subst free_elems.simps) (simp add: elem_ref_def free_binary_t_struct_def)
  then show ?thesis using assms(1) by (simp add: free_vec_def free_list_binary_1_t_struct_def)
qed

section \<open>Reading\<close>

lemma srv_read_list_memory:
  assumes "codec_conforms cd wr rd" and "unat (fst (startReadList cd c)) < 2 ^ 29"
    and "srv_read_list_binary_1_t_struct cd mal dest c lv = Some (l, c', lv')"
  shows "(l = None) = (dest = NULL)"
    and "\<not> unallocated l \<Longrightarrow> mset lv' = mset (case l of None \<Rightarrow> [] | Some v \<Rightarrow> vec_blocks v) + mset lv"
    and "l = Some v \<Longrightarrow> \<not> unallocated l \<Longrightarrow> vec_init v"
    and "l = Some v \<Longrightarrow> ok cd c' \<Longrightarrow> vec_ok v"
proof -
  obtain n c1 where start: "startReadList cd c = (n, c1)" by fastforce
  have n: "unat n < 2 ^ 29" using assms(2) start by simp
  consider "dest = NULL" | "dest \<noteq> NULL" "mal (n * sizeof_binary_t) lv = NULL" "n \<noteq> 0"
    | "dest \<noteq> NULL" "mal (n * sizeof_binary_t) lv \<noteq> NULL \<or> n = 0" by blast
  then have "((l = None) = (dest = NULL))
    \<and> (\<not> unallocated l \<longrightarrow> mset lv' = mset (case l of None \<Rightarrow> [] | Some v \<Rightarrow> vec_blocks v) + mset lv)
    \<and> (\<forall>v. l = Some v \<longrightarrow> \<not> unallocated l \<longrightarrow> vec_init v)
    \<and> (\<forall>v. l = Some v \<longrightarrow> ok cd c' \<longrightarrow> vec_ok v)"
  proof cases
    case 1
    then show ?thesis using assms(3) by (simp add: srv_read_list_binary_1_t_struct_def)
  next
    case 2
    note un = srv_read_list_unallocated [OF assms(1) 2(1) start 2(2,3) assms(3)]
    then show ?thesis using 2 by auto
  next
    case 3
    define p where "p = mal (n * sizeof_binary_t) lv"
    obtain bs where "l = Some \<lparr>elements = p, elems = map Some bs, elementsCount = n\<rparr>" "length bs = unat n"
      "mset lv' = mset (owned bs) + mset (if p = NULL then lv else p # lv)"
      "ok cd c' \<longrightarrow> list_all blob_ok (map Some bs)"
      using srv_read_list_allocated [OF assms(1) 3(1) start n, of p mal lv] 3(2) assms(3)
      by (auto simp: p_def)
    then show ?thesis
      using 3 by (auto simp: vec_blocks_def opt_ptr_def vec_init_def vec_ok_def entries_def comp_def
          p_def [symmetric])
  qed
  then show "(l = None) = (dest = NULL)"
    and "\<not> unallocated l \<Longrightarrow> mset lv' = mset (case l of None \<Rightarrow> [] | Some v \<Rightarrow> vec_blocks v) + mset lv"
    and "l = Some v \<Longrightarrow> \<not> unallocated l \<Longrightarrow> vec_init v"
    and "l = Some v \<Longrightarrow> ok cd c' \<Longrightarrow> vec_ok v"
    by simp_all
qed

text \<open>
  The first stage of a call: the two list structures are allocated and the two scalars read. In
  the codec state this leaves, the first list is read; the second is read in the state the first
  leaves.
\<close>

definition call_header :: "'c codec_api \<Rightarrow> allocator \<Rightarrow> 'c \<Rightarrow> ptr list \<Rightarrow> ptr \<times> ptr \<times> 'c \<times> ptr list" where
  "call_header cd mal c lv =
     (let (p_in, lv) = erpc_malloc mal sizeof_list_binary_1_t lv;
          c = (if p_in = NULL then updateStatus cd kErpcStatus_MemoryError c else c);
          (p_out, lv) = erpc_malloc mal sizeof_list_binary_1_t lv;
          c = (if p_out = NULL then updateStatus cd kErpcStatus_MemoryError c else c);
          (handle, c) = read_i32 cd c;
          (t, c) = read_i32 cd c
      in (p_in, p_out, c, lv))"

lemma call_read_split:
  assumes "call_header cd mal c lv = (p_in, p_out, c1, lv1)"
  shows "\<exists>h t. call_read cd mal c lv =
    (case srv_read_list_binary_1_t_struct cd mal p_in c1 lv1 of
       None \<Rightarrow> None
     | Some (i, c2, lv2) \<Rightarrow>
         (case srv_read_list_binary_1_t_struct cd mal p_out c2 lv2 of
            None \<Rightarrow> None
          | Some (out, c3, lv3) \<Rightarrow> Some (p_in, p_out, h, t, i, out, c3, lv3)))"
proof -
  obtain q_in lva where m1: "erpc_malloc mal sizeof_list_binary_1_t lv = (q_in, lva)" by fastforce
  obtain q_out lvb where m2: "erpc_malloc mal sizeof_list_binary_1_t lva = (q_out, lvb)" by fastforce
  define ca where "ca = (if q_in = NULL then updateStatus cd kErpcStatus_MemoryError c else c)"
  define cb where "cb = (if q_out = NULL then updateStatus cd kErpcStatus_MemoryError ca else ca)"
  obtain h c2 where h: "read_i32 cd cb = (h, c2)" by fastforce
  obtain t c3 where t: "read_i32 cd c2 = (t, c3)" by fastforce
  have eqs: "p_in = q_in" "p_out = q_out" "c1 = c3" "lv1 = lvb"
    using assms unfolding call_header_def Let_def m1 m2 prod.case ca_def [symmetric]
      cb_def [symmetric] h t by simp_all
  show ?thesis
    unfolding call_read_def Let_def m1 m2 prod.case ca_def [symmetric] cb_def [symmetric] h t eqs
    by blast
qed

lemma call_header_memory:
  assumes "codec_conforms cd wr rd" and "call_header cd mal c lv = (p_in, p_out, c1, lv1)"
  shows "mset lv1 = mset (opt_ptr p_in) + mset (opt_ptr p_out) + mset lv"
    and "ok cd c1 \<Longrightarrow> p_in \<noteq> NULL \<and> p_out \<noteq> NULL"
proof -
  obtain q_in lva where m1: "erpc_malloc mal sizeof_list_binary_1_t lv = (q_in, lva)" by fastforce
  obtain q_out lvb where m2: "erpc_malloc mal sizeof_list_binary_1_t lva = (q_out, lvb)" by fastforce
  define ca where "ca = (if q_in = NULL then updateStatus cd kErpcStatus_MemoryError c else c)"
  define cb where "cb = (if q_out = NULL then updateStatus cd kErpcStatus_MemoryError ca else ca)"
  obtain h c2 where h: "read_i32 cd cb = (h, c2)" by fastforce
  obtain t c3 where t: "read_i32 cd c2 = (t, c3)" by fastforce
  have eqs: "p_in = q_in" "p_out = q_out" "c1 = c3" "lv1 = lvb"
    using assms(2) unfolding call_header_def Let_def m1 m2 prod.case ca_def [symmetric]
      cb_def [symmetric] h t by simp_all
  show "mset lv1 = mset (opt_ptr p_in) + mset (opt_ptr p_out) + mset lv"
    using m1 m2 eqs by (auto simp: erpc_malloc_def opt_ptr_def Let_def split: if_splits)
  assume "ok cd c1"
  then have "ok cd cb" using takesD(1) [OF conforms(9) [OF assms(1)]] h t eqs(3) by blast
  then show "p_in \<noteq> NULL \<and> p_out \<noteq> NULL"
    using conforms(2) [OF assms(1)] eqs by (auto simp: ca_def cb_def split: if_splits)
qed

abbreviation blocks_of :: "list_binary_1_t option \<Rightarrow> ptr list" where
  "blocks_of l \<equiv> (case l of None \<Rightarrow> [] | Some v \<Rightarrow> vec_blocks v)"

text \<open>The element array of a list could not be allocated, although the list is not empty.\<close>

definition array_missing :: "'c codec_api \<Rightarrow> allocator \<Rightarrow> ptr \<Rightarrow> 'c \<Rightarrow> ptr list \<Rightarrow> bool" where
  "array_missing cd mal dest c lv \<longleftrightarrow> dest \<noteq> NULL \<and> fst (startReadList cd c) \<noteq> 0
     \<and> mal (fst (startReadList cd c) * sizeof_binary_t) lv = NULL"

lemma array_missing_read:
  assumes "codec_conforms cd wr rd" and "array_missing cd mal dest c lv"
    and "srv_read_list_binary_1_t_struct cd mal dest c lv = Some (l, c', lv')"
  shows "unallocated l" and "\<not> ok cd c'"
proof -
  obtain n c1 where start: "startReadList cd c = (n, c1)" by fastforce
  have m: "dest \<noteq> NULL" "mal (n * sizeof_binary_t) lv = NULL" "n \<noteq> 0"
    using assms(2) start by (auto simp: array_missing_def)
  show "unallocated l" "\<not> ok cd c'"
    using srv_read_list_unallocated [OF assms(1) m(1) start m(2,3) assms(3)] m(3) by auto
qed

lemma array_present_read:
  assumes "codec_conforms cd wr rd" and "unat (fst (startReadList cd c)) < 2 ^ 29"
    and "\<not> array_missing cd mal dest c lv"
  shows "\<exists>l c' lv'. srv_read_list_binary_1_t_struct cd mal dest c lv = Some (l, c', lv') \<and> \<not> unallocated l"
proof (cases "dest = NULL")
  case True
  then show ?thesis by (simp add: srv_read_list_binary_1_t_struct_def)
next
  case False
  obtain n c1 where start: "startReadList cd c = (n, c1)" by fastforce
  have "unat n < 2 ^ 29" "mal (n * sizeof_binary_t) lv \<noteq> NULL \<or> n = 0"
    using assms(2,3) False start by (auto simp: array_missing_def)
  then show ?thesis
    using srv_read_list_allocated [OF assms(1) False start, of "mal (n * sizeof_binary_t) lv" mal lv]
    by (auto simp: NULL_def)
qed

lemma call_free_ok:
  assumes "(i = None) = (p_in = NULL)" and "(out = None) = (p_out = NULL)"
    and "\<And>v. i = Some v \<Longrightarrow> vec_init v" and "\<And>v. out = Some v \<Longrightarrow> vec_init v"
    and "mset lv = mset (opt_ptr p_in) + mset (opt_ptr p_out) + mset (blocks_of i) + mset (blocks_of out) + M"
  shows "\<exists>lv'. call_free p_in p_out i out lv = Some lv' \<and> mset lv' = M"
proof -
  have step: "\<exists>lv'. free_vec p l lv = Some lv' \<and> mset lv' = N"
    if "(l = None) = (p = NULL)" "\<And>v. l = Some v \<Longrightarrow> vec_init v"
      "mset lv = mset (opt_ptr p) + mset (blocks_of l) + N" for p l lv N
    using that free_vec_ok [of p "the l" lv N]
    by (cases l) (auto simp: free_vec_def opt_ptr_def split: if_splits)
  obtain lv1 where "free_vec p_in i lv = Some lv1"
    "mset lv1 = mset (opt_ptr p_out) + mset (blocks_of out) + M"
    using step [OF assms(1,3), of lv "mset (opt_ptr p_out) + mset (blocks_of out) + M"] assms(5)
    by (auto simp: ac_simps)
  then show ?thesis using step [OF assms(2,4), of lv1 M] by (auto simp: call_free_def)
qed

section \<open>The shim\<close>

lemma call_shim_unallocated:
  assumes "call_read cd mal c (live sv) = Some (p_in, p_out, h, t, i, out, c1, lv)"
    and "unallocated i \<or> unallocated out" and "\<not> ok cd c1"
    and "(i = None) = (p_in = NULL)" and "(out = None) = (p_out = NULL)"
  shows "erpc_psa_call_shim cfg cd api mal mf q c sv = None"
proof -
  have "call_free p_in p_out i out lv = None"
    using assms(2,4,5) free_unallocated
    by (cases i; cases out) (auto simp: call_free_def split: option.split)
  then show ?thesis using assms(1,3) by (simp add: erpc_psa_call_shim_def)
qed

lemma same_blocks: "same_blocks l l' \<Longrightarrow> vec_blocks l' = vec_blocks l"
  by (simp add: same_blocks_def vec_blocks_def owned_def)

text \<open>The call after both lists were read: invoked, answered and released; or refused and released.\<close>

lemma call_shim_invoked:
  assumes "codec_conforms cd wr rd" and "served_as max_iovec api core"
    and "call_read cd mal c (live sv) = Some (p_in, p_out, h, t, Some vi, Some vo, c1, lv)"
    and "ok cd c1" and "vec_ok vi" and "vec_ok vo" and "cnt vi \<le> max_iovec" and "cnt vo \<le> max_iovec"
    and "p_in \<noteq> NULL" and "p_out \<noteq> NULL"
    and "mset lv = mset (opt_ptr p_in) + mset (opt_ptr p_out) + mset (vec_blocks vi) + mset (vec_blocks vo) + M"
  shows "\<exists>e c' sv'. erpc_psa_call_shim cfg cd api mal mf q c sv = Some (e, c', sv') \<and> mset (live sv') = M"
proof -
  obtain st vo' s where call: "api_call api h t vi vo (served sv) = Some (st, vo', s)"
    and vo': "vec_ok vo'" "same_blocks vo vo'"
    by (rule served_asE [OF assms(2,5-8)])
  obtain e c2 where mf: "mf c1 = (e, c2)" by fastforce
  let ?sv = "leave_served cfg ((enter_served cfg (sv\<lparr>live := lv\<rparr>))\<lparr>served := s\<rparr>)"
  have inv: "call_invoke cfg api mf h t (Some vi) (Some vo) c1 (sv\<lparr>live := lv\<rparr>) = Some (e, st, Some vo', c2, ?sv)"
    using call mf by (simp add: call_invoke_def enter_served_def)
  have "\<exists>e' c3. (if e = kErpcStatus_Success then call_reply cd q (Some vo') st c2 else Some (e, c2)) = Some (e', c3)"
    using write_list_ok [OF assms(1) vo'(1), of "startWriteMessage cd kReplyMessage
        kpsa_client_api_service_id kpsa_client_api_erpc_psa_call_id q (codec_reset cd c2)"]
    by (auto simp: call_reply_def srv_write_list Let_def)
  moreover obtain lv' where "call_free p_in p_out (Some vi) (Some vo') lv = Some lv'" "mset lv' = M"
    using call_free_ok [of "Some vi" p_in "Some vo'" p_out lv M] assms(9-11) vec_ok_init [OF assms(5)]
      vec_ok_init [OF vo'(1)] same_blocks [OF vo'(2)] by auto
  moreover have "live ?sv = lv" by (simp add: leave_served_def enter_served_def)
  ultimately show ?thesis using assms(3,4) inv by (auto simp: erpc_psa_call_shim_def Let_def)
qed

lemma call_shim_refused:
  assumes "call_read cd mal c (live sv) = Some (p_in, p_out, h, t, i, out, c1, lv)" and "\<not> ok cd c1"
    and "call_free p_in p_out i out lv = Some lv'"
  shows "erpc_psa_call_shim cfg cd api mal mf q c sv = Some (getStatus cd c1, c1, sv\<lparr>live := lv'\<rparr>)"
  using assms by (simp add: erpc_psa_call_shim_def)

text \<open>The two lists of a message, both with an element array.\<close>

lemma call_lists_memory:
  assumes "codec_conforms cd wr rd"
    and head: "call_header cd mal c (live sv) = (p_in, p_out, c1, lv1)"
    and n: "unat (fst (startReadList cd c1)) < 2 ^ 29" "unat (fst (startReadList cd c2)) < 2 ^ 29"
    and i: "srv_read_list_binary_1_t_struct cd mal p_in c1 lv1 = Some (i, c2, lv2)" "\<not> unallocated i"
    and out: "srv_read_list_binary_1_t_struct cd mal p_out c2 lv2 = Some (out, c3, lv3)" "\<not> unallocated out"
  shows "(i = None) = (p_in = NULL)" and "(out = None) = (p_out = NULL)"
    and "\<And>v. i = Some v \<Longrightarrow> vec_init v" and "\<And>v. out = Some v \<Longrightarrow> vec_init v"
    and "mset lv3 = mset (opt_ptr p_in) + mset (opt_ptr p_out) + mset (blocks_of i) + mset (blocks_of out)
      + mset (live sv)"
    and "ok cd c3 \<Longrightarrow> \<exists>vi vo. i = Some vi \<and> out = Some vo \<and> vec_ok vi \<and> vec_ok vo"
proof -
  note mi = srv_read_list_memory [OF assms(1) n(1) i(1)]
    and mo = srv_read_list_memory [OF assms(1) n(2) out(1)]
  show null: "(i = None) = (p_in = NULL)" "(out = None) = (p_out = NULL)" by (rule mi(1), rule mo(1))
  show "\<And>v. i = Some v \<Longrightarrow> vec_init v" "\<And>v. out = Some v \<Longrightarrow> vec_init v"
    using mi(3) i(2) mo(3) out(2) by blast+
  show "mset lv3 = mset (opt_ptr p_in) + mset (opt_ptr p_out) + mset (blocks_of i) + mset (blocks_of out)
      + mset (live sv)"
    using mi(2) [OF i(2)] mo(2) [OF out(2)] call_header_memory(1) [OF assms(1) head]
    by (simp add: ac_simps)
  assume c3: "ok cd c3"
  then have c2: "ok cd c2" by (rule srv_read_list_sticky [OF assms(1) out(1)])
  then have "ok cd c1" by (rule srv_read_list_sticky [OF assms(1) i(1)])
  then show "\<exists>vi vo. i = Some vi \<and> out = Some vo \<and> vec_ok vi \<and> vec_ok vo"
    using call_header_memory(2) [OF assms(1) head] null mi(4) c2 mo(4) c3 by blast
qed



section \<open>Over-long vectors\<close>

lemma srv_read_elems_overrun:
  assumes "elements l \<noteq> NULL" and "length (elems l) < n" and "i \<le> length (elems l)"
  shows "srv_read_elems cd mal n i l c lv = None"
  using assms
proof (induction "length (elems l) - i" arbitrary: i l c lv)
  case 0
  then show ?case by (subst srv_read_elems.simps) simp
next
  case (Suc k)
  note step = srv_read_elems.simps [of cd mal n i l c lv]
  show ?case
  proof (cases "srv_read_binary_t_struct cd mal False c lv")
    case None
    then show ?thesis using Suc(2-5) by (simp add: step)
  next
    case (Some x)
    then obtain b c1 lv1 where x: "srv_read_binary_t_struct cd mal False c lv = Some (Some b, c1, lv1)"
      using srv_read_binary_not_null by (metis not_None_eq surj_pair)
    have "srv_read_elems cd mal n (Suc i) (l\<lparr>elems := (elems l)[i := Some b]\<rparr>) c1 lv1 = None"
      by (rule Suc(1)) (use Suc(2-5) in simp_all)
    then show ?thesis using x Suc(2-5) by (simp add: step)
  qed
qed

lemma capacity_wraps: "2 ^ 29 \<le> unat n \<Longrightarrow> unat (n * sizeof_binary_t) div unat sizeof_binary_t < unat n"
proof -
  assume "2 ^ 29 \<le> unat n"
  moreover have "unat (n * sizeof_binary_t) < 2 ^ 32" using unsigned_less [of "n * sizeof_binary_t"] by simp
  ultimately show ?thesis by (simp add: sizeof_binary_t_def)
qed

text \<open>C31. The size of the element array is computed in 32 bits: a message that announces at least
  \<open>2 ^ 29\<close> entries makes the server, once the list structure itself was allocated, allocate fewer entries than it then writes, so that it stores
  outside the array (or, when that allocation fails, through the null pointer), however short
  the message is and although the codec has long reported an error.\<close>

theorem server_vector_count_wraps:
  assumes "codec_conforms cd wr rd" and "dest \<noteq> NULL" and "2 ^ 29 \<le> unat (fst (startReadList cd c))"
  shows "srv_read_list_binary_1_t_struct cd mal dest c lv = None"
proof -
  obtain n c1 where start: "startReadList cd c = (n, c1)" by fastforce
  have n: "2 ^ 29 \<le> unat n" using assms(3) start by simp
  show ?thesis
  proof (cases "mal (n * sizeof_binary_t) lv = NULL")
    case True
    have "n \<noteq> 0" using n by auto
    then show ?thesis
      using srv_read_list_unallocated(2) [OF assms(1,2) start, of mal lv] True n
      by (cases "srv_read_list_binary_1_t_struct cd mal dest c lv") auto
  next
    case False
    then show ?thesis
      using assms(2) start capacity_wraps [OF n]
      by (simp add: srv_read_list_binary_1_t_struct_def erpc_malloc_def Let_def srv_read_elems_overrun)
  qed
qed

theorem server_vector_count_wraps_witness:
  "srv_read_list_binary_1_t_struct (wire_codec_upto 0xFFFFFFFF) bump 90
     \<lparr>wire_status = kErpcStatus_Success, wire_out = [], wire_in = [Count 0x20000001]\<rparr> [] = None"
  by (rule server_vector_count_wraps [OF wire_conforms_upto])
    (simp_all add: wire_codec_upto_def wire_take_def NULL_def)

section \<open>Dispatch\<close>

text \<open>A message whose scalars could not be read has, for the shim, two empty lists.\<close>

lemma failed_list:
  assumes "codec_conforms cd wr rd" and "\<not> ok cd c"
  shows "fst (startReadList cd c) = 0" and "\<not> array_missing cd mal dest c lv"
proof -
  obtain n c1 where start: "startReadList cd c = (n, c1)" by fastforce
  have "\<not> ok cd c1" using takesD(1) [OF conforms(10) [OF assms(1)] start] assms(2) by blast
  then show "fst (startReadList cd c) = 0" using conforms_list_failed [OF assms(1) start] start by simp
  then show "\<not> array_missing cd mal dest c lv" by (simp add: array_missing_def)
qed

lemma call_scalars_refused:
  assumes "codec_conforms cd wr rd" and head: "call_header cd mal c (live sv) = (p_in, p_out, c1, lv1)"
    and "\<not> ok cd c1"
  shows "\<exists>c' lv'. erpc_psa_call_shim cfg cd api mal mf q c sv = Some (getStatus cd c', c', sv\<lparr>live := lv'\<rparr>)
    \<and> \<not> ok cd c' \<and> mset lv' = mset (live sv)"
proof -
  note sticky = srv_read_list_sticky [OF assms(1)]
  have n1: "unat (fst (startReadList cd c1)) < 2 ^ 29" by (simp add: failed_list(1) [OF assms(1,3)])
  obtain i c2 lv2 where i: "srv_read_list_binary_1_t_struct cd mal p_in c1 lv1 = Some (i, c2, lv2)"
    "\<not> unallocated i"
    using array_present_read [OF assms(1) n1 failed_list(2) [OF assms(1,3)]] by blast
  have c2: "\<not> ok cd c2" using sticky [OF i(1)] assms(3) by blast
  have n2: "unat (fst (startReadList cd c2)) < 2 ^ 29" by (simp add: failed_list(1) [OF assms(1) c2])
  obtain out c3 lv3 where out: "srv_read_list_binary_1_t_struct cd mal p_out c2 lv2 = Some (out, c3, lv3)"
    "\<not> unallocated out"
    using array_present_read [OF assms(1) n2 failed_list(2) [OF assms(1) c2]] by blast
  have c3: "\<not> ok cd c3" using sticky [OF out(1)] c2 by blast
  note mem = call_lists_memory [OF assms(1) head n1 n2 i out]
  obtain lv' where free: "call_free p_in p_out i out lv3 = Some lv'" "mset lv' = mset (live sv)"
    using call_free_ok [OF mem(1-5)] by blast
  obtain h t where "call_read cd mal c (live sv) = Some (p_in, p_out, h, t, i, out, c3, lv3)"
    using call_read_split [OF head] i(1) out(1) by auto
  from call_shim_refused [OF this c3 free(1)] c3 free(2) show ?thesis by blast
qed

text \<open>C30. The server answers only what it understands: a message with a method id other than the
  five of the interface is answered with \<open>kErpcStatus_InvalidArgument\<close>, and a message whose scalar
  arguments cannot be read (for \<open>erpc_psa_call\<close> the handle and the type, or because its two list
  structures could not be allocated) is answered with the codec's status, which is not success.
  In all these cases no served function is called and the state of the server does not
  change; the heap is untouched, and for \<open>erpc_psa_call\<close>, which has allocated its list
  structures by then, it holds the same blocks as before.\<close>

theorem server_refuses:
  assumes "codec_conforms cd wr rd"
  shows "(mid \<notin> {kpsa_client_api_psa_framework_version_id, kpsa_client_api_psa_version_id,
            kpsa_client_api_erpc_psa_call_id, kpsa_client_api_psa_connect_id,
            kpsa_client_api_psa_close_id} \<longrightarrow>
      handleInvocation cfg cd api mal mf mid q c sv = Some (kErpcStatus_InvalidArgument, c, sv))
   \<and> (\<not> ok cd c \<longrightarrow>
      handleInvocation cfg cd api mal mf kpsa_client_api_psa_framework_version_id q c sv
        = Some (getStatus cd c, c, sv))
   \<and> (read_u32 cd c = (a, c1) \<and> \<not> ok cd c1 \<longrightarrow>
      handleInvocation cfg cd api mal mf kpsa_client_api_psa_version_id q c sv
        = Some (getStatus cd c1, c1, sv))
   \<and> (call_header cd mal c (live sv) = (p_in, p_out, c4, lv) \<and> \<not> ok cd c4 \<longrightarrow>
      (\<exists>c' lv'. handleInvocation cfg cd api mal mf kpsa_client_api_erpc_psa_call_id q c sv
          = Some (getStatus cd c', c', sv\<lparr>live := lv'\<rparr>)
        \<and> \<not> ok cd c' \<and> mset lv' = mset (live sv)))
   \<and> (read_u32 cd c = (a, c1) \<and> read_u32 cd c1 = (b, c2) \<and> \<not> ok cd c2 \<longrightarrow>
      handleInvocation cfg cd api mal mf kpsa_client_api_psa_connect_id q c sv
        = Some (getStatus cd c2, c2, sv))
   \<and> (read_i32 cd c = (h, c3) \<and> \<not> ok cd c3 \<longrightarrow>
      handleInvocation cfg cd api mal mf kpsa_client_api_psa_close_id q c sv
        = Some (getStatus cd c3, c3, sv))"
  using framework_version_srv.refused [of c "()" c cd] version_srv.refused [of cd c a c1]
    connect_srv.refused [of cd c "(a, b)" c2] close_srv.refused [of cd c h c3]
    call_scalars_refused [OF assms, of mal c sv p_in p_out c4 lv]
  by (auto simp: dispatch handleInvocation_def [of _ _ _ _ _ mid])

theorem server_refuses_witness:
  "let empty = \<lparr>wire_status = kErpcStatus_Success, wire_out = [], wire_in = []\<rparr> in
   handleInvocation plain_config wire_codec clearing_api bump (Pair kErpcStatus_Success) 6 7 empty idle_server
     = Some (kErpcStatus_InvalidArgument, empty, idle_server)
   \<and> (\<exists>e c' lv'. handleInvocation plain_config wire_codec clearing_api bump (Pair kErpcStatus_Success)
         kpsa_client_api_erpc_psa_call_id 7 empty idle_server = Some (e, c', idle_server\<lparr>live := lv'\<rparr>)
       \<and> e \<noteq> kErpcStatus_Success \<and> mset lv' = mset (live idle_server))"
proof -
  let ?empty = "\<lparr>wire_status = kErpcStatus_Success, wire_out = [], wire_in = []\<rparr>"
  obtain p_in p_out c4 lv where head:
    "call_header wire_codec bump ?empty (live idle_server) = (p_in, p_out, c4, lv)" by (metis surj_pair)
  have "case call_header wire_codec bump ?empty (live idle_server) of (p_in, p_out, c4, lv) \<Rightarrow>
      getStatus wire_codec c4 \<noteq> kErpcStatus_Success" by code_simp
  then have "\<not> ok wire_codec c4" using head by simp
  then show ?thesis
    using server_refuses [OF wire_conforms, of 6 plain_config clearing_api bump "Pair kErpcStatus_Success" 7
        ?empty idle_server 0 ?empty p_in p_out c4 lv 0 ?empty 0 ?empty] head
    unfolding Let_def by (auto simp: psa_ids)
qed

text \<open>Creating the service and destroying it leaves the heap as it was.\<close>

lemma create_destroy_service:
  assumes "create_psa_client_api_service policy new_nothrow static_address w = (p, w')"
  shows "\<exists>w''. destroy_psa_client_api_service policy p w' = Some w'' \<and> service_heap w'' = service_heap w"
  using assms
  by (cases policy) (auto simp: create_psa_client_api_service_def destroy_psa_client_api_service_def
      erpc_free_def Let_def split: if_splits)

end
