(* ===== verification/Rtx_Os.thy ===== *)
theory Rtx_Os
  imports Os_Wrapper
begin

text \<open>
  The data types of the RTOS the non-secure image runs on: the enumerations and attribute
  structures of \<^verbatim>\<open>src/lib/ext/CMSIS/RTOS2/Include/cmsis_os2.h\<close> and the control blocks, limits and
  size macros of \<^verbatim>\<open>src/lib/ext/CMSIS/RTOS2/RTX/Include/rtx_os.h\<close>.

  An enumeration is a datatype with its value function. A structure is the list of its members
  with their C types; \<open>csize\<close>, \<open>calign\<close> and \<open>offset_of\<close> compute sizes, alignments and offsets by the
  rules of the 32-bit Arm ABI, so that the \<open>sizeof\<close> macros of the sources have values here.
\<close>

section \<open>Layout of C types\<close>

datatype ctype =
  U8 | I8 | U16 | U32 | I32 | Pointer | Arr ctype nat | Struct "(string \<times> ctype) list"

definition align_up :: "nat \<Rightarrow> nat \<Rightarrow> nat" where
  "align_up n a = (n + a - 1) div a * a"

fun calign :: "ctype \<Rightarrow> nat" and fields_align :: "(string \<times> ctype) list \<Rightarrow> nat" where
  "calign U8 = 1"
| "calign I8 = 1"
| "calign U16 = 2"
| "calign U32 = 4"
| "calign I32 = 4"
| "calign Pointer = 4"
| "calign (Arr t n) = calign t"
| "calign (Struct fs) = fields_align fs"
| "fields_align [] = 1"
| "fields_align ((x, t) # fs) = max (calign t) (fields_align fs)"

fun csize :: "ctype \<Rightarrow> nat" and fields_end :: "nat \<Rightarrow> (string \<times> ctype) list \<Rightarrow> nat" where
  "csize U8 = 1"
| "csize I8 = 1"
| "csize U16 = 2"
| "csize U32 = 4"
| "csize I32 = 4"
| "csize Pointer = 4"
| "csize (Arr t n) = n * csize t"
| "csize (Struct fs) = align_up (fields_end 0 fs) (fields_align fs)"
| "fields_end pos [] = pos"
| "fields_end pos ((x, t) # fs) = fields_end (align_up pos (calign t) + csize t) fs"

fun offset_from :: "nat \<Rightarrow> (string \<times> ctype) list \<Rightarrow> string \<Rightarrow> nat option" where
  "offset_from pos [] f = None"
| "offset_from pos ((x, t) # fs) f =
     (if x = f then Some (align_up pos (calign t))
      else offset_from (align_up pos (calign t) + csize t) fs f)"

fun offset_of :: "ctype \<Rightarrow> string \<Rightarrow> nat option" where
  "offset_of (Struct fs) f = offset_from 0 fs f"
| "offset_of _ f = None"

section \<open>Enumerations and constants of the API\<close>

datatype osKernelState_t =
  osKernelInactive | osKernelReady | osKernelRunning | osKernelLocked | osKernelSuspended
| osKernelError | osKernelReserved

fun kernel_state_value :: "osKernelState_t \<Rightarrow> int" where
  "kernel_state_value osKernelInactive = 0"
| "kernel_state_value osKernelReady = 1"
| "kernel_state_value osKernelRunning = 2"
| "kernel_state_value osKernelLocked = 3"
| "kernel_state_value osKernelSuspended = 4"
| "kernel_state_value osKernelError = - 1"
| "kernel_state_value osKernelReserved = 0x7FFFFFFF"

datatype osThreadState_t =
  osThreadInactive | osThreadReady | osThreadRunning | osThreadBlocked | osThreadTerminated
| osThreadError | osThreadReserved

fun thread_state_value :: "osThreadState_t \<Rightarrow> int" where
  "thread_state_value osThreadInactive = 0"
| "thread_state_value osThreadReady = 1"
| "thread_state_value osThreadRunning = 2"
| "thread_state_value osThreadBlocked = 3"
| "thread_state_value osThreadTerminated = 4"
| "thread_state_value osThreadError = - 1"
| "thread_state_value osThreadReserved = 0x7FFFFFFF"

text \<open>The priorities: the six classes have eight levels each.\<close>

datatype priority_class =
  osPriorityLow | osPriorityBelowNormal | osPriorityNormal | osPriorityAboveNormal
| osPriorityHigh | osPriorityRealtime

datatype osPriority_t =
  osPriorityNone | osPriorityIdle | Level priority_class nat | osPriorityISR
| osPriority_Error | osPriorityReserved

fun priority_base_value :: "priority_class \<Rightarrow> int" where
  "priority_base_value osPriorityLow = 8"
| "priority_base_value osPriorityBelowNormal = 16"
| "priority_base_value osPriorityNormal = 24"
| "priority_base_value osPriorityAboveNormal = 32"
| "priority_base_value osPriorityHigh = 40"
| "priority_base_value osPriorityRealtime = 48"

fun priority_value :: "osPriority_t \<Rightarrow> int" where
  "priority_value osPriorityNone = 0"
| "priority_value osPriorityIdle = 1"
| "priority_value (Level c n) = priority_base_value c + int n"
| "priority_value osPriorityISR = 56"
| "priority_value osPriority_Error = - 1"
| "priority_value osPriorityReserved = 0x7FFFFFFF"

fun priority_ok :: "osPriority_t \<Rightarrow> bool" where
  "priority_ok (Level c n) = (n \<le> 7)"
| "priority_ok _ = True"

datatype osTimerType_t = osTimerOnce | osTimerPeriodic

fun timer_type_value :: "osTimerType_t \<Rightarrow> int" where
  "timer_type_value osTimerOnce = 0"
| "timer_type_value osTimerPeriodic = 1"

definition osFlagsWaitAny :: u32 where "osFlagsWaitAny = 0"
definition osFlagsNoClear :: u32 where "osFlagsNoClear = 2"
definition osFlagsErrorUnknown :: u32 where "osFlagsErrorUnknown = 0xFFFFFFFF"
definition osFlagsErrorTimeout :: u32 where "osFlagsErrorTimeout = 0xFFFFFFFE"
definition osFlagsErrorResource :: u32 where "osFlagsErrorResource = 0xFFFFFFFD"
definition osFlagsErrorParameter :: u32 where "osFlagsErrorParameter = 0xFFFFFFFC"
definition osFlagsErrorISR :: u32 where "osFlagsErrorISR = 0xFFFFFFFA"
definition osThreadDetached :: u32 where "osThreadDetached = 0"
definition osThreadJoinable :: u32 where "osThreadJoinable = 1"
definition osMutexRecursive :: u32 where "osMutexRecursive = 1"
definition osMutexRobust :: u32 where "osMutexRobust = 8"

datatype osStatus_t =
  osStatusOK | osError | osErrorTimeout | osErrorResource | osErrorParameter | osErrorNoMemory
| osErrorISR | osStatusReserved

fun status_value :: "osStatus_t \<Rightarrow> int" where
  "status_value osStatusOK = 0"
| "status_value osError = - 1"
| "status_value osErrorTimeout = - 2"
| "status_value osErrorResource = - 3"
| "status_value osErrorParameter = - 4"
| "status_value osErrorNoMemory = - 5"
| "status_value osErrorISR = - 6"
| "status_value osStatusReserved = 0x7FFFFFFF"

text \<open>The attribute structures.\<close>

definition osVersion_t :: ctype where
  "osVersion_t = Struct [(''api'', U32), (''kernel'', U32)]"

definition thread_attr_t :: ctype where
  "thread_attr_t = Struct
     [(''name'', Pointer), (''attr_bits'', U32), (''cb_mem'', Pointer), (''cb_size'', U32),
      (''stack_mem'', Pointer), (''stack_size'', U32), (''priority'', I32), (''tz_module'', U32),
      (''reserved'', U32)]"

definition osTimerAttr_t :: ctype where
  "osTimerAttr_t = Struct
     [(''name'', Pointer), (''attr_bits'', U32), (''cb_mem'', Pointer), (''cb_size'', U32)]"

definition osEventFlagsAttr_t :: ctype where
  "osEventFlagsAttr_t = Struct
     [(''name'', Pointer), (''attr_bits'', U32), (''cb_mem'', Pointer), (''cb_size'', U32)]"

definition osMutexAttr_t :: ctype where
  "osMutexAttr_t = Struct
     [(''name'', Pointer), (''attr_bits'', U32), (''cb_mem'', Pointer), (''cb_size'', U32)]"

definition osSemaphoreAttr_t :: ctype where
  "osSemaphoreAttr_t = Struct
     [(''name'', Pointer), (''attr_bits'', U32), (''cb_mem'', Pointer), (''cb_size'', U32)]"

definition osMemoryPoolAttr_t :: ctype where
  "osMemoryPoolAttr_t = Struct
     [(''name'', Pointer), (''attr_bits'', U32), (''cb_mem'', Pointer), (''cb_size'', U32),
      (''mp_mem'', Pointer), (''mp_size'', U32)]"

text \<open>The message-queue attributes, as the values that the configuration fills in.\<close>

record osMessageQueueAttr_t =
  mqa_name :: "string option"
  mqa_attr_bits :: u32
  mqa_cb_mem :: ptr
  mqa_cb_size :: u32
  mqa_mq_mem :: ptr
  mqa_mq_size :: u32

section \<open>Kernel constants\<close>

definition osRtxVersionAPI :: nat where "osRtxVersionAPI = 20010003"
definition osRtxVersionKernel :: nat where "osRtxVersionKernel = 50050000"
definition osRtxKernelId :: string where "osRtxKernelId = ''RTX V5.5.0''"

datatype rtx_object_id =
  osRtxIdInvalid | osRtxIdThread | osRtxIdTimer | osRtxIdEventFlags | osRtxIdMutex
| osRtxIdSemaphore | osRtxIdMemoryPool | osRtxIdMessage | osRtxIdMessageQueue

fun object_id_value :: "rtx_object_id \<Rightarrow> u8" where
  "object_id_value osRtxIdInvalid = 0x00"
| "object_id_value osRtxIdThread = 0xF1"
| "object_id_value osRtxIdTimer = 0xF2"
| "object_id_value osRtxIdEventFlags = 0xF3"
| "object_id_value osRtxIdMutex = 0xF5"
| "object_id_value osRtxIdSemaphore = 0xF6"
| "object_id_value osRtxIdMemoryPool = 0xF7"
| "object_id_value osRtxIdMessage = 0xF9"
| "object_id_value osRtxIdMessageQueue = 0xFA"

definition osRtxFlagSystemObject :: u8 where "osRtxFlagSystemObject = 0x01"
definition osRtxFlagSystemMemory :: u8 where "osRtxFlagSystemMemory = 0x02"

unbundle bit_operations_syntax

definition rtx_kernel_state :: "osKernelState_t \<Rightarrow> u8" where
  "rtx_kernel_state k = of_int (kernel_state_value k)"

definition osRtxThreadStateMask :: u8 where "osRtxThreadStateMask = 0x0F"

definition rtx_thread_state :: "osThreadState_t \<Rightarrow> u8" where
  "rtx_thread_state t = of_int (thread_state_value t)"

datatype thread_wait =
  WaitingDelay | WaitingJoin | WaitingThreadFlags | WaitingEventFlags | WaitingMutex
| WaitingSemaphore | WaitingMemoryPool | WaitingMessageGet | WaitingMessagePut

fun wait_reason :: "thread_wait \<Rightarrow> u8" where
  "wait_reason WaitingDelay = 0x10"
| "wait_reason WaitingJoin = 0x20"
| "wait_reason WaitingThreadFlags = 0x30"
| "wait_reason WaitingEventFlags = 0x40"
| "wait_reason WaitingMutex = 0x50"
| "wait_reason WaitingSemaphore = 0x60"
| "wait_reason WaitingMemoryPool = 0x70"
| "wait_reason WaitingMessageGet = 0x80"
| "wait_reason WaitingMessagePut = 0x90"

definition osRtxThreadWaiting :: "thread_wait \<Rightarrow> u8" where
  "osRtxThreadWaiting r = rtx_thread_state osThreadBlocked OR wait_reason r"

definition osRtxThreadFlagDefStack :: u8 where "osRtxThreadFlagDefStack = 0x10"
definition osRtxStackMagicWord :: u32 where "osRtxStackMagicWord = 0xE25A2EA5"
definition osRtxStackFillPattern :: u32 where "osRtxStackFillPattern = 0xCCCCCCCC"
definition osRtxTimerInactive :: u8 where "osRtxTimerInactive = 0"
definition osRtxTimerStopped :: u8 where "osRtxTimerStopped = 1"
definition osRtxTimerRunning :: u8 where "osRtxTimerRunning = 2"
definition osRtxTimerPeriodic :: u8 where "osRtxTimerPeriodic = of_int (timer_type_value osTimerPeriodic)"

section \<open>Control blocks\<close>

text \<open>The control block of a thread; \<open>tfm\<close> says whether \<open>RTX_TF_M_EXTENSION\<close> is defined.\<close>

definition osRtxThread_t :: "bool \<Rightarrow> ctype" where
  "osRtxThread_t tfm = Struct
     ([(''id'', U8), (''state'', U8), (''flags'', U8), (''attr'', U8), (''name'', Pointer),
       (''thread_next'', Pointer), (''thread_prev'', Pointer), (''delay_next'', Pointer),
       (''delay_prev'', Pointer), (''thread_join'', Pointer), (''delay'', U32), (''priority'', I8),
       (''priority_base'', I8), (''stack_frame'', U8), (''flags_options'', U8), (''wait_flags'', U32),
       (''thread_flags'', U32), (''mutex_list'', Pointer), (''stack_mem'', Pointer),
       (''stack_size'', U32), (''sp'', U32), (''thread_addr'', U32), (''tz_memory'', U32)]
      @ (if tfm then [(''tz_module'', U32)] else []))"

definition osRtxTimerFinfo_t :: ctype where
  "osRtxTimerFinfo_t = Struct [(''func'', Pointer), (''arg'', Pointer)]"

definition osRtxTimer_t :: ctype where
  "osRtxTimer_t = Struct
     [(''id'', U8), (''state'', U8), (''flags'', U8), (''type'', U8), (''name'', Pointer),
      (''prev'', Pointer), (''next'', Pointer), (''tick'', U32), (''load'', U32),
      (''finfo'', osRtxTimerFinfo_t)]"

definition osRtxEventFlags_t :: ctype where
  "osRtxEventFlags_t = Struct
     [(''id'', U8), (''reserved_state'', U8), (''flags'', U8), (''reserved'', U8), (''name'', Pointer),
      (''thread_list'', Pointer), (''event_flags'', U32)]"

definition osRtxMutex_t :: ctype where
  "osRtxMutex_t = Struct
     [(''id'', U8), (''reserved_state'', U8), (''flags'', U8), (''attr'', U8), (''name'', Pointer),
      (''thread_list'', Pointer), (''owner_thread'', Pointer), (''owner_prev'', Pointer),
      (''owner_next'', Pointer), (''lock'', U8), (''padding'', Arr U8 3)]"

definition osRtxSemaphore_t :: ctype where
  "osRtxSemaphore_t = Struct
     [(''id'', U8), (''reserved_state'', U8), (''flags'', U8), (''reserved'', U8), (''name'', Pointer),
      (''thread_list'', Pointer), (''tokens'', U16), (''max_tokens'', U16)]"

text \<open>The information block of a memory pool is data the configuration fills in, so it has a layout
  and a record of its values.\<close>

definition osRtxMpInfo_layout :: ctype where
  "osRtxMpInfo_layout = Struct
     [(''max_blocks'', U32), (''used_blocks'', U32), (''block_size'', U32), (''block_base'', Pointer),
      (''block_lim'', Pointer), (''block_free'', Pointer)]"

record osRtxMpInfo_t =
  max_blocks :: u32
  used_blocks :: u32
  block_size :: u32
  block_base :: ptr
  block_lim :: ptr
  block_free :: ptr

definition osRtxMemoryPool_t :: ctype where
  "osRtxMemoryPool_t = Struct
     [(''id'', U8), (''reserved_state'', U8), (''flags'', U8), (''reserved'', U8), (''name'', Pointer),
      (''thread_list'', Pointer), (''mp_info'', osRtxMpInfo_layout)]"

definition osRtxMessage_t :: ctype where
  "osRtxMessage_t = Struct
     [(''id'', U8), (''reserved_state'', U8), (''flags'', U8), (''priority'', U8), (''prev'', Pointer),
      (''next'', Pointer)]"

definition osRtxMessageQueue_t :: ctype where
  "osRtxMessageQueue_t = Struct
     [(''id'', U8), (''reserved_state'', U8), (''flags'', U8), (''reserved'', U8), (''name'', Pointer),
      (''thread_list'', Pointer), (''mp_info'', osRtxMpInfo_layout), (''msg_size'', U32),
      (''msg_count'', U32), (''msg_first'', Pointer), (''msg_last'', Pointer)]"

definition osRtxObject_t :: ctype where
  "osRtxObject_t = Struct
     [(''id'', U8), (''state'', U8), (''flags'', U8), (''reserved'', U8), (''name'', Pointer),
      (''thread_list'', Pointer)]"

definition osRtxInfo_t :: ctype where
  "osRtxInfo_t = Struct
     [(''os_id'', Pointer), (''version'', U32),
      (''kernel'', Struct [(''state'', U8), (''blocked'', U8), (''pendSV'', U8), (''reserved'', U8),
        (''tick'', U32)]),
      (''tick_irqn'', I32),
      (''thread'', Struct
        [(''run'', Struct [(''curr'', Pointer), (''next'', Pointer)]),
         (''ready'', osRtxObject_t), (''idle'', Pointer), (''delay_list'', Pointer),
         (''wait_list'', Pointer), (''terminate_list'', Pointer),
         (''robin'', Struct [(''thread'', Pointer), (''tick'', U32), (''timeout'', U32)])]),
      (''timer'', Struct [(''list'', Pointer), (''thread'', Pointer), (''mq'', Pointer), (''tick'', Pointer)]),
      (''isr_queue'', Struct [(''max'', U16), (''cnt'', U16), (''in'', U16), (''out'', U16),
        (''data'', Pointer)]),
      (''post_process'', Struct [(''thread'', Pointer), (''event_flags'', Pointer), (''semaphore'', Pointer),
        (''memory_pool'', Pointer), (''message'', Pointer)]),
      (''mem'', Struct [(''stack'', Pointer), (''mp_data'', Pointer), (''mq_data'', Pointer),
        (''common'', Pointer)]),
      (''mpi'', Struct [(''stack'', Pointer), (''thread'', Pointer), (''timer'', Pointer),
        (''event_flags'', Pointer), (''mutex'', Pointer), (''semaphore'', Pointer),
        (''memory_pool'', Pointer), (''message_queue'', Pointer)])]"

definition osRtxObjectMemUsage_t :: ctype where
  "osRtxObjectMemUsage_t = Struct [(''cnt_alloc'', U32), (''cnt_free'', U32), (''max_used'', U32)]"

section \<open>Limits and sizes\<close>

definition osRtxThreadFlagsLimit :: nat where "osRtxThreadFlagsLimit = 31"
definition osRtxEventFlagsLimit :: nat where "osRtxEventFlagsLimit = 31"
definition osRtxMutexLockLimit :: nat where "osRtxMutexLockLimit = 255"
definition osRtxSemaphoreTokenLimit :: nat where "osRtxSemaphoreTokenLimit = 65535"

definition osRtxThreadCbSize :: "bool \<Rightarrow> nat" where "osRtxThreadCbSize tfm = csize (osRtxThread_t tfm)"
definition osRtxTimerCbSize :: nat where "osRtxTimerCbSize = csize osRtxTimer_t"
definition osRtxEventFlagsCbSize :: nat where "osRtxEventFlagsCbSize = csize osRtxEventFlags_t"
definition osRtxMutexCbSize :: nat where "osRtxMutexCbSize = csize osRtxMutex_t"
definition osRtxSemaphoreCbSize :: nat where "osRtxSemaphoreCbSize = csize osRtxSemaphore_t"
definition osRtxMemoryPoolCbSize :: nat where "osRtxMemoryPoolCbSize = csize osRtxMemoryPool_t"
definition osRtxMessageQueueCbSize :: nat where "osRtxMessageQueueCbSize = csize osRtxMessageQueue_t"

definition osRtxMemoryPoolMemSize :: "nat \<Rightarrow> nat \<Rightarrow> nat" where
  "osRtxMemoryPoolMemSize blocks bytes = 4 * blocks * ((bytes + 3) div 4)"

definition osRtxMessageQueueMemSize :: "nat \<Rightarrow> nat \<Rightarrow> nat" where
  "osRtxMessageQueueMemSize msg_count msg_size = 4 * msg_count * (3 + (msg_size + 3) div 4)"

datatype rtx_error =
  osRtxErrorStackUnderflow | osRtxErrorISRQueueOverflow | osRtxErrorTimerQueueOverflow
| osRtxErrorClibSpace | osRtxErrorClibMutex

fun rtx_error_value :: "rtx_error \<Rightarrow> u32" where
  "rtx_error_value osRtxErrorStackUnderflow = 1"
| "rtx_error_value osRtxErrorISRQueueOverflow = 2"
| "rtx_error_value osRtxErrorTimerQueueOverflow = 3"
| "rtx_error_value osRtxErrorClibSpace = 4"
| "rtx_error_value osRtxErrorClibMutex = 5"

definition osRtxConfigPrivilegedMode :: u32 where "osRtxConfigPrivilegedMode = push_bit 0 1"
definition osRtxConfigStackCheck :: u32 where "osRtxConfigStackCheck = push_bit 1 1"
definition osRtxConfigStackWatermark :: u32 where "osRtxConfigStackWatermark = push_bit 2 1"

lemmas layout_defs = align_up_def osRtxThread_t_def osRtxTimerFinfo_t_def osRtxTimer_t_def
  osRtxEventFlags_t_def osRtxMutex_t_def osRtxSemaphore_t_def osRtxMpInfo_layout_def
  osRtxMemoryPool_t_def osRtxMessage_t_def osRtxMessageQueue_t_def osRtxObject_t_def osRtxInfo_t_def

lemmas cb_size_defs = osRtxThreadCbSize_def osRtxTimerCbSize_def osRtxEventFlagsCbSize_def
  osRtxMutexCbSize_def osRtxSemaphoreCbSize_def osRtxMemoryPoolCbSize_def osRtxMessageQueueCbSize_def

section \<open>Properties\<close>

text \<open>A waiting thread is a blocked thread: the state that the mask reads is \<open>Blocked\<close> for each of the
  nine reasons, and the reasons are distinguished.\<close>

lemma waiting_is_blocked:
  "osRtxThreadWaiting r AND osRtxThreadStateMask = rtx_thread_state osThreadBlocked"
  "osRtxThreadWaiting r = osRtxThreadWaiting r' \<longleftrightarrow> r = r'"
  by (cases r; simp add: osRtxThreadWaiting_def rtx_thread_state_def osRtxThreadStateMask_def)
    (cases r; cases r'; simp add: osRtxThreadWaiting_def rtx_thread_state_def)

text \<open>The error values of the flags functions are the status codes as unsigned words, and the error bit
  separates them from every set of at most \<open>osRtxThreadFlagsLimit\<close> flags.\<close>

lemma flags_errors_encode_status:
  "osFlagsErrorUnknown = of_int (status_value osError)"
  "osFlagsErrorTimeout = of_int (status_value osErrorTimeout)"
  "osFlagsErrorResource = of_int (status_value osErrorResource)"
  "osFlagsErrorParameter = of_int (status_value osErrorParameter)"
  "osFlagsErrorISR = of_int (status_value osErrorISR)"
  by (simp_all add: osFlagsErrorUnknown_def osFlagsErrorTimeout_def osFlagsErrorResource_def
      osFlagsErrorParameter_def osFlagsErrorISR_def)

lemma flags_errors_top_bit:
  fixes w :: u32
  shows "e \<in> {osFlagsErrorUnknown, osFlagsErrorTimeout, osFlagsErrorResource, osFlagsErrorParameter,
      osFlagsErrorISR} \<Longrightarrow> e AND osFlagsError \<noteq> 0"
    and "unat w < 2 ^ osRtxThreadFlagsLimit \<Longrightarrow> w AND osFlagsError = 0"
proof -
  show "e \<in> {osFlagsErrorUnknown, osFlagsErrorTimeout, osFlagsErrorResource, osFlagsErrorParameter,
      osFlagsErrorISR} \<Longrightarrow> e AND osFlagsError \<noteq> 0"
    by (auto simp: osFlagsErrorUnknown_def osFlagsErrorTimeout_def osFlagsErrorResource_def
      osFlagsErrorParameter_def osFlagsErrorISR_def osFlagsError_def)
  assume "unat w < 2 ^ osRtxThreadFlagsLimit"
  then have "unat w div 2 ^ 31 = 0" by (intro div_less) (simp add: osRtxThreadFlagsLimit_def)
  then have "\<not> bit (unat w) 31" by (simp add: bit_iff_odd)
  then have "\<not> bit w 31" by (simp add: bit_unsigned_iff)
  then have "w AND 2 ^ 31 = 0" by (simp only: and_exp_eq_0_iff_not_bit not_False_eq_True)
  then show "w AND osFlagsError = 0" by (simp add: osFlagsError_def)
qed



end
