(* ===== verification/Rtx_Config.thy ===== *)
theory Rtx_Config
  imports Rtx_Os
begin

text \<open>
  The configuration of the RTOS kernel: \<^verbatim>\<open>RTX/Config/RTX_Config.h\<close>, \<^verbatim>\<open>RTX/Config/RTX_Config.c\<close> and
  \<^verbatim>\<open>RTX/Source/rtx_lib.c\<close> under \<^verbatim>\<open>src/lib/ext/CMSIS/RTOS2\<close>, and \<^verbatim>\<open>src/app_broker/os_config_cmsis_rtx.c\<close>.

  The preprocessor is a function: \<open>D\<close> is the set of macros that the build defines, an option of
  \<^verbatim>\<open>RTX_Config.h\<close> is the value of its macro or else its default, the \<open>#error\<close> directives of
  \<^verbatim>\<open>rtx_lib.c\<close> are the list of the messages they print, and the static objects that it declares are the
  list of their names and sizes. The addresses that the linker gives to them are the argument
  \<open>link\<close>. The options are natural numbers. The C library hooks at the end of \<^verbatim>\<open>rtx_lib.c\<close> are
  operations on their own static variables. \<open>None\<close> is a call that does not return.
\<close>

section \<open>Options\<close>

definition macro :: "(string \<rightharpoonup> nat) \<Rightarrow> string \<Rightarrow> nat \<Rightarrow> nat" where
  "macro D x d = (case D x of None \<Rightarrow> d | Some v \<Rightarrow> v)"

record system_config =
  OS_DYNAMIC_MEM_SIZE :: nat
  OS_TICK_FREQ :: nat
  OS_ROBIN_ENABLE :: nat
  OS_ROBIN_TIMEOUT :: nat
  OS_ISR_FIFO_QUEUE :: nat
  OS_OBJ_MEM_USAGE :: nat

definition system_options :: "(string \<rightharpoonup> nat) \<Rightarrow> system_config" where
  "system_options D =
    \<lparr>OS_DYNAMIC_MEM_SIZE = macro D ''OS_DYNAMIC_MEM_SIZE'' 8192,
     OS_TICK_FREQ = macro D ''OS_TICK_FREQ'' 1000,
     OS_ROBIN_ENABLE = macro D ''OS_ROBIN_ENABLE'' 1,
     OS_ROBIN_TIMEOUT = macro D ''OS_ROBIN_TIMEOUT'' 5,
     OS_ISR_FIFO_QUEUE = macro D ''OS_ISR_FIFO_QUEUE'' 16,
     OS_OBJ_MEM_USAGE = macro D ''OS_OBJ_MEM_USAGE'' 0\<rparr>"

record thread_config =
  OS_THREAD_OBJ_MEM :: nat
  OS_THREAD_NUM :: nat
  OS_THREAD_DEF_STACK_NUM :: nat
  OS_THREAD_USER_STACK_SIZE :: nat
  OS_STACK_SIZE :: nat
  OS_IDLE_THREAD_STACK_SIZE :: nat
  OS_IDLE_THREAD_TZ_MOD_ID :: nat
  OS_STACK_CHECK :: nat
  OS_STACK_WATERMARK :: nat
  OS_PRIVILEGE_MODE :: nat

definition thread_options :: "(string \<rightharpoonup> nat) \<Rightarrow> thread_config" where
  "thread_options D =
    \<lparr>OS_THREAD_OBJ_MEM = macro D ''OS_THREAD_OBJ_MEM'' 0,
     OS_THREAD_NUM = macro D ''OS_THREAD_NUM'' 1,
     OS_THREAD_DEF_STACK_NUM = macro D ''OS_THREAD_DEF_STACK_NUM'' 0,
     OS_THREAD_USER_STACK_SIZE = macro D ''OS_THREAD_USER_STACK_SIZE'' 0,
     OS_STACK_SIZE = macro D ''OS_STACK_SIZE'' 256,
     OS_IDLE_THREAD_STACK_SIZE = macro D ''OS_IDLE_THREAD_STACK_SIZE'' 256,
     OS_IDLE_THREAD_TZ_MOD_ID = macro D ''OS_IDLE_THREAD_TZ_MOD_ID'' 0,
     OS_STACK_CHECK = macro D ''OS_STACK_CHECK'' 1,
     OS_STACK_WATERMARK = macro D ''OS_STACK_WATERMARK'' 0,
     OS_PRIVILEGE_MODE = macro D ''OS_PRIVILEGE_MODE'' 1\<rparr>"

record timer_config =
  OS_TIMER_OBJ_MEM :: nat
  OS_TIMER_NUM :: nat
  OS_TIMER_THREAD_PRIO :: nat
  OS_TIMER_THREAD_STACK_SIZE :: nat
  OS_TIMER_THREAD_TZ_MOD_ID :: nat
  OS_TIMER_CB_QUEUE :: nat

definition timer_options :: "(string \<rightharpoonup> nat) \<Rightarrow> timer_config" where
  "timer_options D =
    \<lparr>OS_TIMER_OBJ_MEM = macro D ''OS_TIMER_OBJ_MEM'' 0,
     OS_TIMER_NUM = macro D ''OS_TIMER_NUM'' 1,
     OS_TIMER_THREAD_PRIO = macro D ''OS_TIMER_THREAD_PRIO'' 40,
     OS_TIMER_THREAD_STACK_SIZE = macro D ''OS_TIMER_THREAD_STACK_SIZE'' 256,
     OS_TIMER_THREAD_TZ_MOD_ID = macro D ''OS_TIMER_THREAD_TZ_MOD_ID'' 0,
     OS_TIMER_CB_QUEUE = macro D ''OS_TIMER_CB_QUEUE'' 4\<rparr>"

record object_config =
  OS_EVFLAGS_OBJ_MEM :: nat
  OS_EVFLAGS_NUM :: nat
  OS_MUTEX_OBJ_MEM :: nat
  OS_MUTEX_NUM :: nat
  OS_SEMAPHORE_OBJ_MEM :: nat
  OS_SEMAPHORE_NUM :: nat
  OS_MEMPOOL_OBJ_MEM :: nat
  OS_MEMPOOL_NUM :: nat
  OS_MEMPOOL_DATA_SIZE :: nat
  OS_MSGQUEUE_OBJ_MEM :: nat
  OS_MSGQUEUE_NUM :: nat
  OS_MSGQUEUE_DATA_SIZE :: nat

definition object_options :: "(string \<rightharpoonup> nat) \<Rightarrow> object_config" where
  "object_options D =
    \<lparr>OS_EVFLAGS_OBJ_MEM = macro D ''OS_EVFLAGS_OBJ_MEM'' 0,
     OS_EVFLAGS_NUM = macro D ''OS_EVFLAGS_NUM'' 1,
     OS_MUTEX_OBJ_MEM = macro D ''OS_MUTEX_OBJ_MEM'' 0,
     OS_MUTEX_NUM = macro D ''OS_MUTEX_NUM'' 1,
     OS_SEMAPHORE_OBJ_MEM = macro D ''OS_SEMAPHORE_OBJ_MEM'' 0,
     OS_SEMAPHORE_NUM = macro D ''OS_SEMAPHORE_NUM'' 1,
     OS_MEMPOOL_OBJ_MEM = macro D ''OS_MEMPOOL_OBJ_MEM'' 0,
     OS_MEMPOOL_NUM = macro D ''OS_MEMPOOL_NUM'' 1,
     OS_MEMPOOL_DATA_SIZE = macro D ''OS_MEMPOOL_DATA_SIZE'' 0,
     OS_MSGQUEUE_OBJ_MEM = macro D ''OS_MSGQUEUE_OBJ_MEM'' 0,
     OS_MSGQUEUE_NUM = macro D ''OS_MSGQUEUE_NUM'' 1,
     OS_MSGQUEUE_DATA_SIZE = macro D ''OS_MSGQUEUE_DATA_SIZE'' 0\<rparr>"

record evr_config =
  OS_EVR_INIT :: nat
  OS_EVR_START :: nat
  OS_EVR_LEVEL :: nat
  OS_EVR_MEMORY_LEVEL :: nat
  OS_EVR_KERNEL_LEVEL :: nat
  OS_EVR_THREAD_LEVEL :: nat
  OS_EVR_WAIT_LEVEL :: nat
  OS_EVR_THFLAGS_LEVEL :: nat
  OS_EVR_EVFLAGS_LEVEL :: nat
  OS_EVR_TIMER_LEVEL :: nat
  OS_EVR_MUTEX_LEVEL :: nat
  OS_EVR_SEMAPHORE_LEVEL :: nat
  OS_EVR_MEMPOOL_LEVEL :: nat
  OS_EVR_MSGQUEUE_LEVEL :: nat

definition evr_options :: "(string \<rightharpoonup> nat) \<Rightarrow> evr_config" where
  "evr_options D =
    \<lparr>OS_EVR_INIT = macro D ''OS_EVR_INIT'' 0,
     OS_EVR_START = macro D ''OS_EVR_START'' 1,
     OS_EVR_LEVEL = macro D ''OS_EVR_LEVEL'' 0,
     OS_EVR_MEMORY_LEVEL = macro D ''OS_EVR_MEMORY_LEVEL'' 1,
     OS_EVR_KERNEL_LEVEL = macro D ''OS_EVR_KERNEL_LEVEL'' 1,
     OS_EVR_THREAD_LEVEL = macro D ''OS_EVR_THREAD_LEVEL'' 5,
     OS_EVR_WAIT_LEVEL = macro D ''OS_EVR_WAIT_LEVEL'' 1,
     OS_EVR_THFLAGS_LEVEL = macro D ''OS_EVR_THFLAGS_LEVEL'' 1,
     OS_EVR_EVFLAGS_LEVEL = macro D ''OS_EVR_EVFLAGS_LEVEL'' 1,
     OS_EVR_TIMER_LEVEL = macro D ''OS_EVR_TIMER_LEVEL'' 1,
     OS_EVR_MUTEX_LEVEL = macro D ''OS_EVR_MUTEX_LEVEL'' 1,
     OS_EVR_SEMAPHORE_LEVEL = macro D ''OS_EVR_SEMAPHORE_LEVEL'' 1,
     OS_EVR_MEMPOOL_LEVEL = macro D ''OS_EVR_MEMPOOL_LEVEL'' 1,
     OS_EVR_MSGQUEUE_LEVEL = macro D ''OS_EVR_MSGQUEUE_LEVEL'' 1\<rparr>"

record evr_events =
  OS_EVR_MEMORY :: nat
  OS_EVR_KERNEL :: nat
  OS_EVR_THREAD :: nat
  OS_EVR_WAIT :: nat
  OS_EVR_THFLAGS :: nat
  OS_EVR_EVFLAGS :: nat
  OS_EVR_TIMER :: nat
  OS_EVR_MUTEX :: nat
  OS_EVR_SEMAPHORE :: nat
  OS_EVR_MEMPOOL :: nat
  OS_EVR_MSGQUEUE :: nat

definition evr_event_options :: "(string \<rightharpoonup> nat) \<Rightarrow> evr_events" where
  "evr_event_options D =
    \<lparr>OS_EVR_MEMORY = macro D ''OS_EVR_MEMORY'' 1,
     OS_EVR_KERNEL = macro D ''OS_EVR_KERNEL'' 1,
     OS_EVR_THREAD = macro D ''OS_EVR_THREAD'' 1,
     OS_EVR_WAIT = macro D ''OS_EVR_WAIT'' 1,
     OS_EVR_THFLAGS = macro D ''OS_EVR_THFLAGS'' 1,
     OS_EVR_EVFLAGS = macro D ''OS_EVR_EVFLAGS'' 1,
     OS_EVR_TIMER = macro D ''OS_EVR_TIMER'' 1,
     OS_EVR_MUTEX = macro D ''OS_EVR_MUTEX'' 1,
     OS_EVR_SEMAPHORE = macro D ''OS_EVR_SEMAPHORE'' 1,
     OS_EVR_MEMPOOL = macro D ''OS_EVR_MEMPOOL'' 1,
     OS_EVR_MSGQUEUE = macro D ''OS_EVR_MSGQUEUE'' 1\<rparr>"

record rtx_config =
  sys :: system_config
  thr :: thread_config
  tim :: timer_config
  obj :: object_config
  evr :: evr_config
  evg :: evr_events

definition rtx_options :: "(string \<rightharpoonup> nat) \<Rightarrow> rtx_config" where
  "rtx_options D =
    \<lparr>sys = system_options D, thr = thread_options D, tim = timer_options D, obj = object_options D,
     evr = evr_options D, evg = evr_event_options D\<rparr>"

definition OS_THREAD_LIBSPACE_NUM :: "rtx_config \<Rightarrow> nat" where
  "OS_THREAD_LIBSPACE_NUM c = (if OS_THREAD_OBJ_MEM (thr c) = 0 then 4 else OS_THREAD_NUM (thr c))"

section \<open>The checks of the library configuration\<close>

definition err :: "bool \<Rightarrow> string \<Rightarrow> string list" where
  "err b msg = (if b then [msg] else [])"

definition system_errors :: "system_config \<Rightarrow> string list" where
  "system_errors s =
     err (OS_DYNAMIC_MEM_SIZE s \<noteq> 0 \<and> OS_DYNAMIC_MEM_SIZE s mod 8 \<noteq> 0) ''Invalid Dynamic Memory size!''
   @ err (OS_TICK_FREQ s < 1) ''Invalid Kernel Tick Frequency!''
   @ err (OS_ISR_FIFO_QUEUE s < 4) ''Invalid ISR FIFO Queue size!''"

definition thread_errors :: "thread_config \<Rightarrow> string list" where
  "thread_errors t =
     err (OS_STACK_SIZE t mod 8 \<noteq> 0 \<or> OS_STACK_SIZE t < 72) ''Invalid default Thread Stack size!''
   @ err (OS_IDLE_THREAD_STACK_SIZE t mod 8 \<noteq> 0 \<or> OS_IDLE_THREAD_STACK_SIZE t < 72)
       ''Invalid Idle Thread Stack size!''
   @ (if OS_THREAD_OBJ_MEM t \<noteq> 0 then
        err (OS_THREAD_NUM t = 0) ''Invalid number of user Threads!''
      @ err (OS_THREAD_USER_STACK_SIZE t \<noteq> 0 \<and> OS_THREAD_USER_STACK_SIZE t mod 8 \<noteq> 0)
          ''Invalid total Stack size!''
      else [])"

definition timer_enabled :: "timer_config \<Rightarrow> bool" where
  "timer_enabled t \<longleftrightarrow> OS_TIMER_THREAD_STACK_SIZE t \<noteq> 0 \<and> OS_TIMER_CB_QUEUE t \<noteq> 0"

definition timer_errors :: "timer_config \<Rightarrow> string list" where
  "timer_errors t =
     err (OS_TIMER_OBJ_MEM t \<noteq> 0 \<and> OS_TIMER_NUM t = 0) ''Invalid number of Timer objects!''
   @ err (timer_enabled t \<and> (OS_TIMER_THREAD_STACK_SIZE t mod 8 \<noteq> 0 \<or> OS_TIMER_THREAD_STACK_SIZE t < 96))
       ''Invalid Timer Thread Stack size!''"

definition object_errors :: "object_config \<Rightarrow> string list" where
  "object_errors b =
     err (OS_EVFLAGS_OBJ_MEM b \<noteq> 0 \<and> OS_EVFLAGS_NUM b = 0) ''Invalid number of Event Flags objects!''
   @ err (OS_MUTEX_OBJ_MEM b \<noteq> 0 \<and> OS_MUTEX_NUM b = 0) ''Invalid number of Mutex objects!''
   @ err (OS_SEMAPHORE_OBJ_MEM b \<noteq> 0 \<and> OS_SEMAPHORE_NUM b = 0) ''Invalid number of Semaphore objects!''
   @ (if OS_MEMPOOL_OBJ_MEM b \<noteq> 0 then
        err (OS_MEMPOOL_NUM b = 0) ''Invalid number of Memory Pool objects!''
      @ err (OS_MEMPOOL_DATA_SIZE b \<noteq> 0 \<and> OS_MEMPOOL_DATA_SIZE b mod 8 \<noteq> 0)
          ''Invalid Data Memory size for Memory Pools!''
      else [])
   @ (if OS_MSGQUEUE_OBJ_MEM b \<noteq> 0 then
        err (OS_MSGQUEUE_NUM b = 0) ''Invalid number of Message Queue objects!''
      @ err (OS_MSGQUEUE_DATA_SIZE b \<noteq> 0 \<and> OS_MSGQUEUE_DATA_SIZE b mod 8 \<noteq> 0)
          ''Invalid Data Memory size for Message Queues!''
      else [])"

definition config_errors :: "rtx_config \<Rightarrow> string list" where
  "config_errors c =
     system_errors (sys c) @ thread_errors (thr c) @ timer_errors (tim c) @ object_errors (obj c)"

section \<open>Static objects\<close>

text \<open>The arrays and control blocks with their sizes in bytes; an element of type \<open>uint64_t\<close> has 8
  bytes and one of type \<open>uint32_t\<close> or a pointer 4.\<close>

datatype static_object =
  os_mem | os_isr_queue | os_thread_cb | os_thread_def_stack | os_thread_stack | os_idle_thread_cb
| os_idle_thread_stack | os_timer_cb | os_timer_thread_cb | os_timer_thread_stack | os_timer_mq_cb | os_timer_mq_data
| os_ef_cb | os_mutex_cb | os_semaphore_cb | os_mp_cb | os_mp_data | os_mq_cb | os_mq_data

definition system_statics :: "system_config \<Rightarrow> (static_object \<times> nat) list" where
  "system_statics s =
     (if OS_DYNAMIC_MEM_SIZE s \<noteq> 0 then [(os_mem, 8 * (OS_DYNAMIC_MEM_SIZE s div 8))] else [])
   @ [(os_isr_queue, 4 * OS_ISR_FIFO_QUEUE s)]"

definition thread_statics :: "bool \<Rightarrow> thread_config \<Rightarrow> (static_object \<times> nat) list" where
  "thread_statics tfm t =
     (if OS_THREAD_OBJ_MEM t \<noteq> 0 then
        [(os_thread_cb, OS_THREAD_NUM t * osRtxThreadCbSize tfm)]
      @ (if OS_THREAD_DEF_STACK_NUM t \<noteq> 0
         then [(os_thread_def_stack, 8 * (OS_THREAD_DEF_STACK_NUM t * (OS_STACK_SIZE t div 8)))] else [])
      @ (if OS_THREAD_USER_STACK_SIZE t \<noteq> 0
         then [(os_thread_stack, 8 * (2 + OS_THREAD_NUM t + OS_THREAD_USER_STACK_SIZE t div 8))] else [])
      else [])
   @ [(os_idle_thread_cb, osRtxThreadCbSize tfm),
      (os_idle_thread_stack, 8 * (OS_IDLE_THREAD_STACK_SIZE t div 8))]"

definition timer_statics :: "bool \<Rightarrow> timer_config \<Rightarrow> (static_object \<times> nat) list" where
  "timer_statics tfm t =
     (if OS_TIMER_OBJ_MEM t \<noteq> 0 then [(os_timer_cb, OS_TIMER_NUM t * osRtxTimerCbSize)] else [])
   @ (if timer_enabled t then
        [(os_timer_thread_cb, osRtxThreadCbSize tfm),
         (os_timer_thread_stack, 8 * (OS_TIMER_THREAD_STACK_SIZE t div 8)),
         (os_timer_mq_cb, osRtxMessageQueueCbSize),
         (os_timer_mq_data, 4 * (osRtxMessageQueueMemSize (OS_TIMER_CB_QUEUE t) 8 div 4))]
      else [])"

definition object_statics :: "object_config \<Rightarrow> (static_object \<times> nat) list" where
  "object_statics b =
     (if OS_EVFLAGS_OBJ_MEM b \<noteq> 0 then [(os_ef_cb, OS_EVFLAGS_NUM b * osRtxEventFlagsCbSize)] else [])
   @ (if OS_MUTEX_OBJ_MEM b \<noteq> 0 then [(os_mutex_cb, OS_MUTEX_NUM b * osRtxMutexCbSize)] else [])
   @ (if OS_SEMAPHORE_OBJ_MEM b \<noteq> 0
      then [(os_semaphore_cb, OS_SEMAPHORE_NUM b * osRtxSemaphoreCbSize)] else [])
   @ (if OS_MEMPOOL_OBJ_MEM b \<noteq> 0 then
        [(os_mp_cb, OS_MEMPOOL_NUM b * osRtxMemoryPoolCbSize)]
      @ (if OS_MEMPOOL_DATA_SIZE b \<noteq> 0
         then [(os_mp_data, 8 * (2 + OS_MEMPOOL_NUM b + OS_MEMPOOL_DATA_SIZE b div 8))] else [])
      else [])
   @ (if OS_MSGQUEUE_OBJ_MEM b \<noteq> 0 then
        [(os_mq_cb, OS_MSGQUEUE_NUM b * osRtxMessageQueueCbSize)]
      @ (if OS_MSGQUEUE_DATA_SIZE b \<noteq> 0
         then [(os_mq_data, 8 * (2 + OS_MSGQUEUE_NUM b + OS_MSGQUEUE_DATA_SIZE b div 8))] else [])
      else [])"

definition statics :: "bool \<Rightarrow> rtx_config \<Rightarrow> (static_object \<times> nat) list" where
  "statics tfm c =
     system_statics (sys c) @ thread_statics tfm (thr c) @ timer_statics tfm (tim c)
   @ object_statics (obj c)"

definition static_size :: "bool \<Rightarrow> rtx_config \<Rightarrow> static_object \<Rightarrow> nat" where
  "static_size tfm c x = (case map_of (statics tfm c) x of None \<Rightarrow> 0 | Some n \<Rightarrow> n)"

section \<open>Attributes and pools\<close>

definition os_idle_thread_attr ::
  "bool \<Rightarrow> (string \<rightharpoonup> string) \<Rightarrow> (static_object \<Rightarrow> ptr) \<Rightarrow> rtx_config \<Rightarrow> osThreadAttr_t" where
  "os_idle_thread_attr tfm names link c =
    \<lparr>at_name = names ''OS_IDLE_THREAD_NAME'', at_attr_bits = osThreadDetached,
     at_cb_mem = link os_idle_thread_cb, at_cb_size = of_nat (static_size tfm c os_idle_thread_cb),
     at_stack_mem = link os_idle_thread_stack,
     at_stack_size = of_nat (static_size tfm c os_idle_thread_stack),
     at_priority = of_int (priority_value osPriorityIdle),
     at_tz_module = of_nat (OS_IDLE_THREAD_TZ_MOD_ID (thr c))\<rparr>"

definition os_timer_thread_attr ::
  "bool \<Rightarrow> (string \<rightharpoonup> string) \<Rightarrow> (static_object \<Rightarrow> ptr) \<Rightarrow> rtx_config \<Rightarrow> osThreadAttr_t" where
  "os_timer_thread_attr tfm names link c =
    \<lparr>at_name = names ''OS_TIMER_THREAD_NAME'', at_attr_bits = osThreadDetached,
     at_cb_mem = link os_timer_thread_cb, at_cb_size = of_nat (static_size tfm c os_timer_thread_cb),
     at_stack_mem = link os_timer_thread_stack,
     at_stack_size = of_nat (static_size tfm c os_timer_thread_stack),
     at_priority = of_nat (OS_TIMER_THREAD_PRIO (tim c)),
     at_tz_module = of_nat (OS_TIMER_THREAD_TZ_MOD_ID (tim c))\<rparr>"

definition os_timer_mq_attr :: "bool \<Rightarrow> (static_object \<Rightarrow> ptr) \<Rightarrow> rtx_config \<Rightarrow> osMessageQueueAttr_t" where
  "os_timer_mq_attr tfm link c =
    \<lparr>mqa_name = None, mqa_attr_bits = 0, mqa_cb_mem = link os_timer_mq_cb,
     mqa_cb_size = of_nat (static_size tfm c os_timer_mq_cb),
     mqa_mq_mem = link os_timer_mq_data,
     mqa_mq_size = of_nat (static_size tfm c os_timer_mq_data)\<rparr>"

definition pool :: "nat \<Rightarrow> nat \<Rightarrow> ptr \<Rightarrow> osRtxMpInfo_t" where
  "pool n sz base = \<lparr>max_blocks = of_nat n, used_blocks = 0, block_size = of_nat sz, block_base = base,
     block_lim = NULL, block_free = NULL\<rparr>"

definition os_mpi_thread :: "bool \<Rightarrow> (static_object \<Rightarrow> ptr) \<Rightarrow> rtx_config \<Rightarrow> osRtxMpInfo_t" where
  "os_mpi_thread tfm link c = pool (OS_THREAD_NUM (thr c)) (osRtxThreadCbSize tfm) (link os_thread_cb)"

definition os_mpi_def_stack :: "(static_object \<Rightarrow> ptr) \<Rightarrow> rtx_config \<Rightarrow> osRtxMpInfo_t" where
  "os_mpi_def_stack link c =
     pool (OS_THREAD_DEF_STACK_NUM (thr c)) (OS_STACK_SIZE (thr c)) (link os_thread_def_stack)"

definition os_mpi_timer :: "(static_object \<Rightarrow> ptr) \<Rightarrow> rtx_config \<Rightarrow> osRtxMpInfo_t" where
  "os_mpi_timer link c = pool (OS_TIMER_NUM (tim c)) osRtxTimerCbSize (link os_timer_cb)"

definition os_mpi_ef :: "(static_object \<Rightarrow> ptr) \<Rightarrow> rtx_config \<Rightarrow> osRtxMpInfo_t" where
  "os_mpi_ef link c = pool (OS_EVFLAGS_NUM (obj c)) osRtxEventFlagsCbSize (link os_ef_cb)"

definition os_mpi_mutex :: "(static_object \<Rightarrow> ptr) \<Rightarrow> rtx_config \<Rightarrow> osRtxMpInfo_t" where
  "os_mpi_mutex link c = pool (OS_MUTEX_NUM (obj c)) osRtxMutexCbSize (link os_mutex_cb)"

definition os_mpi_semaphore :: "(static_object \<Rightarrow> ptr) \<Rightarrow> rtx_config \<Rightarrow> osRtxMpInfo_t" where
  "os_mpi_semaphore link c = pool (OS_SEMAPHORE_NUM (obj c)) osRtxSemaphoreCbSize (link os_semaphore_cb)"

definition os_mpi_mp :: "(static_object \<Rightarrow> ptr) \<Rightarrow> rtx_config \<Rightarrow> osRtxMpInfo_t" where
  "os_mpi_mp link c = pool (OS_MEMPOOL_NUM (obj c)) osRtxMemoryPoolCbSize (link os_mp_cb)"

definition os_mpi_mq :: "(static_object \<Rightarrow> ptr) \<Rightarrow> rtx_config \<Rightarrow> osRtxMpInfo_t" where
  "os_mpi_mq link c = pool (OS_MSGQUEUE_NUM (obj c)) osRtxMessageQueueCbSize (link os_mq_cb)"

section \<open>The configuration structure\<close>

record config_mem =
  stack_addr :: ptr
  stack_bytes :: u32
  mp_data_addr :: ptr
  mp_data_size :: u32
  mq_data_addr :: ptr
  mq_data_size :: u32
  common_addr :: ptr
  common_size :: u32

record config_mpi =
  mpi_stack :: "osRtxMpInfo_t option"
  mpi_thread :: "osRtxMpInfo_t option"
  mpi_timer :: "osRtxMpInfo_t option"
  mpi_event_flags :: "osRtxMpInfo_t option"
  mpi_mutex :: "osRtxMpInfo_t option"
  mpi_semaphore :: "osRtxMpInfo_t option"
  mpi_memory_pool :: "osRtxMpInfo_t option"
  mpi_message_queue :: "osRtxMpInfo_t option"

record osRtxConfig_t =
  cfg_flags :: u32
  tick_freq :: u32
  robin_timeout :: u32
  isr_queue_data :: ptr
  isr_queue_max :: "16 word"
  mem :: config_mem
  mpi :: config_mpi
  thread_stack_size :: u32
  idle_thread_attr :: osThreadAttr_t
  timer_thread_attr :: "osThreadAttr_t option"
  timer_mq_attr :: "osMessageQueueAttr_t option"
  timer_mq_mcnt :: u32

unbundle bit_operations_syntax

definition config_flags :: "thread_config \<Rightarrow> u32" where
  "config_flags t =
     0 OR (if OS_PRIVILEGE_MODE t \<noteq> 0 then osRtxConfigPrivilegedMode else 0)
       OR (if OS_STACK_CHECK t \<noteq> 0 then osRtxConfigStackCheck else 0)
       OR (if OS_STACK_WATERMARK t \<noteq> 0 then osRtxConfigStackWatermark else 0)"

definition region :: "bool \<Rightarrow> bool \<Rightarrow> (static_object \<Rightarrow> ptr) \<Rightarrow> rtx_config \<Rightarrow> static_object \<Rightarrow> ptr \<times> u32" where
  "region present tfm link c x =
     (if present then (link x, of_nat (static_size tfm c x)) else (NULL, 0))"

definition config_memory :: "bool \<Rightarrow> (static_object \<Rightarrow> ptr) \<Rightarrow> rtx_config \<Rightarrow> config_mem" where
  "config_memory tfm link c =
     (let t = thr c; b = obj c;
          stack = region (OS_THREAD_OBJ_MEM t \<noteq> 0 \<and> OS_THREAD_USER_STACK_SIZE t \<noteq> 0) tfm link c os_thread_stack;
          mp = region (OS_MEMPOOL_OBJ_MEM b \<noteq> 0 \<and> OS_MEMPOOL_DATA_SIZE b \<noteq> 0) tfm link c os_mp_data;
          mq = region (OS_MSGQUEUE_OBJ_MEM b \<noteq> 0 \<and> OS_MSGQUEUE_DATA_SIZE b \<noteq> 0) tfm link c os_mq_data;
          common = (if OS_DYNAMIC_MEM_SIZE (sys c) \<noteq> 0
                    then (link os_mem, of_nat (OS_DYNAMIC_MEM_SIZE (sys c))) else (NULL, 0))
      in \<lparr>stack_addr = fst stack, stack_bytes = snd stack, mp_data_addr = fst mp, mp_data_size = snd mp,
          mq_data_addr = fst mq, mq_data_size = snd mq, common_addr = fst common, common_size = snd common\<rparr>)"

definition config_pools :: "bool \<Rightarrow> (static_object \<Rightarrow> ptr) \<Rightarrow> rtx_config \<Rightarrow> config_mpi" where
  "config_pools tfm link c =
     (let t = thr c; b = obj c
      in \<lparr>mpi_stack = (if OS_THREAD_OBJ_MEM t \<noteq> 0 \<and> OS_THREAD_DEF_STACK_NUM t \<noteq> 0
                       then Some (os_mpi_def_stack link c) else None),
          mpi_thread = (if OS_THREAD_OBJ_MEM t \<noteq> 0 then Some (os_mpi_thread tfm link c) else None),
          mpi_timer = (if OS_TIMER_OBJ_MEM (tim c) \<noteq> 0 then Some (os_mpi_timer link c) else None),
          mpi_event_flags = (if OS_EVFLAGS_OBJ_MEM b \<noteq> 0 then Some (os_mpi_ef link c) else None),
          mpi_mutex = (if OS_MUTEX_OBJ_MEM b \<noteq> 0 then Some (os_mpi_mutex link c) else None),
          mpi_semaphore = (if OS_SEMAPHORE_OBJ_MEM b \<noteq> 0 then Some (os_mpi_semaphore link c) else None),
          mpi_memory_pool = (if OS_MEMPOOL_OBJ_MEM b \<noteq> 0 then Some (os_mpi_mp link c) else None),
          mpi_message_queue = (if OS_MSGQUEUE_OBJ_MEM b \<noteq> 0 then Some (os_mpi_mq link c) else None)\<rparr>)"

definition osRtxConfig ::
  "bool \<Rightarrow> (string \<rightharpoonup> string) \<Rightarrow> (static_object \<Rightarrow> ptr) \<Rightarrow> rtx_config \<Rightarrow> osRtxConfig_t" where
  "osRtxConfig tfm names link c =
    \<lparr>cfg_flags = config_flags (thr c),
     tick_freq = of_nat (OS_TICK_FREQ (sys c)),
     robin_timeout = (if OS_ROBIN_ENABLE (sys c) \<noteq> 0 then of_nat (OS_ROBIN_TIMEOUT (sys c)) else 0),
     isr_queue_data = link os_isr_queue,
     isr_queue_max = of_nat (static_size tfm c os_isr_queue div 4),
     mem = config_memory tfm link c,
     mpi = config_pools tfm link c,
     thread_stack_size = of_nat (OS_STACK_SIZE (thr c)),
     idle_thread_attr = os_idle_thread_attr tfm names link c,
     timer_thread_attr = (if timer_enabled (tim c) then Some (os_timer_thread_attr tfm names link c) else None),
     timer_mq_attr = (if timer_enabled (tim c) then Some (os_timer_mq_attr tfm link c) else None),
     timer_mq_mcnt = (if timer_enabled (tim c) then of_nat (OS_TIMER_CB_QUEUE (tim c)) else 0)\<rparr>"

text \<open>Compiling the file: the messages of the \<open>#error\<close> directives or the configuration.\<close>

definition rtx_lib ::
  "bool \<Rightarrow> (string \<rightharpoonup> nat) \<Rightarrow> (string \<rightharpoonup> string) \<Rightarrow> (static_object \<Rightarrow> ptr) \<Rightarrow> string list + osRtxConfig_t" where
  "rtx_lib tfm D names link =
     (let c = rtx_options D
      in if config_errors c = [] then Inr (osRtxConfig tfm names link c) else Inl (config_errors c))"

section \<open>Event recorder\<close>

datatype evr_call =
  EventRecorderInitialize nat nat
| EventRecorderEnable nat nat nat

datatype evr_component =
  Memory | Kernel | Thread | Wait | ThreadFlags | EventFlags | Timer | Mutex | Semaphore
| MemoryPool | MessageQueue

fun component_no :: "evr_component \<Rightarrow> nat" where
  "component_no Memory = 0xF0"
| "component_no Kernel = 0xF1"
| "component_no Thread = 0xF2"
| "component_no ThreadFlags = 0xF4"
| "component_no Wait = 0xF3"
| "component_no Timer = 0xF6"
| "component_no EventFlags = 0xF5"
| "component_no Mutex = 0xF7"
| "component_no Semaphore = 0xF8"
| "component_no MemoryPool = 0xF9"
| "component_no MessageQueue = 0xFA"

text \<open>The old filter macros, of which the one for threads also stands for thread flags and waits, and
  the levels that replace those of \<^verbatim>\<open>RTX_Config.h\<close> where a filter is defined.\<close>

fun evr_filter :: "(string \<rightharpoonup> nat) \<Rightarrow> evr_component \<Rightarrow> nat option" where
  "evr_filter D Memory = D ''OS_EVR_MEMORY_FILTER''"
| "evr_filter D Kernel = D ''OS_EVR_KERNEL_FILTER''"
| "evr_filter D Thread = D ''OS_EVR_THREAD_FILTER''"
| "evr_filter D Wait =
     (case D ''OS_EVR_WAIT_FILTER'' of None \<Rightarrow> D ''OS_EVR_THREAD_FILTER'' | Some f \<Rightarrow> Some f)"
| "evr_filter D ThreadFlags =
     (case D ''OS_EVR_THFLAGS_FILTER'' of None \<Rightarrow> D ''OS_EVR_THREAD_FILTER'' | Some f \<Rightarrow> Some f)"
| "evr_filter D EventFlags = D ''OS_EVR_EVFLAGS_FILTER''"
| "evr_filter D Timer = D ''OS_EVR_TIMER_FILTER''"
| "evr_filter D Mutex = D ''OS_EVR_MUTEX_FILTER''"
| "evr_filter D Semaphore = D ''OS_EVR_SEMAPHORE_FILTER''"
| "evr_filter D MemoryPool = D ''OS_EVR_MEMPOOL_FILTER''"
| "evr_filter D MessageQueue = D ''OS_EVR_MSGQUEUE_FILTER''"

fun config_level :: "evr_config \<Rightarrow> evr_component \<Rightarrow> nat" where
  "config_level e Memory = OS_EVR_MEMORY_LEVEL e"
| "config_level e Kernel = OS_EVR_KERNEL_LEVEL e"
| "config_level e Thread = OS_EVR_THREAD_LEVEL e"
| "config_level e Wait = OS_EVR_WAIT_LEVEL e"
| "config_level e ThreadFlags = OS_EVR_THFLAGS_LEVEL e"
| "config_level e EventFlags = OS_EVR_EVFLAGS_LEVEL e"
| "config_level e Timer = OS_EVR_TIMER_LEVEL e"
| "config_level e Mutex = OS_EVR_MUTEX_LEVEL e"
| "config_level e Semaphore = OS_EVR_SEMAPHORE_LEVEL e"
| "config_level e MemoryPool = OS_EVR_MEMPOOL_LEVEL e"
| "config_level e MessageQueue = OS_EVR_MSGQUEUE_LEVEL e"

definition evr_level :: "(string \<rightharpoonup> nat) \<Rightarrow> evr_config \<Rightarrow> evr_component \<Rightarrow> nat" where
  "evr_level D e k =
     (case evr_filter D k of
        None \<Rightarrow> config_level e k
      | Some f \<Rightarrow> if f AND 0x80 \<noteq> 0 then f AND 0x0F else 0)"

definition evr_initialize :: "(string \<rightharpoonup> nat) \<Rightarrow> evr_config \<Rightarrow> evr_call list" where
  "evr_initialize D e =
     (if D ''RTE_Compiler_EventRecorder'' = None then []
      else EventRecorderInitialize (OS_EVR_LEVEL e) (OS_EVR_START e)
        # map (\<lambda>k. EventRecorderEnable (evr_level D e k) (component_no k) (component_no k))
            [Memory, Kernel, Thread, Wait, ThreadFlags, EventFlags, Timer, Mutex, Semaphore, MemoryPool,
             MessageQueue])"

definition osRtxKernelPreInit :: "(string \<rightharpoonup> nat) \<Rightarrow> evr_config \<Rightarrow> osKernelState_t \<Rightarrow> evr_call list" where
  "osRtxKernelPreInit D e k =
     (if OS_EVR_INIT e \<noteq> 0 \<and> k = osKernelInactive then evr_initialize D e else [])"

section \<open>Callbacks that do not return\<close>

text \<open>The loop \<open>for (;;) {}\<close>, and the idle thread of the application, which waits for an event in
  every round.\<close>

partial_function (option) spin :: "unit \<Rightarrow> u32 option" where
  "spin u = spin u"

partial_function (option) osRtxIdleThread :: "('w \<Rightarrow> 'w) \<Rightarrow> 'w \<Rightarrow> 'w option" where
  "osRtxIdleThread wfe w = osRtxIdleThread wfe (wfe w)"

definition osRtxErrorNotify :: "u32 \<Rightarrow> ptr \<Rightarrow> u32 option" where
  "osRtxErrorNotify code object_id =
     (if code = rtx_error_value osRtxErrorStackUnderflow then spin ()
      else if code = rtx_error_value osRtxErrorISRQueueOverflow then spin ()
      else if code = rtx_error_value osRtxErrorTimerQueueOverflow then spin ()
      else if code = rtx_error_value osRtxErrorClibSpace then spin ()
      else if code = rtx_error_value osRtxErrorClibMutex then spin ()
      else spin ())"

section \<open>The C library interface\<close>

record clib_state =
  os_kernel_active :: bool
  os_libspace_id :: "ptr list"

definition clib_boot :: "rtx_config \<Rightarrow> clib_state" where
  "clib_boot c = \<lparr>os_kernel_active = False, os_libspace_id = replicate (OS_THREAD_LIBSPACE_NUM c) NULL\<rparr>"

definition os_kernel_is_active :: "osKernelState_t \<Rightarrow> clib_state \<Rightarrow> bool \<times> clib_state" where
  "os_kernel_is_active k st =
     (let st = (if \<not> os_kernel_active st \<and> kernel_state_value k > kernel_state_value osKernelReady
                then st\<lparr>os_kernel_active := True\<rparr> else st)
      in (os_kernel_active st, st))"

function libspace_loop :: "nat \<Rightarrow> ptr \<Rightarrow> nat \<Rightarrow> ptr list \<Rightarrow> nat \<times> ptr list" where
  "libspace_loop num tid n ids =
     (if n < num then
        let ids = (if ids ! n = NULL then ids[n := tid] else ids)
        in if ids ! n = tid then (n, ids) else libspace_loop num tid (Suc n) ids
      else (n, ids))"
  by pat_completeness auto
termination by (relation "measure (\<lambda>(num, tid, n, ids). num - n)") auto

declare libspace_loop.simps [simp del]

text \<open>The row of \<open>os_libspace\<close> that the current thread \<open>tid\<close> gets.\<close>

definition user_perthread_libspace ::
  "rtx_config \<Rightarrow> osKernelState_t \<Rightarrow> ptr \<Rightarrow> clib_state \<Rightarrow> (nat \<times> clib_state) option" where
  "user_perthread_libspace c k tid st =
     (let (active, st) = os_kernel_is_active k st
      in if active then
           let (n, ids) = libspace_loop (OS_THREAD_LIBSPACE_NUM c) tid 0 (os_libspace_id st);
               st = st\<lparr>os_libspace_id := ids\<rparr>
           in if n = OS_THREAD_LIBSPACE_NUM c
              then (case osRtxErrorNotify (rtx_error_value osRtxErrorClibSpace) tid of
                      None \<Rightarrow> None | Some _ \<Rightarrow> Some (n, st))
              else Some (n, st)
         else Some (OS_THREAD_LIBSPACE_NUM c, st))"

definition mutex_initialize ::
  "('s \<Rightarrow> ptr \<times> 's) \<Rightarrow> ptr \<Rightarrow> 's \<Rightarrow> (int \<times> ptr \<times> 's) option" where
  "mutex_initialize new_mutex m s =
     (let (h, s) = new_mutex s
      in if h \<noteq> NULL then Some (1, h, s)
         else case osRtxErrorNotify (rtx_error_value osRtxErrorClibMutex) m of
                None \<Rightarrow> None | Some _ \<Rightarrow> Some (0, h, s))"

definition mutex_acquire :: "'s rtos \<Rightarrow> osKernelState_t \<Rightarrow> ptr \<Rightarrow> clib_state \<Rightarrow> 's \<Rightarrow> clib_state \<times> 's" where
  "mutex_acquire rt k h st s =
     (let (active, st) = os_kernel_is_active k st
      in (st, if active then snd (osMutexAcquire rt h osWaitForever s) else s))"

definition mutex_release :: "'s rtos \<Rightarrow> osKernelState_t \<Rightarrow> ptr \<Rightarrow> clib_state \<Rightarrow> 's \<Rightarrow> clib_state \<times> 's" where
  "mutex_release rt k h st s =
     (let (active, st) = os_kernel_is_active k st
      in (st, if active then snd (osMutexRelease rt h s) else s))"

definition mutex_free :: "'s rtos \<Rightarrow> ptr \<Rightarrow> 's \<Rightarrow> 's" where
  "mutex_free rt h s = snd (osMutexDelete rt h s)"

text \<open>The table of the sections of control blocks that the debugger reads.\<close>

definition os_cb_sections :: "(string \<Rightarrow> ptr) \<Rightarrow> ptr list" where
  "os_cb_sections link = map link
     [''__os_thread_cb_start__'', ''__os_thread_cb_end__'', ''__os_timer_cb_start__'', ''__os_timer_cb_end__'',
      ''__os_evflags_cb_start__'', ''__os_evflags_cb_end__'', ''__os_mutex_cb_start__'',
      ''__os_mutex_cb_end__'', ''__os_semaphore_cb_start__'', ''__os_semaphore_cb_end__'',
      ''__os_mempool_cb_start__'', ''__os_mempool_cb_end__'', ''__os_msgqueue_cb_start__'',
      ''__os_msgqueue_cb_end__'']"

section \<open>The configuration describes its memory\<close>

lemma map_of_if: "map_of (if b then xs else ys) x = (if b then map_of xs x else map_of ys x)"
  by simp

lemma map_of_append_at:
  "map_of (xs @ ys) x = (case map_of xs x of None \<Rightarrow> map_of ys x | Some v \<Rightarrow> Some v)"
  by (simp add: map_add_def map_of_append split: option.split)

lemmas static_defs = static_size_def statics_def system_statics_def thread_statics_def
  timer_statics_def object_statics_def

lemma static_sizes:
  "OS_DYNAMIC_MEM_SIZE (sys c) \<noteq> 0 \<Longrightarrow> static_size tfm c os_mem = 8 * (OS_DYNAMIC_MEM_SIZE (sys c) div 8)"
  "static_size tfm c os_isr_queue = 4 * OS_ISR_FIFO_QUEUE (sys c)"
  "static_size tfm c os_idle_thread_stack = 8 * (OS_IDLE_THREAD_STACK_SIZE (thr c) div 8)"
  "OS_THREAD_OBJ_MEM (thr c) \<noteq> 0 \<Longrightarrow>
    static_size tfm c os_thread_cb = OS_THREAD_NUM (thr c) * osRtxThreadCbSize tfm"
  "OS_THREAD_OBJ_MEM (thr c) \<noteq> 0 \<Longrightarrow> OS_THREAD_DEF_STACK_NUM (thr c) \<noteq> 0 \<Longrightarrow>
    static_size tfm c os_thread_def_stack = 8 * (OS_THREAD_DEF_STACK_NUM (thr c) * (OS_STACK_SIZE (thr c) div 8))"
  "OS_THREAD_OBJ_MEM (thr c) \<noteq> 0 \<Longrightarrow> OS_THREAD_USER_STACK_SIZE (thr c) \<noteq> 0 \<Longrightarrow>
    static_size tfm c os_thread_stack = 8 * (2 + OS_THREAD_NUM (thr c) + OS_THREAD_USER_STACK_SIZE (thr c) div 8)"
  "OS_TIMER_OBJ_MEM (tim c) \<noteq> 0 \<Longrightarrow> static_size tfm c os_timer_cb = OS_TIMER_NUM (tim c) * osRtxTimerCbSize"
  "timer_enabled (tim c) \<Longrightarrow>
    static_size tfm c os_timer_thread_stack = 8 * (OS_TIMER_THREAD_STACK_SIZE (tim c) div 8)"
  "timer_enabled (tim c) \<Longrightarrow> static_size tfm c os_timer_mq_data
     = 4 * (osRtxMessageQueueMemSize (OS_TIMER_CB_QUEUE (tim c)) 8 div 4)"
  "OS_EVFLAGS_OBJ_MEM (obj c) \<noteq> 0 \<Longrightarrow>
    static_size tfm c os_ef_cb = OS_EVFLAGS_NUM (obj c) * osRtxEventFlagsCbSize"
  "OS_MUTEX_OBJ_MEM (obj c) \<noteq> 0 \<Longrightarrow> static_size tfm c os_mutex_cb = OS_MUTEX_NUM (obj c) * osRtxMutexCbSize"
  "OS_SEMAPHORE_OBJ_MEM (obj c) \<noteq> 0 \<Longrightarrow>
    static_size tfm c os_semaphore_cb = OS_SEMAPHORE_NUM (obj c) * osRtxSemaphoreCbSize"
  "OS_MEMPOOL_OBJ_MEM (obj c) \<noteq> 0 \<Longrightarrow>
    static_size tfm c os_mp_cb = OS_MEMPOOL_NUM (obj c) * osRtxMemoryPoolCbSize"
  "OS_MEMPOOL_OBJ_MEM (obj c) \<noteq> 0 \<Longrightarrow> OS_MEMPOOL_DATA_SIZE (obj c) \<noteq> 0 \<Longrightarrow>
    static_size tfm c os_mp_data = 8 * (2 + OS_MEMPOOL_NUM (obj c) + OS_MEMPOOL_DATA_SIZE (obj c) div 8)"
  "OS_MSGQUEUE_OBJ_MEM (obj c) \<noteq> 0 \<Longrightarrow>
    static_size tfm c os_mq_cb = OS_MSGQUEUE_NUM (obj c) * osRtxMessageQueueCbSize"
  "OS_MSGQUEUE_OBJ_MEM (obj c) \<noteq> 0 \<Longrightarrow> OS_MSGQUEUE_DATA_SIZE (obj c) \<noteq> 0 \<Longrightarrow>
    static_size tfm c os_mq_data = 8 * (2 + OS_MSGQUEUE_NUM (obj c) + OS_MSGQUEUE_DATA_SIZE (obj c) div 8)"
  by (simp_all add: static_defs map_of_append_at map_of_if del: map_of_append)

text \<open>Every static object is smaller than the address space, and the interrupt queue's length fits
  its 16-bit field.\<close>

definition fits :: "bool \<Rightarrow> rtx_config \<Rightarrow> bool" where
  "fits tfm c \<longleftrightarrow> list_all (\<lambda>(x, n). n < 2 ^ 32) (statics tfm c) \<and> OS_ISR_FIFO_QUEUE (sys c) < 2 ^ 16"

lemma fits_size: "fits tfm c \<Longrightarrow> static_size tfm c x < 2 ^ 32"
  by (auto simp: fits_def static_size_def list_all_iff split: option.split dest!: map_of_SomeD)

definition pool_is :: "osRtxMpInfo_t option \<Rightarrow> ptr \<Rightarrow> nat \<Rightarrow> bool" where
  "pool_is p base bytes \<longleftrightarrow>
     (case p of
        None \<Rightarrow> True
      | Some p \<Rightarrow> unat (max_blocks p) * unat (block_size p) = bytes \<and> 0 < unat (max_blocks p)
          \<and> used_blocks p = 0 \<and> block_base p = base)"

lemma pool_is_pool:
  assumes "0 < n" and "0 < sz" and "n * sz < 2 ^ 32"
  shows "pool_is (Some (pool n sz base)) base (n * sz)"
proof -
  have "n \<le> n * sz" "sz \<le> n * sz" using assms by simp_all
  then have "n < 2 ^ 32" "sz < 2 ^ 32" using assms(3) by linarith+
  then show ?thesis using assms(1) by (simp add: pool_is_def pool_def unat_of_nat)
qed

lemma cb_sizes_pos:
  "0 < osRtxThreadCbSize tfm" "0 < osRtxTimerCbSize" "0 < osRtxEventFlagsCbSize" "0 < osRtxMutexCbSize"
  "0 < osRtxSemaphoreCbSize" "0 < osRtxMemoryPoolCbSize" "0 < osRtxMessageQueueCbSize"
  by (simp_all add: cb_size_defs layout_defs)

lemma err_Nil [simp]: "err b m = [] \<longleftrightarrow> \<not> b"
  by (simp add: err_def)

lemma no_errors:
  assumes "config_errors c = []"
  shows "OS_DYNAMIC_MEM_SIZE (sys c) mod 8 = 0" and "4 \<le> OS_ISR_FIFO_QUEUE (sys c)"
    and "OS_STACK_SIZE (thr c) mod 8 = 0" and "72 \<le> OS_STACK_SIZE (thr c)"
    and "OS_IDLE_THREAD_STACK_SIZE (thr c) mod 8 = 0" and "72 \<le> OS_IDLE_THREAD_STACK_SIZE (thr c)"
    and "OS_THREAD_OBJ_MEM (thr c) \<noteq> 0 \<Longrightarrow> 0 < OS_THREAD_NUM (thr c)"
    and "OS_THREAD_OBJ_MEM (thr c) \<noteq> 0 \<Longrightarrow> OS_THREAD_USER_STACK_SIZE (thr c) mod 8 = 0"
    and "OS_TIMER_OBJ_MEM (tim c) \<noteq> 0 \<Longrightarrow> 0 < OS_TIMER_NUM (tim c)"
    and "timer_enabled (tim c) \<Longrightarrow> OS_TIMER_THREAD_STACK_SIZE (tim c) mod 8 = 0"
    and "timer_enabled (tim c) \<Longrightarrow> 96 \<le> OS_TIMER_THREAD_STACK_SIZE (tim c)"
    and "OS_EVFLAGS_OBJ_MEM (obj c) \<noteq> 0 \<Longrightarrow> 0 < OS_EVFLAGS_NUM (obj c)"
    and "OS_MUTEX_OBJ_MEM (obj c) \<noteq> 0 \<Longrightarrow> 0 < OS_MUTEX_NUM (obj c)"
    and "OS_SEMAPHORE_OBJ_MEM (obj c) \<noteq> 0 \<Longrightarrow> 0 < OS_SEMAPHORE_NUM (obj c)"
    and "OS_MEMPOOL_OBJ_MEM (obj c) \<noteq> 0 \<Longrightarrow> 0 < OS_MEMPOOL_NUM (obj c)"
    and "OS_MEMPOOL_OBJ_MEM (obj c) \<noteq> 0 \<Longrightarrow> OS_MEMPOOL_DATA_SIZE (obj c) mod 8 = 0"
    and "OS_MSGQUEUE_OBJ_MEM (obj c) \<noteq> 0 \<Longrightarrow> 0 < OS_MSGQUEUE_NUM (obj c)"
    and "OS_MSGQUEUE_OBJ_MEM (obj c) \<noteq> 0 \<Longrightarrow> OS_MSGQUEUE_DATA_SIZE (obj c) mod 8 = 0"
proof -
  have s: "system_errors (sys c) = []" and t: "thread_errors (thr c) = []"
    and m: "timer_errors (tim c) = []" and b: "object_errors (obj c) = []"
    using assms by (simp_all add: config_errors_def)
  show "OS_DYNAMIC_MEM_SIZE (sys c) mod 8 = 0" "4 \<le> OS_ISR_FIFO_QUEUE (sys c)"
    using s by (auto simp: system_errors_def)
  show "OS_STACK_SIZE (thr c) mod 8 = 0" "72 \<le> OS_STACK_SIZE (thr c)"
    "OS_IDLE_THREAD_STACK_SIZE (thr c) mod 8 = 0" "72 \<le> OS_IDLE_THREAD_STACK_SIZE (thr c)"
    using t by (simp_all add: thread_errors_def)
  show "OS_THREAD_OBJ_MEM (thr c) \<noteq> 0 \<Longrightarrow> 0 < OS_THREAD_NUM (thr c)"
    "OS_THREAD_OBJ_MEM (thr c) \<noteq> 0 \<Longrightarrow> OS_THREAD_USER_STACK_SIZE (thr c) mod 8 = 0"
    using t by (auto simp: thread_errors_def)
  show "OS_TIMER_OBJ_MEM (tim c) \<noteq> 0 \<Longrightarrow> 0 < OS_TIMER_NUM (tim c)"
    "timer_enabled (tim c) \<Longrightarrow> OS_TIMER_THREAD_STACK_SIZE (tim c) mod 8 = 0"
    "timer_enabled (tim c) \<Longrightarrow> 96 \<le> OS_TIMER_THREAD_STACK_SIZE (tim c)"
    using m by (auto simp: timer_errors_def)
  show "OS_EVFLAGS_OBJ_MEM (obj c) \<noteq> 0 \<Longrightarrow> 0 < OS_EVFLAGS_NUM (obj c)"
    "OS_MUTEX_OBJ_MEM (obj c) \<noteq> 0 \<Longrightarrow> 0 < OS_MUTEX_NUM (obj c)"
    "OS_SEMAPHORE_OBJ_MEM (obj c) \<noteq> 0 \<Longrightarrow> 0 < OS_SEMAPHORE_NUM (obj c)"
    using b by (simp_all add: object_errors_def)
  show "OS_MEMPOOL_OBJ_MEM (obj c) \<noteq> 0 \<Longrightarrow> 0 < OS_MEMPOOL_NUM (obj c)"
    "OS_MEMPOOL_OBJ_MEM (obj c) \<noteq> 0 \<Longrightarrow> OS_MEMPOOL_DATA_SIZE (obj c) mod 8 = 0"
    "OS_MSGQUEUE_OBJ_MEM (obj c) \<noteq> 0 \<Longrightarrow> 0 < OS_MSGQUEUE_NUM (obj c)"
    "OS_MSGQUEUE_OBJ_MEM (obj c) \<noteq> 0 \<Longrightarrow> OS_MSGQUEUE_DATA_SIZE (obj c) mod 8 = 0"
    using b by (auto simp: object_errors_def)
qed

lemma pools_describe_arrays:
  fixes link :: "static_object \<Rightarrow> ptr" and tfm :: bool and c :: rtx_config
  assumes "config_errors c = []" and "fits tfm c"
  defines "p \<equiv> config_pools tfm link c"
  shows "pool_is (mpi_stack p) (link os_thread_def_stack) (static_size tfm c os_thread_def_stack)"
    and "pool_is (mpi_thread p) (link os_thread_cb) (static_size tfm c os_thread_cb)"
    and "pool_is (mpi_timer p) (link os_timer_cb) (static_size tfm c os_timer_cb)"
    and "pool_is (mpi_event_flags p) (link os_ef_cb) (static_size tfm c os_ef_cb)"
    and "pool_is (mpi_mutex p) (link os_mutex_cb) (static_size tfm c os_mutex_cb)"
    and "pool_is (mpi_semaphore p) (link os_semaphore_cb) (static_size tfm c os_semaphore_cb)"
    and "pool_is (mpi_memory_pool p) (link os_mp_cb) (static_size tfm c os_mp_cb)"
    and "pool_is (mpi_message_queue p) (link os_mq_cb) (static_size tfm c os_mq_cb)"
proof -
  note ok = no_errors [OF assms(1)] and lim = fits_size [OF assms(2)]
  have mk: "pool_is (if b then Some (pool n sz (link x)) else None) (link x) (static_size tfm c x)"
    if "b \<Longrightarrow> 0 < n" "0 < sz" "b \<Longrightarrow> static_size tfm c x = n * sz" for b n sz x
    using that pool_is_pool [of n sz "link x"] lim [of x] by (auto simp: pool_is_def)
  have half: "8 * (k * (OS_STACK_SIZE (thr c) div 8)) = k * OS_STACK_SIZE (thr c)" for k
    using ok(3) by (simp add: mod_0_imp_dvd)
  show "pool_is (mpi_stack p) (link os_thread_def_stack) (static_size tfm c os_thread_def_stack)"
    unfolding p_def config_pools_def os_mpi_def_stack_def Let_def
    using mk [of _ "OS_THREAD_DEF_STACK_NUM (thr c)" "OS_STACK_SIZE (thr c)" os_thread_def_stack]
      static_sizes(5) [of c tfm] half ok(4) by auto
  show "pool_is (mpi_thread p) (link os_thread_cb) (static_size tfm c os_thread_cb)"
    "pool_is (mpi_timer p) (link os_timer_cb) (static_size tfm c os_timer_cb)"
    "pool_is (mpi_event_flags p) (link os_ef_cb) (static_size tfm c os_ef_cb)"
    "pool_is (mpi_mutex p) (link os_mutex_cb) (static_size tfm c os_mutex_cb)"
    "pool_is (mpi_semaphore p) (link os_semaphore_cb) (static_size tfm c os_semaphore_cb)"
    "pool_is (mpi_memory_pool p) (link os_mp_cb) (static_size tfm c os_mp_cb)"
    "pool_is (mpi_message_queue p) (link os_mq_cb) (static_size tfm c os_mq_cb)"
    unfolding p_def config_pools_def os_mpi_thread_def os_mpi_timer_def os_mpi_ef_def os_mpi_mutex_def
      os_mpi_semaphore_def os_mpi_mp_def os_mpi_mq_def Let_def config_mpi.simps
    by (intro mk; simp add: ok cb_sizes_pos static_sizes)+
qed

lemma unat_fits: "fits tfm c \<Longrightarrow> unat (of_nat (static_size tfm c x) :: u32) = static_size tfm c x"
  using fits_size [of tfm c x] by (simp add: unat_of_nat)

lemma eight_dvd: "n mod 8 = 0 \<Longrightarrow> 8 * (n div 8) = (n :: nat)"
  by (simp add: mod_0_imp_dvd)

lemma regions_describe_arrays:
  fixes link :: "static_object \<Rightarrow> ptr" and tfm :: bool and c :: rtx_config
  assumes "config_errors c = []" and "fits tfm c"
  defines "m \<equiv> config_memory tfm link c"
  shows "unat (stack_bytes m) = (if OS_THREAD_OBJ_MEM (thr c) \<noteq> 0 \<and> OS_THREAD_USER_STACK_SIZE (thr c) \<noteq> 0
      then OS_THREAD_USER_STACK_SIZE (thr c) + 8 * OS_THREAD_NUM (thr c) + 16 else 0)"
    and "unat (mp_data_size m) = (if OS_MEMPOOL_OBJ_MEM (obj c) \<noteq> 0 \<and> OS_MEMPOOL_DATA_SIZE (obj c) \<noteq> 0
      then OS_MEMPOOL_DATA_SIZE (obj c) + 8 * OS_MEMPOOL_NUM (obj c) + 16 else 0)"
    and "unat (mq_data_size m) = (if OS_MSGQUEUE_OBJ_MEM (obj c) \<noteq> 0 \<and> OS_MSGQUEUE_DATA_SIZE (obj c) \<noteq> 0
      then OS_MSGQUEUE_DATA_SIZE (obj c) + 8 * OS_MSGQUEUE_NUM (obj c) + 16 else 0)"
    and "unat (common_size m) = static_size tfm c os_mem"
proof -
  note ok = no_errors [OF assms(1)] and lim = unat_fits [OF assms(2)]
  show "unat (stack_bytes m) = (if OS_THREAD_OBJ_MEM (thr c) \<noteq> 0 \<and> OS_THREAD_USER_STACK_SIZE (thr c) \<noteq> 0
      then OS_THREAD_USER_STACK_SIZE (thr c) + 8 * OS_THREAD_NUM (thr c) + 16 else 0)"
    using eight_dvd [OF ok(8)] by (simp add: m_def config_memory_def region_def Let_def lim) (simp add: static_sizes)
  show "unat (mp_data_size m) = (if OS_MEMPOOL_OBJ_MEM (obj c) \<noteq> 0 \<and> OS_MEMPOOL_DATA_SIZE (obj c) \<noteq> 0
      then OS_MEMPOOL_DATA_SIZE (obj c) + 8 * OS_MEMPOOL_NUM (obj c) + 16 else 0)"
    using eight_dvd [OF ok(16)] by (simp add: m_def config_memory_def region_def Let_def lim) (simp add: static_sizes)
  show "unat (mq_data_size m) = (if OS_MSGQUEUE_OBJ_MEM (obj c) \<noteq> 0 \<and> OS_MSGQUEUE_DATA_SIZE (obj c) \<noteq> 0
      then OS_MSGQUEUE_DATA_SIZE (obj c) + 8 * OS_MSGQUEUE_NUM (obj c) + 16 else 0)"
    using eight_dvd [OF ok(18)] by (simp add: m_def config_memory_def region_def Let_def lim) (simp add: static_sizes)
  show "unat (common_size m) = static_size tfm c os_mem"
  proof (cases "OS_DYNAMIC_MEM_SIZE (sys c) = 0")
    case True
    then show ?thesis by (simp add: m_def config_memory_def Let_def static_defs map_of_append_at map_of_if
          del: map_of_append)
  next
    case False
    then have "static_size tfm c os_mem = OS_DYNAMIC_MEM_SIZE (sys c)"
      using eight_dvd [OF ok(1)] by (simp add: static_sizes)
    then show ?thesis using False lim [of os_mem] by (simp add: m_def config_memory_def Let_def)
  qed
qed

lemma queue_mem: "4 * (osRtxMessageQueueMemSize n 8 div 4) = n * (csize osRtxMessage_t + 8)"
  by (simp add: osRtxMessageQueueMemSize_def layout_defs)


text \<open>The configuration of the repository, with its defaults, is accepted.\<close>

lemma default_config: "config_errors (rtx_options Map.empty) = []"
  by (simp add: rtx_options_def config_errors_def system_errors_def thread_errors_def timer_errors_def
      object_errors_def system_options_def thread_options_def timer_options_def object_options_def
      macro_def err_def)

lemma default_fits: "fits tfm (rtx_options Map.empty)"
  by (simp add: fits_def statics_def system_statics_def thread_statics_def timer_statics_def
      object_statics_def rtx_options_def system_options_def thread_options_def timer_options_def
      object_options_def macro_def timer_enabled_def cb_size_defs layout_defs osRtxMessageQueueMemSize_def)


section \<open>Library space of the threads\<close>

lemma spin_never_returns: "spin u = None"
proof (rule ccontr)
  assume "spin u \<noteq> None"
  then obtain v where "spin u = Some v" by auto
  then show False
    by (induction u v rule: spin.raw_induct [rotated, consumes 1, case_names step]) auto
qed

lemma idle_never_returns: "osRtxIdleThread wfe w = None"
proof (rule ccontr)
  assume "osRtxIdleThread wfe w \<noteq> None"
  then obtain v where "osRtxIdleThread wfe w = Some v" by auto
  then show False
    by (induction wfe w v rule: osRtxIdleThread.raw_induct [rotated, consumes 1, case_names step]) auto
qed

lemma error_notify_never_returns [simp]: "osRtxErrorNotify code p = None"
  by (simp add: osRtxErrorNotify_def spin_never_returns)

definition table_ok :: "nat \<Rightarrow> ptr list \<Rightarrow> bool" where
  "table_ok num ids \<longleftrightarrow> length ids = num
     \<and> (\<forall>i j. i < j \<longrightarrow> j < num \<longrightarrow> ids ! j \<noteq> NULL \<longrightarrow> ids ! i \<noteq> NULL \<and> ids ! i \<noteq> ids ! j)"

definition keeps :: "ptr list \<Rightarrow> ptr list \<Rightarrow> bool" where
  "keeps ids ids' \<longleftrightarrow> (\<forall>j < length ids. ids ! j \<noteq> NULL \<longrightarrow> ids' ! j = ids ! j)"

lemma libspace_loop_ok:
  assumes "table_ok num ids" and "tid \<noteq> NULL" and "n \<le> num"
    and "\<forall>i < n. ids ! i \<noteq> NULL \<and> ids ! i \<noteq> tid"
    and "libspace_loop num tid n ids = (r, ids')"
  shows "table_ok num ids' \<and> keeps ids ids' \<and> r \<le> num \<and> (r < num \<longrightarrow> ids' ! r = tid)"
  using assms
proof (induction num tid n ids rule: libspace_loop.induct)
  case (1 num tid n ids)
  note IH = 1(1) and H = 1(2-6) and step = libspace_loop.simps [of num tid n ids]
  have len: "length ids = num" using H(1) by (simp add: table_ok_def)
  consider (full) "n = num" | (free) "n < num" "ids ! n = NULL" | (own) "n < num" "ids ! n = tid"
    | (other) "n < num" "ids ! n \<noteq> NULL" "ids ! n \<noteq> tid"
    using H(3) by linarith
  then show ?case
  proof cases
    case full
    then show ?thesis using H(1,5) by (simp add: libspace_loop.simps keeps_def)
  next
    case free
    then have "r = n" "ids' = ids[n := tid]" using H(5) len by (auto simp: step)
    moreover have "table_ok num (ids[n := tid])"
      using H(1,2,4) free by (auto simp: table_ok_def nth_list_update)
    ultimately show ?thesis using free len by (auto simp: keeps_def nth_list_update)
  next
    case own
    then show ?thesis using H(1,2,5) by (simp add: step keeps_def)
  next
    case other
    then have "libspace_loop num tid (Suc n) ids = (r, ids')" using H(5) by (simp add: step)
    then show ?thesis using IH [OF other(1) refl] H(1,2,4) other by (auto simp: less_Suc_eq)
  qed
qed

lemma libspace_loop_full:
  "length ids = num \<Longrightarrow> n \<le> num \<Longrightarrow>
   fst (libspace_loop num tid n ids) = num \<longleftrightarrow> (\<forall>i. n \<le> i \<longrightarrow> i < num \<longrightarrow> ids ! i \<noteq> NULL \<and> ids ! i \<noteq> tid)"
proof (induction num tid n ids rule: libspace_loop.induct)
  case (1 num tid n ids)
  note step = libspace_loop.simps [of num tid n ids]
  consider (full) "n = num" | (stop) "n < num" "ids ! n = NULL \<or> ids ! n = tid"
    | (other) "n < num" "ids ! n \<noteq> NULL" "ids ! n \<noteq> tid"
    using "1.prems"(2) by linarith
  then show ?case
  proof cases
    case full
    then show ?thesis by (simp add: libspace_loop.simps)
  next
    case stop
    then have "fst (libspace_loop num tid n ids) = n" using "1.prems"(1) by (auto simp: step)
    then show ?thesis using stop by auto
  next
    case other
    then have "fst (libspace_loop num tid n ids) = fst (libspace_loop num tid (Suc n) ids)"
      by (simp add: step)
    moreover have "n \<le> i \<longleftrightarrow> i = n \<or> Suc n \<le> i" for i by auto
    ultimately show ?thesis using "1.IH" [OF other(1) refl] "1.prems"(1) other by auto
  qed
qed

lemma libspace_call_stuck:
  assumes "length (os_libspace_id st) = OS_THREAD_LIBSPACE_NUM c" and "os_kernel_active st"
  shows "user_perthread_libspace c k tid st = None \<longleftrightarrow>
    NULL \<notin> set (os_libspace_id st) \<and> tid \<notin> set (os_libspace_id st)"
proof -
  have "user_perthread_libspace c k tid st = None \<longleftrightarrow>
      fst (libspace_loop (OS_THREAD_LIBSPACE_NUM c) tid 0 (os_libspace_id st)) = OS_THREAD_LIBSPACE_NUM c"
    using assms(2) by (simp add: user_perthread_libspace_def os_kernel_is_active_def Let_def case_prod_beta)
  then show ?thesis
    using assms(1) by (auto simp: libspace_loop_full in_set_conv_nth)
qed

lemma libspace_call:
  assumes "table_ok (OS_THREAD_LIBSPACE_NUM c) (os_libspace_id st)" and "tid \<noteq> NULL"
    and "user_perthread_libspace c k tid st = Some (n, st')"
  shows "table_ok (OS_THREAD_LIBSPACE_NUM c) (os_libspace_id st')"
    and "keeps (os_libspace_id st) (os_libspace_id st')"
    and "os_kernel_active st \<Longrightarrow> os_kernel_active st'"
    and "kernel_state_value k > kernel_state_value osKernelReady \<Longrightarrow> os_kernel_active st'"
    and "os_kernel_active st' \<Longrightarrow> n < OS_THREAD_LIBSPACE_NUM c \<and> os_libspace_id st' ! n = tid"
    and "\<not> os_kernel_active st' \<Longrightarrow> n = OS_THREAD_LIBSPACE_NUM c"
proof -
  let ?num = "OS_THREAD_LIBSPACE_NUM c"
  obtain a st1 where a: "os_kernel_is_active k st = (a, st1)" by fastforce
  have st1: "os_libspace_id st1 = os_libspace_id st" "a = os_kernel_active st1"
    "os_kernel_active st1 \<longleftrightarrow> os_kernel_active st \<or> kernel_state_value k > kernel_state_value osKernelReady"
    using a by (auto simp: os_kernel_is_active_def Let_def split: if_splits)
  obtain r ids where loop: "libspace_loop ?num tid 0 (os_libspace_id st) = (r, ids)" by fastforce
  note ok = libspace_loop_ok [OF assms(1,2) _ _ loop]
  have "table_ok ?num (os_libspace_id st') \<and> keeps (os_libspace_id st) (os_libspace_id st')
    \<and> os_kernel_active st' = os_kernel_active st1
    \<and> (if a then n < ?num \<and> os_libspace_id st' ! n = tid else n = ?num)"
  proof (cases a)
    case True
    then have "(if r = ?num then None else Some (r, st1\<lparr>os_libspace_id := ids\<rparr>)) = Some (n, st')"
      using assms(3) a st1(1) loop by (auto simp: user_perthread_libspace_def Let_def split: if_splits)
    then show ?thesis using True ok by (auto split: if_splits)
  next
    case False
    then have "n = ?num" "st' = st1" using assms(3) a by (simp_all add: user_perthread_libspace_def)
    then show ?thesis using False st1(1) assms(1) by (simp add: keeps_def)
  qed
  then show "table_ok ?num (os_libspace_id st')" "keeps (os_libspace_id st) (os_libspace_id st')"
    "os_kernel_active st \<Longrightarrow> os_kernel_active st'"
    "kernel_state_value k > kernel_state_value osKernelReady \<Longrightarrow> os_kernel_active st'"
    "os_kernel_active st' \<Longrightarrow> n < ?num \<and> os_libspace_id st' ! n = tid"
    "\<not> os_kernel_active st' \<Longrightarrow> n = ?num"
    using st1(2,3) by (simp_all split: if_splits)
qed

text \<open>Histories of calls by threads.\<close>

inductive libspace_run :: "rtx_config \<Rightarrow> clib_state \<Rightarrow> clib_state \<Rightarrow> bool" for c where
  run_none: "libspace_run c st st"
| run_call: "libspace_run c st st1 \<Longrightarrow> tid \<noteq> NULL \<Longrightarrow> user_perthread_libspace c k tid st1 = Some (n, st2) \<Longrightarrow>
    libspace_run c st st2"

lemma keeps_trans:
  "keeps a b \<Longrightarrow> keeps b d \<Longrightarrow> length a = length b \<Longrightarrow> keeps a d"
  by (auto simp: keeps_def)

lemma libspace_run_ok:
  assumes "libspace_run c st st'" and "table_ok (OS_THREAD_LIBSPACE_NUM c) (os_libspace_id st)"
  shows "table_ok (OS_THREAD_LIBSPACE_NUM c) (os_libspace_id st') \<and> keeps (os_libspace_id st) (os_libspace_id st')
    \<and> (os_kernel_active st \<longrightarrow> os_kernel_active st')"
  using assms
proof (induction rule: libspace_run.induct)
  case (run_none st)
  then show ?case by (simp add: keeps_def)
next
  case (run_call st st1 tid k n st2)
  then have ok: "table_ok (OS_THREAD_LIBSPACE_NUM c) (os_libspace_id st1)"
    "keeps (os_libspace_id st) (os_libspace_id st1)" "os_kernel_active st \<longrightarrow> os_kernel_active st1"
    by simp_all
  note call = libspace_call [OF ok(1) run_call(2,3)]
  have "length (os_libspace_id st) = length (os_libspace_id st1)"
    using ok(1) run_call(5) by (simp add: table_ok_def)
  then show ?case using call(1-3) ok keeps_trans by blast
qed

lemma boot_table: "table_ok (OS_THREAD_LIBSPACE_NUM c) (os_libspace_id (clib_boot c))"
  by (simp add: table_ok_def clib_boot_def)



end
