(* ===== verification/Thread_Identity.thy ===== *)
theory Thread_Identity
  imports Tz_Shim Os_Wrapper
begin

text \<open>
  The identity of a thread from its creation to its context switches: the OS layer
  (\<open>Os_Wrapper\<close>), the thread table and the token table (\<open>Nsid_Manager\<close>) and the TrustZone shim
  (\<open>Tz_Shim\<close>) put together around the kernel.

  Of the kernel this uses the documented use of the field \<open>tz_module\<close>: creating a thread with a
  module identifier other than 0 allocates a context for that identifier with
  \<open>TZ_AllocModuleContext_S\<close>, keeps what it returns as the thread's \<open>tz_memory\<close>, and fails when
  that is 0. This is \<open>allocates_contexts\<close>, over any representation of the kernel's state: \<open>shim\<close> is
  the part of it that belongs to the shim and \<open>tz_memory\<close> reads the control block of a thread.
\<close>

definition allocates_contexts ::
  "tz_config \<Rightarrow> 's nsce_api \<Rightarrow> 'k rtos \<Rightarrow> ('k \<Rightarrow> 's tz_state) \<Rightarrow> ('k \<Rightarrow> ptr \<Rightarrow> u32) \<Rightarrow> bool" where
  "allocates_contexts cfg api k shim tz_memory \<longleftrightarrow>
     (\<forall>func arg attr s h s'. osThreadNew k func arg attr s = (h, s') \<and> h \<noteq> NULL \<and> at_tz_module attr \<noteq> 0 \<longrightarrow>
        TZ_AllocModuleContext_S cfg api (at_tz_module attr) (shim s) = (tz_memory s' h, shim s')
        \<and> tz_memory s' h \<noteq> 0)"

text \<open>The identifier that the thread table has for a name.\<close>

definition nsid_of_name :: "bool \<Rightarrow> string option \<Rightarrow> i32" where
  "nsid_of_name psa name =
     (case name of
        None \<Rightarrow> - 1
      | Some n \<Rightarrow> (case map_of (map (\<lambda>e. (t_name e, t_nsid e)) (test_ns_nsid_table psa)) n of
                     None \<Rightarrow> - 1 | Some i \<Rightarrow> i))"

lemma nsid_of_name:
  assumes "\<forall>n. name = Some n \<longrightarrow> CHR 0x00 \<notin> set n"
  shows "nsid_mgr_get_thread_nsid psa name = Some (nsid_of_name psa name)"
    and "sint (nsid_of_name psa name) < 0"
proof -
  show eq: "nsid_mgr_get_thread_nsid psa name = Some (nsid_of_name psa name)"
    using thread_nsid_eq [OF assms, of psa] by (simp add: nsid_of_name_def)
  show "sint (nsid_of_name psa name) < 0"
    using conjunct2 [OF thread_nsid_eq [OF assms, of psa]] by (simp add: eq)
qed

lemma thread_new_allocates:
  assumes "allocates_contexts cfg api k shim tz_memory" and "\<forall>n. name = Some n \<longrightarrow> CHR 0x00 \<notin> set n"
    and "os_wrapper_thread_new True psa os k name stack_sz func arg priority s = Some (h, s1)"
    and "h \<noteq> NULL"
  shows "TZ_AllocModuleContext_S cfg api (nsid_of_name psa name) (shim s) = (tz_memory s1 h, shim s1)"
    and "tz_memory s1 h \<noteq> 0"
proof -
  note n = nsid_of_name [OF assms(2), of psa]
  have "nsid_of_name psa name \<noteq> 0" using n(2) by auto
  then show "TZ_AllocModuleContext_S cfg api (nsid_of_name psa name) (shim s) = (tz_memory s1 h, shim s1)"
    "tz_memory s1 h \<noteq> 0"
    using assms(1,3,4) unfolding allocates_contexts_def thread_new_call [OF n(1)] by fastforce+
qed

text \<open>A context that is in use is not handed out again.\<close>

lemma kept_token_not_reused:
  assumes "TFM_NS_MANAGE_NSID cfg" and "token_carries_tid api" and "tz_inv api st"
    and "nsid_of api st tok = Some n"
    and "TZ_AllocModuleContext_S cfg api module st = (tok', st')" and "tok' \<noteq> 0"
  shows "tok' \<noteq> tok"
proof -
  have "ucast tok < nsid_mgr_thread_id st" using assms(3,4) by (auto simp: tz_inv_def)
  moreover have "ucast tok' = nsid_mgr_thread_id st"
    using alloc_ok [OF assms(3,2,1,5,6)] by simp
  ultimately show ?thesis by auto
qed

text \<open>C1. A thread has the identity of its name. When the OS layer creates a thread, then as long as its
  context is not freed, whatever other threads are created, deleted and switched to, switching to
  the thread loads its own context into the secure client extension with exactly the NSID that the
  thread table has for its name (the default -1 for a name that is not there), with the
  outcome the extension reports; and no thread created in the meantime is given the same context.\<close>

theorem thread_runs_with_its_nsid:
  assumes "TFM_NS_MANAGE_NSID cfg" and "token_carries_tid api" and "tz_reachable cfg api (shim s)"
    and "allocates_contexts cfg api k shim tz_memory" and "\<forall>n. name = Some n \<longrightarrow> CHR 0x00 \<notin> set n"
    and "os_wrapper_thread_new True psa os k name stack_sz func arg priority s = Some (h, s1)"
    and "h \<noteq> NULL" and "tz_keeps cfg api (tz_memory s1 h) (shim s1) st"
    and "tfm_nsce_load_ctx api (tz_memory s1 h) (nsid_of_name psa name) (nsce st) = (r, x)"
  shows "TZ_LoadContext_S cfg api (tz_memory s1 h) st =
      (if r = TFM_NS_CLIENT_ERR_SUCCESS api
       then (1, st\<lparr>nsce := x, current_active_token :=
                    if TEST_NS_MANAGE_NSID cfg then tz_memory s1 h else current_active_token st\<rparr>)
       else (0, st\<lparr>nsce := x\<rparr>))
    \<and> (TZ_AllocModuleContext_S cfg api module st = (tok', st') \<and> tok' \<noteq> 0 \<longrightarrow> tok' \<noteq> tz_memory s1 h)"
proof -
  note new = thread_new_allocates [OF assms(4-7)]
  have inv: "tz_inv api (shim s)" using assms(1-3) by (rule reachable_inv)
  have "nsid_of api (shim s1) (tz_memory s1 h) = Some (nsid_of_name psa name)"
    using alloc_ok [OF inv assms(2,1) new] by simp
  moreover have "tz_inv api (shim s1)"
    using tz_alloc_inv [OF inv assms(2,1), of "nsid_of_name psa name"] new(1) by simp
  ultimately have st: "tz_inv api st" "nsid_of api st (tz_memory s1 h) = Some (nsid_of_name psa name)"
    using tz_keeps_entry [OF assms(8) _ _ assms(1,2)] by simp_all
  show ?thesis
    using context_load [OF assms(1-3) new assms(8,9)] kept_token_not_reused [OF assms(1,2) st] by blast
qed

text \<open>A kernel that creates threads with contexts: its state is the shim's state and the \<open>tz_memory\<close> of
  the threads it has created, in order; the handle of the first one is 1.\<close>

definition tz_rtos :: "(u32 list tz_state \<times> u32 list) rtos" where
  "tz_rtos = \<lparr>osThreadNew = \<lambda>f a at (st, ts).
       let (tok, st') = TZ_AllocModuleContext_S ns_managed list_nsce (at_tz_module at) st
       in if tok = 0 then (NULL, (st', ts)) else (Suc (length ts), (st', ts @ [tok])),
     osThreadGetId = \<lambda>s. 1, osThreadGetPriority = \<lambda>h s. 24, osThreadExit = \<lambda>s. s,
     osThreadFlagsSet = \<lambda>h f s. (f, s), osThreadFlagsWait = \<lambda>f opt t s. (f, s),
     osSemaphoreNew = \<lambda>m i at s. (2, s), osSemaphoreAcquire = \<lambda>h t s. (0, s),
     osSemaphoreRelease = \<lambda>h s. (0, s), osSemaphoreDelete = \<lambda>h s. (0, s),
     osMutexNew = \<lambda>at s. (2, s), osMutexAcquire = \<lambda>h t s. (0, s),
     osMutexRelease = \<lambda>h s. (0, s), osMutexDelete = \<lambda>h s. (0, s),
     osKernelGetTickCount = \<lambda>s. 0, osMessageQueueNew = \<lambda>c sz at s. (2, s),
     osMessageQueuePut = \<lambda>q m p t s. (0, s), osMessageQueueGet = \<lambda>q m p t s. (0, s),
     osDelay = \<lambda>t s. (0, s)\<rparr>"

lemma tz_rtos_allocates: "allocates_contexts ns_managed list_nsce tz_rtos fst (\<lambda>s h. snd s ! (h - 1))"
  by (auto simp: allocates_contexts_def tz_rtos_def Let_def nth_append split: prod.splits if_splits)

theorem thread_runs_with_its_nsid_witness:
  "let st0 = snd (TZ_InitContextSystem_S ns_managed list_nsce (tz_boot []))
   in \<exists>st. os_wrapper_thread_new True False simple_codes tz_rtos (Some ''Thread_C'') 0 0 0 0 (st0, [])
         = Some (1, (st, [1]))
       \<and> TZ_LoadContext_S ns_managed list_nsce 1 st = (1, st\<lparr>nsce := [1], current_active_token := 1\<rparr>)"
proof -
  let ?st0 = "snd (TZ_InitContextSystem_S ns_managed list_nsce (tz_boot []))"
  obtain st where st: "TZ_AllocModuleContext_S ns_managed list_nsce (- 4) ?st0 = (1, st)" "nsce st = [1]"
    using list_nsce_alloc by blast
  have nsid: "nsid_of_name False (Some ''Thread_C'') = - 4"
    by (simp add: nsid_of_name_def test_ns_nsid_table_def)
  have nul: "\<forall>n. Some ''Thread_C'' = Some n \<longrightarrow> CHR 0x00 \<notin> set n" by simp
  have new: "os_wrapper_thread_new True False simple_codes tz_rtos (Some ''Thread_C'') 0 0 0 0 (?st0, [])
      = Some (1, (st, [1]))"
    unfolding thread_new_call [OF nsid_of_name(1) [OF nul, of False]] nsid
    using st(1) by (simp add: tz_rtos_def)
  have load: "tfm_nsce_load_ctx list_nsce (snd (st, [1 :: u32]) ! (1 - 1))
      (nsid_of_name False (Some ''Thread_C'')) (nsce st) = (0, [1])"
    using st(2) by (simp add: list_nsce_def)
  have reach: "tz_reachable ns_managed list_nsce (fst (?st0, [] :: u32 list))"
    using list_nsce_boot by simp
  have keeps: "tz_keeps ns_managed list_nsce (snd (st, [1 :: u32]) ! (1 - 1)) (fst (st, [1 :: u32])) st"
    using tz_keeps.refl by simp
  from thread_runs_with_its_nsid [OF _ list_nsce_carries_tid reach tz_rtos_allocates nul new _ keeps load]
  have "TZ_LoadContext_S ns_managed list_nsce 1 st = (1, st\<lparr>nsce := [1], current_active_token := 1\<rparr>)"
    by (simp add: ns_managed_def list_nsce_def NULL_def)
  then show ?thesis using new unfolding Let_def by blast
qed

end
