(* ===== verification/Schedules.thy ===== *)
theory Schedules
  imports Prelude
begin

text \<open>
  Concurrent code as a transition system. A system of threads is a function that performs the
  next step of a chosen thread on a shared state, with \<open>None\<close> when that thread is blocked or has
  ended; a schedule is the list of the threads chosen, and \<open>run_schedule\<close> executes it.

  \<^item> The locale \<open>stable\<close> is an invariant of a system: it holds in the start states and every step
    keeps it, so it holds after every schedule.
  \<^item> The locale \<open>progressing\<close> extends it by a weight that some step lowers in every state that is
    not final: from the state after any schedule the system can still end.
\<close>

fun run_schedule :: "('t \<Rightarrow> 's \<Rightarrow> 's option) \<Rightarrow> 't list \<Rightarrow> 's \<Rightarrow> 's option" where
  "run_schedule step [] s = Some s"
| "run_schedule step (t # ts) s =
     (case step t s of None \<Rightarrow> None | Some s' \<Rightarrow> run_schedule step ts s')"

lemma run_schedule_append:
  "run_schedule step (ts @ us) s =
     (case run_schedule step ts s of None \<Rightarrow> None | Some s' \<Rightarrow> run_schedule step us s')"
  by (induction ts arbitrary: s) (auto split: option.splits)

lemma run_schedule_map:
  "run_schedule (\<lambda>t. step (f t)) ts s = run_schedule step (map f ts) s"
  by (induction ts arbitrary: s) (auto split: option.splits)

locale stable =
  fixes start :: "'s \<Rightarrow> bool"
    and step :: "'t \<Rightarrow> 's \<Rightarrow> 's option"
    and inv :: "'s \<Rightarrow> bool"
  assumes start_inv: "start s \<Longrightarrow> inv s"
    and step_inv: "inv s \<Longrightarrow> step t s = Some s' \<Longrightarrow> inv s'"
begin

lemma run_keeps: "inv s \<Longrightarrow> run_schedule step ts s = Some s' \<Longrightarrow> inv s'"
  by (induction ts arbitrary: s) (auto split: option.splits intro: step_inv)

lemma run_inv: "start s \<Longrightarrow> run_schedule step ts s = Some s' \<Longrightarrow> inv s'"
  using run_keeps start_inv by blast

end

locale progressing = stable +
  fixes final :: "'a \<Rightarrow> bool"
    and weight :: "'a \<Rightarrow> nat"
  assumes progress: "inv s \<Longrightarrow> \<not> final s \<Longrightarrow> \<exists>t s'. step t s = Some s' \<and> weight s' < weight s"
begin

lemma can_end: "inv s \<Longrightarrow> \<exists>ts s'. run_schedule step ts s = Some s' \<and> final s'"
proof (induction "weight s" arbitrary: s rule: less_induct)
  case less
  show ?case
  proof (cases "final s")
    case True
    then show ?thesis by (intro exI [of _ "[]"]) simp
  next
    case False
    then obtain t s1 where s1: "step t s = Some s1" "weight s1 < weight s"
      using progress less.prems by blast
    then obtain ts s' where "run_schedule step ts s1 = Some s'" "final s'"
      using less.hyps step_inv less.prems by blast
    with s1 show ?thesis by (intro exI [of _ "t # ts"]) simp
  qed
qed

lemma run_can_end:
  assumes "start s" and "run_schedule step ts s = Some s'"
  shows "\<exists>us s''. run_schedule step (ts @ us) s = Some s'' \<and> final s''"
  using can_end [OF run_inv [OF assms]] assms(2) by (auto simp: run_schedule_append)

end

end
