(* ===== verification/Multi_Core.thy ===== *)
theory Multi_Core
  imports Schedules Mailbox Test_Framework Psa_Status
begin

text \<open>
  The multi-core regression suite
  (\<^verbatim>\<open>src/tests_reg/test/secure_fw/suites/multi_core/non_secure/multi_core_ns_interface_testsuite.c\<close>),
  in which a parent thread and several child threads call secure services at the same time.

  The threads are interleaved at the calls of the kernel and of the services and at the accesses to
  shared memory: \<open>runner_step\<close> is the next such step of a test runner at its location,
  \<open>parent_step\<close> that of the parent in its phase, and \<open>system_step\<close> that of a chosen thread. Kernel
  and services are the record \<open>platform\<close>; a call that may block is \<open>None\<close> as long as it does. The
  handle of the child created for \<open>params[i]\<close> is the thread itself, \<open>Child i\<close>. The loop counters
  of type \<open>uint8_t\<close> are natural numbers, which is the same for at most 255 children. The array of
  parameters lives on the stack of the parent and starts with arbitrary contents; the read of its
  first element is checked against its length.

  \<open>mutex_laws\<close> is the documented behaviour of a mutex acquired without a time limit, \<open>protocol_inv\<close>
  the invariant of the completion protocol, and the locale \<open>stable\<close> carries it through every
  schedule.
\<close>

type_synonym u64 = "64 word"

definition MAX_NR_LIGHT_TEST_ROUND :: u32 where "MAX_NR_LIGHT_TEST_ROUND = 0x200"
definition MAX_NR_HEAVY_TEST_ROUND :: u32 where "MAX_NR_HEAVY_TEST_ROUND = 0x20"
definition MULTI_CALL_LIGHT_TEST_STACK_SIZE :: u32 where "MULTI_CALL_LIGHT_TEST_STACK_SIZE = 0x200"
definition MULTI_CALL_HEAVY_TEST_STACK_SIZE :: u32 where "MULTI_CALL_HEAVY_TEST_STACK_SIZE = 0x300"
definition TEST_UID_1 :: u32 where "TEST_UID_1 = 2"
definition ITS_DATA :: string where "ITS_DATA = ''ITSDataForMultiCore'' @ [CHR 0x00]"

definition NR_MULTI_CALL_CHILD :: "mailbox_codes \<Rightarrow> nat" where
  "NR_MULTI_CALL_CHILD mc =
     (if NUM_MAILBOX_QUEUE_SLOT mc > 1 then NUM_MAILBOX_QUEUE_SLOT mc * 2 else 0)"

definition TEST_CHILD_EVENT_FLAG :: "nat \<Rightarrow> u32" where
  "TEST_CHILD_EVENT_FLAG x = push_bit x 1"

record test_params =
  parent_handle :: ptr
  child_idx :: u32
  nr_rounds :: u32
  nr_calls :: u32
  mutex_handle :: ptr
  tp_ret :: test_status_t
  total_ticks :: u32
  is_complete :: bool
  is_parent :: bool

datatype thread_id = Parent | Child nat

record ('s, 'w) platform =
  PSA_FRAMEWORK_VERSION :: u32
  thread_get_handle :: "'w \<Rightarrow> ptr"
  thread_get_priority :: "ptr \<Rightarrow> 'w \<Rightarrow> u32 option"
  thread_new :: "u32 \<Rightarrow> nat \<Rightarrow> u32 \<Rightarrow> 'w \<Rightarrow> bool \<times> 'w"
  thread_set_flag :: "nat \<Rightarrow> u32 \<Rightarrow> 'w \<Rightarrow> 'w"
  thread_wait_flag :: "nat \<Rightarrow> u32 \<Rightarrow> 'w \<Rightarrow> 'w option"
  mutex_create :: "'w \<Rightarrow> ptr \<times> 'w"
  mutex_acquire :: "thread_id \<Rightarrow> ptr \<Rightarrow> 'w \<Rightarrow> 'w option"
  mutex_release :: "thread_id \<Rightarrow> ptr \<Rightarrow> 'w \<Rightarrow> 'w"
  mutex_delete :: "ptr \<Rightarrow> 'w \<Rightarrow> 'w"
  get_tick :: "'w \<Rightarrow> u32 \<times> 'w"
  psa_framework_version :: "'w \<Rightarrow> u32 \<times> 'w"
  psa_its_set :: "u64 \<Rightarrow> string \<Rightarrow> 'w \<Rightarrow> psa_status \<times> 'w"
  psa_its_get :: "u64 \<Rightarrow> u32 \<Rightarrow> u32 \<Rightarrow> 'w \<Rightarrow> (psa_status \<times> string) \<times> 'w"
  psa_its_remove :: "u64 \<Rightarrow> 'w \<Rightarrow> psa_status \<times> 'w"
  get_stats :: "'w \<Rightarrow> 's stats_state"
  put_stats :: "'s stats_state \<Rightarrow> 'w \<Rightarrow> 'w"

section \<open>The test threads\<close>

text \<open>
  A location is the place of a thread in its runner. The loops keep their counter, the number of
  rounds and the first tick count in locals; \<open>At_Ret\<close> is the return of a loop with its result.
\<close>

datatype test_runner =
  multi_client_call_light_runner | multi_client_call_heavy_runner | multi_client_call_ooo_runner

datatype location =
    At_Wait | At_Start | At_Version | At_Set | At_Get | At_Remove | At_End
  | At_Ret test_status_t | At_Acquire | At_Mark | At_Release | Exited

record task =
  loc :: location
  is_heavy :: bool
  loop_i :: u32
  rounds :: u32
  ticks :: u32

definition new_task :: task where
  "new_task = \<lparr>loc = At_Wait, is_heavy = False, loop_i = 0, rounds = 0, ticks = 0\<rparr>"

definition c_not :: "u32 \<Rightarrow> u32" where
  "c_not x = (if x = 0 then 1 else 0)"

definition runs_heavy_loop :: "test_runner \<Rightarrow> u32 \<Rightarrow> bool" where
  "runs_heavy_loop r idx =
     (case r of
        multi_client_call_light_runner \<Rightarrow> False
      | multi_client_call_heavy_runner \<Rightarrow> True
      | multi_client_call_ooo_runner \<Rightarrow> c_not idx mod 2 \<noteq> 0)"

definition scale_rounds :: "test_runner \<Rightarrow> test_params \<Rightarrow> test_params" where
  "scale_rounds r pr =
     (if r = multi_client_call_ooo_runner \<and> \<not> runs_heavy_loop r (child_idx pr)
      then pr\<lparr>nr_rounds := nr_rounds pr * 20\<rparr> else pr)"

definition test_uid :: "test_params \<Rightarrow> u64" where
  "test_uid pr = ucast (TEST_UID_1 + child_idx pr)"

type_synonym 'w task_state = "test_params \<times> task \<times> 'w"

definition loop_start :: "('s, 'w) platform \<Rightarrow> test_runner \<Rightarrow> 'w task_state \<Rightarrow> 'w task_state" where
  "loop_start p r = (\<lambda>(pr, tk, w).
     let pr = scale_rounds r pr;
         heavy = runs_heavy_loop r (child_idx pr);
         (t, w) = get_tick p w
     in (pr, tk\<lparr>loc := if heavy then At_Set else At_Version, is_heavy := heavy, loop_i := 0,
                rounds := nr_rounds pr, ticks := t\<rparr>, w))"

definition light_round :: "('s, 'w) platform \<Rightarrow> 'w task_state \<Rightarrow> 'w task_state" where
  "light_round p = (\<lambda>(pr, tk, w).
     if loop_i tk < rounds tk then
       let (version, w) = psa_framework_version p w
       in if version \<noteq> PSA_FRAMEWORK_VERSION p then (pr, tk\<lparr>loc := At_Ret TEST_FAILED\<rparr>, w)
          else (pr, tk\<lparr>loop_i := loop_i tk + 1\<rparr>, w)
     else (pr, tk\<lparr>loc := At_End\<rparr>, w))"

definition heavy_set :: "('s, 'w) platform \<Rightarrow> 'w task_state \<Rightarrow> 'w task_state" where
  "heavy_set p = (\<lambda>(pr, tk, w).
     if loop_i tk < rounds tk then
       let (status, w) = psa_its_set p (test_uid pr) ITS_DATA w
       in (pr, tk\<lparr>loc := if status \<noteq> PSA_SUCCESS then At_Ret TEST_FAILED else At_Get\<rparr>, w)
     else (pr, tk\<lparr>loc := At_End\<rparr>, w))"

definition heavy_get :: "('s, 'w) platform \<Rightarrow> 'w task_state \<Rightarrow> 'w task_state" where
  "heavy_get p = (\<lambda>(pr, tk, w).
     let ((status, rd_data), w) = psa_its_get p (test_uid pr) 0 (of_nat (length ITS_DATA)) w
     in (pr, tk\<lparr>loc := if status \<noteq> PSA_SUCCESS then At_Ret TEST_FAILED else At_Remove\<rparr>, w))"

definition heavy_remove :: "('s, 'w) platform \<Rightarrow> 'w task_state \<Rightarrow> 'w task_state" where
  "heavy_remove p = (\<lambda>(pr, tk, w).
     let (status, w) = psa_its_remove p (test_uid pr) w
     in if status \<noteq> PSA_SUCCESS then (pr, tk\<lparr>loc := At_Ret TEST_FAILED\<rparr>, w)
        else (pr, tk\<lparr>loc := At_Set, loop_i := loop_i tk + 1\<rparr>, w))"

definition loop_end :: "('s, 'w) platform \<Rightarrow> 'w task_state \<Rightarrow> 'w task_state" where
  "loop_end p = (\<lambda>(pr, tk, w).
     let (t, w) = get_tick p w
     in (pr\<lparr>total_ticks := t - ticks tk,
            nr_calls := if is_heavy tk then rounds tk * 3 else rounds tk\<rparr>,
         tk\<lparr>loc := At_Ret TEST_PASSED\<rparr>, w))"

fun runner_step ::
  "('s, 'w) platform \<Rightarrow> test_runner \<Rightarrow> thread_id \<Rightarrow> location \<Rightarrow> 'w task_state \<Rightarrow> 'w task_state option" where
  "runner_step p r me At_Wait (pr, tk, w) =
     (if is_parent pr then Some (pr, tk\<lparr>loc := At_Start\<rparr>, w)
      else case me of Parent \<Rightarrow> None
           | Child i \<Rightarrow> map_option (\<lambda>w. (pr, tk\<lparr>loc := At_Start\<rparr>, w))
                          (thread_wait_flag p i (TEST_CHILD_EVENT_FLAG (unat (child_idx pr))) w))"
| "runner_step p r me At_Start x = Some (loop_start p r x)"
| "runner_step p r me At_Version x = Some (light_round p x)"
| "runner_step p r me At_Set x = Some (heavy_set p x)"
| "runner_step p r me At_Get x = Some (heavy_get p x)"
| "runner_step p r me At_Remove x = Some (heavy_remove p x)"
| "runner_step p r me At_End x = Some (loop_end p x)"
| "runner_step p r me (At_Ret st) (pr, tk, w) =
     Some (pr\<lparr>tp_ret := st\<rparr>, tk\<lparr>loc := if is_parent pr then Exited else At_Acquire\<rparr>, w)"
| "runner_step p r me At_Acquire (pr, tk, w) =
     map_option (\<lambda>w. (pr, tk\<lparr>loc := At_Mark\<rparr>, w)) (mutex_acquire p me (mutex_handle pr) w)"
| "runner_step p r me At_Mark (pr, tk, w) =
     Some (pr\<lparr>is_complete := True\<rparr>, tk\<lparr>loc := At_Release\<rparr>, w)"
| "runner_step p r me At_Release (pr, tk, w) =
     Some (pr, tk\<lparr>loc := Exited\<rparr>, mutex_release p me (mutex_handle pr) w)"
| "runner_step p r me Exited x = None"

section \<open>The parent thread\<close>

text \<open>
  The parent creates the children, activates them, runs a test itself and then waits for each child
  in turn, reading the completion flag under the mutex.
\<close>

datatype phase =
    Creating nat | Activating nat | Running | Acquiring nat | Reading nat | Releasing nat bool
  | Waited | Out_Of_Bounds

record test_config =
  test_runner_of :: test_runner
  stack_size :: u32
  cf_rounds :: u32
  max_child :: nat

record 'w test_system =
  phase :: phase
  current_thread_handle :: ptr
  current_thread_priority :: u32
  mutex :: ptr
  params :: "test_params list"
  tasks :: "task list"
  parent_params :: test_params
  parent_task :: task
  wait_mutex :: ptr
  world :: 'w

definition child_params ::
  "test_config \<Rightarrow> 'w test_system \<Rightarrow> nat \<Rightarrow> test_params \<Rightarrow> test_params" where
  "child_params c s i pr =
     pr\<lparr>parent_handle := current_thread_handle s, child_idx := of_nat i, nr_rounds := cf_rounds c,
        mutex_handle := mutex s, is_complete := False, is_parent := False\<rparr>"

definition create_child ::
  "('s, 'w) platform \<Rightarrow> test_config \<Rightarrow> nat \<Rightarrow> 'w test_system \<Rightarrow> 'w test_system" where
  "create_child p c i s =
     (if i < max_child c then
        let s = s\<lparr>params := (params s)[i := child_params c s i (params s ! i)]\<rparr>;
            (created, w) = thread_new p (stack_size c) i (current_thread_priority s) (world s)
        in if created then s\<lparr>world := w, tasks := tasks s @ [new_task], phase := Creating (i + 1)\<rparr>
           else s\<lparr>world := w, phase := Activating 0\<rparr>
      else s\<lparr>phase := Activating 0\<rparr>)"

definition activate_child ::
  "('s, 'w) platform \<Rightarrow> test_config \<Rightarrow> nat \<Rightarrow> 'w test_system \<Rightarrow> 'w test_system" where
  "activate_child p c i s =
     (if i < length (tasks s) then
        s\<lparr>world := thread_set_flag p i (TEST_CHILD_EVENT_FLAG i) (world s), phase := Activating (i + 1)\<rparr>
      else
        s\<lparr>parent_params := (parent_params s)\<lparr>child_idx := of_nat (length (tasks s)),
                                             nr_rounds := cf_rounds c, is_parent := True\<rparr>,
          parent_task := new_task, phase := Running\<rparr>)"

definition run_parent ::
  "('s, 'w) platform \<Rightarrow> test_config \<Rightarrow> 'w test_system \<Rightarrow> 'w test_system option" where
  "run_parent p c s =
     (if loc (parent_task s) = Exited
      then case array_read (params s) 0 of
             None \<Rightarrow> Some (s\<lparr>phase := Out_Of_Bounds\<rparr>)
           | Some pr \<Rightarrow> Some (s\<lparr>wait_mutex := mutex_handle pr, phase := Acquiring 0\<rparr>)
      else map_option (\<lambda>(pr, tk, w). s\<lparr>parent_params := pr, parent_task := tk, world := w\<rparr>)
             (runner_step p (test_runner_of c) Parent (loc (parent_task s))
               (parent_params s, parent_task s, world s)))"

fun wait_child_thread_completion ::
  "('s, 'w) platform \<Rightarrow> phase \<Rightarrow> 'w test_system \<Rightarrow> 'w test_system option" where
  "wait_child_thread_completion p (Acquiring i) s =
     (if i < length (tasks s)
      then map_option (\<lambda>w. s\<lparr>world := w, phase := Reading i\<rparr>)
             (mutex_acquire p Parent (wait_mutex s) (world s))
      else Some (s\<lparr>phase := Waited\<rparr>))"
| "wait_child_thread_completion p (Reading i) s =
     Some (s\<lparr>phase := Releasing i (is_complete (params s ! i))\<rparr>)"
| "wait_child_thread_completion p (Releasing i complete) s =
     Some (s\<lparr>world := mutex_release p Parent (wait_mutex s) (world s),
             phase := Acquiring (if complete then i + 1 else i)\<rparr>)"
| "wait_child_thread_completion p _ s = None"

definition parent_step ::
  "('s, 'w) platform \<Rightarrow> test_config \<Rightarrow> 'w test_system \<Rightarrow> 'w test_system option" where
  "parent_step p c s =
     (case phase s of
        Creating i \<Rightarrow> Some (create_child p c i s)
      | Activating i \<Rightarrow> Some (activate_child p c i s)
      | Running \<Rightarrow> run_parent p c s
      | ph \<Rightarrow> wait_child_thread_completion p ph s)"

definition child_step ::
  "('s, 'w) platform \<Rightarrow> test_config \<Rightarrow> nat \<Rightarrow> 'w test_system \<Rightarrow> 'w test_system option" where
  "child_step p c i s =
     (if i < length (tasks s) then
        map_option (\<lambda>(pr, tk, w). s\<lparr>params := (params s)[i := pr], tasks := (tasks s)[i := tk], world := w\<rparr>)
          (runner_step p (test_runner_of c) (Child i) (loc (tasks s ! i))
            (params s ! i, tasks s ! i, world s))
      else None)"

fun system_step ::
  "('s, 'w) platform \<Rightarrow> test_config \<Rightarrow> thread_id \<Rightarrow> 'w test_system \<Rightarrow> 'w test_system option" where
  "system_step p c Parent s = parent_step p c s"
| "system_step p c (Child i) s = child_step p c i s"


section \<open>The test cases\<close>

text \<open>
  \<open>multi_client_call_begin\<close> is the part of \<open>multi_client_call_test\<close> up to the creation of the
  children, with its three early failures, and \<open>multi_client_call_finish\<close> the part after the wait.
  A division by zero is \<open>None\<close>.
\<close>

definition multi_client_call_begin ::
  "('s, 'w) platform \<Rightarrow> mailbox_codes \<Rightarrow> test_params list \<Rightarrow> test_params \<Rightarrow> 'w
   \<Rightarrow> string + 'w test_system" where
  "multi_client_call_begin p mc mem pmem w =
     (let w = put_stats p (snd (tfm_ns_mailbox_tx_stats_reinit mc (get_stats p w))) w;
          handle = thread_get_handle p w
      in if handle = NULL then Inl ''Failed to get current thread ID''
         else case thread_get_priority p handle w of
           None \<Rightarrow> Inl ''Failed to get current thread priority''
         | Some prio \<Rightarrow>
             let (m, w) = mutex_create p w
             in if m = NULL then Inl ''Failed to create a mutex''
                else Inr \<lparr>phase = Creating 0, current_thread_handle = handle,
                          current_thread_priority = prio, mutex = m, params = mem, tasks = [],
                          parent_params = pmem, parent_task = new_task,
                          wait_mutex = NULL, world = w\<rparr>)"

fun check_children :: "test_params list \<Rightarrow> u32 \<Rightarrow> u32 \<Rightarrow> (u32 \<times> u32) option" where
  "check_children [] tick_sum call_sum = Some (tick_sum, call_sum)"
| "check_children (pr # prs) tick_sum call_sum =
     (if tp_ret pr \<noteq> TEST_PASSED then None
      else check_children prs (tick_sum + total_ticks pr) (call_sum + nr_calls pr))"

record test_report =
  slots_in_average :: "(u32 \<times> u32) option"
  cost_ticks :: u32
  ticks_per_call :: "u32 \<times> u32"

definition multi_client_call_finish ::
  "('s, 'w) platform \<Rightarrow> ptr \<Rightarrow> 'w test_system
   \<Rightarrow> (test_status_t \<times> test_report option) option \<times> 'w" where
  "multi_client_call_finish p stats_res s =
     (let w = mutex_delete p (mutex s) (world s); pp = parent_params s
      in (if tp_ret pp \<noteq> TEST_PASSED then Some (TEST_FAILED, None)
          else case check_children (take (length (tasks s)) (params s)) (total_ticks pp) (nr_calls pp) of
            None \<Rightarrow> Some (TEST_FAILED, None)
          | Some (tick_sum, call_sum) \<Rightarrow>
              (case tfm_ns_mailbox_stats_avg_slot (get_stats p w) stats_res of
                 None \<Rightarrow> None
               | Some slots \<Rightarrow>
                   if call_sum = 0 then None
                   else Some (TEST_PASSED,
                          Some \<lparr>slots_in_average = slots, cost_ticks = tick_sum,
                                ticks_per_call = (tick_sum div call_sum,
                                                  (tick_sum mod call_sum) * 10 div call_sum)\<rparr>)),
          w))"

definition multi_client_call_light_test :: "mailbox_codes \<Rightarrow> test_config" where
  "multi_client_call_light_test mc =
     \<lparr>test_runner_of = multi_client_call_light_runner,
      stack_size = MULTI_CALL_LIGHT_TEST_STACK_SIZE, cf_rounds = MAX_NR_LIGHT_TEST_ROUND,
      max_child = NR_MULTI_CALL_CHILD mc\<rparr>"

definition multi_client_call_heavy_test :: "mailbox_codes \<Rightarrow> test_config" where
  "multi_client_call_heavy_test mc =
     \<lparr>test_runner_of = multi_client_call_heavy_runner,
      stack_size = MULTI_CALL_HEAVY_TEST_STACK_SIZE, cf_rounds = MAX_NR_HEAVY_TEST_ROUND,
      max_child = NR_MULTI_CALL_CHILD mc\<rparr>"

definition multi_client_call_ooo_test :: "mailbox_codes \<Rightarrow> test_config" where
  "multi_client_call_ooo_test mc =
     \<lparr>test_runner_of = multi_client_call_ooo_runner,
      stack_size = MULTI_CALL_HEAVY_TEST_STACK_SIZE, cf_rounds = MAX_NR_HEAVY_TEST_ROUND,
      max_child = NR_MULTI_CALL_CHILD mc\<rparr>"

definition multi_core_tests :: "'w test_fun \<Rightarrow> 'w test_fun \<Rightarrow> 'w test_fun \<Rightarrow> 'w test_t list" where
  "multi_core_tests light heavy ooo =
     [\<lparr>tc_test = Some light, tc_name = Some ''MULTI_CLIENT_CALL_LIGHT_TEST'',
       tc_desc = Some ''Multiple outstanding NS PSA client calls lightweight test''\<rparr>,
      \<lparr>tc_test = Some heavy, tc_name = Some ''MULTI_CLIENT_CALL_HEAVY_TEST'',
       tc_desc = Some ''Multiple outstanding NS PSA client calls heavyweight test''\<rparr>,
      \<lparr>tc_test = Some ooo, tc_name = Some ''MULTI_CLIENT_CALL_OOO_TEST'',
       tc_desc = Some ''Multiple outstanding NS PSA client calls test with out-of-order calls''\<rparr>]"

definition register_testsuite_multi_core_ns_interface ::
  "'w test_fun \<Rightarrow> 'w test_fun \<Rightarrow> 'w test_fun \<Rightarrow> 'w suite_fields \<Rightarrow> ('w env, 'w suite_fields) state" where
  "register_testsuite_multi_core_ns_interface light heavy ooo =
     register_with ''TF-M test cases for multi-core topology'' (multi_core_tests light heavy ooo)"

definition test_started :: "('s, 'w) platform \<Rightarrow> mailbox_codes \<Rightarrow> test_config \<Rightarrow> 'w test_system \<Rightarrow> bool" where
  "test_started p mc c s \<longleftrightarrow>
     (\<exists>mem pmem w. length mem = max_child c \<and> multi_client_call_begin p mc mem pmem w = Inr s)"

section \<open>What the tests rely on\<close>

definition keeps :: "('w \<Rightarrow> 'v) \<Rightarrow> ('w \<Rightarrow> 'w) \<Rightarrow> bool" where
  "keeps view f \<longleftrightarrow> (\<forall>w. view (f w) = view w)"

definition mutex_laws :: "('s, 'w) platform \<Rightarrow> ('w \<Rightarrow> ptr \<Rightarrow> thread_id option) \<Rightarrow> bool" where
  "mutex_laws p holder \<longleftrightarrow>
     (\<forall>w. fst (mutex_create p w) \<noteq> NULL
          \<longrightarrow> holder (snd (mutex_create p w)) (fst (mutex_create p w)) = None) \<and>
     (\<forall>t h w. h \<noteq> NULL \<longrightarrow> (mutex_acquire p t h w = None \<longleftrightarrow> holder w h \<noteq> None)) \<and>
     (\<forall>t h w w'. h \<noteq> NULL \<longrightarrow> mutex_acquire p t h w = Some w' \<longrightarrow> holder w' = (holder w)(h := Some t)) \<and>
     (\<forall>t h w. holder w h = Some t \<longrightarrow> holder (mutex_release p t h w) = (holder w)(h := None)) \<and>
     (\<forall>n i k. keeps holder (\<lambda>w. snd (thread_new p n i k w))) \<and>
     (\<forall>i f. keeps holder (thread_set_flag p i f)) \<and>
     (\<forall>i f w w'. thread_wait_flag p i f w = Some w' \<longrightarrow> holder w' = holder w) \<and>
     keeps holder (\<lambda>w. snd (get_tick p w)) \<and>
     keeps holder (\<lambda>w. snd (psa_framework_version p w)) \<and>
     (\<forall>u d. keeps holder (\<lambda>w. snd (psa_its_set p u d w))) \<and>
     (\<forall>u k n. keeps holder (\<lambda>w. snd (psa_its_get p u k n w))) \<and>
     (\<forall>u. keeps holder (\<lambda>w. snd (psa_its_remove p u w)))"

named_theorems loop_defs \<open>the steps of the test loops\<close>

lemmas [loop_defs] =
  loop_start_def light_round_def heavy_set_def heavy_get_def heavy_remove_def loop_end_def
  scale_rounds_def

lemma mutex_lawsD:
  assumes "mutex_laws p holder"
  shows "mutex_create p w = (h, w') \<Longrightarrow> h \<noteq> NULL \<Longrightarrow> holder w' h = None"
    and "h \<noteq> NULL \<Longrightarrow> mutex_acquire p t h w = None \<longleftrightarrow> holder w h \<noteq> None"
    and "h \<noteq> NULL \<Longrightarrow> mutex_acquire p t h w = Some w' \<Longrightarrow> holder w' = (holder w)(h := Some t)"
    and "holder w h = Some t \<Longrightarrow> holder (mutex_release p t h w) = (holder w)(h := None)"
    and "thread_new p n i k w = (b, w') \<Longrightarrow> holder w' = holder w"
    and "holder (thread_set_flag p i f w) = holder w"
    and "thread_wait_flag p i f w = Some w' \<Longrightarrow> holder w' = holder w"
    and "get_tick p w = (x, w') \<Longrightarrow> holder w' = holder w"
    and "psa_framework_version p w = (x, w') \<Longrightarrow> holder w' = holder w"
    and "psa_its_set p u d w = (st, w') \<Longrightarrow> holder w' = holder w"
    and "psa_its_get p u k' n' w = (sd, w') \<Longrightarrow> holder w' = holder w"
    and "psa_its_remove p u w = (st, w') \<Longrightarrow> holder w' = holder w"
  using assms unfolding mutex_laws_def keeps_def by (metis fst_conv snd_conv)+

lemma runner_step_fixed:
  assumes "runner_step p r me l (pr, tk, w) = Some (pr', tk', w')"
  shows "mutex_handle pr' = mutex_handle pr" "is_parent pr' = is_parent pr"
    "child_idx pr' = child_idx pr"
    "is_complete pr' = (is_complete pr \<or> l = At_Mark)"
  using assms
  by (cases l; auto simp: loop_defs Let_def split: if_splits prod.splits thread_id.splits)+

text \<open>The steps of a runner, as seen by the mutex.\<close>

lemma runner_step_mutex:
  assumes laws: "mutex_laws p holder" and h: "mutex_handle pr \<noteq> NULL"
    and step: "runner_step p r me (loc tk) (pr, tk, w) = Some (pr', tk', w')"
  obtains
      (acquire) "loc tk = At_Acquire" "loc tk' = At_Mark" "holder w (mutex_handle pr) = None"
        "holder w' = (holder w)(mutex_handle pr := Some me)"
    | (mark) "loc tk = At_Mark" "loc tk' = At_Release" "holder w' = holder w"
    | (release) "loc tk = At_Release" "loc tk' = Exited" "w' = mutex_release p me (mutex_handle pr) w"
    | (other) "loc tk \<notin> {At_Acquire, At_Mark, At_Release, Exited}" "loc tk' \<notin> {At_Mark, At_Release}"
        "loc tk' = At_Acquire \<Longrightarrow> \<not> is_parent pr" "loc tk' = Exited \<Longrightarrow> is_parent pr"
        "holder w' = holder w"
proof (cases "loc tk")
  case At_Acquire
  then have "mutex_acquire p me (mutex_handle pr) w = Some w'" "loc tk' = At_Mark"
    using step by auto
  then show ?thesis
    using At_Acquire mutex_lawsD(2) [OF laws h, of me w] mutex_lawsD(3) [OF laws h, of me w w']
    by (intro acquire) simp_all
next
  case At_Mark
  then show ?thesis using step by (intro mark) auto
next
  case At_Release
  then show ?thesis using step by (intro release) auto
next
  case At_Wait
  then show ?thesis
    using step by (intro other) (auto simp: mutex_lawsD(7) [OF laws] split: if_splits thread_id.splits)
qed (use step in \<open>(intro other; auto simp: loop_defs Let_def mutex_lawsD [OF laws] split: if_splits prod.splits)\<close>)+


section \<open>The completion protocol\<close>

definition child_ok :: "('w \<Rightarrow> ptr \<Rightarrow> thread_id option) \<Rightarrow> 'w test_system \<Rightarrow> nat \<Rightarrow> bool" where
  "child_ok holder s i \<longleftrightarrow>
     \<not> is_parent (params s ! i) \<and> mutex_handle (params s ! i) = mutex s \<and>
     (holder (world s) (mutex s) = Some (Child i) \<longleftrightarrow> loc (tasks s ! i) \<in> {At_Mark, At_Release}) \<and>
     (is_complete (params s ! i) \<longleftrightarrow> loc (tasks s ! i) \<in> {At_Release, Exited})"

definition exited :: "nat \<Rightarrow> 'w test_system \<Rightarrow> bool" where
  "exited n s \<longleftrightarrow> (\<forall>i < n. loc (tasks s ! i) = Exited)"

definition waiting_ok :: "'w test_system \<Rightarrow> bool" where
  "waiting_ok s \<longleftrightarrow> params s \<noteq> [] \<and> (tasks s \<noteq> [] \<longrightarrow> wait_mutex s = mutex s)"

fun phase_ok :: "phase \<Rightarrow> 'w test_system \<Rightarrow> bool" where
  "phase_ok (Creating i) s \<longleftrightarrow> i = length (tasks s)"
| "phase_ok (Activating i) s \<longleftrightarrow> True"
| "phase_ok Running s \<longleftrightarrow>
     is_parent (parent_params s) \<and> loc (parent_task s) \<notin> {At_Acquire, At_Mark, At_Release}"
| "phase_ok (Acquiring i) s \<longleftrightarrow> waiting_ok s \<and> i \<le> length (tasks s) \<and> exited i s"
| "phase_ok (Reading i) s \<longleftrightarrow> waiting_ok s \<and> i < length (tasks s) \<and> exited i s"
| "phase_ok (Releasing i complete) s \<longleftrightarrow>
     waiting_ok s \<and> i < length (tasks s) \<and> exited (if complete then i + 1 else i) s"
| "phase_ok Waited s \<longleftrightarrow> waiting_ok s \<and> exited (length (tasks s)) s"
| "phase_ok Out_Of_Bounds s \<longleftrightarrow> params s = []"

fun in_critical :: "phase \<Rightarrow> bool" where
  "in_critical (Reading i) = True"
| "in_critical (Releasing i b) = True"
| "in_critical _ = False"

definition protocol_inv ::
  "('s, 'w) platform \<Rightarrow> test_config \<Rightarrow> ('w \<Rightarrow> ptr \<Rightarrow> thread_id option) \<Rightarrow> 'w test_system \<Rightarrow> bool" where
  "protocol_inv p c holder s \<longleftrightarrow>
     mutex_laws p holder \<and> mutex s \<noteq> NULL \<and>
     length (tasks s) \<le> length (params s) \<and> length (params s) = max_child c \<and>
     (\<forall>i < length (tasks s). child_ok holder s i) \<and>
     (\<forall>i. holder (world s) (mutex s) = Some (Child i) \<longrightarrow> i < length (tasks s)) \<and>
     (holder (world s) (mutex s) = Some Parent \<longleftrightarrow> in_critical (phase s)) \<and>
     phase_ok (phase s) s"

lemma exited_update:
  assumes "exited n s" "i < length (tasks s)" "n \<le> length (tasks s)" "loc (tasks s ! i) \<noteq> Exited"
  shows "exited n (s\<lparr>params := ps, tasks := (tasks s)[i := tk], world := w\<rparr>)"
  using assms by (auto simp: exited_def nth_list_update)

lemma phase_ok_update:
  assumes "phase_ok ph s" "i < length (tasks s)" "loc (tasks s ! i) \<noteq> Exited"
    "ps = [] \<longleftrightarrow> params s = []"
  shows "phase_ok ph (s\<lparr>params := ps, tasks := (tasks s)[i := tk], world := w\<rparr>)"
  using assms by (cases ph) (auto simp: waiting_ok_def intro!: exited_update)

lemma runner_step_owner:
  assumes laws: "mutex_laws p holder" and h: "mutex_handle pr \<noteq> NULL"
    and step: "runner_step p r me (loc tk) (pr, tk, w) = Some (pr', tk', w')"
    and own: "holder w (mutex_handle pr) = Some me \<longleftrightarrow> loc tk \<in> {At_Mark, At_Release}"
  shows "holder w' (mutex_handle pr) = Some me \<longleftrightarrow> loc tk' \<in> {At_Mark, At_Release}"
    and "t \<noteq> me \<Longrightarrow> holder w' (mutex_handle pr) = Some t \<longleftrightarrow> holder w (mutex_handle pr) = Some t"
    and "loc tk \<noteq> Exited"
    and "\<not> is_parent pr \<Longrightarrow> is_complete pr \<longleftrightarrow> loc tk \<in> {At_Release, Exited} \<Longrightarrow>
      is_complete pr' \<longleftrightarrow> loc tk' \<in> {At_Release, Exited}"
proof -
  note fixed = runner_step_fixed [OF step]
  from laws h step have all: "(holder w' (mutex_handle pr) = Some me \<longleftrightarrow> loc tk' \<in> {At_Mark, At_Release}) \<and>
    (t \<noteq> me \<longrightarrow> (holder w' (mutex_handle pr) = Some t \<longleftrightarrow> holder w (mutex_handle pr) = Some t)) \<and>
    loc tk \<noteq> Exited \<and>
    (\<not> is_parent pr \<longrightarrow> (is_complete pr \<longleftrightarrow> loc tk \<in> {At_Release, Exited}) \<longrightarrow>
      (is_complete pr' \<longleftrightarrow> loc tk' \<in> {At_Release, Exited}))" for t
  proof (cases rule: runner_step_mutex)
    case release
    then have "holder w' = (holder w)(mutex_handle pr := None)"
      using own mutex_lawsD(4) [OF laws, of w _ me] by simp
    then show ?thesis using release(1,2) own fixed by auto
  qed (use own fixed in auto)
  from all show "holder w' (mutex_handle pr) = Some me \<longleftrightarrow> loc tk' \<in> {At_Mark, At_Release}" by blast
  from all show "loc tk \<noteq> Exited" by blast
  from all show "t \<noteq> me \<Longrightarrow> holder w' (mutex_handle pr) = Some t \<longleftrightarrow> holder w (mutex_handle pr) = Some t" by blast
  from all show "\<not> is_parent pr \<Longrightarrow> is_complete pr \<longleftrightarrow> loc tk \<in> {At_Release, Exited} \<Longrightarrow>
      is_complete pr' \<longleftrightarrow> loc tk' \<in> {At_Release, Exited}" by blast
qed

text \<open>A runner that the parent calls never touches the mutex.\<close>

lemma runner_step_quiet:
  assumes laws: "mutex_laws p holder"
    and step: "runner_step p r me (loc tk) (pr, tk, w) = Some (pr', tk', w')"
    and "is_parent pr" "loc tk \<notin> {At_Acquire, At_Mark, At_Release}"
  shows "holder w' = holder w" "loc tk' \<notin> {At_Acquire, At_Mark, At_Release}"
  using assms
  by (cases "loc tk"; auto simp: loop_defs Let_def mutex_lawsD [OF laws] split: if_splits prod.splits)+

lemma protocol_invD:
  assumes "protocol_inv p c holder s"
  shows "mutex_laws p holder" "mutex s \<noteq> NULL" "length (tasks s) \<le> length (params s)"
    "length (params s) = max_child c" "i < length (tasks s) \<Longrightarrow> child_ok holder s i"
    "holder (world s) (mutex s) = Some (Child i) \<Longrightarrow> i < length (tasks s)"
    "holder (world s) (mutex s) = Some Parent \<longleftrightarrow> in_critical (phase s)"
    "phase_ok (phase s) s"
  using assms by (simp_all add: protocol_inv_def)

lemma child_okD:
  assumes "child_ok holder s i"
  shows "\<not> is_parent (params s ! i)" "mutex_handle (params s ! i) = mutex s"
    "holder (world s) (mutex s) = Some (Child i) \<longleftrightarrow> loc (tasks s ! i) \<in> {At_Mark, At_Release}"
    "is_complete (params s ! i) \<longleftrightarrow> loc (tasks s ! i) \<in> {At_Release, Exited}"
  using assms unfolding child_ok_def by blast+

lemma child_stepE:
  assumes "child_step p c i s = Some s'"
  obtains pr tk w where "i < length (tasks s)"
    and "runner_step p (test_runner_of c) (Child i) (loc (tasks s ! i))
           (params s ! i, tasks s ! i, world s) = Some (pr, tk, w)"
    and "s' = s\<lparr>params := (params s)[i := pr], tasks := (tasks s)[i := tk], world := w\<rparr>"
  using assms by (auto simp: child_step_def split: if_splits)

lemma child_step_protocol:
  assumes inv: "protocol_inv p c holder s" and step: "child_step p c i s = Some s'"
  shows "protocol_inv p c holder s'"
proof -
  from step obtain pr tk w where i: "i < length (tasks s)"
    and run: "runner_step p (test_runner_of c) (Child i) (loc (tasks s ! i))
        (params s ! i, tasks s ! i, world s) = Some (pr, tk, w)"
    and s': "s' = s\<lparr>params := (params s)[i := pr], tasks := (tasks s)[i := tk], world := w\<rparr>"
    by (rule child_stepE)
  note inv' = protocol_invD [OF inv]
  note ok = child_okD [OF inv'(5) [OF i]]
  have "mutex_handle (params s ! i) \<noteq> NULL" using ok(2) inv'(2) by simp
  note own = runner_step_owner [OF inv'(1) this run, unfolded ok(2), OF ok(3)]
  have ip: "i < length (params s)" using i inv'(3) by simp
  have "child_ok holder s' j" if j: "j < length (tasks s)" for j
  proof (cases "j = i")
    case True
    then show ?thesis
      using own(1) own(4) [OF ok(1) ok(4)] runner_step_fixed [OF run] ok(1,2) i ip
      by (simp add: child_ok_def s')
  next
    case False
    then show ?thesis
      using child_okD [OF inv'(5) [OF j]] own(2) [of "Child j"] by (simp add: child_ok_def s')
  qed
  moreover have "k < length (tasks s)" if "holder w (mutex s) = Some (Child k)" for k
    using that i own(2) [of "Child k"] inv'(6) [of k] by (cases "k = i") simp_all
  ultimately show ?thesis
    using inv' own(2) [of Parent] phase_ok_update [OF inv'(8) i own(3)]
    by (simp add: protocol_inv_def s')
qed


lemma child_ok_same:
  assumes "child_ok holder s i" "params s' ! i = params s ! i" "tasks s' ! i = tasks s ! i"
    "mutex s' = mutex s"
    "holder (world s') (mutex s) = Some (Child i) \<longleftrightarrow> holder (world s) (mutex s) = Some (Child i)"
  shows "child_ok holder s' i"
  using assms by (simp add: child_ok_def)

lemma first_handle:
  assumes "protocol_inv p c holder s" "tasks s \<noteq> []"
  shows "mutex_handle (params s ! 0) = mutex s"
  using child_okD(2) [OF protocol_invD(5) [OF assms(1)]] assms(2) by simp

lemma create_child_protocol:
  assumes inv: "protocol_inv p c holder s" and ph: "phase s = Creating i"
  shows "protocol_inv p c holder (create_child p c i s)"
proof (cases "i < max_child c")
  case True
  note inv' = protocol_invD [OF inv]
  have i: "i = length (tasks s)" using inv'(8) ph by simp
  have ip: "i < length (params s)" using True inv'(4) by simp
  obtain created w where new: "thread_new p (stack_size c) i (current_thread_priority s) (world s) = (created, w)"
    by fastforce
  let ?s = "create_child p c i s" and ?ps = "(params s)[i := child_params c s i (params s ! i)]"
  have s': "?s = (if created then s\<lparr>params := ?ps, world := w, tasks := tasks s @ [new_task],
                                    phase := Creating (i + 1)\<rparr>
                  else s\<lparr>params := ?ps, world := w, phase := Activating 0\<rparr>)"
    using True by (simp add: create_child_def new Let_def)
  have w: "holder w = holder (world s)" by (rule mutex_lawsD(5) [OF inv'(1) new])
  have old: "child_ok holder ?s j" if "j < i" for j
  proof -
    have "j < length (tasks s)" "j \<noteq> i" using that i by simp_all
    then show ?thesis
      using inv'(5) [of j] w by (auto simp: s' nth_append intro: child_ok_same [where s = s])
  qed
  have not_i: "holder (world s) (mutex s) \<noteq> Some (Child i)" using inv'(6) [of i] i by auto
  have new_ok: "child_ok holder ?s i" if created
    using that ip not_i w i [symmetric]
    by (simp add: s' child_ok_def child_params_def new_task_def nth_append)
  have "child_ok holder ?s j" if "j < length (tasks ?s)" for j
  proof (cases "j < i")
    case False
    then have "j = i" created using that i [symmetric] by (auto simp: s' split: if_splits)
    then show ?thesis using new_ok by simp
  qed (rule old)
  then show ?thesis
    using inv' ph i [symmetric] ip w by (auto simp: protocol_inv_def s' less_Suc_eq split: if_splits)
next
  case False
  then show ?thesis
    using protocol_invD [OF inv] ph
    by (auto simp: protocol_inv_def create_child_def intro: child_ok_same [where s = s])
qed

lemma run_parent_protocol:
  assumes inv: "protocol_inv p c holder s" and ph: "phase s = Running"
    and step: "run_parent p c s = Some s'"
  shows "protocol_inv p c holder s'"
proof (cases "loc (parent_task s) = Exited")
  case True
  then show ?thesis
    using protocol_invD [OF inv] ph step
    by (auto simp: protocol_inv_def run_parent_def exited_def waiting_ok_def first_handle [OF inv]
          array_read_def split: if_splits intro: child_ok_same [where s = s])
next
  case False
  note inv' = protocol_invD [OF inv]
  obtain pr tk w where run: "runner_step p (test_runner_of c) Parent (loc (parent_task s))
      (parent_params s, parent_task s, world s) = Some (pr, tk, w)"
    and s': "s' = s\<lparr>parent_params := pr, parent_task := tk, world := w\<rparr>"
    using step False by (auto simp: run_parent_def)
  have parent: "is_parent (parent_params s)" "loc (parent_task s) \<notin> {At_Acquire, At_Mark, At_Release}"
    using inv'(8) ph by simp_all
  note quiet = runner_step_quiet [OF inv'(1) run parent]
  then show ?thesis
    using inv' ph runner_step_fixed [OF run]
    by (auto simp: protocol_inv_def s' intro: child_ok_same [where s = s])
qed

lemma wait_mutex_eq: "waiting_ok s \<Longrightarrow> i < length (tasks s) \<Longrightarrow> wait_mutex s = mutex s"
  by (cases "tasks s") (auto simp: waiting_ok_def)

lemma wait_child_protocol:
  assumes inv: "protocol_inv p c holder s" 
    and step: "wait_child_thread_completion p (phase s) s = Some s'"
  shows "protocol_inv p c holder s'"
proof (cases "phase s")
  case (Acquiring i)
  note inv' = protocol_invD [OF inv]
  show ?thesis
  proof (cases "i < length (tasks s)")
    case True
    then obtain w where acq: "mutex_acquire p Parent (mutex s) (world s) = Some w"
      and s': "s' = s\<lparr>world := w, phase := Reading i\<rparr>"
      using step Acquiring wait_mutex_eq [OF _ True] inv'(8) by auto
    have "holder (world s) (mutex s) = None"
      using mutex_lawsD(2) [OF inv'(1,2), of Parent "world s"] acq by simp
    then show ?thesis
      using mutex_lawsD(3) [OF inv'(1,2) acq] inv' Acquiring True
      by (auto simp: protocol_inv_def s' exited_def waiting_ok_def intro: child_ok_same [where s = s])
  next
    case False
    then show ?thesis
      using inv' Acquiring step by (auto simp: protocol_inv_def exited_def waiting_ok_def intro: child_ok_same [where s = s])
  qed
next
  case (Reading i)
  note inv' = protocol_invD [OF inv]
  have i: "i < length (tasks s)" and ex: "exited i s" using inv'(8) Reading by simp_all
  have "loc (tasks s ! i) = Exited" if "is_complete (params s ! i)"
    using that child_okD(3,4) [OF inv'(5) [OF i]] inv'(7) Reading by auto
  then show ?thesis
    using inv' Reading step i ex
    by (auto simp: protocol_inv_def exited_def less_Suc_eq waiting_ok_def intro: child_ok_same [where s = s])
next
  case (Releasing i complete)
  note inv' = protocol_invD [OF inv]
  have i: "i < length (tasks s)" using inv'(8) Releasing by simp
  have held: "holder (world s) (mutex s) = Some Parent" using inv'(7) Releasing by simp
  have s': "s' = s\<lparr>world := mutex_release p Parent (mutex s) (world s),
             phase := Acquiring (if complete then i + 1 else i)\<rparr>"
    using step Releasing wait_mutex_eq [OF _ i] inv'(8) by simp
  show ?thesis
    using mutex_lawsD(4) [OF inv'(1) held] held inv' Releasing i
    by (auto simp: protocol_inv_def s' exited_def waiting_ok_def intro: child_ok_same [where s = s])
qed (use step in simp_all)


lemma parent_step_protocol:
  assumes inv: "protocol_inv p c holder s" and step: "parent_step p c s = Some s'"
  shows "protocol_inv p c holder s'"
proof (cases "phase s")
  case (Creating i)
  then show ?thesis using create_child_protocol [OF inv] step by (auto simp: parent_step_def)
next
  case (Activating i)
  then show ?thesis
    using step protocol_invD [OF inv] mutex_lawsD(6) [OF protocol_invD(1) [OF inv]]
    by (auto simp: parent_step_def activate_child_def protocol_inv_def new_task_def
          split: if_splits intro: child_ok_same [where s = s])
next
  case Running
  then show ?thesis using run_parent_protocol [OF inv] step by (auto simp: parent_step_def)
qed (use wait_child_protocol [OF inv, of s'] step in \<open>auto simp: parent_step_def\<close>)

lemma start_protocol:
  assumes "mutex_laws p holder" "test_started p mc c s"
  shows "protocol_inv p c holder s"
  using assms mutex_lawsD(1) [OF assms(1)]
  by (auto simp: test_started_def multi_client_call_begin_def protocol_inv_def Let_def
        split: if_splits option.splits prod.splits)

interpretation protocol: stable "\<lambda>s. mutex_laws p holder \<and> test_started p mc c s" "system_step p c"
  "protocol_inv p c holder" for p c mc holder
proof
  fix s :: "'a test_system" and s' t
  show "mutex_laws p holder \<and> test_started p mc c s \<Longrightarrow> protocol_inv p c holder s"
    using start_protocol by blast
  show "protocol_inv p c holder s \<Longrightarrow> system_step p c t s = Some s' \<Longrightarrow> protocol_inv p c holder s'"
    using child_step_protocol parent_step_protocol by (cases t) auto
qed

section \<open>A concrete platform\<close>

text \<open>
  A kernel with one mutex and room for one more thread, and a storage that keeps the identifiers of
  its assets, with a schedule in which the parent polls once in vain.
\<close>

record sample_world =
  sw_holder :: "ptr \<Rightarrow> thread_id option"
  sw_flags :: "nat \<Rightarrow> u32"
  sw_stored :: "u64 set"
  sw_time :: u32
  sw_room :: nat
  sw_stats :: "unit stats_state"

definition sample_platform :: "(unit, sample_world) platform" where
  "sample_platform =
     \<lparr>PSA_FRAMEWORK_VERSION = 0x0101,
      thread_get_handle = (\<lambda>w. 7),
      thread_get_priority = (\<lambda>h w. Some 24),
      thread_new = (\<lambda>n i k w. if sw_room w = 0 then (False, w) else (True, w\<lparr>sw_room := sw_room w - 1\<rparr>)),
      thread_set_flag = (\<lambda>i f w. w\<lparr>sw_flags := (sw_flags w)(i := or (sw_flags w i) f)\<rparr>),
      thread_wait_flag = (\<lambda>i f w. if and (sw_flags w i) f = f
        then Some (w\<lparr>sw_flags := (sw_flags w)(i := and (sw_flags w i) (not f))\<rparr>) else None),
      mutex_create = (\<lambda>w. (9, w\<lparr>sw_holder := (sw_holder w)(9 := None)\<rparr>)),
      mutex_acquire = (\<lambda>t h w. if sw_holder w h = None
        then Some (w\<lparr>sw_holder := (sw_holder w)(h := Some t)\<rparr>) else None),
      mutex_release = (\<lambda>t h w. w\<lparr>sw_holder := (sw_holder w)(h := None)\<rparr>),
      mutex_delete = (\<lambda>h w. w),
      get_tick = (\<lambda>w. (sw_time w, w\<lparr>sw_time := sw_time w + 1\<rparr>)),
      psa_framework_version = (\<lambda>w. (0x0101, w)),
      psa_its_set = (\<lambda>u d w. (PSA_SUCCESS, w\<lparr>sw_stored := insert u (sw_stored w)\<rparr>)),
      psa_its_get = (\<lambda>u k n w. ((if u \<in> sw_stored w then PSA_SUCCESS else PSA_ERROR_DOES_NOT_EXIST, ITS_DATA), w)),
      psa_its_remove = (\<lambda>u w. (if u \<in> sw_stored w then PSA_SUCCESS else PSA_ERROR_DOES_NOT_EXIST,
        w\<lparr>sw_stored := sw_stored w - {u}\<rparr>)),
      get_stats = sw_stats,
      put_stats = (\<lambda>st w. w\<lparr>sw_stats := st\<rparr>)\<rparr>"

definition sample_params :: test_params where
  "sample_params = \<lparr>parent_handle = 0, child_idx = 0, nr_rounds = 0, nr_calls = 0, mutex_handle = 0,
     tp_ret = TEST_SKIPPED, total_ticks = 0, is_complete = True, is_parent = False\<rparr>"

definition sample_config :: "test_runner \<Rightarrow> test_config" where
  "sample_config r = \<lparr>test_runner_of = r, stack_size = 0x300, cf_rounds = 1, max_child = 4\<rparr>"

definition sample_start :: "sample_world test_system" where
  "sample_start =
     \<lparr>phase = Creating 0, current_thread_handle = 7, current_thread_priority = 24, mutex = 9,
      params = replicate 4 sample_params, tasks = [], parent_params = sample_params,
      parent_task = new_task, wait_mutex = NULL,
      world = \<lparr>sw_holder = (\<lambda>_. None)(9 := None), sw_flags = (\<lambda>_. 0), sw_stored = {}, sw_time = 0,
               sw_room = 1,
               sw_stats = \<lparr>queues = (\<lambda>_. \<lparr>empty_slots = 0, nr_tx = 0, nr_used_slots = 0\<rparr>),
                           stats_queue_ptr = 0,
                           os_side = \<lparr>irq_enabled = True, ns_lock_handle = 0, kernel = ()\<rparr>\<rparr>\<rparr>\<rparr>"

definition sample_schedule :: "thread_id list" where
  "sample_schedule =
     replicate 4 Parent @ concat (replicate 2 [Child 0, Parent]) @
     [Child 0, Child 0, Parent, Child 0, Parent, Parent, Child 0, Parent, Child 0, Child 0] @
     replicate 23 Parent @ replicate 3 (Child 0) @ replicate 4 Parent"

lemma sample_mutex_laws: "mutex_laws sample_platform sw_holder"
  by (auto simp: mutex_laws_def keeps_def sample_platform_def split: if_splits)

lemma sample_started: "test_started sample_platform simple_mailbox (sample_config r) sample_start"
  unfolding test_started_def
  by (rule exI [of _ "replicate 4 sample_params"], rule exI [of _ sample_params],
      rule exI [of _ "world sample_start"])
     (simp add: sample_config_def multi_client_call_begin_def sample_platform_def sample_start_def
      tfm_ns_mailbox_tx_stats_reinit_def NULL_def fun_upd_idem)

lemma sample_waited:
  obtains s where
    "run_schedule (system_step sample_platform (sample_config multi_client_call_ooo_runner))
       sample_schedule sample_start = Some s"
    "phase s = Waited" "length (tasks s) = 1" "stats_queue_ptr (sw_stats (world s)) = NULL"
proof -
  have "case run_schedule (system_step sample_platform (sample_config multi_client_call_ooo_runner))
       sample_schedule sample_start of None \<Rightarrow> False
     | Some s \<Rightarrow> phase s = Waited \<and> length (tasks s) = 1 \<and> stats_queue_ptr (sw_stats (world s)) = NULL"
    by code_simp
  then show ?thesis using that by (auto split: option.splits)
qed

text \<open>C7. The parent waits long enough. On a kernel whose mutex excludes, in every interleaving of the
  parent with the children it could create: once the parent has left
  \<open>wait_child_thread_completion\<close>, every child has executed its last statement and marked itself
  complete, so the parameter structures on the parent's stack are used by nobody any more, no
  thread holds the mutex that is deleted next, and no thread can take another step.
\<close>

theorem children_are_done_when_waited:
  assumes "mutex_laws p holder" and "test_started p mc c s0"
    and "run_schedule (system_step p c) ts s0 = Some s" and "phase s = Waited"
  shows "(\<forall>i < length (tasks s). loc (tasks s ! i) = Exited \<and> is_complete (params s ! i)) \<and>
    holder (world s) (mutex s) = None \<and> (\<forall>t. system_step p c t s = None)"
proof -
  note inv = protocol_invD [OF protocol.run_inv [OF conjI [OF assms(1,2)] assms(3)]]
  have ex: "loc (tasks s ! i) = Exited" if "i < length (tasks s)" for i
    using inv(8) assms(4) that by (simp add: exited_def)
  have "is_complete (params s ! i)" if "i < length (tasks s)" for i
    using child_okD(4) [OF inv(5) [OF that]] ex [OF that] by simp
  moreover have "holder (world s) (mutex s) \<noteq> Some t" for t
    using inv(6,7) child_okD(3) [OF inv(5)] ex assms(4) by (cases t) auto
  moreover have "system_step p c t s = None" for t
    using ex assms(4) by (cases t) (auto simp: parent_step_def child_step_def)
  ultimately show ?thesis using ex by auto
qed

theorem children_are_done_when_waited_witness:
  "\<exists>s. run_schedule (system_step sample_platform (sample_config multi_client_call_ooo_runner))
         sample_schedule sample_start = Some s \<and> phase s = Waited \<and>
       loc (tasks s ! 0) = Exited \<and> sw_holder (world s) (mutex s) = None"
proof (rule sample_waited)
  fix s
  assume s: "run_schedule (system_step sample_platform (sample_config multi_client_call_ooo_runner))
       sample_schedule sample_start = Some s" "phase s = Waited" "length (tasks s) = 1"
  show ?thesis
    using children_are_done_when_waited [OF sample_mutex_laws sample_started s(1,2)] s by auto
qed

text \<open>
  A mailbox with a single slot leaves the array of parameters empty, and the parent then reads its
  first element: such a test never gets to its verdict in defined behaviour.
\<close>

lemma single_slot_never_waits:
  assumes "mutex_laws p holder" "test_started p mc c s0" "max_child c = 0"
    and "run_schedule (system_step p c) ts s0 = Some s"
  shows "phase s \<noteq> Waited"
  using protocol_invD(4,8) [OF protocol.run_inv [OF conjI [OF assms(1,2)] assms(4)]] assms(3)
  by (auto simp: waiting_ok_def)

text \<open>
  The condition \<open>!params->child_idx % 2\<close> negates before it takes the remainder: of all threads
  only the one with index 0 makes the heavyweight calls.
\<close>

lemma ooo_only_first_is_heavy: "runs_heavy_loop multi_client_call_ooo_runner idx \<longleftrightarrow> idx = 0"
  by (simp add: runs_heavy_loop_def c_not_def)

end
