(* ===== verification/Multi_Core_Results.thy ===== *)
theory Multi_Core_Results
  imports Multi_Core
begin

text \<open>
  The verdict of the multi-core tests. \<open>its_laws\<close> states what the tests expect of the secure
  services; \<open>results_inv\<close> is the invariant that an asset between its creation and its removal is
  there, although other threads work on their own assets, so that no thread records a failure.
\<close>

section \<open>Conforming services\<close>

definition its_laws :: "('s, 'w) platform \<Rightarrow> ('w \<Rightarrow> u64 set) \<Rightarrow> bool" where
  "its_laws p stored \<longleftrightarrow>
     (\<forall>w. fst (psa_framework_version p w) = PSA_FRAMEWORK_VERSION p) \<and>
     keeps stored (\<lambda>w. snd (psa_framework_version p w)) \<and>
     (\<forall>u d w. fst (psa_its_set p u d w) = PSA_SUCCESS \<and>
              stored (snd (psa_its_set p u d w)) = insert u (stored w)) \<and>
     (\<forall>u k n w. u \<in> stored w \<longrightarrow> fst (fst (psa_its_get p u k n w)) = PSA_SUCCESS) \<and>
     (\<forall>u k n. keeps stored (\<lambda>w. snd (psa_its_get p u k n w))) \<and>
     (\<forall>u w. u \<in> stored w \<longrightarrow> fst (psa_its_remove p u w) = PSA_SUCCESS) \<and>
     (\<forall>u w. stored (snd (psa_its_remove p u w)) = stored w - {u}) \<and>
     (\<forall>n i k. keeps stored (\<lambda>w. snd (thread_new p n i k w))) \<and>
     (\<forall>i f. keeps stored (thread_set_flag p i f)) \<and>
     (\<forall>i f w w'. thread_wait_flag p i f w = Some w' \<longrightarrow> stored w' = stored w) \<and>
     (\<forall>t h w w'. mutex_acquire p t h w = Some w' \<longrightarrow> stored w' = stored w) \<and>
     (\<forall>t h. keeps stored (mutex_release p t h)) \<and>
     keeps stored (\<lambda>w. snd (get_tick p w))"

definition thread_rounds :: "test_config \<Rightarrow> u32 \<Rightarrow> u32" where
  "thread_rounds c idx =
     (if test_runner_of c = multi_client_call_ooo_runner \<and> \<not> runs_heavy_loop (test_runner_of c) idx
      then cf_rounds c * 20 else cf_rounds c)"

definition thread_calls :: "test_config \<Rightarrow> u32 \<Rightarrow> u32" where
  "thread_calls c idx =
     (if runs_heavy_loop (test_runner_of c) idx then thread_rounds c idx * 3 else thread_rounds c idx)"

fun location_good :: "test_config \<Rightarrow> u64 set \<Rightarrow> test_params \<Rightarrow> location \<Rightarrow> bool" where
  "location_good c us pr At_Wait \<longleftrightarrow> nr_rounds pr = cf_rounds c"
| "location_good c us pr At_Start \<longleftrightarrow> nr_rounds pr = cf_rounds c"
| "location_good c us pr At_Get \<longleftrightarrow> test_uid pr \<in> us"
| "location_good c us pr At_Remove \<longleftrightarrow> test_uid pr \<in> us"
| "location_good c us pr (At_Ret st) \<longleftrightarrow>
     st = TEST_PASSED \<and> nr_calls pr = thread_calls c (child_idx pr)"
| "location_good c us pr l \<longleftrightarrow>
     (l \<in> {At_Acquire, At_Mark, At_Release, Exited} \<longrightarrow>
        tp_ret pr = TEST_PASSED \<and> nr_calls pr = thread_calls c (child_idx pr))"

definition task_good :: "test_config \<Rightarrow> u64 set \<Rightarrow> test_params \<Rightarrow> task \<Rightarrow> bool" where
  "task_good c us pr tk \<longleftrightarrow>
     location_good c us pr (loc tk) \<and>
     (loc tk \<notin> {At_Wait, At_Start} \<longrightarrow>
        is_heavy tk = runs_heavy_loop (test_runner_of c) (child_idx pr) \<and>
        rounds tk = thread_rounds c (child_idx pr))"

lemma its_lawsD:
  assumes "its_laws p stored"
  shows "psa_framework_version p w = (x, w') \<Longrightarrow> x = PSA_FRAMEWORK_VERSION p \<and> stored w' = stored w"
    and "psa_its_set p u d w = (st, w') \<Longrightarrow> st = PSA_SUCCESS \<and> stored w' = insert u (stored w)"
    and "psa_its_get p u k n w = ((st, data), w') \<Longrightarrow>
      (u \<in> stored w \<longrightarrow> st = PSA_SUCCESS) \<and> stored w' = stored w"
    and "psa_its_remove p u w = (st, w') \<Longrightarrow>
      (u \<in> stored w \<longrightarrow> st = PSA_SUCCESS) \<and> stored w' = stored w - {u}"
    and "thread_new p n' i k' w = (b, w') \<Longrightarrow> stored w' = stored w"
    and "stored (thread_set_flag p i f w) = stored w"
    and "thread_wait_flag p i f w = Some w' \<Longrightarrow> stored w' = stored w"
    and "mutex_acquire p t h w = Some w' \<Longrightarrow> stored w' = stored w"
    and "stored (mutex_release p t h w) = stored w"
    and "get_tick p w = (x, w') \<Longrightarrow> stored w' = stored w"
  using assms unfolding its_laws_def keeps_def by (metis fst_conv snd_conv)+

lemma runner_step_good:
  assumes laws: "its_laws p stored"
    and step: "runner_step p (test_runner_of c) me (loc tk) (pr, tk, w) = Some (pr', tk', w')"
    and good: "task_good c (stored w) pr tk"
  shows "task_good c (stored w') pr' tk'"
proof (cases "loc tk")
  case At_Wait
  then show ?thesis
    using step good by (auto simp: task_good_def split: if_splits thread_id.splits)
next
  case At_Start
  then show ?thesis
    using step good
    by (auto simp: loop_start_def scale_rounds_def Let_def task_good_def thread_rounds_def
          split: if_splits prod.splits)
next
  case At_Version
  obtain x w1 where call: "psa_framework_version p w = (x, w1)"
    by (metis surj_pair)
  then show ?thesis
    using step good At_Version its_lawsD(1) [OF laws call]
    by (auto simp: light_round_def Let_def task_good_def split: if_splits)
next
  case At_Set
  obtain st w1 where call: "psa_its_set p (test_uid pr) ITS_DATA w = (st, w1)"
    by (metis surj_pair)
  then show ?thesis
    using step good At_Set its_lawsD(2) [OF laws call]
    by (auto simp: heavy_set_def Let_def task_good_def split: if_splits)
next
  case At_Get
  obtain st d w1 where call: "psa_its_get p (test_uid pr) 0 (of_nat (length ITS_DATA)) w = ((st, d), w1)"
    by (metis surj_pair)
  then show ?thesis
    using step good At_Get its_lawsD(3) [OF laws call]
    by (auto simp: heavy_get_def Let_def task_good_def split: if_splits)
next
  case At_Remove
  obtain st w1 where call: "psa_its_remove p (test_uid pr) w = (st, w1)"
    by (metis surj_pair)
  moreover have "st = PSA_SUCCESS"
    using good At_Remove its_lawsD(4) [OF laws call] by (simp add: task_good_def)
  ultimately have "pr' = pr" "tk' = tk\<lparr>loc := At_Set, loop_i := loop_i tk + 1\<rparr>"
    using step At_Remove by (simp_all add: heavy_remove_def)
  then show ?thesis using good At_Remove by (simp add: task_good_def)
next
  case At_End
  then show ?thesis
    using step good
    by (auto simp: loop_end_def Let_def task_good_def thread_calls_def split: prod.splits)
qed (use step good in \<open>auto simp: task_good_def split: if_splits\<close>)

lemma runner_step_stored:
  assumes laws: "its_laws p stored"
    and step: "runner_step p r me l (pr, tk, w) = Some (pr', tk', w')"
    and u: "u \<noteq> test_uid pr"
  shows "u \<in> stored w' \<longleftrightarrow> u \<in> stored w"
proof (cases l)
  case At_Version
  obtain x w1 where call: "psa_framework_version p w = (x, w1)"
    by (metis surj_pair)
  then show ?thesis
    using step At_Version its_lawsD(1) [OF laws call]
    by (auto simp: light_round_def Let_def split: if_splits)
next
  case At_Set
  obtain st w1 where call: "psa_its_set p (test_uid pr) ITS_DATA w = (st, w1)"
    by (metis surj_pair)
  then show ?thesis
    using step u At_Set its_lawsD(2) [OF laws call]
    by (auto simp: heavy_set_def Let_def split: if_splits)
next
  case At_Get
  obtain st d w1 where call: "psa_its_get p (test_uid pr) 0 (of_nat (length ITS_DATA)) w = ((st, d), w1)"
    by (metis surj_pair)
  then show ?thesis
    using step At_Get its_lawsD(3) [OF laws call]
    by (auto simp: heavy_get_def Let_def split: if_splits)
next
  case At_Remove
  obtain st w1 where call: "psa_its_remove p (test_uid pr) w = (st, w1)"
    by (metis surj_pair)
  then show ?thesis
    using step At_Remove its_lawsD(4) [OF laws call] u
    by (simp add: heavy_remove_def split: if_splits)
qed (use step in \<open>auto simp: its_lawsD(7-10) [OF laws] loop_start_def loop_end_def Let_def
      split: if_splits prod.splits thread_id.splits\<close>)


lemma task_good_frame:
  assumes "task_good c us pr tk" "test_uid pr \<in> us' \<longleftrightarrow> test_uid pr \<in> us"
  shows "task_good c us' pr tk"
  using assms by (cases "loc tk") (auto simp: task_good_def)

lemma test_uid_inj:
  assumes "child_idx pr = of_nat i" "child_idx pr' = of_nat j" "i < 2 ^ 32" "j < 2 ^ 32" "i \<noteq> j"
  shows "test_uid pr \<noteq> test_uid pr'"
proof
  have widen: "(ucast (ucast x :: u64) :: u32) = x" for x :: u32
    by (rule ucast_up_ucast_id) (simp add: is_up_def source_size_def target_size_def word_size)
  assume "test_uid pr = test_uid pr'"
  then have "TEST_UID_1 + child_idx pr = TEST_UID_1 + child_idx pr'"
    by (metis test_uid_def widen)
  then have "(of_nat i :: u32) = of_nat j" using assms(1,2) by simp
  then show False using assms(3-5) by (simp add: word_of_nat_eq_iff take_bit_eq_mod)
qed

definition child_good :: "test_config \<Rightarrow> ('w \<Rightarrow> u64 set) \<Rightarrow> 'w test_system \<Rightarrow> nat \<Rightarrow> bool" where
  "child_good c stored s i \<longleftrightarrow>
     child_idx (params s ! i) = of_nat i \<and>
     task_good c (stored (world s)) (params s ! i) (tasks s ! i)"

definition parent_good :: "test_config \<Rightarrow> ('w \<Rightarrow> u64 set) \<Rightarrow> 'w test_system \<Rightarrow> bool" where
  "parent_good c stored s \<longleftrightarrow>
     child_idx (parent_params s) = of_nat (length (tasks s)) \<and>
     task_good c (stored (world s)) (parent_params s) (parent_task s)"

definition phase_good :: "test_config \<Rightarrow> ('w \<Rightarrow> u64 set) \<Rightarrow> 'w test_system \<Rightarrow> bool" where
  "phase_good c stored s \<longleftrightarrow>
     (case phase s of
        Creating i \<Rightarrow> i = length (tasks s)
      | Activating i \<Rightarrow> True
      | Running \<Rightarrow> parent_good c stored s
      | _ \<Rightarrow> parent_good c stored s \<and> loc (parent_task s) = Exited)"

definition results_inv ::
  "('s, 'w) platform \<Rightarrow> test_config \<Rightarrow> ('w \<Rightarrow> u64 set) \<Rightarrow> 'w test_system \<Rightarrow> bool" where
  "results_inv p c stored s \<longleftrightarrow>
     its_laws p stored \<and> max_child c < 2 ^ 32 \<and>
     length (tasks s) \<le> length (params s) \<and> length (params s) = max_child c \<and>
     (\<forall>i < length (tasks s). child_good c stored s i) \<and> phase_good c stored s"

lemma results_invD:
  assumes "results_inv p c stored s"
  shows "its_laws p stored" "max_child c < 2 ^ 32" "length (tasks s) \<le> length (params s)"
    "length (params s) = max_child c" "i < length (tasks s) \<Longrightarrow> child_good c stored s i"
    "phase_good c stored s"
  using assms by (simp_all add: results_inv_def)

lemma phase_good_frame:
  assumes "phase_good c stored s" "phase s' = phase s" "length (tasks s') = length (tasks s)"
    "parent_params s' = parent_params s" "parent_task s' = parent_task s"
    "child_idx (parent_params s) = of_nat (length (tasks s)) \<Longrightarrow>
      test_uid (parent_params s) \<in> stored (world s') \<longleftrightarrow> test_uid (parent_params s) \<in> stored (world s)"
  shows "phase_good c stored s'"
  using assms task_good_frame
  by (cases "phase s") (auto simp: phase_good_def parent_good_def)

lemma child_step_results:
  assumes inv: "results_inv p c stored s" and step: "child_step p c i s = Some s'"
  shows "results_inv p c stored s'"
proof -
  from step obtain pr tk w where i: "i < length (tasks s)"
    and run: "runner_step p (test_runner_of c) (Child i) (loc (tasks s ! i))
        (params s ! i, tasks s ! i, world s) = Some (pr, tk, w)"
    and s': "s' = s\<lparr>params := (params s)[i := pr], tasks := (tasks s)[i := tk], world := w\<rparr>"
    by (rule child_stepE)
  note inv' = results_invD [OF inv]
  have ip: "i < length (params s)" using i inv'(3) by simp
  have good_i: "child_idx (params s ! i) = of_nat i"
      "task_good c (stored (world s)) (params s ! i) (tasks s ! i)"
    using inv'(5) [OF i] by (simp_all add: child_good_def)
  have other: "u \<in> stored w \<longleftrightarrow> u \<in> stored (world s)" if "u \<noteq> test_uid (params s ! i)" for u
    by (rule runner_step_stored [OF inv'(1) run that])
  have "child_good c stored s' j" if j: "j < length (tasks s)" for j
  proof (cases "j = i")
    case True
    then show ?thesis
      using runner_step_good [OF inv'(1) run good_i(2)] runner_step_fixed(3) [OF run] good_i(1) i ip
      by (simp add: child_good_def s')
  next
    case False
    have good_j: "child_idx (params s ! j) = of_nat j"
        "task_good c (stored (world s)) (params s ! j) (tasks s ! j)"
      using inv'(5) [OF j] by (simp_all add: child_good_def)
    have "test_uid (params s ! j) \<noteq> test_uid (params s ! i)"
      using test_uid_inj [OF good_j(1) good_i(1)] i j inv'(2-4) False by simp
    then show ?thesis
      using good_j task_good_frame other False by (simp add: child_good_def s')
  qed
  moreover have "phase_good c stored s'"
  proof (rule phase_good_frame [OF inv'(6)])
    assume idx: "child_idx (parent_params s) = of_nat (length (tasks s))"
    then have "test_uid (parent_params s) \<noteq> test_uid (params s ! i)"
      using test_uid_inj [OF idx good_i(1)] i inv'(2-4) by simp
    then show "test_uid (parent_params s) \<in> stored (world s') \<longleftrightarrow>
        test_uid (parent_params s) \<in> stored (world s)"
      using other by (simp add: s')
  qed (simp_all add: s')
  ultimately show ?thesis using inv' by (simp add: results_inv_def s')
qed


lemma child_good_frame:
  assumes "child_good c stored s i" "params s' ! i = params s ! i" "tasks s' ! i = tasks s ! i"
    "test_uid (params s ! i) \<in> stored (world s') \<longleftrightarrow> test_uid (params s ! i) \<in> stored (world s)"
  shows "child_good c stored s' i"
  using assms task_good_frame by (auto simp: child_good_def)

lemma create_child_results:
  assumes inv: "results_inv p c stored s" and ph: "phase s = Creating i"
  shows "results_inv p c stored (create_child p c i s)"
proof (cases "i < max_child c")
  case True
  note inv' = results_invD [OF inv]
  have i: "length (tasks s) = i" using inv'(6) ph by (simp add: phase_good_def)
  have ip: "i < length (params s)" using True inv'(4) by simp
  obtain created w where new: "thread_new p (stack_size c) i (current_thread_priority s) (world s) = (created, w)"
    by fastforce
  let ?s = "create_child p c i s" and ?ps = "(params s)[i := child_params c s i (params s ! i)]"
  have s': "?s = (if created then s\<lparr>params := ?ps, world := w, tasks := tasks s @ [new_task],
                                    phase := Creating (i + 1)\<rparr>
                  else s\<lparr>params := ?ps, world := w, phase := Activating 0\<rparr>)"
    using True by (simp add: create_child_def new Let_def)
  have w: "stored w = stored (world s)" by (rule its_lawsD(5) [OF inv'(1) new])
  have "child_good c stored ?s j" if j: "j < length (tasks ?s)" for j
  proof (cases "j < i")
    case True
    then show ?thesis
      using inv'(5) [of j] i w
      by (auto simp: s' nth_append intro: child_good_frame [where s = s])
  next
    case False
    then have "j = i" created using j i by (auto simp: s' split: if_splits)
    then show ?thesis
      using ip i by (simp add: s' child_good_def child_params_def new_task_def task_good_def nth_append)
  qed
  then show ?thesis
    using inv' ph i ip by (auto simp: results_inv_def s' phase_good_def)
next
  case False
  then show ?thesis
    using results_invD [OF inv] ph
    by (auto simp: results_inv_def create_child_def phase_good_def intro: child_good_frame [where s = s])
qed

lemma run_parent_results:
  assumes inv: "results_inv p c stored s" and ph: "phase s = Running"
    and step: "run_parent p c s = Some s'"
  shows "results_inv p c stored s'"
proof (cases "loc (parent_task s) = Exited")
  case True
  then show ?thesis
    using results_invD [OF inv] ph step
    by (auto simp: results_inv_def run_parent_def phase_good_def parent_good_def array_read_def
          split: if_splits intro: child_good_frame [where s = s])
next
  case False
  note inv' = results_invD [OF inv]
  obtain pr tk w where run: "runner_step p (test_runner_of c) Parent (loc (parent_task s))
      (parent_params s, parent_task s, world s) = Some (pr, tk, w)"
    and s': "s' = s\<lparr>parent_params := pr, parent_task := tk, world := w\<rparr>"
    using step False by (auto simp: run_parent_def)
  have good: "child_idx (parent_params s) = of_nat (length (tasks s))"
      "task_good c (stored (world s)) (parent_params s) (parent_task s)"
    using inv'(6) ph by (simp_all add: phase_good_def parent_good_def)
  have "child_good c stored s' j" if j: "j < length (tasks s)" for j
  proof -
    have "child_idx (params s ! j) = of_nat j" using inv'(5) [OF j] by (simp add: child_good_def)
    then have "test_uid (params s ! j) \<noteq> test_uid (parent_params s)"
      using test_uid_inj [OF _ good(1)] j inv'(2-4) by simp
    then show ?thesis
      using inv'(5) [OF j] runner_step_stored [OF inv'(1) run]
      by (auto simp: s' intro: child_good_frame [where s = s])
  qed
  then show ?thesis
    using inv' ph runner_step_good [OF inv'(1) run good(2)] runner_step_fixed(3) [OF run] good(1)
    by (simp add: results_inv_def s' phase_good_def parent_good_def)
qed

lemma wait_child_results:
  assumes inv: "results_inv p c stored s"
    and step: "wait_child_thread_completion p (phase s) s = Some s'"
  shows "results_inv p c stored s'"
proof -
  note inv' = results_invD [OF inv]
  have w: "stored (world s') = stored (world s)" "params s' = params s" "tasks s' = tasks s"
    using step its_lawsD(8,9) [OF inv'(1)] by (cases "phase s"; auto split: if_splits)+
  have "phase_good c stored s'"
    using step inv'(6) w by (cases "phase s") (auto simp: phase_good_def parent_good_def split: if_splits)
  then show ?thesis
    using inv' w by (auto simp: results_inv_def intro: child_good_frame [where s = s])
qed

lemma parent_step_results:
  assumes inv: "results_inv p c stored s" and step: "parent_step p c s = Some s'"
  shows "results_inv p c stored s'"
proof (cases "phase s")
  case (Creating i)
  then show ?thesis using create_child_results [OF inv] step by (auto simp: parent_step_def)
next
  case (Activating i)
  then show ?thesis
    using step results_invD [OF inv] its_lawsD(6) [OF results_invD(1) [OF inv]]
    by (auto simp: parent_step_def activate_child_def results_inv_def new_task_def phase_good_def
          parent_good_def task_good_def split: if_splits intro: child_good_frame [where s = s])
next
  case Running
  then show ?thesis using run_parent_results [OF inv] step by (auto simp: parent_step_def)
qed (use wait_child_results [OF inv, of s'] step in \<open>auto simp: parent_step_def\<close>)

lemma start_results:
  assumes "its_laws p stored" "max_child c < 2 ^ 32" "test_started p mc c s"
  shows "results_inv p c stored s"
  using assms
  by (auto simp: test_started_def multi_client_call_begin_def results_inv_def phase_good_def Let_def
        split: if_splits option.splits prod.splits)

interpretation results: stable "\<lambda>s. its_laws p stored \<and> max_child c < 2 ^ 32 \<and> test_started p mc c s"
  "system_step p c" "results_inv p c stored" for p c mc stored
proof
  fix s :: "'a test_system" and s' t
  show "its_laws p stored \<and> max_child c < 2 ^ 32 \<and> test_started p mc c s \<Longrightarrow> results_inv p c stored s"
    using start_results by blast
  show "results_inv p c stored s \<Longrightarrow> system_step p c t s = Some s' \<Longrightarrow> results_inv p c stored s'"
    using child_step_results parent_step_results by (cases t) auto
qed


section \<open>The verdict\<close>

definition total_calls :: "test_config \<Rightarrow> nat \<Rightarrow> u32" where
  "total_calls c n = sum_list (map (\<lambda>i. thread_calls c (of_nat i)) [0..<n + 1])"

lemma check_children_passed:
  assumes "\<forall>pr \<in> set prs. tp_ret pr = TEST_PASSED"
  shows "check_children prs a b =
    Some (a + sum_list (map total_ticks prs), b + sum_list (map nr_calls prs))"
  using assms by (induction prs arbitrary: a b) (simp_all add: add.assoc)

lemma unat_sum_list:
  assumes "\<forall>x \<in> set xs. unat x \<le> m" "m * length xs < 2 ^ 32"
  shows "unat (sum_list xs :: u32) = sum_list (map unat xs)"
  using assms
proof (induction xs)
  case (Cons x xs)
  have "sum_list (map unat xs) \<le> m * length xs"
    using sum_list_mono [of xs unat "\<lambda>_. m"] Cons.prems(1) by (simp add: sum_list_triv mult.commute)
  then have "unat x + unat (sum_list xs) < 2 ^ 32" using Cons by simp
  then show ?case using Cons by (simp add: unat_add_lem [THEN iffD1])
qed simp

lemma thread_calls_bounds:
  assumes "0 < cf_rounds c" "20 * unat (cf_rounds c) < 2 ^ 32"
  shows "0 < unat (thread_calls c idx)" "unat (thread_calls c idx) \<le> 20 * unat (cf_rounds c)"
proof -
  have *: "unat (cf_rounds c * 20) = unat (cf_rounds c) * 20" "unat (cf_rounds c * 3) = unat (cf_rounds c) * 3"
    using assms(2) by (subst unat_mult_lem [THEN iffD1]; simp)+
  have pos: "0 < unat (cf_rounds c)" using assms(1) by (simp add: word_less_nat_alt)
  show "0 < unat (thread_calls c idx)" "unat (thread_calls c idx) \<le> 20 * unat (cf_rounds c)"
    using * pos unfolding thread_calls_def thread_rounds_def runs_heavy_loop_def
    by (auto split: test_runner.splits)
qed

lemma total_calls_nonzero:
  assumes "0 < cf_rounds c" "20 * unat (cf_rounds c) * (n + 1) < 2 ^ 32"
  shows "total_calls c n \<noteq> 0"
proof -
  have small: "20 * unat (cf_rounds c) < 2 ^ 32"
    using assms(2) by (rule le_less_trans [rotated]) simp
  let ?xs = "map (\<lambda>i. thread_calls c (of_nat i)) [0..<n + 1]"
  note bounds = thread_calls_bounds [OF assms(1) small]
  have "unat (sum_list ?xs) = sum_list (map unat ?xs)"
    by (rule unat_sum_list) (use bounds(2) assms(2) in auto)
  also have "\<dots> \<ge> unat (thread_calls c (of_nat n))" by simp
  finally show ?thesis using bounds(1) [of "of_nat n"] by (auto simp: total_calls_def)
qed

lemma waited_results:
  assumes "mutex_laws p holder" "its_laws p stored" "test_started p mc c s0" "max_child c < 2 ^ 32"
    and "run_schedule (system_step p c) ts s0 = Some s" "phase s = Waited"
  shows "i < length (tasks s) \<Longrightarrow>
      tp_ret (params s ! i) = TEST_PASSED \<and> nr_calls (params s ! i) = thread_calls c (of_nat i)"
    and "tp_ret (parent_params s) = TEST_PASSED"
    and "nr_calls (parent_params s) = thread_calls c (of_nat (length (tasks s)))"
    and "length (tasks s) \<le> length (params s)" "length (params s) = max_child c"
proof -
  note proto = protocol_invD [OF protocol.run_inv [OF conjI [OF assms(1,3)] assms(5)]]
  have start: "its_laws p stored \<and> max_child c < 2 ^ 32 \<and> test_started p mc c s0" using assms by simp
  note res = results_invD [OF results.run_inv [OF start assms(5)]]
  show "length (tasks s) \<le> length (params s)" "length (params s) = max_child c" by (rule res)+
  show "tp_ret (params s ! i) = TEST_PASSED \<and> nr_calls (params s ! i) = thread_calls c (of_nat i)"
    if "i < length (tasks s)"
    using res(5) [OF that] proto(8) assms(6) that by (simp add: child_good_def task_good_def exited_def)
  show "tp_ret (parent_params s) = TEST_PASSED"
    "nr_calls (parent_params s) = thread_calls c (of_nat (length (tasks s)))"
    using res(6) assms(6) by (auto simp: phase_good_def parent_good_def task_good_def)
qed

lemma sample_its_laws: "its_laws sample_platform sw_stored"
  by (auto simp: its_laws_def keeps_def sample_platform_def split: if_splits)



text \<open>One failed thread fails the test, whatever the others did.\<close>

lemma finish_failed:
  assumes "tp_ret (parent_params s) \<noteq> TEST_PASSED \<or>
    (\<exists>i < length (tasks s). tp_ret (params s ! i) \<noteq> TEST_PASSED)"
    and "length (tasks s) \<le> length (params s)"
  shows "fst (multi_client_call_finish p stats_res s) = Some (TEST_FAILED, None)"
proof -
  have "check_children prs a b = None" if "\<exists>pr \<in> set prs. tp_ret pr \<noteq> TEST_PASSED" for prs a b
    using that by (induction prs arbitrary: a b) auto
  moreover have "\<exists>pr \<in> set (take (length (tasks s)) (params s)). tp_ret pr \<noteq> TEST_PASSED"
    if "i < length (tasks s)" "tp_ret (params s ! i) \<noteq> TEST_PASSED" for i
    using that assms(2) by (intro bexI [of _ "params s ! i"]) (auto simp: in_set_conv_nth intro!: exI [of _ i])
  ultimately show ?thesis
    using assms(1) by (auto simp: multi_client_call_finish_def Let_def)
qed

end
