(* ===== verification/Multi_Core_Progress.thy ===== *)
theory Multi_Core_Progress
  imports Multi_Core
begin

text \<open>
  Progress of the multi-core tests. \<open>flag_laws\<close> is the documented behaviour of thread flags. The
  weight \<open>system_weight\<close> counts the work that is left: the steps of every thread, with three per
  round and at most \<open>2 ^ 32\<close> rounds, and the phases of the parent. In every state some thread can
  take a step that lowers it.
\<close>

section \<open>Thread flags\<close>

definition flag_laws :: "('s, 'w) platform \<Rightarrow> ('w \<Rightarrow> nat \<Rightarrow> u32) \<Rightarrow> bool" where
  "flag_laws p flags \<longleftrightarrow>
     (\<forall>i f w. \<not> bit f 31 \<longrightarrow> flags (thread_set_flag p i f w) = (flags w)(i := or (flags w i) f)) \<and>
     (\<forall>i f w. \<not> bit f 31 \<longrightarrow> (thread_wait_flag p i f w = None \<longleftrightarrow> and (flags w i) f \<noteq> f)) \<and>
     (\<forall>i f w w' j. thread_wait_flag p i f w = Some w' \<longrightarrow> j \<noteq> i \<longrightarrow> flags w' j = flags w j) \<and>
     (\<forall>n i k w j. j \<noteq> i \<longrightarrow> flags (snd (thread_new p n i k w)) j = flags w j) \<and>
     (\<forall>t h w w'. mutex_acquire p t h w = Some w' \<longrightarrow> flags w' = flags w) \<and>
     (\<forall>t h. keeps flags (mutex_release p t h)) \<and>
     keeps flags (\<lambda>w. snd (get_tick p w)) \<and>
     keeps flags (\<lambda>w. snd (psa_framework_version p w)) \<and>
     (\<forall>u d. keeps flags (\<lambda>w. snd (psa_its_set p u d w))) \<and>
     (\<forall>u k n. keeps flags (\<lambda>w. snd (psa_its_get p u k n w))) \<and>
     (\<forall>u. keeps flags (\<lambda>w. snd (psa_its_remove p u w)))"

lemma flag_lawsD:
  assumes "flag_laws p flags"
  shows "\<not> bit f 31 \<Longrightarrow> flags (thread_set_flag p i f w) = (flags w)(i := or (flags w i) f)"
    and "\<not> bit f 31 \<Longrightarrow> thread_wait_flag p i f w = None \<longleftrightarrow> and (flags w i) f \<noteq> f"
    and "thread_wait_flag p i f w = Some w' \<Longrightarrow> j \<noteq> i \<Longrightarrow> flags w' j = flags w j"
    and "thread_new p n i k w = (b, w') \<Longrightarrow> j \<noteq> i \<Longrightarrow> flags w' j = flags w j"
    and "mutex_acquire p t h w = Some w' \<Longrightarrow> flags w' = flags w"
    and "flags (mutex_release p t h w) = flags w"
    and "get_tick p w = (x, w') \<Longrightarrow> flags w' = flags w"
    and "psa_framework_version p w = (x, w') \<Longrightarrow> flags w' = flags w"
    and "psa_its_set p u d w = (st, w') \<Longrightarrow> flags w' = flags w"
    and "psa_its_get p u k' n' w = (sd, w') \<Longrightarrow> flags w' = flags w"
    and "psa_its_remove p u w = (st, w') \<Longrightarrow> flags w' = flags w"
  using assms unfolding flag_laws_def keeps_def by (metis snd_conv)+

definition in_round :: "task \<Rightarrow> bool" where
  "in_round tk \<longleftrightarrow> (loc tk \<in> {At_Get, At_Remove} \<longrightarrow> loop_i tk < rounds tk)"

fun location_weight :: "nat \<Rightarrow> location \<Rightarrow> nat" where
  "location_weight n At_Wait = 3 * 2 ^ 32 + 8"
| "location_weight n At_Start = 3 * 2 ^ 32 + 7"
| "location_weight n At_Version = 3 * n + 6"
| "location_weight n At_Set = 3 * n + 6"
| "location_weight n At_Get = 3 * n + 5"
| "location_weight n At_Remove = 3 * n + 4"
| "location_weight n At_End = 5"
| "location_weight n (At_Ret st) = 4"
| "location_weight n At_Acquire = 3"
| "location_weight n At_Mark = 2"
| "location_weight n At_Release = 1"
| "location_weight n Exited = 0"

definition task_weight :: "task \<Rightarrow> nat" where
  "task_weight tk = location_weight (unat (rounds tk) - unat (loop_i tk)) (loc tk)"

lemma runner_step_lowers:
  assumes step: "runner_step p r me (loc tk) (pr, tk, w) = Some (pr', tk', w')" and "in_round tk"
  shows "task_weight tk' < task_weight tk" "in_round tk'" "loc tk' \<noteq> At_Wait"
proof -
  have "task_weight tk' < task_weight tk \<and> in_round tk' \<and> loc tk' \<noteq> At_Wait"
  proof (cases "loc tk")
    case At_Start
    have "3 * unat (nr_rounds (scale_rounds r pr)) < 3 * 2 ^ 32 + 1"
      using unat_u32_bound [of "nr_rounds (scale_rounds r pr)"] by simp
    then show ?thesis
      using At_Start step
      by (auto simp: loop_start_def Let_def task_weight_def in_round_def less_Suc_eq_le split: prod.splits if_splits)
  next
    case At_Version
    then show ?thesis
      using step next_round [of "loop_i tk" "rounds tk"]
      by (auto simp: light_round_def Let_def task_weight_def in_round_def split: prod.splits if_splits)
  next
    case At_Remove
    then show ?thesis
      using step next_round [of "loop_i tk" "rounds tk"] assms(2)
      by (auto simp: heavy_remove_def Let_def task_weight_def in_round_def split: prod.splits if_splits)
  qed (use step assms(2) in \<open>auto simp: heavy_set_def heavy_get_def loop_end_def Let_def task_weight_def in_round_def
        split: prod.splits if_splits thread_id.splits\<close>)
  then show "task_weight tk' < task_weight tk" "in_round tk'" "loc tk' \<noteq> At_Wait" by blast+
qed

lemma runner_step_flags:
  assumes laws: "flag_laws p flags"
    and step: "runner_step p r me l (pr, tk, w) = Some (pr', tk', w')"
  shows "me \<noteq> Child j \<Longrightarrow> flags w' j = flags w j"
proof (cases l)
  case At_Wait
  then show "me \<noteq> Child j \<Longrightarrow> flags w' j = flags w j"
    using step flag_lawsD(3) [OF laws] by (auto split: if_splits thread_id.splits)
qed (use step in \<open>auto simp: flag_lawsD(5-11) [OF laws] loop_defs Let_def split: if_splits prod.splits\<close>)

lemma runner_step_enabled:
  assumes "runner_step p r me l (pr, tk, w) = None"
  obtains "l = Exited" | "l = At_Wait" "\<not> is_parent pr" | "l = At_Acquire"
  using assms by (cases l) (auto split: if_splits)


fun activated :: "phase \<Rightarrow> nat \<Rightarrow> nat" where
  "activated (Creating i) n = 0"
| "activated (Activating i) n = min i n"
| "activated ph n = n"

definition child_live :: "('w \<Rightarrow> nat \<Rightarrow> u32) \<Rightarrow> 'w test_system \<Rightarrow> nat \<Rightarrow> bool" where
  "child_live flags s i \<longleftrightarrow>
     child_idx (params s ! i) = of_nat i \<and> in_round (tasks s ! i) \<and>
     (i < activated (phase s) (length (tasks s)) \<longrightarrow> loc (tasks s ! i) = At_Wait \<longrightarrow>
        and (flags (world s) i) (TEST_CHILD_EVENT_FLAG i) = TEST_CHILD_EVENT_FLAG i)"

definition live_inv ::
  "('s, 'w) platform \<Rightarrow> test_config \<Rightarrow> ('w \<Rightarrow> ptr \<Rightarrow> thread_id option) \<Rightarrow> ('w \<Rightarrow> nat \<Rightarrow> u32)
   \<Rightarrow> 'w test_system \<Rightarrow> bool" where
  "live_inv p c holder flags s \<longleftrightarrow>
     protocol_inv p c holder s \<and> flag_laws p flags \<and> 0 < max_child c \<and> max_child c \<le> 31 \<and>
     (\<forall>i < length (tasks s). child_live flags s i) \<and> (phase s = Running \<longrightarrow> in_round (parent_task s))"

lemma live_invD:
  assumes "live_inv p c holder flags s"
  shows "protocol_inv p c holder s" "flag_laws p flags" "max_child c \<le> 31"
    "i < length (tasks s) \<Longrightarrow> child_live flags s i" "phase s = Running \<Longrightarrow> in_round (parent_task s)"
    "i < length (tasks s) \<Longrightarrow> i < 31" "0 < max_child c"
  using assms by (auto simp: live_inv_def protocol_inv_def)

lemma event_flag_valid: "i < 31 \<Longrightarrow> \<not> bit (TEST_CHILD_EVENT_FLAG i) 31"
  by (simp add: TEST_CHILD_EVENT_FLAG_def bit_exp_iff)

lemma child_live_frame:
  assumes "child_live flags s i" "params s' ! i = params s ! i" "tasks s' ! i = tasks s ! i"
    "flags (world s') i = flags (world s) i"
    "activated (phase s') (length (tasks s')) = activated (phase s) (length (tasks s))"
  shows "child_live flags s' i"
  using assms by (simp add: child_live_def)

lemma child_step_live:
  assumes inv: "live_inv p c holder flags s" and step: "child_step p c i s = Some s'"
  shows "live_inv p c holder flags s'"
proof -
  from step obtain pr tk w where i: "i < length (tasks s)"
    and run: "runner_step p (test_runner_of c) (Child i) (loc (tasks s ! i))
        (params s ! i, tasks s ! i, world s) = Some (pr, tk, w)"
    and s': "s' = s\<lparr>params := (params s)[i := pr], tasks := (tasks s)[i := tk], world := w\<rparr>"
    by (rule child_stepE)
  note inv' = live_invD [OF inv]
  have ip: "i < length (params s)" using i protocol_invD(3) [OF inv'(1)] by simp
  have idx: "child_idx (params s ! i) = of_nat i" "in_round (tasks s ! i)"
    using inv'(4) [OF i] by (simp_all add: child_live_def)
  have "child_live flags s' j" if j: "j < length (tasks s)" for j
  proof (cases "j = i")
    case True
    then show ?thesis
      using runner_step_lowers [OF run idx(2)] runner_step_fixed(3) [OF run] idx(1) i ip
      by (simp add: child_live_def s')
  next
    case False
    then show ?thesis
      using inv'(4) [OF j] runner_step_flags [OF inv'(2) run, of j]
      by (auto simp: s' intro: child_live_frame [where s = s])
  qed
  then show ?thesis
    using inv' child_step_protocol [OF inv'(1) step] by (simp add: live_inv_def s')
qed

lemma create_child_live:
  assumes inv: "live_inv p c holder flags s" and ph: "phase s = Creating i"
    and j: "j < length (tasks (create_child p c i s))"
  shows "child_live flags (create_child p c i s) j"
proof (cases "i < max_child c")
  case True
  note inv' = live_invD [OF inv]
  have i: "length (tasks s) = i" using protocol_invD(8) [OF inv'(1)] ph by simp
  have ip: "i < length (params s)" using True protocol_invD(4) [OF inv'(1)] by simp
  obtain created w where new: "thread_new p (stack_size c) i (current_thread_priority s) (world s) = (created, w)"
    by fastforce
  let ?s = "create_child p c i s" and ?ps = "(params s)[i := child_params c s i (params s ! i)]"
  have s': "?s = (if created then s\<lparr>params := ?ps, world := w, tasks := tasks s @ [new_task],
                                    phase := Creating (i + 1)\<rparr>
                  else s\<lparr>params := ?ps, world := w, phase := Activating 0\<rparr>)"
    using True by (simp add: create_child_def new Let_def)
  show ?thesis
  proof (cases "j < i")
    case True
    then show ?thesis
      using inv'(4) [of j] i flag_lawsD(4) [OF inv'(2) new, of j] ph
      by (auto simp: s' nth_append intro: child_live_frame [where s = s])
  next
    case False
    then have "j = i" created using j i by (auto simp: s' split: if_splits)
    then show ?thesis
      using ip i by (simp add: s' child_live_def child_params_def new_task_def in_round_def nth_append)
  qed
next
  case False
  then show ?thesis
    using live_invD(4) [OF inv] ph j
    by (auto simp: create_child_def intro: child_live_frame [where s = s])
qed

lemma activate_child_live:
  assumes inv: "live_inv p c holder flags s" and ph: "phase s = Activating i"
    and j: "j < length (tasks s)"
  shows "child_live flags (activate_child p c i s) j"
proof (cases "i < length (tasks s)")
  case True
  note inv' = live_invD [OF inv]
  let ?f = "TEST_CHILD_EVENT_FLAG i"
  have set: "flags (thread_set_flag p i ?f (world s)) = (flags (world s))(i := or (flags (world s) i) ?f)"
    using flag_lawsD(1) [OF inv'(2)] event_flag_valid [OF inv'(6) [OF True]] by blast
  have "and (or (flags (world s) i) ?f) ?f = ?f"
    by (rule bit_eqI) (auto simp: bit_and_iff bit_or_iff)
  then show ?thesis
    using inv'(4) [OF j] True j ph set
    by (auto simp: activate_child_def child_live_def less_Suc_eq)
next
  case False
  then show ?thesis
    using live_invD(4) [OF inv j] ph by (simp add: activate_child_def child_live_def min_absorb2)
qed

lemma parent_step_live:
  assumes inv: "live_inv p c holder flags s" and step: "parent_step p c s = Some s'"
  shows "live_inv p c holder flags s'"
proof -
  note inv' = live_invD [OF inv]
  have "(\<forall>j < length (tasks s'). child_live flags s' j) \<and> (phase s' = Running \<longrightarrow> in_round (parent_task s'))"
  proof (cases "phase s")
    case (Creating i)
    then have "s' = create_child p c i s" using step by (simp add: parent_step_def)
    moreover have "phase (create_child p c i s) \<noteq> Running"
      by (auto simp: create_child_def Let_def split: prod.splits)
    ultimately show ?thesis using create_child_live [OF inv Creating] by simp
  next
    case (Activating i)
    then show ?thesis
      using step activate_child_live [OF inv]
      by (auto simp: parent_step_def activate_child_def new_task_def in_round_def split: if_splits)
  next
    case Running
    then have run: "run_parent p c s = Some s'" using step by (simp add: parent_step_def)
    show ?thesis
    proof (cases "loc (parent_task s) = Exited")
      case True
      then show ?thesis
        using run Running inv'(4)
        by (auto simp: run_parent_def array_read_def split: if_splits intro: child_live_frame [where s = s])
    next
      case False
      then obtain pr tk w where step': "runner_step p (test_runner_of c) Parent (loc (parent_task s))
          (parent_params s, parent_task s, world s) = Some (pr, tk, w)"
        and s': "s' = s\<lparr>parent_params := pr, parent_task := tk, world := w\<rparr>"
        using run by (auto simp: run_parent_def)
      then show ?thesis
        using inv'(4) runner_step_flags [OF inv'(2) step'] runner_step_lowers(2) [OF step' inv'(5)] Running
        by (auto intro: child_live_frame [where s = s])
    qed
  qed (use step inv'(4) flag_lawsD(5,6) [OF inv'(2)] in
      \<open>auto simp: parent_step_def split: if_splits intro: child_live_frame [where s = s]\<close>)
  then show ?thesis
    using inv' parent_step_protocol [OF inv'(1) step] by (simp add: live_inv_def)
qed


definition phase_weight :: "test_config \<Rightarrow> 'w test_system \<Rightarrow> nat" where
  "phase_weight c s =
     (let n = max_child c; parent = task_weight new_task + 4 * n + 6
      in case phase s of
           Creating i \<Rightarrow> (n - i) * (task_weight new_task + 2) + parent + n + 1
         | Activating i \<Rightarrow> parent + (n - i)
         | Running \<Rightarrow> task_weight (parent_task s) + 4 * n + 5
         | Acquiring i \<Rightarrow> 4 * (n - i) + 3
         | Reading i \<Rightarrow> 4 * (n - i) + (if is_complete (params s ! i) then 2 else 5)
         | Releasing i complete \<Rightarrow> 4 * (n - i) + (if complete then 1 else 4)
         | _ \<Rightarrow> 0)"

definition system_weight :: "test_config \<Rightarrow> 'w test_system \<Rightarrow> nat" where
  "system_weight c s = sum_list (map task_weight (tasks s)) + phase_weight c s"

lemma sum_list_lowers:
  fixes f :: "'a \<Rightarrow> nat"
  assumes "i < length xs" "f x < f (xs ! i)"
  shows "sum_list (map f (xs[i := x])) < sum_list (map f xs)"
  using assms by (induction xs arbitrary: i) (auto split: nat.splits)

lemma child_step_lowers:
  assumes inv: "live_inv p c holder flags s" and step: "child_step p c i s = Some s'"
  shows "system_weight c s' < system_weight c s"
proof -
  from step obtain pr tk w where i: "i < length (tasks s)"
    and run: "runner_step p (test_runner_of c) (Child i) (loc (tasks s ! i))
        (params s ! i, tasks s ! i, world s) = Some (pr, tk, w)"
    and s': "s' = s\<lparr>params := (params s)[i := pr], tasks := (tasks s)[i := tk], world := w\<rparr>"
    by (rule child_stepE)
  have "in_round (tasks s ! i)" using live_invD(4) [OF inv i] by (simp add: child_live_def)
  then have "sum_list (map task_weight (tasks s')) < sum_list (map task_weight (tasks s))"
    using i sum_list_lowers runner_step_lowers(1) [OF run] by (simp add: s')
  moreover have "is_complete (params s ! j) \<Longrightarrow> is_complete (params s' ! j)" for j
    using runner_step_fixed(4) [OF run] i protocol_invD(3) [OF live_invD(1) [OF inv]]
    by (cases "j = i") (auto simp: s')
  then have "phase_weight c s' \<le> phase_weight c s"
    by (cases "phase s") (auto simp: phase_weight_def Let_def s')
  ultimately show ?thesis by (simp add: system_weight_def)
qed

lemma parent_step_lowers:
  assumes inv: "live_inv p c holder flags s" and step: "parent_step p c s = Some s'"
    and acq: "\<And>i. phase s = Acquiring i \<Longrightarrow> i < length (tasks s) \<Longrightarrow> is_complete (params s ! i)"
  shows "system_weight c s' < system_weight c s"
proof -
  note inv' = live_invD [OF inv]
  note proto = protocol_invD [OF inv'(1)]
  have len: "length (tasks s) \<le> max_child c" using proto(3,4) by simp
  show ?thesis
  proof (cases "phase s")
    case (Creating i)
    then have "length (tasks s) = i" using proto(8) by simp
    have rec: "(n - i) * k = (n - Suc i) * k + k" if "i < n" for n k :: nat
      using that by (metis Suc_diff_Suc mult_Suc add.commute)
    then show ?thesis
      using Creating step rec [of "max_child c" "task_weight new_task + 2"]
      by (auto simp: parent_step_def create_child_def Let_def system_weight_def phase_weight_def
            split: prod.splits if_splits)
  next
    case (Activating i)
    then show ?thesis
      using step len
      by (auto simp: parent_step_def activate_child_def Let_def system_weight_def phase_weight_def
            split: if_splits)
  next
    case Running
    then have run: "run_parent p c s = Some s'" using step by (simp add: parent_step_def)
    then show ?thesis
      using runner_step_lowers(1) [OF _ inv'(5) [OF Running]] Running
      by (auto simp: run_parent_def array_read_def Let_def system_weight_def phase_weight_def
            split: if_splits)
  next
    case (Acquiring i)
    then show ?thesis
      using step acq [OF Acquiring]
      by (auto simp: parent_step_def Let_def system_weight_def phase_weight_def split: if_splits)
  next
    case (Releasing i complete)
    then show ?thesis
      using step proto(8) len
      by (auto simp: parent_step_def Let_def system_weight_def phase_weight_def split: if_splits)
  qed (use step in \<open>auto simp: parent_step_def Let_def system_weight_def phase_weight_def split: if_splits\<close>)
qed


lemma child_enabled:
  assumes inv: "live_inv p c holder flags s" and i: "i < length (tasks s)"
    and awake: "activated (phase s) (length (tasks s)) = length (tasks s)"
    and free: "loc (tasks s ! i) = At_Acquire \<Longrightarrow> holder (world s) (mutex s) = None"
    and "loc (tasks s ! i) \<noteq> Exited"
  shows "child_step p c i s \<noteq> None"
proof
  note inv' = live_invD [OF inv]
  note proto = protocol_invD [OF inv'(1)]
  assume "child_step p c i s = None"
  then have none: "runner_step p (test_runner_of c) (Child i) (loc (tasks s ! i))
      (params s ! i, tasks s ! i, world s) = None"
    using i by (simp add: child_step_def)
  then show False
  proof (cases rule: runner_step_enabled)
    case 2
    have live: "child_idx (params s ! i) = of_nat i"
      "and (flags (world s) i) (TEST_CHILD_EVENT_FLAG i) = TEST_CHILD_EVENT_FLAG i"
      using inv'(4) [OF i] awake i 2(1) by (simp_all add: child_live_def)
    have "unat (of_nat i :: u32) = i" using inv'(6) [OF i] by (simp add: unat_of_nat take_bit_eq_mod)
    then have "thread_wait_flag p i (TEST_CHILD_EVENT_FLAG i) (world s) = None" using none 2 live by simp
    then show False
      using flag_lawsD(2) [OF inv'(2) event_flag_valid [OF inv'(6) [OF i]]] live(2) by simp
  next
    case 3
    then have "mutex_acquire p (Child i) (mutex s) (world s) = None"
      using none child_okD(2) [OF proto(5) [OF i]] by simp
    then show False using mutex_lawsD(2) [OF proto(1,2)] free 3 by simp
  qed (use assms(5) in simp)
qed

lemma parent_enabled:
  assumes inv: "live_inv p c holder flags s" and "phase s \<noteq> Waited"
    and acq: "\<And>i. phase s = Acquiring i \<Longrightarrow> i < length (tasks s) \<Longrightarrow> holder (world s) (mutex s) = None"
  shows "parent_step p c s \<noteq> None"
proof (cases "phase s")
  case Running
  have parent: "is_parent (parent_params s)" "loc (parent_task s) \<noteq> At_Acquire"
    using protocol_invD(8) [OF live_invD(1) [OF inv]] Running by simp_all
  have "runner_step p (test_runner_of c) Parent (loc (parent_task s))
      (parent_params s, parent_task s, world s) \<noteq> None" if "loc (parent_task s) \<noteq> Exited"
  proof
    assume "runner_step p (test_runner_of c) Parent (loc (parent_task s))
      (parent_params s, parent_task s, world s) = None"
    then show False by (cases rule: runner_step_enabled) (use parent that in simp_all)
  qed
  then show ?thesis using Running by (auto simp: parent_step_def run_parent_def split: option.splits)
next
  case (Acquiring i)
  note proto = protocol_invD [OF live_invD(1) [OF inv]]
  show ?thesis
  proof (cases "i < length (tasks s)")
    case True
    then have "mutex_acquire p Parent (mutex s) (world s) \<noteq> None"
      using mutex_lawsD(2) [OF proto(1,2)] acq [OF Acquiring] by simp
    then show ?thesis
      using Acquiring proto(8) wait_mutex_eq [OF _ True] by (auto simp: parent_step_def)
  qed (simp add: parent_step_def Acquiring)
next
  case Out_Of_Bounds
  note proto = protocol_invD [OF live_invD(1) [OF inv]]
  show ?thesis using proto(4,8) live_invD(7) [OF inv] Out_Of_Bounds by simp
qed (use assms(2) in \<open>auto simp: parent_step_def\<close>)

lemma system_progress:
  assumes inv: "live_inv p c holder flags s" and ph: "phase s \<noteq> Waited"
  shows "\<exists>t s'. system_step p c t s = Some s' \<and> system_weight c s' < system_weight c s"
proof (cases "\<exists>i. phase s = Acquiring i \<and> i < length (tasks s)")
  case True
  then obtain i where i: "phase s = Acquiring i" "i < length (tasks s)" by blast
  note proto = protocol_invD [OF live_invD(1) [OF inv]]
  have child: ?thesis if "j < length (tasks s)" "loc (tasks s ! j) \<noteq> Exited"
      "loc (tasks s ! j) = At_Acquire \<Longrightarrow> holder (world s) (mutex s) = None" for j
  proof -
    have "child_step p c j s \<noteq> None" using child_enabled [OF inv that(1) _ that(3,2)] i(1) by simp
    then obtain s' where "child_step p c j s = Some s'" by blast
    then show ?thesis using child_step_lowers [OF inv] by (intro exI [of _ "Child j"]) auto
  qed
  show ?thesis
  proof (cases "holder (world s) (mutex s)")
    case (Some t)
    then obtain j where j: "t = Child j" using proto(7) i(1) by (cases t) auto
    then have "loc (tasks s ! j) \<in> {At_Mark, At_Release}" "j < length (tasks s)"
      using Some proto(6) child_okD(3) [OF proto(5)] by blast+
    then show ?thesis using child [of j] by auto
  next
    case None
    show ?thesis
    proof (cases "is_complete (params s ! i)")
      case True
      obtain s' where "parent_step p c s = Some s'"
        using parent_enabled [OF inv ph] None by blast
      then show ?thesis
        using parent_step_lowers [OF inv] True i by (intro exI [of _ Parent]) auto
    next
      case False
      then show ?thesis using child [OF i(2)] child_okD(4) [OF proto(5) [OF i(2)]] None by auto
    qed
  qed
next
  case False
  then obtain s' where "parent_step p c s = Some s'"
    using parent_enabled [OF inv ph] by blast
  then show ?thesis
    using parent_step_lowers [OF inv] False by (intro exI [of _ Parent]) auto
qed

interpretation ends: progressing
  "\<lambda>s. mutex_laws p holder \<and> flag_laws p flags \<and> 0 < max_child c \<and> max_child c \<le> 31 \<and> test_started p mc c s"
  "system_step p c" "live_inv p c holder flags" "\<lambda>s. phase s = Waited" "system_weight c"
  for p c mc holder flags
proof
  fix s :: "'a test_system" and s' t
  show "mutex_laws p holder \<and> flag_laws p flags \<and> 0 < max_child c \<and> max_child c \<le> 31 \<and> test_started p mc c s
      \<Longrightarrow> live_inv p c holder flags s"
    using start_protocol [of p holder mc c s]
    by (auto simp: live_inv_def test_started_def multi_client_call_begin_def Let_def
        split: if_splits option.splits prod.splits)
  show "live_inv p c holder flags s \<Longrightarrow> system_step p c t s = Some s' \<Longrightarrow> live_inv p c holder flags s'"
    using child_step_live parent_step_live by (cases t) auto
  show "live_inv p c holder flags s \<Longrightarrow> phase s \<noteq> Waited \<Longrightarrow>
      \<exists>t s'. system_step p c t s = Some s' \<and> system_weight c s' < system_weight c s"
    by (rule system_progress)
qed

lemma sample_flag_laws: "flag_laws sample_platform sw_flags"
  by (auto simp: flag_laws_def keeps_def sample_platform_def split: if_splits)

text \<open>C14. The tests never get stuck. When the kernel's mutex and thread flags work as documented and
  there is at least one child and at most as many as there are usable flag bits, then whatever the
  threads have done so far, there is a continuation in which all of them finish and the parent
  leaves its waiting loop: no interleaving ends in a deadlock or in a polling loop that cannot be
  left.
\<close>

theorem test_can_always_end:
  assumes "mutex_laws p holder" and "flag_laws p flags" and "test_started p mc c s0"
    and "0 < max_child c" and "max_child c \<le> 31" and "run_schedule (system_step p c) ts s0 = Some s"
  shows "\<exists>us s'. run_schedule (system_step p c) (ts @ us) s0 = Some s' \<and> phase s' = Waited"
  by (rule ends.run_can_end [OF _ assms(6)]) (use assms in simp)

theorem test_can_always_end_witness:
  "\<exists>us s'. run_schedule (system_step sample_platform (sample_config multi_client_call_heavy_runner))
       ([Parent, Parent] @ us) sample_start = Some s' \<and> phase s' = Waited"
proof -
  obtain s where s: "run_schedule (system_step sample_platform (sample_config multi_client_call_heavy_runner))
      [Parent, Parent] sample_start = Some s"
    by (simp add: parent_step_def create_child_def sample_start_def sample_platform_def sample_config_def Let_def)
  show ?thesis
    by (rule test_can_always_end [OF sample_mutex_laws sample_flag_laws sample_started _ _ s])
       (simp_all add: sample_config_def)
qed

end
