(* ===== verification/Irq_Tests.thy ===== *)
theory Irq_Tests
  imports Schedules Psa_Status Test_Framework
begin

text \<open>
  The partitions of the interrupt tests
  (\<^verbatim>\<open>src/tests_reg/test/secure_fw/suites/spm/irq/service\<close>). The thread of the partition, the timer
  interrupt and the client that sends messages are the three actors of a transition system: a
  step of the thread is one call or one access to a shared variable, an interrupt runs its
  handler between two of them. \<open>__WFI\<close> may return at any time. A message is handed to the
  partition when it is idle, as both the IPC loop and the SFN entry do; the failing \<open>psa_get\<close> of the
  IPC loop is left out. At the end are the tests of the client (\<^verbatim>\<open>irq_test.c\<close>, \<^verbatim>\<open>irq_testsuite.c\<close>).

  The partition manager and the timer are the record \<open>spm\<close>; \<open>take_irq\<close> is the moment an
  interrupt is taken, \<open>None\<close> when there is none to take. What the tests rely on is \<open>spm_laws\<close>, which
  describes the calls by their effect on three bits: whether the interrupt is enabled, whether
  the timer runs, and whether the signal is asserted. Three fields of the state are there for the
  theorems only: how many interrupts were handled since the last message, and in all, and the list
  of the replies with the number handled for each.
\<close>

section \<open>The partition manager and the timer\<close>

record 'w spm =
  TFM_TIMER0_IRQ_SIGNAL :: u32
  psa_irq_enable :: "u32 \<Rightarrow> 'w \<Rightarrow> 'w"
  psa_irq_disable :: "u32 \<Rightarrow> 'w \<Rightarrow> 'w"
  psa_wait :: "u32 \<Rightarrow> 'w \<Rightarrow> (u32 \<times> 'w) option"
  psa_reset_signal :: "u32 \<Rightarrow> 'w \<Rightarrow> 'w"
  psa_eoi :: "u32 \<Rightarrow> 'w \<Rightarrow> 'w"
  secure_timer_start :: "'w \<Rightarrow> 'w"
  secure_timer_stop :: "'w \<Rightarrow> 'w"
  secure_timer_clear_intr :: "'w \<Rightarrow> 'w"
  take_irq :: "'w \<Rightarrow> 'w option"
  assert_signal :: "u32 \<Rightarrow> 'w \<Rightarrow> 'w"

record spm_view =
  irq_on :: bool
  ticking :: bool
  signalled :: bool

definition spm_laws :: "'w spm \<Rightarrow> ('w \<Rightarrow> spm_view) \<Rightarrow> bool" where
  "spm_laws p view \<longleftrightarrow>
     (\<forall>w. view (psa_irq_enable p (TFM_TIMER0_IRQ_SIGNAL p) w) = (view w)\<lparr>irq_on := True\<rparr>) \<and>
     (\<forall>w. view (psa_irq_disable p (TFM_TIMER0_IRQ_SIGNAL p) w) = (view w)\<lparr>irq_on := False\<rparr>) \<and>
     (\<forall>w. view (psa_reset_signal p (TFM_TIMER0_IRQ_SIGNAL p) w) = (view w)\<lparr>signalled := False\<rparr>) \<and>
     (\<forall>w. view (psa_eoi p (TFM_TIMER0_IRQ_SIGNAL p) w) = (view w)\<lparr>signalled := False\<rparr>) \<and>
     (\<forall>w. view (assert_signal p (TFM_TIMER0_IRQ_SIGNAL p) w) = (view w)\<lparr>signalled := True\<rparr>) \<and>
     (\<forall>w. view (secure_timer_start p w) = (view w)\<lparr>ticking := True\<rparr>) \<and>
     (\<forall>w. view (secure_timer_stop p w) = (view w)\<lparr>ticking := False\<rparr>) \<and>
     (\<forall>w. view (secure_timer_clear_intr p w) = view w) \<and>
     (\<forall>w. psa_wait p (TFM_TIMER0_IRQ_SIGNAL p) w = None \<longleftrightarrow> \<not> signalled (view w)) \<and>
     (\<forall>w x w'. psa_wait p (TFM_TIMER0_IRQ_SIGNAL p) w = Some (x, w')
        \<longrightarrow> x = TFM_TIMER0_IRQ_SIGNAL p \<and> view w' = view w) \<and>
     (\<forall>w w'. take_irq p w = Some w' \<longrightarrow> irq_on (view w) \<and> view w' = view w) \<and>
     (\<forall>w. irq_on (view w) \<longrightarrow> ticking (view w) \<longrightarrow> take_irq p w \<noteq> None)"

lemma spm_lawsD:
  assumes "spm_laws p view"
  shows "view (psa_irq_enable p (TFM_TIMER0_IRQ_SIGNAL p) w) = (view w)\<lparr>irq_on := True\<rparr>"
    and "view (psa_irq_disable p (TFM_TIMER0_IRQ_SIGNAL p) w) = (view w)\<lparr>irq_on := False\<rparr>"
    and "view (psa_reset_signal p (TFM_TIMER0_IRQ_SIGNAL p) w) = (view w)\<lparr>signalled := False\<rparr>"
    and "view (psa_eoi p (TFM_TIMER0_IRQ_SIGNAL p) w) = (view w)\<lparr>signalled := False\<rparr>"
    and "view (assert_signal p (TFM_TIMER0_IRQ_SIGNAL p) w) = (view w)\<lparr>signalled := True\<rparr>"
    and "view (secure_timer_start p w) = (view w)\<lparr>ticking := True\<rparr>"
    and "view (secure_timer_stop p w) = (view w)\<lparr>ticking := False\<rparr>"
    and "view (secure_timer_clear_intr p w) = view w"
    and "psa_wait p (TFM_TIMER0_IRQ_SIGNAL p) w = None \<longleftrightarrow> \<not> signalled (view w)"
    and "psa_wait p (TFM_TIMER0_IRQ_SIGNAL p) w = Some (x, w')
      \<Longrightarrow> x = TFM_TIMER0_IRQ_SIGNAL p \<and> view w' = view w"
    and "take_irq p w = Some w' \<Longrightarrow> irq_on (view w) \<and> view w' = view w"
    and "irq_on (view w) \<Longrightarrow> ticking (view w) \<Longrightarrow> take_irq p w \<noteq> None"
  using assms unfolding spm_laws_def by blast+

section \<open>First-level handling\<close>

definition TFM_FLIH_TEST_CASE_INVALID :: i32 where "TFM_FLIH_TEST_CASE_INVALID = 0x200"
definition TFM_FLIH_TEST_CASE_1 :: i32 where "TFM_FLIH_TEST_CASE_1 = 0x201"
definition TFM_FLIH_TEST_CASE_2 :: i32 where "TFM_FLIH_TEST_CASE_2 = 0x202"
definition TFM_SLIH_TEST_CASE_1 :: i32 where "TFM_SLIH_TEST_CASE_1 = 0x203"

datatype psa_flih_result_t = PSA_FLIH_NO_SIGNAL | PSA_FLIH_SIGNAL

datatype flih_location =
    Idle | Set_Type | Reset_Count | Enable_Irq | Start_Timer | Read_Count | Wait_Interrupt
  | Wait_Signal | Stop_Timer | Reset_Signal | Disable_Irq | Panicked

record 'w flih_service =
  test_type :: i32
  flih_timer_triggered :: u32
  msg_type :: i32
  at :: flih_location
  manager :: 'w
  handled :: nat
  handled_in_all :: nat
  replies :: "(i32 \<times> psa_status \<times> nat) list"

definition tfm_flih_test_timer_handler ::
  "'w spm \<Rightarrow> 'w flih_service \<Rightarrow> psa_flih_result_t option \<times> 'w flih_service" where
  "tfm_flih_test_timer_handler p s =
     (let s = s\<lparr>manager := secure_timer_clear_intr p (manager s)\<rparr>
      in if test_type s = TFM_FLIH_TEST_CASE_1 then
           (Some PSA_FLIH_NO_SIGNAL, s\<lparr>flih_timer_triggered := flih_timer_triggered s + 1\<rparr>)
         else if test_type s = TFM_FLIH_TEST_CASE_2 then
           let s = s\<lparr>flih_timer_triggered := flih_timer_triggered s + 1\<rparr>
           in (Some (if flih_timer_triggered s = 10 then PSA_FLIH_SIGNAL else PSA_FLIH_NO_SIGNAL), s)
         else (None, s))"

definition tfm_timer0_irq_flih :: "'w spm \<Rightarrow> 'w flih_service \<Rightarrow> 'w flih_service option" where
  "tfm_timer0_irq_flih p s =
     (if at s = Panicked then None
      else case take_irq p (manager s) of
        None \<Rightarrow> None
      | Some w \<Rightarrow>
          (case tfm_flih_test_timer_handler p (s\<lparr>manager := w\<rparr>) of
             (None, s) \<Rightarrow> Some (s\<lparr>at := Panicked\<rparr>)
           | (Some result, s) \<Rightarrow>
               Some (s\<lparr>manager := if result = PSA_FLIH_SIGNAL
                                  then assert_signal p (TFM_TIMER0_IRQ_SIGNAL p) (manager s)
                                  else manager s,
                       handled := handled s + 1, handled_in_all := handled_in_all s + 1\<rparr>)))"

fun flih_test_case :: "'w spm \<Rightarrow> flih_location \<Rightarrow> 'w flih_service \<Rightarrow> 'w flih_service option" where
  "flih_test_case p Set_Type s = Some (s\<lparr>test_type := msg_type s, at := Reset_Count\<rparr>)"
| "flih_test_case p Reset_Count s = Some (s\<lparr>flih_timer_triggered := 0, at := Enable_Irq\<rparr>)"
| "flih_test_case p Enable_Irq s =
     Some (s\<lparr>manager := psa_irq_enable p (TFM_TIMER0_IRQ_SIGNAL p) (manager s), at := Start_Timer\<rparr>)"
| "flih_test_case p Start_Timer s =
     Some (s\<lparr>manager := secure_timer_start p (manager s),
             at := if msg_type s = TFM_FLIH_TEST_CASE_1 then Read_Count else Wait_Signal\<rparr>)"
| "flih_test_case p Read_Count s =
     Some (s\<lparr>at := if flih_timer_triggered s < 10 then Wait_Interrupt else Stop_Timer\<rparr>)"
| "flih_test_case p Wait_Interrupt s = Some (s\<lparr>at := Read_Count\<rparr>)"
| "flih_test_case p Wait_Signal s =
     (case psa_wait p (TFM_TIMER0_IRQ_SIGNAL p) (manager s) of
        None \<Rightarrow> None
      | Some (sig, w) \<Rightarrow>
          Some (s\<lparr>manager := w, at := if sig \<noteq> TFM_TIMER0_IRQ_SIGNAL p then Panicked else Stop_Timer\<rparr>))"
| "flih_test_case p Stop_Timer s =
     Some (s\<lparr>manager := secure_timer_stop p (manager s),
             at := if msg_type s = TFM_FLIH_TEST_CASE_1 then Disable_Irq else Reset_Signal\<rparr>)"
| "flih_test_case p Reset_Signal s =
     Some (s\<lparr>manager := psa_reset_signal p (TFM_TIMER0_IRQ_SIGNAL p) (manager s), at := Disable_Irq\<rparr>)"
| "flih_test_case p Disable_Irq s =
     Some (s\<lparr>manager := psa_irq_disable p (TFM_TIMER0_IRQ_SIGNAL p) (manager s), at := Idle,
             replies := (msg_type s, PSA_SUCCESS, handled s) # replies s\<rparr>)"
| "flih_test_case p _ s = None"

definition flih_test_handle_msg :: "i32 \<Rightarrow> 'w flih_service \<Rightarrow> 'w flih_service option" where
  "flih_test_handle_msg type s =
     (if at s \<noteq> Idle then None
      else if type = TFM_FLIH_TEST_CASE_1 \<or> type = TFM_FLIH_TEST_CASE_2
      then Some (s\<lparr>msg_type := type, at := Set_Type, handled := 0\<rparr>)
      else Some (s\<lparr>replies := (type, PSA_ERROR_PROGRAMMER_ERROR, 0) # replies s\<rparr>))"

datatype actor = Partition | Timer_Interrupt | Client i32

fun flih_step :: "'w spm \<Rightarrow> actor \<Rightarrow> 'w flih_service \<Rightarrow> 'w flih_service option" where
  "flih_step p Partition s = flih_test_case p (at s) s"
| "flih_step p Timer_Interrupt s = tfm_timer0_irq_flih p s"
| "flih_step p (Client type) s = flih_test_handle_msg type s"

definition flih_boot :: "('w \<Rightarrow> spm_view) \<Rightarrow> 'w flih_service \<Rightarrow> bool" where
  "flih_boot view s \<longleftrightarrow>
     test_type s = TFM_FLIH_TEST_CASE_INVALID \<and> flih_timer_triggered s = 0 \<and> at s = Idle \<and>
     handled s = 0 \<and> handled_in_all s = 0 \<and> replies s = [] \<and>
     view (manager s) = \<lparr>irq_on = False, ticking = False, signalled = False\<rparr>"

section \<open>Invariant of the first-level tests\<close>

definition flih_type :: "i32 \<Rightarrow> bool" where
  "flih_type t \<longleftrightarrow> t = TFM_FLIH_TEST_CASE_1 \<or> t = TFM_FLIH_TEST_CASE_2"

definition counting :: "'w flih_service \<Rightarrow> bool" where
  "counting s \<longleftrightarrow>
     flih_type (msg_type s) \<and> test_type s = msg_type s \<and> flih_timer_triggered s = of_nat (handled s)"

definition signal_kept :: "spm_view \<Rightarrow> 'w flih_service \<Rightarrow> bool" where
  "signal_kept v s \<longleftrightarrow> (msg_type s = TFM_FLIH_TEST_CASE_2 \<longrightarrow> 10 \<le> handled s \<longrightarrow> signalled v)"

fun flih_at :: "flih_location \<Rightarrow> spm_view \<Rightarrow> 'w flih_service \<Rightarrow> bool" where
  "flih_at Idle v s \<longleftrightarrow> \<not> irq_on v \<and> \<not> ticking v"
| "flih_at Set_Type v s \<longleftrightarrow> \<not> irq_on v \<and> \<not> ticking v \<and> handled s = 0 \<and> flih_type (msg_type s)"
| "flih_at Reset_Count v s \<longleftrightarrow>
     \<not> irq_on v \<and> \<not> ticking v \<and> handled s = 0 \<and> flih_type (msg_type s) \<and> test_type s = msg_type s"
| "flih_at Enable_Irq v s \<longleftrightarrow> \<not> irq_on v \<and> \<not> ticking v \<and> handled s = 0 \<and> counting s"
| "flih_at Start_Timer v s \<longleftrightarrow> irq_on v \<and> \<not> ticking v \<and> counting s \<and> signal_kept v s"
| "flih_at Read_Count v s \<longleftrightarrow> irq_on v \<and> ticking v \<and> counting s \<and> msg_type s = TFM_FLIH_TEST_CASE_1"
| "flih_at Wait_Interrupt v s \<longleftrightarrow>
     irq_on v \<and> ticking v \<and> counting s \<and> msg_type s = TFM_FLIH_TEST_CASE_1"
| "flih_at Wait_Signal v s \<longleftrightarrow>
     irq_on v \<and> ticking v \<and> counting s \<and> msg_type s = TFM_FLIH_TEST_CASE_2 \<and> signal_kept v s"
| "flih_at Stop_Timer v s \<longleftrightarrow> irq_on v \<and> ticking v \<and> counting s"
| "flih_at Reset_Signal v s \<longleftrightarrow> irq_on v \<and> \<not> ticking v \<and> counting s \<and> msg_type s = TFM_FLIH_TEST_CASE_2"
| "flih_at Disable_Irq v s \<longleftrightarrow> irq_on v \<and> \<not> ticking v \<and> counting s"
| "flih_at Panicked v s \<longleftrightarrow> False"

fun counted_at :: "flih_location \<Rightarrow> spm_view \<Rightarrow> 'w flih_service \<Rightarrow> bool" where
  "counted_at Start_Timer v s \<longleftrightarrow>
     (signalled v \<longrightarrow> msg_type s = TFM_FLIH_TEST_CASE_2 \<and> 10 \<le> handled s)"
| "counted_at Wait_Signal v s \<longleftrightarrow> (signalled v \<longrightarrow> 10 \<le> handled s)"
| "counted_at Stop_Timer v s \<longleftrightarrow>
     10 \<le> handled s \<and> (signalled v \<longrightarrow> msg_type s = TFM_FLIH_TEST_CASE_2)"
| "counted_at Reset_Signal v s \<longleftrightarrow> 10 \<le> handled s"
| "counted_at Disable_Irq v s \<longleftrightarrow> 10 \<le> handled s \<and> \<not> signalled v"
| "counted_at _ v s \<longleftrightarrow> \<not> signalled v"

definition reply_ok :: "i32 \<times> psa_status \<times> nat \<Rightarrow> bool" where
  "reply_ok = (\<lambda>(t, status, n).
     if flih_type t then status = PSA_SUCCESS \<and> 10 \<le> n else status = PSA_ERROR_PROGRAMMER_ERROR)"

definition flih_inv :: "'w spm \<Rightarrow> ('w \<Rightarrow> spm_view) \<Rightarrow> 'w flih_service \<Rightarrow> bool" where
  "flih_inv p view s \<longleftrightarrow>
     spm_laws p view \<and> flih_at (at s) (view (manager s)) s \<and> handled s \<le> handled_in_all s \<and>
     (handled_in_all s < 2 ^ 32 \<longrightarrow>
        counted_at (at s) (view (manager s)) s \<and> (\<forall>r \<in> set (replies s). reply_ok r))"

lemmas flih_cases = TFM_FLIH_TEST_CASE_INVALID_def TFM_FLIH_TEST_CASE_1_def TFM_FLIH_TEST_CASE_2_def

lemma flih_cases_distinct [simp]:
  "TFM_FLIH_TEST_CASE_2 \<noteq> TFM_FLIH_TEST_CASE_1" "TFM_FLIH_TEST_CASE_1 \<noteq> TFM_FLIH_TEST_CASE_2"
  by (simp_all add: flih_cases)

lemma reply_ok_simps [simp]:
  "reply_ok (t, PSA_SUCCESS, n) \<longleftrightarrow> flih_type t \<and> 10 \<le> n"
  "reply_ok (t, PSA_ERROR_PROGRAMMER_ERROR, n) \<longleftrightarrow> \<not> flih_type t"
  by (simp_all add: reply_ok_def)

lemma ten_counted:
  assumes "\<not> (of_nat n :: u32) < 10" shows "10 \<le> n"
proof (rule ccontr)
  assume "\<not> 10 \<le> n"
  then have "n < 10" by simp
  then have "unat (of_nat n :: u32) = n" by (simp add: unat_of_nat take_bit_eq_mod)
  then show False using assms \<open>n < 10\<close> by (simp add: word_less_nat_alt)
qed

lemma flih_inv_thread:
  assumes inv: "flih_inv p view s" and step: "flih_test_case p (at s) s = Some s'"
  shows "flih_inv p view s'"
proof -
  have laws: "spm_laws p view" using inv by (simp add: flih_inv_def)
  note defs = flih_inv_def counting_def signal_kept_def spm_lawsD(1-8) [OF laws]
  show ?thesis
  proof (cases "at s")
    case Wait_Signal
    then obtain sig w where wait: "psa_wait p (TFM_TIMER0_IRQ_SIGNAL p) (manager s) = Some (sig, w)"
      and s': "s' = s\<lparr>manager := w, at := if sig \<noteq> TFM_TIMER0_IRQ_SIGNAL p then Panicked else Stop_Timer\<rparr>"
      using step by (auto split: option.splits)
    have "signalled (view (manager s))"
      using spm_lawsD(9) [OF laws, of "manager s"] wait by simp
    then show ?thesis
      using inv Wait_Signal spm_lawsD(10) [OF laws wait] by (simp add: flih_inv_def counting_def flih_type_def s')
  next
    case Read_Count
    then show ?thesis
      using inv step ten_counted [of "handled s"] by (auto simp: flih_inv_def counting_def flih_cases)
  next
    case Start_Timer
    then show ?thesis
      using inv step by (auto simp: defs flih_type_def)
  next
    case Stop_Timer
    then show ?thesis using inv step by (auto simp: defs flih_type_def)
  next
    case Disable_Irq
    then show ?thesis using inv step by (auto simp: defs)
  qed (use inv step in \<open>auto simp: defs\<close>)
qed


lemma irq_on_counting:
  assumes "flih_at l v s" "irq_on v"
  shows "counting s" "l \<noteq> Panicked" "l \<notin> {Idle, Set_Type, Reset_Count, Enable_Irq}"
  using assms by (cases l; simp)+

lemma irq_step:
  assumes inv: "flih_inv p view s" and step: "tfm_timer0_irq_flih p s = Some s'"
  obtains w where "irq_on (view (manager s))"
    "s' = s\<lparr>manager := w, flih_timer_triggered := flih_timer_triggered s + 1,
           handled := handled s + 1, handled_in_all := handled_in_all s + 1\<rparr>"
    "view w = (if msg_type s = TFM_FLIH_TEST_CASE_2 \<and> flih_timer_triggered s + 1 = 10
               then (view (manager s))\<lparr>signalled := True\<rparr> else view (manager s))"
proof -
  have laws: "spm_laws p view" and loc: "flih_at (at s) (view (manager s)) s"
    using inv by (simp_all add: flih_inv_def)
  obtain w0 where w0: "take_irq p (manager s) = Some w0"
    using step by (auto simp: tfm_timer0_irq_flih_def split: if_splits option.splits)
  note irq = spm_lawsD(11) [OF laws w0]
  note count = irq_on_counting [OF loc conjunct1 [OF irq]]
  let ?sig = "msg_type s = TFM_FLIH_TEST_CASE_2 \<and> flih_timer_triggered s + 1 = 10"
  let ?w = "if ?sig then assert_signal p (TFM_TIMER0_IRQ_SIGNAL p) (secure_timer_clear_intr p w0)
            else secure_timer_clear_intr p w0"
  have "tfm_flih_test_timer_handler p (s\<lparr>manager := w0\<rparr>) =
      (Some (if ?sig then PSA_FLIH_SIGNAL else PSA_FLIH_NO_SIGNAL),
       s\<lparr>manager := secure_timer_clear_intr p w0, flih_timer_triggered := flih_timer_triggered s + 1\<rparr>)"
    using count(1)
    by (auto simp: counting_def flih_type_def tfm_flih_test_timer_handler_def flih_cases Let_def)
  then have "s' = s\<lparr>manager := ?w, flih_timer_triggered := flih_timer_triggered s + 1,
           handled := handled s + 1, handled_in_all := handled_in_all s + 1\<rparr>"
    using step count(2) by (auto simp: tfm_timer0_irq_flih_def w0)
  moreover have "view ?w = (if ?sig then (view (manager s))\<lparr>signalled := True\<rparr> else view (manager s))"
    using irq by (simp add: spm_lawsD(5,8) [OF laws])
  ultimately show ?thesis using that irq by blast
qed

lemma tenth_interrupt:
  assumes "n < 2 ^ 32"
  shows "(of_nat n :: u32) + 1 = 10 \<longleftrightarrow> n = 9"
proof -
  have "(of_nat n :: u32) + 1 = 10 \<longleftrightarrow> (of_nat (n + 1) :: u32) = of_nat 10" by (simp add: add.commute)
  also have "\<dots> \<longleftrightarrow> (n + 1) mod 2 ^ 32 = 10" by (simp only: word_of_nat_eq_iff) (simp add: take_bit_eq_mod)
  also have "\<dots> \<longleftrightarrow> n = 9" using assms by (cases "n + 1 = 2 ^ 32") auto
  finally show ?thesis .
qed

lemma flih_inv_irq:
  assumes inv: "flih_inv p view s" and step: "tfm_timer0_irq_flih p s = Some s'"
  shows "flih_inv p view s'"
proof -
  obtain w where on: "irq_on (view (manager s))"
    and s': "s' = s\<lparr>manager := w, flih_timer_triggered := flih_timer_triggered s + 1,
           handled := handled s + 1, handled_in_all := handled_in_all s + 1\<rparr>"
    and w: "view w = (if msg_type s = TFM_FLIH_TEST_CASE_2 \<and> flih_timer_triggered s + 1 = 10
               then (view (manager s))\<lparr>signalled := True\<rparr> else view (manager s))"
    by (rule irq_step [OF assms])
  have loc: "flih_at (at s) (view (manager s)) s" using inv by (simp add: flih_inv_def)
  note count = irq_on_counting [OF loc on]
  have trig: "flih_timer_triggered s = of_nat (handled s)" using count(1) by (simp add: counting_def)
  have counting: "counting s'" using count(1) by (simp add: counting_def s' add.commute)
  have kept: "signal_kept (view w) s'" if "signal_kept (view (manager s)) s"
    using that trig w by (cases "handled s = 9") (auto simp: signal_kept_def s')
  have at: "flih_at (at s) (view w) s'"
    using loc counting kept w on by (cases "at s") (simp_all add: s')
  have "counted_at (at s) (view w) s'"
    if small: "handled s < 2 ^ 32" and old: "counted_at (at s) (view (manager s)) s"
    using old loc w on tenth_interrupt [OF small]
    by (cases "at s") (auto simp: s' trig)
  moreover have "handled s < 2 ^ 32" if "handled_in_all s + 1 < 2 ^ 32"
    using that inv by (simp add: flih_inv_def)
  ultimately show ?thesis
    using inv at by (simp add: flih_inv_def s')
qed

lemma flih_inv_msg:
  assumes "flih_inv p view s" "flih_test_handle_msg type s = Some s'"
  shows "flih_inv p view s'"
proof (cases "flih_type type")
  case True
  then have "s' = s\<lparr>msg_type := type, at := Set_Type, handled := 0\<rparr>" "at s = Idle"
    using assms(2) by (auto simp: flih_test_handle_msg_def flih_type_def split: if_splits)
  then show ?thesis using assms(1) True by (simp add: flih_inv_def)
next
  case False
  then have "s' = s\<lparr>replies := (type, PSA_ERROR_PROGRAMMER_ERROR, 0) # replies s\<rparr>" "at s = Idle"
    using assms(2) by (auto simp: flih_test_handle_msg_def flih_type_def split: if_splits)
  then show ?thesis using assms(1) False by (simp add: flih_inv_def)
qed

interpretation flih: stable "\<lambda>s. spm_laws p view \<and> flih_boot view s" "flih_step p" "flih_inv p view"
  for p view
proof
  fix s :: "'a flih_service" and s' t
  show "spm_laws p view \<and> flih_boot view s \<Longrightarrow> flih_inv p view s"
    by (auto simp: flih_boot_def flih_inv_def)
  show "flih_inv p view s \<Longrightarrow> flih_step p t s = Some s' \<Longrightarrow> flih_inv p view s'"
    using flih_inv_thread flih_inv_irq flih_inv_msg by (cases t) auto
qed


lemma handled_in_all_bound:
  "run_schedule (flih_step p) ts s = Some s' \<Longrightarrow> handled_in_all s' \<le> handled_in_all s + length ts"
proof (induction ts arbitrary: s)
  case (Cons t ts)
  then obtain s1 where s1: "flih_step p t s = Some s1" "run_schedule (flih_step p) ts s1 = Some s'"
    by (auto split: option.splits)
  have "handled_in_all s1 \<le> handled_in_all s + 1"
  proof (cases t)
    case Partition
    then show ?thesis using s1(1) by (cases "at s") (auto split: option.splits)
  next
    case Timer_Interrupt
    then show ?thesis
      using s1(1)
      by (auto simp: tfm_timer0_irq_flih_def tfm_flih_test_timer_handler_def Let_def
            split: if_splits option.splits)
  next
    case (Client type)
    then show ?thesis using s1(1) by (auto simp: flih_test_handle_msg_def split: if_splits)
  qed
  then show ?case using Cons.IH [OF s1(2)] by simp
qed simp

section \<open>Progress of the first-level tests\<close>

fun flih_weight :: "flih_location \<Rightarrow> 'w flih_service \<Rightarrow> nat" where
  "flih_weight Idle s = 0"
| "flih_weight Set_Type s = 33"
| "flih_weight Reset_Count s = 32"
| "flih_weight Enable_Irq s = 31"
| "flih_weight Start_Timer s = 30"
| "flih_weight Read_Count s = 4 + 2 * (unat (10 :: u32) - unat (flih_timer_triggered s))"
| "flih_weight Wait_Interrupt s = 5 + 2 * (unat (10 :: u32) - unat (flih_timer_triggered s))"
| "flih_weight Wait_Signal s = 4 + (10 - handled s)"
| "flih_weight Stop_Timer s = 3"
| "flih_weight Reset_Signal s = 2"
| "flih_weight Disable_Irq s = 1"
| "flih_weight Panicked s = 0"

lemma irq_enabled:
  assumes inv: "flih_inv p view s" and "irq_on (view (manager s))" "ticking (view (manager s))"
  obtains s' where "tfm_timer0_irq_flih p s = Some s'"
proof -
  have laws: "spm_laws p view" and loc: "flih_at (at s) (view (manager s)) s"
    using inv by (simp_all add: flih_inv_def)
  have "at s \<noteq> Panicked" by (rule irq_on_counting(2) [OF loc assms(2)])
  obtain w where "take_irq p (manager s) = Some w"
    using spm_lawsD(12) [OF laws assms(2,3)] by blast
  then have "tfm_timer0_irq_flih p s \<noteq> None"
    using \<open>at s \<noteq> Panicked\<close> by (auto simp: tfm_timer0_irq_flih_def split: prod.splits option.splits)
  then show ?thesis using that by blast
qed

text \<open>The two actors that serve a message; the client is the third.\<close>

definition own_actor :: "bool \<Rightarrow> actor" where
  "own_actor b = (if b then Partition else Timer_Interrupt)"

lemma own_actor_simps [simp]: "own_actor True = Partition" "own_actor False = Timer_Interrupt"
  by (simp_all add: own_actor_def)

lemma irq_progress:
  assumes inv: "flih_inv p view s" and "irq_on (view (manager s))" "ticking (view (manager s))"
    and lower: "flih_weight (at s) (s\<lparr>flih_timer_triggered := flih_timer_triggered s + 1,
      handled := handled s + 1\<rparr>) < flih_weight (at s) s"
  shows "\<exists>t s'. flih_step p (own_actor t) s = Some s' \<and> flih_weight (at s') s' < flih_weight (at s) s"
proof -
  obtain s' where step: "tfm_timer0_irq_flih p s = Some s'" by (rule irq_enabled [OF assms(1-3)])
  then obtain w where "s' = s\<lparr>manager := w, flih_timer_triggered := flih_timer_triggered s + 1,
           handled := handled s + 1, handled_in_all := handled_in_all s + 1\<rparr>"
    by (rule irq_step [OF inv])
  then have "flih_weight (at s') s' < flih_weight (at s) s"
    using lower by (cases "at s") simp_all
  with step show ?thesis by (intro exI [of _ False]) simp
qed

lemma flih_progress:
  assumes inv: "flih_inv p view s" and busy: "at s \<noteq> Idle"
  shows "\<exists>t s'. flih_step p (own_actor t) s = Some s' \<and> flih_weight (at s') s' < flih_weight (at s) s"
proof -
  have laws: "spm_laws p view" and loc: "flih_at (at s) (view (manager s)) s"
    using inv by (simp_all add: flih_inv_def)
  show ?thesis
  proof (cases "at s")
    case Read_Count
    show ?thesis
    proof (cases "flih_timer_triggered s < 10")
      case True
      then show ?thesis
        using irq_progress [OF inv] loc Read_Count next_round [of "flih_timer_triggered s" 10] by simp
    qed (use Read_Count in \<open>intro exI [of _ True], simp\<close>)
  next
    case Wait_Signal
    show ?thesis
    proof (cases "signalled (view (manager s))")
      case True
      then obtain sig w where wait: "psa_wait p (TFM_TIMER0_IRQ_SIGNAL p) (manager s) = Some (sig, w)"
        using spm_lawsD(9) [OF laws] by fastforce
      then show ?thesis
        using Wait_Signal spm_lawsD(10) [OF laws wait] by (intro exI [of _ True]) simp
    next
      case False
      then have "handled s < 10" using loc Wait_Signal by (auto simp: signal_kept_def)
      then show ?thesis using irq_progress [OF inv] loc Wait_Signal by simp
    qed
  next
    case Panicked
    then show ?thesis using loc by simp
  next
    case Start_Timer
    then show ?thesis by (intro exI [of _ True]) (simp add: less_imp_diff_less)
  qed (use busy in \<open>auto intro!: exI [of _ True]\<close>)
qed

interpretation flih_ends: progressing "flih_inv p view" "\<lambda>t. flih_step p (own_actor t)"
  "flih_inv p view" "\<lambda>s. at s = Idle" "\<lambda>s. flih_weight (at s) s"
  for p view
  by unfold_locales (auto intro: flih.step_inv flih_progress)

section \<open>Second-level handling\<close>

datatype slih_location =
  SLIH_Idle | SLIH_Enable | SLIH_Start | SLIH_Wait | SLIH_Stop | SLIH_Disable | SLIH_Eoi | SLIH_Panicked

record 'w slih_service =
  slih_at :: slih_location
  slih_manager :: 'w
  slih_taken :: nat
  slih_replies :: "(i32 \<times> psa_status \<times> nat) list"

fun slih_test_case_1 :: "'w spm \<Rightarrow> slih_location \<Rightarrow> 'w slih_service \<Rightarrow> 'w slih_service option" where
  "slih_test_case_1 p SLIH_Enable s =
     Some (s\<lparr>slih_manager := psa_irq_enable p (TFM_TIMER0_IRQ_SIGNAL p) (slih_manager s),
             slih_at := SLIH_Start\<rparr>)"
| "slih_test_case_1 p SLIH_Start s =
     Some (s\<lparr>slih_manager := secure_timer_start p (slih_manager s), slih_at := SLIH_Wait\<rparr>)"
| "slih_test_case_1 p SLIH_Wait s =
     (case psa_wait p (TFM_TIMER0_IRQ_SIGNAL p) (slih_manager s) of
        None \<Rightarrow> None
      | Some (sig, w) \<Rightarrow>
          Some (s\<lparr>slih_manager := w,
                  slih_at := if sig \<noteq> TFM_TIMER0_IRQ_SIGNAL p then SLIH_Panicked else SLIH_Stop\<rparr>))"
| "slih_test_case_1 p SLIH_Stop s =
     Some (s\<lparr>slih_manager := secure_timer_stop p (slih_manager s), slih_at := SLIH_Disable\<rparr>)"
| "slih_test_case_1 p SLIH_Disable s =
     Some (s\<lparr>slih_manager := psa_irq_disable p (TFM_TIMER0_IRQ_SIGNAL p) (slih_manager s),
             slih_at := SLIH_Eoi\<rparr>)"
| "slih_test_case_1 p SLIH_Eoi s =
     Some (s\<lparr>slih_manager := psa_eoi p (TFM_TIMER0_IRQ_SIGNAL p) (slih_manager s), slih_at := SLIH_Idle,
             slih_replies := (TFM_SLIH_TEST_CASE_1, PSA_SUCCESS, slih_taken s) # slih_replies s\<rparr>)"
| "slih_test_case_1 p _ s = None"

definition slih_test_handle_msg :: "i32 \<Rightarrow> 'w slih_service \<Rightarrow> 'w slih_service option" where
  "slih_test_handle_msg type s =
     (if slih_at s \<noteq> SLIH_Idle then None
      else if type = TFM_SLIH_TEST_CASE_1 then Some (s\<lparr>slih_at := SLIH_Enable, slih_taken := 0\<rparr>)
      else Some (s\<lparr>slih_replies := (type, PSA_ERROR_PROGRAMMER_ERROR, 0) # slih_replies s\<rparr>))"

definition slih_irq :: "'w spm \<Rightarrow> 'w slih_service \<Rightarrow> 'w slih_service option" where
  "slih_irq p s =
     map_option (\<lambda>w. s\<lparr>slih_manager := assert_signal p (TFM_TIMER0_IRQ_SIGNAL p) w,
                       slih_taken := slih_taken s + 1\<rparr>)
       (take_irq p (slih_manager s))"

fun slih_step :: "'w spm \<Rightarrow> actor \<Rightarrow> 'w slih_service \<Rightarrow> 'w slih_service option" where
  "slih_step p Partition s = slih_test_case_1 p (slih_at s) s"
| "slih_step p Timer_Interrupt s = slih_irq p s"
| "slih_step p (Client type) s = slih_test_handle_msg type s"

definition slih_boot :: "('w \<Rightarrow> spm_view) \<Rightarrow> 'w slih_service \<Rightarrow> bool" where
  "slih_boot view s \<longleftrightarrow>
     slih_at s = SLIH_Idle \<and> slih_replies s = [] \<and>
     view (slih_manager s) = \<lparr>irq_on = False, ticking = False, signalled = False\<rparr>"

fun slih_at_ok :: "slih_location \<Rightarrow> spm_view \<Rightarrow> nat \<Rightarrow> bool" where
  "slih_at_ok SLIH_Idle v n \<longleftrightarrow> \<not> irq_on v \<and> \<not> ticking v \<and> \<not> signalled v"
| "slih_at_ok SLIH_Enable v n \<longleftrightarrow> \<not> irq_on v \<and> \<not> ticking v \<and> \<not> signalled v"
| "slih_at_ok SLIH_Start v n \<longleftrightarrow> irq_on v \<and> \<not> ticking v \<and> (signalled v \<longrightarrow> 1 \<le> n)"
| "slih_at_ok SLIH_Wait v n \<longleftrightarrow> irq_on v \<and> ticking v \<and> (signalled v \<longrightarrow> 1 \<le> n)"
| "slih_at_ok SLIH_Stop v n \<longleftrightarrow> irq_on v \<and> ticking v \<and> 1 \<le> n"
| "slih_at_ok SLIH_Disable v n \<longleftrightarrow> irq_on v \<and> \<not> ticking v \<and> 1 \<le> n"
| "slih_at_ok SLIH_Eoi v n \<longleftrightarrow> \<not> irq_on v \<and> \<not> ticking v \<and> 1 \<le> n"
| "slih_at_ok SLIH_Panicked v n \<longleftrightarrow> False"

definition slih_reply_ok :: "i32 \<times> psa_status \<times> nat \<Rightarrow> bool" where
  "slih_reply_ok = (\<lambda>(t, status, n).
     if t = TFM_SLIH_TEST_CASE_1 then status = PSA_SUCCESS \<and> 1 \<le> n
     else status = PSA_ERROR_PROGRAMMER_ERROR)"

definition slih_inv :: "'w spm \<Rightarrow> ('w \<Rightarrow> spm_view) \<Rightarrow> 'w slih_service \<Rightarrow> bool" where
  "slih_inv p view s \<longleftrightarrow>
     spm_laws p view \<and> slih_at_ok (slih_at s) (view (slih_manager s)) (slih_taken s) \<and>
     (\<forall>r \<in> set (slih_replies s). slih_reply_ok r)"

lemma slih_reply_ok_simps [simp]:
  "slih_reply_ok (t, PSA_SUCCESS, n) \<longleftrightarrow> t = TFM_SLIH_TEST_CASE_1 \<and> 1 \<le> n"
  "slih_reply_ok (t, PSA_ERROR_PROGRAMMER_ERROR, n) \<longleftrightarrow> t \<noteq> TFM_SLIH_TEST_CASE_1"
  by (simp_all add: slih_reply_ok_def)

lemma slih_inv_thread:
  assumes inv: "slih_inv p view s" and step: "slih_test_case_1 p (slih_at s) s = Some s'"
  shows "slih_inv p view s'"
proof -
  have laws: "spm_laws p view" using inv by (simp add: slih_inv_def)
  show ?thesis
  proof (cases "slih_at s")
    case SLIH_Wait
    then obtain sig w where wait: "psa_wait p (TFM_TIMER0_IRQ_SIGNAL p) (slih_manager s) = Some (sig, w)"
      and s': "s' = s\<lparr>slih_manager := w,
        slih_at := if sig \<noteq> TFM_TIMER0_IRQ_SIGNAL p then SLIH_Panicked else SLIH_Stop\<rparr>"
      using step by (auto split: option.splits)
    have "signalled (view (slih_manager s))"
      using spm_lawsD(9) [OF laws, of "slih_manager s"] wait by simp
    then show ?thesis
      using inv SLIH_Wait spm_lawsD(10) [OF laws wait] by (simp add: slih_inv_def s')
  qed (use inv step in \<open>auto simp: slih_inv_def spm_lawsD(1-8) [OF laws]\<close>)
qed

lemma slih_inv_irq:
  assumes inv: "slih_inv p view s" and step: "slih_irq p s = Some s'"
  shows "slih_inv p view s'"
proof -
  have laws: "spm_laws p view" using inv by (simp add: slih_inv_def)
  obtain w where w: "take_irq p (slih_manager s) = Some w"
    and s': "s' = s\<lparr>slih_manager := assert_signal p (TFM_TIMER0_IRQ_SIGNAL p) w, slih_taken := slih_taken s + 1\<rparr>"
    using step by (auto simp: slih_irq_def)
  show ?thesis
    using inv spm_lawsD(11) [OF laws w]
    by (cases "slih_at s") (auto simp: slih_inv_def s' spm_lawsD(5) [OF laws])
qed

lemma slih_inv_msg:
  assumes "slih_inv p view s" "slih_test_handle_msg type s = Some s'"
  shows "slih_inv p view s'"
  using assms by (auto simp: slih_inv_def slih_test_handle_msg_def split: if_splits)

interpretation slih: stable "\<lambda>s. spm_laws p view \<and> slih_boot view s" "slih_step p" "slih_inv p view"
  for p view
proof
  fix s :: "'a slih_service" and s' t
  show "spm_laws p view \<and> slih_boot view s \<Longrightarrow> slih_inv p view s"
    by (auto simp: slih_boot_def slih_inv_def)
  show "slih_inv p view s \<Longrightarrow> slih_step p t s = Some s' \<Longrightarrow> slih_inv p view s'"
    using slih_inv_thread slih_inv_irq slih_inv_msg by (cases t) auto
qed


section \<open>The tests of the client\<close>

definition irq_test ::
  "string \<Rightarrow> u32 \<Rightarrow> (i32 \<Rightarrow> 'w \<Rightarrow> psa_status \<times> 'w) \<Rightarrow> i32 \<Rightarrow> string \<Rightarrow> 'w test_fun" where
  "irq_test file ln psa_call type msg ret = do {
     status \<leftarrow> lift_call world (\<lambda>w e. e\<lparr>world := w\<rparr>) (psa_call type);
     if status \<noteq> PSA_SUCCESS then return (TEST_FAIL file ln (msg @ CRLF) ret)
     else return (ret\<lparr>val := TEST_PASSED\<rparr>)
   }"

definition irq_test_slih_case_1 :: "(i32 \<Rightarrow> 'w \<Rightarrow> psa_status \<times> 'w) \<Rightarrow> 'w test_fun" where
  "irq_test_slih_case_1 psa_call =
     irq_test ''irq_test.c'' 23 psa_call TFM_SLIH_TEST_CASE_1 ''TFM_NS_IRQ_TEST_SLIH_HANDLING FAILED''"

definition irq_test_flih_case_1 :: "(i32 \<Rightarrow> 'w \<Rightarrow> psa_status \<times> 'w) \<Rightarrow> 'w test_fun" where
  "irq_test_flih_case_1 psa_call =
     irq_test ''irq_test.c'' 39 psa_call TFM_FLIH_TEST_CASE_1
       ''TFM_NS_IRQ_TEST_FLIH not returning signal, FAILED''"

definition irq_test_flih_case_2 :: "(i32 \<Rightarrow> 'w \<Rightarrow> psa_status \<times> 'w) \<Rightarrow> 'w test_fun" where
  "irq_test_flih_case_2 psa_call =
     irq_test ''irq_test.c'' 52 psa_call TFM_FLIH_TEST_CASE_2
       ''TFM_NS_IRQ_TEST_FLIH returning signal FAILED''"

definition irq_test_cases ::
  "bool \<Rightarrow> bool \<Rightarrow> (i32 \<Rightarrow> 'w \<Rightarrow> psa_status \<times> 'w) \<Rightarrow> (i32 \<Rightarrow> 'w \<Rightarrow> psa_status \<times> 'w) \<Rightarrow> 'w test_t list" where
  "irq_test_cases TEST_NS_SLIH_IRQ TEST_NS_FLIH_IRQ slih_call flih_call =
     (if TEST_NS_SLIH_IRQ then
        [\<lparr>tc_test = Some (irq_test_slih_case_1 slih_call), tc_name = Some ''TFM_NS_IRQ_TEST_SLIH_1001'',
          tc_desc = Some ''SLIH HANDLING Case 1''\<rparr>]
      else []) @
     (if TEST_NS_FLIH_IRQ then
        [\<lparr>tc_test = Some (irq_test_flih_case_1 flih_call), tc_name = Some ''TFM_NS_IRQ_TEST_FLIH_1101'',
          tc_desc = Some ''FLIH HANDLING not returning signal''\<rparr>,
         \<lparr>tc_test = Some (irq_test_flih_case_2 flih_call), tc_name = Some ''TFM_NS_IRQ_TEST_FLIH_1102'',
          tc_desc = Some ''FLIH HANDLING returning Signal''\<rparr>]
      else [])"

definition register_testsuite_irq_test ::
  "bool \<Rightarrow> bool \<Rightarrow> (i32 \<Rightarrow> 'w \<Rightarrow> psa_status \<times> 'w) \<Rightarrow> (i32 \<Rightarrow> 'w \<Rightarrow> psa_status \<times> 'w)
   \<Rightarrow> 'w suite_fields \<Rightarrow> ('w env, 'w suite_fields) state" where
  "register_testsuite_irq_test slih flih slih_call flih_call =
     register_with ''TFM IRQ Test (TFM_IRQ_TEST_1xxx)'' (irq_test_cases slih flih slih_call flih_call)"

text \<open>A test of the client passes exactly when the partition answers with success.\<close>

lemma irq_test_verdict:
  assumes "val ret = TEST_PASSED"
  shows "val (fst (run_state (irq_test file ln psa_call type msg ret) e)) =
    (if fst (psa_call type (world e)) = PSA_SUCCESS then TEST_PASSED else TEST_FAILED)"
  using assms by (simp add: irq_test_def TEST_FAIL_def)

section \<open>A concrete manager\<close>

text \<open>A manager whose state is the three bits, with a timer that fires whenever it may.\<close>

definition sample_spm :: "spm_view spm" where
  "sample_spm =
     \<lparr>TFM_TIMER0_IRQ_SIGNAL = 8,
      psa_irq_enable = (\<lambda>f w. w\<lparr>irq_on := True\<rparr>), psa_irq_disable = (\<lambda>f w. w\<lparr>irq_on := False\<rparr>),
      psa_wait = (\<lambda>f w. if signalled w then Some (f, w) else None),
      psa_reset_signal = (\<lambda>f w. w\<lparr>signalled := False\<rparr>), psa_eoi = (\<lambda>f w. w\<lparr>signalled := False\<rparr>),
      secure_timer_start = (\<lambda>w. w\<lparr>ticking := True\<rparr>), secure_timer_stop = (\<lambda>w. w\<lparr>ticking := False\<rparr>),
      secure_timer_clear_intr = (\<lambda>w. w),
      take_irq = (\<lambda>w. if irq_on w \<and> ticking w then Some w else None),
      assert_signal = (\<lambda>f w. w\<lparr>signalled := True\<rparr>)\<rparr>"

definition sample_flih :: "spm_view flih_service" where
  "sample_flih =
     \<lparr>test_type = TFM_FLIH_TEST_CASE_INVALID, flih_timer_triggered = 0, msg_type = 0, at = Idle,
      manager = \<lparr>irq_on = False, ticking = False, signalled = False\<rparr>, handled = 0,
      handled_in_all = 0, replies = []\<rparr>"

definition sample_irqs :: "actor list" where
  "sample_irqs =
     Client 7 # Client TFM_FLIH_TEST_CASE_2 # replicate 4 Partition @ replicate 11 Timer_Interrupt @
     replicate 4 Partition"

lemma sample_spm_laws: "spm_laws sample_spm (\<lambda>w. w)"
  by (auto simp: spm_laws_def sample_spm_def split: if_splits)

lemma sample_flih_boot: "flih_boot (\<lambda>w. w) sample_flih"
  by (simp add: flih_boot_def sample_flih_def)

section \<open>Properties\<close>

text \<open>C18. The first-level interrupt tests test what they say. In every interleaving of messages, steps of
  the partition and timer interrupts (fewer than \<open>2 ^ 32\<close> steps): the partition never panics, not in the
  handler either; every message that asks for one of the two tests is answered with success, and only
  after at least ten interrupts were handled for it; every other message is refused; and whenever the
  partition is idle again the interrupt is disabled, the timer is stopped and no signal is left
  over, although interrupts may still arrive until the last call.\<close>

theorem flih_tests_see_ten_interrupts:
  assumes "spm_laws p view" and "flih_boot view s0"
    and "run_schedule (flih_step p) ts s0 = Some s" and "length ts < 2 ^ 32"
  shows "at s \<noteq> Panicked \<and>
    (\<forall>(type, status, n) \<in> set (replies s).
       if type = TFM_FLIH_TEST_CASE_1 \<or> type = TFM_FLIH_TEST_CASE_2
       then status = PSA_SUCCESS \<and> 10 \<le> n else status = PSA_ERROR_PROGRAMMER_ERROR) \<and>
    (at s = Idle \<longrightarrow> view (manager s) = \<lparr>irq_on = False, ticking = False, signalled = False\<rparr>)"
proof -
  have inv: "flih_inv p view s" by (rule flih.run_inv [OF conjI [OF assms(1,2)] assms(3)])
  have "handled_in_all s < 2 ^ 32"
    using handled_in_all_bound [OF assms(3)] assms(2,4) by (simp add: flih_boot_def)
  then have counted: "counted_at (at s) (view (manager s)) s" "\<forall>r \<in> set (replies s). reply_ok r"
    using inv by (simp_all add: flih_inv_def)
  have loc: "flih_at (at s) (view (manager s)) s" using inv by (simp add: flih_inv_def)
  then have "at s \<noteq> Panicked" by (cases "at s") simp_all
  moreover have "at s = Idle \<longrightarrow> view (manager s) = \<lparr>irq_on = False, ticking = False, signalled = False\<rparr>"
    using loc counted(1) by (cases "view (manager s)") auto
  ultimately show ?thesis using counted(2) by (simp add: reply_ok_def flih_type_def)
qed

theorem flih_tests_see_ten_interrupts_witness:
  "\<exists>s. run_schedule (flih_step sample_spm) sample_irqs sample_flih = Some s \<and> at s = Idle \<and>
     replies s = [(TFM_FLIH_TEST_CASE_2, PSA_SUCCESS, 11), (7, PSA_ERROR_PROGRAMMER_ERROR, 0)] \<and>
     \<not> signalled (manager s)"
proof -
  have "case run_schedule (flih_step sample_spm) sample_irqs sample_flih of
      None \<Rightarrow> False
    | Some s \<Rightarrow> at s = Idle \<and>
        replies s = [(TFM_FLIH_TEST_CASE_2, PSA_SUCCESS, 11), (7, PSA_ERROR_PROGRAMMER_ERROR, 0)]"
    by code_simp
  then obtain s where s: "run_schedule (flih_step sample_spm) sample_irqs sample_flih = Some s" "at s = Idle"
      "replies s = [(TFM_FLIH_TEST_CASE_2, PSA_SUCCESS, 11), (7, PSA_ERROR_PROGRAMMER_ERROR, 0)]"
    by (auto split: option.splits)
  have "length sample_irqs < 2 ^ 32" by (simp add: sample_irqs_def)
  then show ?thesis
    using flih_tests_see_ten_interrupts [OF sample_spm_laws sample_flih_boot s(1)] s by auto
qed

text \<open>C19. The first-level tests end. Whatever has happened so far, from every state of the partition in
  which it serves a message there is a continuation of its own steps and timer interrupts alone,
  without any further message, after which the message is answered: the signal that the tenth interrupt
  asserts is never missed, however the interrupts fall between the steps.\<close>

theorem flih_tests_can_end:
  assumes "spm_laws p view" and "flih_boot view s0" and "run_schedule (flih_step p) ts s0 = Some s"
  shows "\<exists>us s'. set us \<subseteq> {Partition, Timer_Interrupt} \<and>
    run_schedule (flih_step p) (ts @ us) s0 = Some s' \<and> at s' = Idle"
proof -
  have inv: "flih_inv p view s" by (rule flih.run_inv [OF conjI [OF assms(1,2)] assms(3)])
  then obtain bs s' where "run_schedule (\<lambda>t. flih_step p (own_actor t)) bs s = Some s'"
      and idle: "at s' = Idle"
    using flih_ends.can_end by blast
  then have "run_schedule (flih_step p) (ts @ map own_actor bs) s0 = Some s'"
    using assms(3) by (simp add: run_schedule_append run_schedule_map)
  moreover have "set (map own_actor bs) \<subseteq> {Partition, Timer_Interrupt}" by (auto simp: own_actor_def)
  ultimately show ?thesis using idle by blast
qed

theorem flih_tests_can_end_witness:
  "\<exists>us s'. set us \<subseteq> {Partition, Timer_Interrupt} \<and>
     run_schedule (flih_step sample_spm) ([Client TFM_FLIH_TEST_CASE_1] @ us) sample_flih = Some s' \<and>
     at s' = Idle"
proof -
  obtain s where "run_schedule (flih_step sample_spm) [Client TFM_FLIH_TEST_CASE_1] sample_flih = Some s"
    by (simp add: flih_test_handle_msg_def sample_flih_def)
  then show ?thesis by (rule flih_tests_can_end [OF sample_spm_laws sample_flih_boot])
qed

text \<open>The same for the second-level test, where the partition manager asserts the signal itself.\<close>

lemma slih_tests_see_an_interrupt:
  assumes "spm_laws p view" and "slih_boot view s0" and "run_schedule (slih_step p) ts s0 = Some s"
  shows "slih_at s \<noteq> SLIH_Panicked"
    and "(t, status, n) \<in> set (slih_replies s) \<Longrightarrow>
      if t = TFM_SLIH_TEST_CASE_1 then status = PSA_SUCCESS \<and> 1 \<le> n
      else status = PSA_ERROR_PROGRAMMER_ERROR"
    and "slih_at s = SLIH_Idle \<Longrightarrow>
      view (slih_manager s) = \<lparr>irq_on = False, ticking = False, signalled = False\<rparr>"
proof -
  have inv: "slih_inv p view s" by (rule slih.run_inv [OF conjI [OF assms(1,2)] assms(3)])
  then show "slih_at s \<noteq> SLIH_Panicked" by (auto simp: slih_inv_def)
  show "if t = TFM_SLIH_TEST_CASE_1 then status = PSA_SUCCESS \<and> 1 \<le> n
      else status = PSA_ERROR_PROGRAMMER_ERROR" if "(t, status, n) \<in> set (slih_replies s)"
    using inv that by (auto simp: slih_inv_def slih_reply_ok_def)
  show "view (slih_manager s) = \<lparr>irq_on = False, ticking = False, signalled = False\<rparr>"
    if "slih_at s = SLIH_Idle"
    using inv that by (cases "view (slih_manager s)") (simp add: slih_inv_def)
qed

end
