(* ===== verification/Its_Tests.thy ===== *)
theory Its_Tests
  imports Test_Framework Psa_Status
begin

text \<open>
  The test suite of the internal trusted storage, \<^verbatim>\<open>its_tests_common.c\<close>,
  \<^verbatim>\<open>its_tests_common.h\<close> and \<^verbatim>\<open>non_secure/psa_its_ns_interface_testsuite.c\<close> under
  \<^verbatim>\<open>src/tests_reg/test/secure_fw/suites/its\<close>.

  The storage service is not part of the repository: it is the record \<open>its_api\<close> of its four calls
  with the constants of its headers, over a state of any type \<open>'s\<close>. Memory is explicit where the
  tests rely on it: a call that reads is given the bytes of the array it is passed, a call that
  writes returns the bytes it wrote and the test's buffer is overwritten with them, and a read or
  write outside an array, or the use of a variable that was never set, is undefined behaviour.

  The contract \<open>its_conforms\<close> is that of a map from identifiers to assets: a call that has no
  reason to fail succeeds and has its effect, a call with reasons to fail returns the status of
  one of them (which one is the service's choice) and has no effect. The theorem: on every
  service that keeps the contract the whole suite passes without undefined behaviour, from
  any content of the storage that does not block the identifiers of the tests; it leaves the
  write-once asset, removes its other assets, keeps all assets of others, and so can be run
  again.
\<close>

section \<open>The service\<close>

type_synonym psa_storage_uid_t = "64 word"

record psa_storage_info_t =
  info_capacity :: nat
  info_size :: nat
  info_flags :: u32

definition no_info :: psa_storage_info_t where
  "no_info = \<lparr>info_capacity = 0, info_size = 0, info_flags = 0\<rparr>"

text \<open>
  \<open>psa_its_get\<close> is told whether its two pointers are set, and returns the bytes it wrote through
  the first and the value it wrote, if any, through the second; \<open>psa_its_get_info\<close> likewise.
\<close>

record 's its_api =
  PSA_STORAGE_FLAG_NONE :: u32
  PSA_STORAGE_FLAG_WRITE_ONCE :: u32
  ITS_MAX_ASSET_SIZE :: nat
  psa_its_set ::
    "psa_storage_uid_t \<Rightarrow> nat \<Rightarrow> string option \<Rightarrow> u32 \<Rightarrow> 's \<Rightarrow> psa_status \<times> 's"
  psa_its_get ::
    "psa_storage_uid_t \<Rightarrow> nat \<Rightarrow> nat \<Rightarrow> bool \<Rightarrow> bool \<Rightarrow> 's \<Rightarrow> (psa_status \<times> string \<times> nat option) \<times> 's"
  psa_its_get_info ::
    "psa_storage_uid_t \<Rightarrow> bool \<Rightarrow> 's \<Rightarrow> (psa_status \<times> psa_storage_info_t option) \<times> 's"
  psa_its_remove :: "psa_storage_uid_t \<Rightarrow> 's \<Rightarrow> psa_status \<times> 's"

text \<open>The world of a test: the service and the static buffer of the test file.\<close>

record 's its_world =
  its_store :: 's
  read_asset_data :: string

section \<open>Constants\<close>

definition WRITE_ONCE_UID :: psa_storage_uid_t where "WRITE_ONCE_UID = 1"
definition ITS_TEST_UID_1 :: psa_storage_uid_t where "ITS_TEST_UID_1 = 2"
definition ITS_TEST_UID_2 :: psa_storage_uid_t where "ITS_TEST_UID_2 = 3"
definition ITS_TEST_UID_3 :: psa_storage_uid_t where "ITS_TEST_UID_3 = 4"
definition INVALID_UID :: psa_storage_uid_t where "INVALID_UID = 0"
definition INVALID_FLAG :: u32 where "INVALID_FLAG = push_bit 31 1"

text \<open>A string literal as an array: its characters and the terminating null.\<close>

definition c_array :: "string \<Rightarrow> string" where
  "c_array s = s @ [NUL]"

definition WRITE_ONCE_DATA :: string where
  "WRITE_ONCE_DATA = ''THE_FIVE_BOXING_WIZARDS_JUMP_QUICKLY''"
definition WRITE_ONCE_DATA_SIZE :: nat where
  "WRITE_ONCE_DATA_SIZE = length (c_array WRITE_ONCE_DATA) - 1"
definition WRITE_ONCE_READ_DATA :: string where
  "WRITE_ONCE_READ_DATA = ''############################################''"
definition WRITE_ONCE_RESULT_DATA :: string where
  "WRITE_ONCE_RESULT_DATA = ''####'' @ WRITE_ONCE_DATA @ ''####''"

definition WRITE_DATA :: string where
  "WRITE_DATA = ''THEQUICKBROWNFOXJUMPSOVERALAZYDOG''"
definition WRITE_DATA_SIZE :: nat where
  "WRITE_DATA_SIZE = length (c_array WRITE_DATA) - 1"
definition READ_DATA :: string where
  "READ_DATA = ''_________________________________________''"
definition RESULT_DATA :: string where
  "RESULT_DATA = ''____'' @ WRITE_DATA @ ''____''"
definition OFFSET_READ_DATA :: string where
  "OFFSET_READ_DATA = ''HEQUICKBROWNFOXJUMPSOVERALAZYDOG''"
definition OFFSET_RESULT_DATA :: string where
  "OFFSET_RESULT_DATA = ''____'' @ OFFSET_READ_DATA @ ''_____''"
definition HALF_PADDING_SIZE :: nat where "HALF_PADDING_SIZE = 4"

definition its_file :: string where "its_file = ''its_tests_common.c''"
definition its_ns_file :: string where "its_ns_file = ''psa_its_ns_interface_testsuite.c''"

definition TEST_019_CYCLES :: nat where "TEST_019_CYCLES = 3"

definition write_asset_data :: "'s its_api \<Rightarrow> string" where
  "write_asset_data api = take (ITS_MAX_ASSET_SIZE api) (CHR 0xBF # replicate (ITS_MAX_ASSET_SIZE api) NUL)"

section \<open>Calls from a test\<close>

definition undefined_if :: "bool \<Rightarrow> ('w env, unit) state" where
  "undefined_if b = (if b then undefined_behaviour else return ())"

definition on_its :: "('s \<Rightarrow> 'a \<times> 's) \<Rightarrow> ('s its_world env, 'a) state" where
  "on_its f = lift_call (\<lambda>e. its_store (world e)) (\<lambda>s e. e\<lparr>world := (world e)\<lparr>its_store := s\<rparr>\<rparr>) f"

text \<open>The bytes \<open>w\<close> written into an array from an index on.\<close>

definition overwrite :: "nat \<Rightarrow> string \<Rightarrow> string \<Rightarrow> string" where
  "overwrite start w bytes = take start bytes @ w @ drop (start + length w) bytes"

definition its_set ::
  "'s its_api \<Rightarrow> psa_storage_uid_t \<Rightarrow> nat \<Rightarrow> string option \<Rightarrow> u32 \<Rightarrow> ('s its_world env, psa_status) state"
  where
  "its_set api uid len data flags = do {
     undefined_if (case data of None \<Rightarrow> False | Some d \<Rightarrow> length d < len);
     on_its (psa_its_set api uid len (map_option (take len) data) flags)
   }"

definition its_get ::
  "'s its_api \<Rightarrow> psa_storage_uid_t \<Rightarrow> nat \<Rightarrow> nat \<Rightarrow> string \<Rightarrow> nat \<Rightarrow> nat
   \<Rightarrow> ('s its_world env, psa_status \<times> string \<times> nat) state" where
  "its_get api uid offset data_size bytes start len = do {
     (status, w, n) \<leftarrow> on_its (psa_its_get api uid offset data_size True True);
     undefined_if (length bytes < start + length w);
     return (status, overwrite start w bytes, case n of None \<Rightarrow> len | Some k \<Rightarrow> k)
   }"

text \<open>The same with a length that has no value before the call, and a buffer that has none.\<close>

definition its_get_uninit ::
  "'s its_api \<Rightarrow> psa_storage_uid_t \<Rightarrow> nat \<Rightarrow> nat \<Rightarrow> string \<Rightarrow> nat
   \<Rightarrow> ('s its_world env, psa_status \<times> string \<times> nat) state" where
  "its_get_uninit api uid offset data_size bytes start = do {
     (status, w, n) \<leftarrow> on_its (psa_its_get api uid offset data_size True True);
     undefined_if (length bytes < start + length w);
     (case n of
        None \<Rightarrow> do { undefined_behaviour; return (status, overwrite start w bytes, 0) }
      | Some k \<Rightarrow> do {
          undefined_if (length w < k);
          return (status, overwrite start w bytes, k)
        })
   }"

definition its_get_null ::
  "'s its_api \<Rightarrow> psa_storage_uid_t \<Rightarrow> nat \<Rightarrow> nat \<Rightarrow> nat \<Rightarrow> ('s its_world env, psa_status \<times> nat) state" where
  "its_get_null api uid offset data_size len = do {
     (status, w, n) \<leftarrow> on_its (psa_its_get api uid offset data_size False True);
     undefined_if (w \<noteq> []);
     return (status, case n of None \<Rightarrow> len | Some k \<Rightarrow> k)
   }"

definition its_get_no_length ::
  "'s its_api \<Rightarrow> psa_storage_uid_t \<Rightarrow> nat \<Rightarrow> nat \<Rightarrow> string \<Rightarrow> nat \<Rightarrow> ('s its_world env, psa_status) state" where
  "its_get_no_length api uid offset data_size bytes start = do {
     (status, w, _) \<leftarrow> on_its (psa_its_get api uid offset data_size True False);
     undefined_if (length bytes < start + length w);
     return status
   }"

definition its_get_info ::
  "'s its_api \<Rightarrow> psa_storage_uid_t \<Rightarrow> psa_storage_info_t
   \<Rightarrow> ('s its_world env, psa_status \<times> psa_storage_info_t) state" where
  "its_get_info api uid info = do {
     (status, i) \<leftarrow> on_its (psa_its_get_info api uid True);
     return (status, case i of None \<Rightarrow> info | Some i \<Rightarrow> i)
   }"

definition its_get_info_null ::
  "'s its_api \<Rightarrow> psa_storage_uid_t \<Rightarrow> ('s its_world env, psa_status) state" where
  "its_get_info_null api uid = do {
     (status, _) \<leftarrow> on_its (psa_its_get_info api uid False);
     return status
   }"

definition its_remove :: "'s its_api \<Rightarrow> psa_storage_uid_t \<Rightarrow> ('s its_world env, psa_status) state" where
  "its_remove api uid = on_its (psa_its_remove api uid)"

text \<open>\<open>memcmp(a, b, n) == 0\<close>.\<close>

definition its_memcmp :: "string \<Rightarrow> string \<Rightarrow> nat \<Rightarrow> ('w env, bool) state" where
  "its_memcmp a b n = do {
     undefined_if (length a < n \<or> length b < n);
     return (take n a = take n b)
   }"

text \<open>
  A check of a test, \<open>if (!cond) { TEST_FAIL(msg); return; }\<close> with the line it stands on, and
  the end of a test.
\<close>

definition require ::
  "string \<Rightarrow> bool \<Rightarrow> u32 \<Rightarrow> string \<Rightarrow> test_result_t \<Rightarrow> ('w env, test_result_t) state
   \<Rightarrow> ('w env, test_result_t) state" where
  "require f cond ln msg ret k = (if cond then k else return (TEST_FAIL f ln msg ret))"

definition passed :: "test_result_t \<Rightarrow> ('w env, test_result_t) state" where
  "passed ret = return (ret\<lparr>val := TEST_PASSED\<rparr>)"

section \<open>The test cases\<close>

definition tfm_its_test_common_001 :: "'s its_api \<Rightarrow> 's its_world test_fun" where
  "tfm_its_test_common_001 api ret = do {
     status \<leftarrow> its_set api ITS_TEST_UID_1 0 (Some [NUL]) (PSA_STORAGE_FLAG_NONE api);
     require its_file (status = PSA_SUCCESS) 34 ''Set should not fail with valid UID'' ret (do {
     status \<leftarrow> its_set api ITS_TEST_UID_1 0 (Some [NUL]) (PSA_STORAGE_FLAG_NONE api);
     require its_file (status = PSA_SUCCESS) 41 ''Set should not fail the second time with valid UID'' ret (do {
     status \<leftarrow> its_set api ITS_TEST_UID_2 0 None (PSA_STORAGE_FLAG_NONE api);
     require its_file (status = PSA_SUCCESS) 48 ''Set should not fail with size 0'' ret (do {
     status \<leftarrow> its_set api ITS_TEST_UID_2 4 (Some (c_array ''TWO'')) (PSA_STORAGE_FLAG_NONE api);
     require its_file (status = PSA_SUCCESS) 55 ''Set should not fail when setting the asset a second time.'' ret (do {
     (_, read_data_2, read_data_length) \<leftarrow> its_get_uninit api ITS_TEST_UID_2 0 5 (replicate 5 NUL) 0;
     require its_file (read_data_length = 4) 62 ''Wrong asset size is returned.'' ret (do {
     same \<leftarrow> its_memcmp read_data_2 (c_array ''TWO'') read_data_length;
     require its_file (same) 67 ''Wrong asset data is get.'' ret (do {
     status \<leftarrow> its_set api INVALID_UID 0 (Some [NUL]) (PSA_STORAGE_FLAG_NONE api);
     require its_file (status = PSA_ERROR_INVALID_ARGUMENT) 74 ''Set should not succeed with an invalid UID.'' ret (do {
     status \<leftarrow> its_remove api ITS_TEST_UID_1;
     require its_file (status = PSA_SUCCESS) 81 ''Remove should not fail with valid UID: uid_1.'' ret (do {
     status \<leftarrow> its_remove api ITS_TEST_UID_2;
     require its_file (status = PSA_SUCCESS) 86 ''Remove should not fail with valid UID: uid_2.'' ret (passed ret)
     })})})})})})})})}"
text \<open>The second half of the next test, reached on two of its branches.\<close>

definition its_test_002_invalid_flags :: "'s its_api \<Rightarrow> 's its_world test_fun" where
  "its_test_002_invalid_flags api ret = do {
     status \<leftarrow> its_set api ITS_TEST_UID_2 WRITE_DATA_SIZE (Some (c_array WRITE_DATA)) INVALID_FLAG;
     require its_file (status = PSA_ERROR_NOT_SUPPORTED) 145 ''Set should not succeed with invalid flags'' ret (passed ret)
     }"

definition tfm_its_test_common_002 :: "'s its_api \<Rightarrow> 's its_world test_fun" where
  "tfm_its_test_common_002 api ret = do {
     status \<leftarrow> its_set api WRITE_ONCE_UID WRITE_DATA_SIZE (Some (c_array WRITE_DATA)) (PSA_STORAGE_FLAG_NONE api);
     if status = PSA_SUCCESS then do {
       status \<leftarrow> its_set api WRITE_ONCE_UID WRITE_ONCE_DATA_SIZE (Some (c_array WRITE_ONCE_DATA))
         (PSA_STORAGE_FLAG_WRITE_ONCE api);
       require its_file (status = PSA_SUCCESS) 113 ''Set should not fail with valid flags (existing UID)'' ret (do {
       (status, info) \<leftarrow> its_get_info api WRITE_ONCE_UID no_info;
       require its_file (status = PSA_SUCCESS) 119 ''Failed to get info.'' ret (do {
       require its_file (info_flags info = PSA_STORAGE_FLAG_WRITE_ONCE api) 125 ''Failed to return most recent flag set.'' ret
         (its_test_002_invalid_flags api ret)
       })})
     }
     else if status = PSA_ERROR_NOT_PERMITTED then do {
       TEST_LOG (''Note: The UID in this test has already been created with'' @ CRLF
                 @ ''the PSA_STORAGE_FLAG_WRITE_ONCE flag in a previous test'' @ CRLF
                 @ ''run. Wipe the storage area to run the full test.'' @ CRLF) [];
       its_test_002_invalid_flags api ret
     }
     else return (TEST_FAIL its_file 138 ''Set should not fail with no flags'' ret)
   }"

definition tfm_its_test_common_003 :: "'s its_api \<Rightarrow> 's its_world test_fun" where
  "tfm_its_test_common_003 api ret = do {
     status \<leftarrow> its_set api ITS_TEST_UID_3 0 None (PSA_STORAGE_FLAG_NONE api);
     require its_file (status = PSA_SUCCESS) 162 ''Set should succeed with NULL data pointer and zero length'' ret (passed ret)
     }"
definition tfm_its_test_common_004 :: "'s its_api \<Rightarrow> 's its_world test_fun" where
  "tfm_its_test_common_004 api ret = do {
     status \<leftarrow> its_set api WRITE_ONCE_UID WRITE_DATA_SIZE (Some (c_array WRITE_DATA)) (PSA_STORAGE_FLAG_NONE api);
     require its_file (status = PSA_ERROR_NOT_PERMITTED) 185 ''Set should not rewrite a write once UID'' ret (do {
     (status, read_data, read_data_length) \<leftarrow> its_get api WRITE_ONCE_UID 0 WRITE_ONCE_DATA_SIZE (c_array WRITE_ONCE_READ_DATA) HALF_PADDING_SIZE 0;
     require its_file (status = PSA_SUCCESS) 193 ''Get should not fail'' ret (do {
     same \<leftarrow> its_memcmp read_data (c_array WRITE_ONCE_RESULT_DATA) (length (c_array WRITE_ONCE_READ_DATA));
     require its_file (same) 200 ''Write once data should not have changed'' ret (do {
     require its_file (read_data_length = WRITE_ONCE_DATA_SIZE) 206 ''Write once data length should not have changed'' ret (passed ret)
     })})})}"
definition tfm_its_test_common_005 :: "'s its_api \<Rightarrow> 's its_world test_fun" where
  "tfm_its_test_common_005 api ret = do {
     status \<leftarrow> its_set api ITS_TEST_UID_2 WRITE_DATA_SIZE (Some (c_array WRITE_DATA)) (PSA_STORAGE_FLAG_NONE api);
     require its_file (status = PSA_SUCCESS) 228 ''Set should not fail'' ret (do {
     (status, read_data, read_data_length) \<leftarrow> its_get api ITS_TEST_UID_2 0 WRITE_DATA_SIZE (c_array READ_DATA) HALF_PADDING_SIZE 0;
     require its_file (status = PSA_SUCCESS) 236 ''Get should not fail'' ret (do {
     same \<leftarrow> its_memcmp read_data (c_array RESULT_DATA) (length (c_array READ_DATA));
     require its_file (same) 243 ''Read data should be equal to result data'' ret (do {
     require its_file (read_data_length = WRITE_DATA_SIZE) 249 ''Read data length should be equal to requested data length'' ret (do {
     (status, read_data, read_data_length) \<leftarrow> its_get api ITS_TEST_UID_2 2 (WRITE_DATA_SIZE - (2 + 2)) (c_array READ_DATA) HALF_PADDING_SIZE read_data_length;
     require its_file (status = PSA_SUCCESS) 263 ''Get should not fail'' ret (do {
     same \<leftarrow> its_memcmp read_data (c_array ''____'') HALF_PADDING_SIZE;
     require its_file (same) 270 ''Read data contains illegal pre-data'' ret (do {
     same \<leftarrow> its_memcmp (drop HALF_PADDING_SIZE read_data) (drop 2 (c_array WRITE_DATA)) (WRITE_DATA_SIZE - (2 + 2));
     require its_file (same) 278 ''Read data incorrect'' ret (do {
     same \<leftarrow> its_memcmp (drop (HALF_PADDING_SIZE + (WRITE_DATA_SIZE - (2 + 2))) read_data) (c_array ''____'') HALF_PADDING_SIZE;
     require its_file (same) 286 ''Read data contains illegal post-data'' ret (do {
     status \<leftarrow> its_remove api ITS_TEST_UID_2;
     require its_file (status = PSA_SUCCESS) 293 ''Remove should not fail with valid UID'' ret (passed ret)
     })})})})})})})})}"
definition tfm_its_test_common_006 :: "'s its_api \<Rightarrow> 's its_world test_fun" where
  "tfm_its_test_common_006 api ret = do {
     status \<leftarrow> its_set api ITS_TEST_UID_3 WRITE_DATA_SIZE (Some (c_array WRITE_DATA)) (PSA_STORAGE_FLAG_NONE api);
     require its_file (status = PSA_SUCCESS) 315 ''Set should not fail'' ret (do {
     (status, read_data, read_data_length) \<leftarrow> its_get api ITS_TEST_UID_3 0 0 (c_array READ_DATA) HALF_PADDING_SIZE 1;
     require its_file (status = PSA_SUCCESS) 323 ''Get should not fail with zero data len'' ret (do {
     same \<leftarrow> its_memcmp read_data (c_array READ_DATA) (length (c_array READ_DATA));
     require its_file (same) 330 ''Read data should be equal to original read data'' ret (do {
     require its_file (read_data_length = 0) 336 ''Read data length should be equal to zero'' ret (do {
     (status, read_data, read_data_length) \<leftarrow> its_get api ITS_TEST_UID_3 5 0 read_data HALF_PADDING_SIZE 1;
     require its_file (status = PSA_SUCCESS) 347 ''Get should not fail'' ret (do {
     same \<leftarrow> its_memcmp read_data (c_array READ_DATA) (length (c_array READ_DATA));
     require its_file (same) 354 ''Read data should be equal to original read data'' ret (do {
     require its_file (read_data_length = 0) 360 ''Read data length should be equal to zero'' ret (do {
     status \<leftarrow> its_remove api ITS_TEST_UID_3;
     require its_file (status = PSA_SUCCESS) 367 ''Remove should not fail with valid UID'' ret (passed ret)
     })})})})})})})}"
definition tfm_its_test_common_007 :: "'s its_api \<Rightarrow> 's its_world test_fun" where
  "tfm_its_test_common_007 api ret = do {
     (status, read_data, read_data_length) \<leftarrow> its_get api ITS_TEST_UID_1 0 1 (c_array READ_DATA) HALF_PADDING_SIZE 0;
     require its_file (status = PSA_ERROR_DOES_NOT_EXIST) 388 ''Get succeeded with non-existant UID'' ret (do {
     same \<leftarrow> its_memcmp read_data (c_array READ_DATA) (length (c_array READ_DATA));
     require its_file (same) 395 ''Read data not equal to original read data'' ret (do {
     (status, read_data, read_data_length) \<leftarrow> its_get api INVALID_UID 0 1 read_data HALF_PADDING_SIZE read_data_length;
     require its_file (status = PSA_ERROR_INVALID_ARGUMENT) 403 ''Get succeeded with invalid UID'' ret (do {
     same \<leftarrow> its_memcmp read_data (c_array READ_DATA) (length (c_array READ_DATA));
     require its_file (same) 410 ''Read data not equal to original read data'' ret (passed ret)
     })})})}"
definition tfm_its_test_common_008 :: "'s its_api \<Rightarrow> 's its_world test_fun" where
  "tfm_its_test_common_008 api ret = do {
     status \<leftarrow> its_set api ITS_TEST_UID_2 WRITE_DATA_SIZE (Some (c_array WRITE_DATA)) (PSA_STORAGE_FLAG_NONE api);
     require its_file (status = PSA_SUCCESS) 432 ''Set should not fail'' ret (do {
     (status, read_data, read_data_length) \<leftarrow> its_get api ITS_TEST_UID_2 (WRITE_DATA_SIZE + 1) 1 (c_array READ_DATA) HALF_PADDING_SIZE 0;
     require its_file (status = PSA_ERROR_INVALID_ARGUMENT) 443 ''Get should not succeed with offset too large'' ret (do {
     same \<leftarrow> its_memcmp read_data (c_array READ_DATA) (length (c_array READ_DATA));
     require its_file (same) 450 ''Read data should be equal to original read data'' ret (do {
     (status, read_data, read_data_length) \<leftarrow> its_get api ITS_TEST_UID_2 0 (WRITE_DATA_SIZE + 1) read_data HALF_PADDING_SIZE read_data_length;
     require its_file (status = PSA_SUCCESS) 461 ''Get should succeed with data length larger than UID's length'' ret (do {
     require its_file (read_data_length = WRITE_DATA_SIZE) 467 ''Read data length should be equal to UID's length'' ret (do {
     same \<leftarrow> its_memcmp read_data (c_array RESULT_DATA) (length (c_array READ_DATA));
     require its_file (same) 474 ''Read data should be equal to newly read data'' ret (do {
     (status, read_data, read_data_length) \<leftarrow> its_get api ITS_TEST_UID_2 1 WRITE_DATA_SIZE (c_array READ_DATA) HALF_PADDING_SIZE read_data_length;
     require its_file (status = PSA_SUCCESS) 490 ''Get should succeed with offset + data length too large, but individually valid'' ret (do {
     require its_file (read_data_length = WRITE_DATA_SIZE - 1) 496 ''Read data length should be equal to the UID's remaining size starting from offset'' ret (do {
     same \<leftarrow> its_memcmp read_data (c_array OFFSET_RESULT_DATA) (length (c_array READ_DATA));
     require its_file (same) 504 ''Read data should be equal to newly read data starting at offset'' ret (do {
     status \<leftarrow> its_remove api ITS_TEST_UID_2;
     require its_file (status = PSA_SUCCESS) 512 ''Remove should not fail with valid UID'' ret (passed ret)
     })})})})})})})})})}"
definition tfm_its_test_common_009 :: "'s its_api \<Rightarrow> 's its_world test_fun" where
  "tfm_its_test_common_009 api ret = do {
     status \<leftarrow> its_set api ITS_TEST_UID_3 WRITE_DATA_SIZE (Some (c_array WRITE_DATA)) (PSA_STORAGE_FLAG_NONE api);
     require its_file (status = PSA_SUCCESS) 531 ''Set should not fail'' ret (do {
     (status, read_data_length) \<leftarrow> its_get_null api ITS_TEST_UID_3 0 0 0;
     require its_file (status = PSA_SUCCESS) 538 ''Get should succeed with NULL data pointer and zero length'' ret (do {
     require its_file (read_data_length = 0) 544 ''Read data length should be 0 with NULL data pointer and zero length'' ret (do {
     status \<leftarrow> its_remove api ITS_TEST_UID_3;
     require its_file (status = PSA_SUCCESS) 552 ''Remove should not fail with valid UID'' ret (passed ret)
     })})})}"
definition tfm_its_test_common_010 :: "'s its_api \<Rightarrow> 's its_world test_fun" where
  "tfm_its_test_common_010 api ret = do {
     (status, info) \<leftarrow> its_get_info api WRITE_ONCE_UID no_info;
     require its_file (status = PSA_SUCCESS) 568 ''Get info should not fail for write once UID'' ret (do {
     require its_file (info_size info = WRITE_ONCE_DATA_SIZE) 574 ''Size incorrect for write once UID'' ret (do {
     require its_file (info_capacity info = WRITE_ONCE_DATA_SIZE) 579 ''Capacity incorrect for write once UID'' ret (do {
     require its_file (info_flags info = PSA_STORAGE_FLAG_WRITE_ONCE api) 584 ''Flags incorrect for write once UID'' ret (passed ret)
     })})})}"
definition tfm_its_test_common_011 :: "'s its_api \<Rightarrow> 's its_world test_fun" where
  "tfm_its_test_common_011 api ret = do {
     status \<leftarrow> its_set api ITS_TEST_UID_1 WRITE_DATA_SIZE (Some (c_array WRITE_DATA)) (PSA_STORAGE_FLAG_NONE api);
     require its_file (status = PSA_SUCCESS) 602 ''Set should not fail'' ret (do {
     (status, info) \<leftarrow> its_get_info api ITS_TEST_UID_1 no_info;
     require its_file (status = PSA_SUCCESS) 609 ''Get info should not fail with valid UID'' ret (do {
     require its_file (info_size info = WRITE_DATA_SIZE) 615 ''Size incorrect for valid UID'' ret (do {
     require its_file (info_capacity info = WRITE_DATA_SIZE) 620 ''Capacity incorrect for valid UID'' ret (do {
     require its_file (info_flags info = PSA_STORAGE_FLAG_NONE api) 625 ''Flags incorrect for valid UID'' ret (do {
     status \<leftarrow> its_remove api ITS_TEST_UID_1;
     require its_file (status = PSA_SUCCESS) 632 ''Remove should not fail with valid UID'' ret (passed ret)
     })})})})})}"
definition tfm_its_test_common_012 :: "'s its_api \<Rightarrow> 's its_world test_fun" where
  "tfm_its_test_common_012 api ret = do {
     (status, info) \<leftarrow> its_get_info api ITS_TEST_UID_2 no_info;
     require its_file (status = PSA_ERROR_DOES_NOT_EXIST) 648 ''Get info should not succeed with unset UID'' ret (do {
     require its_file (info_size info = 0) 654 ''Size should not have changed'' ret (do {
     (status, info) \<leftarrow> its_get_info api INVALID_UID info;
     require its_file (status = PSA_ERROR_INVALID_ARGUMENT) 661 ''Get info should not succeed with invalid UID'' ret (do {
     require its_file (info_size info = 0) 667 ''Size should not have changed'' ret (do {
     require its_file (info_capacity info = 0) 672 ''Capacity should not have changed'' ret (do {
     require its_file (info_flags info = PSA_STORAGE_FLAG_NONE api) 677 ''Flags should not have changed'' ret (passed ret)
     })})})})})}"
definition tfm_its_test_common_013 :: "'s its_api \<Rightarrow> 's its_world test_fun" where
  "tfm_its_test_common_013 api ret = do {
     status \<leftarrow> its_set api ITS_TEST_UID_1 WRITE_DATA_SIZE (Some (c_array WRITE_DATA)) (PSA_STORAGE_FLAG_NONE api);
     require its_file (status = PSA_SUCCESS) 698 ''Set should not fail'' ret (do {
     status \<leftarrow> its_remove api ITS_TEST_UID_1;
     require its_file (status = PSA_SUCCESS) 705 ''Remove should not fail with valid UID'' ret (do {
     (status, info) \<leftarrow> its_get_info api ITS_TEST_UID_1 no_info;
     require its_file (status = PSA_ERROR_DOES_NOT_EXIST) 712 ''Get info should not succeed with removed UID'' ret (do {
     (status, read_data, read_data_length) \<leftarrow> its_get api ITS_TEST_UID_1 0 WRITE_DATA_SIZE (c_array READ_DATA) 0 0;
     require its_file (status = PSA_ERROR_DOES_NOT_EXIST) 719 ''Get should not succeed with removed UID'' ret (do {
     status \<leftarrow> its_remove api ITS_TEST_UID_1;
     require its_file (status = PSA_ERROR_DOES_NOT_EXIST) 726 ''Remove should not succeed with removed UID'' ret (passed ret)
     })})})})}"
definition tfm_its_test_common_014 :: "'s its_api \<Rightarrow> 's its_world test_fun" where
  "tfm_its_test_common_014 api ret = do {
     status \<leftarrow> its_remove api WRITE_ONCE_UID;
     require its_file (status = PSA_ERROR_NOT_PERMITTED) 741 ''Remove should not succeed with write once UID'' ret (passed ret)
     }"
definition tfm_its_test_common_015 :: "'s its_api \<Rightarrow> 's its_world test_fun" where
  "tfm_its_test_common_015 api ret = do {
     status \<leftarrow> its_remove api INVALID_UID;
     require its_file (status = PSA_ERROR_INVALID_ARGUMENT) 756 ''Remove should not succeed with invalid UID'' ret (passed ret)
     }"
definition tfm_its_test_common_016 :: "'s its_api \<Rightarrow> 's its_world test_fun" where
  "tfm_its_test_common_016 api ret = do {
     status \<leftarrow> its_set api ITS_TEST_UID_2 11 (Some (c_array ''UID 1 DATA'')) (PSA_STORAGE_FLAG_NONE api);
     require its_file (status = PSA_SUCCESS) 780 ''Set should not fail for UID 1'' ret (do {
     status \<leftarrow> its_set api ITS_TEST_UID_3 WRITE_DATA_SIZE (Some (c_array WRITE_DATA)) (PSA_STORAGE_FLAG_NONE api);
     require its_file (status = PSA_SUCCESS) 787 ''Set should not fail for UID 2'' ret (do {
     status \<leftarrow> its_remove api ITS_TEST_UID_2;
     require its_file (status = PSA_SUCCESS) 796 ''Remove should not fail for UID 1'' ret (do {
     (status, read_data, read_data_length) \<leftarrow> its_get api ITS_TEST_UID_3 0 WRITE_DATA_SIZE (c_array READ_DATA) HALF_PADDING_SIZE 0;
     require its_file (status = PSA_SUCCESS) 806 ''Get should not fail for UID 2'' ret (do {
     same \<leftarrow> its_memcmp read_data (c_array RESULT_DATA) (length (c_array READ_DATA));
     require its_file (same) 812 ''Read buffer has incorrect data'' ret (do {
     require its_file (read_data_length = WRITE_DATA_SIZE) 817 ''Read data length should be equal to result data length'' ret (do {
     status \<leftarrow> its_remove api ITS_TEST_UID_3;
     require its_file (status = PSA_SUCCESS) 824 ''Remove should not fail for UID 2'' ret (passed ret)
     })})})})})})}"
text \<open>
  The loop of the next test, with \<open>n\<close> iterations left: \<open>None\<close> is the return from within it.
\<close>

fun its_test_017_loop ::
  "'s its_api \<Rightarrow> nat \<Rightarrow> nat \<Rightarrow> string \<Rightarrow> nat \<Rightarrow> ('s its_world env, string option) state" where
  "its_test_017_loop api offset 0 read_data read_data_length = return (Some read_data)"
| "its_test_017_loop api offset (Suc n) read_data read_data_length = do {
     (status, read_data, read_data_length) \<leftarrow>
       its_get api ITS_TEST_UID_1 offset 1 read_data (HALF_PADDING_SIZE + offset) read_data_length;
     if status \<noteq> PSA_SUCCESS then return None
     else its_test_017_loop api (Suc offset) n read_data read_data_length
   }"

definition tfm_its_test_common_017 :: "'s its_api \<Rightarrow> 's its_world test_fun" where
  "tfm_its_test_common_017 api ret = do {
     status \<leftarrow> its_set api ITS_TEST_UID_1 WRITE_DATA_SIZE (Some (c_array WRITE_DATA)) (PSA_STORAGE_FLAG_NONE api);
     require its_file (status = PSA_SUCCESS) 846 ''Set should not fail'' ret (do {
     read \<leftarrow> its_test_017_loop api 0 WRITE_DATA_SIZE (c_array READ_DATA) 0;
     (case read of
        None \<Rightarrow> return (TEST_FAIL its_file 856 ''Get should not fail for partial read'' ret)
      | Some read_data \<Rightarrow> do {
     same \<leftarrow> its_memcmp read_data (c_array RESULT_DATA) (length (c_array READ_DATA));
     require its_file (same) 863 ''Read buffer has incorrect data'' ret (do {
     status \<leftarrow> its_remove api ITS_TEST_UID_1;
     require its_file (status = PSA_SUCCESS) 870 ''Remove should not fail'' ret (passed ret)
     })})})}"

definition tfm_its_test_common_018 :: "'s its_api \<Rightarrow> 's its_world test_fun" where
  "tfm_its_test_common_018 api ret = do {
     status \<leftarrow> its_set api ITS_TEST_UID_2 4 (Some (c_array ''ONE'')) (PSA_STORAGE_FLAG_NONE api);
     require its_file (status = PSA_SUCCESS) 893 ''First set should not fail'' ret (do {
     status \<leftarrow> its_set api ITS_TEST_UID_2 4 (Some (c_array ''TWO'')) (PSA_STORAGE_FLAG_NONE api);
     require its_file (status = PSA_SUCCESS) 900 ''Second set should not fail'' ret (do {
     status \<leftarrow> its_set api ITS_TEST_UID_2 6 (Some (c_array ''THREE'')) (PSA_STORAGE_FLAG_NONE api);
     require its_file (status = PSA_SUCCESS) 907 ''Third set should not fail'' ret (do {
     (status, read_data, read_data_length) \<leftarrow> its_get api ITS_TEST_UID_2 0 6 (c_array READ_DATA) 0 0;
     require its_file (status = PSA_SUCCESS) 914 ''Get should not fail'' ret (do {
     same \<leftarrow> its_memcmp read_data (c_array ''THREE'') 6;
     require its_file (same) 921 ''Read buffer has incorrect data'' ret (do {
     require its_file (read_data_length = 6) 926 ''Read data length should be equal to result data length'' ret (do {
     status \<leftarrow> its_remove api ITS_TEST_UID_2;
     require its_file (status = PSA_SUCCESS) 933 ''Remove should not fail'' ret (passed ret)
     })})})})})})}"
text \<open>
  The body of the loop of the next test, for an identifier and a size, and the loop over the
  two tables. \<open>memset\<close> and the read work on the static buffer of the file.
\<close>

definition its_test_019_cycle ::
  "'s its_api \<Rightarrow> psa_storage_uid_t \<Rightarrow> nat \<Rightarrow> nat \<Rightarrow> test_result_t
   \<Rightarrow> (nat \<Rightarrow> ('s its_world env, test_result_t) state) \<Rightarrow> ('s its_world env, test_result_t) state" where
  "its_test_019_cycle api uid data_size read_data_length ret rest = do {
     modify (\<lambda>e. e\<lparr>world := (world e)\<lparr>read_asset_data := replicate (ITS_MAX_ASSET_SIZE api) NUL\<rparr>\<rparr>);
     status \<leftarrow> its_set api uid data_size (Some (write_asset_data api)) (PSA_STORAGE_FLAG_NONE api);
     require its_file (status = PSA_SUCCESS) 969 ''Set should not fail with valid UID'' ret (do {
     (status, info) \<leftarrow> its_get_info api uid no_info;
     require its_file (status = PSA_SUCCESS) 976 ''Get info should not fail with valid UID'' ret (do {
     require its_file (info_size info = data_size) 982 ''Size incorrect for valid UID'' ret (do {
     require its_file (info_flags info = PSA_STORAGE_FLAG_NONE api) 987 ''Flags incorrect for valid UID'' ret (do {
     bytes \<leftarrow> gets (\<lambda>e. read_asset_data (world e));
     (status, bytes, read_data_length) \<leftarrow> its_get api uid 0 data_size bytes 0 read_data_length;
     modify (\<lambda>e. e\<lparr>world := (world e)\<lparr>read_asset_data := bytes\<rparr>\<rparr>);
     require its_file (status = PSA_SUCCESS) 995 ''Get should not fail with valid UID'' ret (do {
     same \<leftarrow> its_memcmp bytes (write_asset_data api) data_size;
     require its_file (same) 1002 ''Read data should be equal to original write data'' ret (do {
     require its_file (read_data_length = data_size) 1007 ''Read data length should be equal to result data length'' ret (do {
     status \<leftarrow> its_remove api uid;
     require its_file (status = PSA_SUCCESS) 1014 ''Remove should not fail with valid UID'' ret (rest read_data_length)
     })})})})})})})}"

fun its_test_019_loop ::
  "'s its_api \<Rightarrow> (psa_storage_uid_t \<times> nat) list \<Rightarrow> nat \<Rightarrow> 's its_world test_fun" where
  "its_test_019_loop api [] read_data_length ret = passed ret"
| "its_test_019_loop api ((uid, data_size) # cycles) read_data_length ret =
     its_test_019_cycle api uid data_size read_data_length ret
       (\<lambda>read_data_length. its_test_019_loop api cycles read_data_length ret)"

definition its_test_019_cycles :: "'s its_api \<Rightarrow> (psa_storage_uid_t \<times> nat) list" where
  "its_test_019_cycles api = take TEST_019_CYCLES (zip [ITS_TEST_UID_1, ITS_TEST_UID_2, ITS_TEST_UID_3]
     [drop_bit 2 (ITS_MAX_ASSET_SIZE api), drop_bit 1 (ITS_MAX_ASSET_SIZE api), ITS_MAX_ASSET_SIZE api])"

definition tfm_its_test_common_019 :: "'s its_api \<Rightarrow> 's its_world test_fun" where
  "tfm_its_test_common_019 api ret = its_test_019_loop api (its_test_019_cycles api) 0 ret"

definition tfm_its_test_common_020 :: "'s its_api \<Rightarrow> 's its_world test_fun" where
  "tfm_its_test_common_020 api ret = do {
     status \<leftarrow> its_set api ITS_TEST_UID_1 (ITS_MAX_ASSET_SIZE api + 1) (Some (replicate (ITS_MAX_ASSET_SIZE api + 1) NUL)) (PSA_STORAGE_FLAG_NONE api);
     require its_file (status = PSA_ERROR_INVALID_ARGUMENT) 1029 ''Setting UID with size exceeding maximum did not return error'' ret (passed ret)
     }"
definition tfm_its_test_common_021 :: "'s its_api \<Rightarrow> 's its_world test_fun" where
  "tfm_its_test_common_021 api ret = do {
     status \<leftarrow> its_set api ITS_TEST_UID_2 WRITE_DATA_SIZE (Some (c_array WRITE_DATA)) (PSA_STORAGE_FLAG_NONE api);
     require its_file (status = PSA_SUCCESS) 1045 ''Failed to set UID'' ret (do {
     status \<leftarrow> its_get_no_length api ITS_TEST_UID_2 0 1 (c_array READ_DATA) HALF_PADDING_SIZE;
     require its_file (status = PSA_ERROR_INVALID_ARGUMENT) 1051 ''Get with null pointer and size greater than 0 Should return error PSA_ERROR_INVALID_ARGUMENT'' ret (do {
     status \<leftarrow> its_remove api ITS_TEST_UID_2;
     require its_file (status = PSA_SUCCESS) 1058 ''Remove should not fail with valid UID'' ret (passed ret)
     })})}"
definition tfm_its_ns_test_001 :: "'s its_api \<Rightarrow> 's its_world test_fun" where
  "tfm_its_ns_test_001 api ret = do {
     status \<leftarrow> its_set api ITS_TEST_UID_2 1 None (PSA_STORAGE_FLAG_NONE api);
     require its_ns_file (status = PSA_ERROR_PROGRAMMER_ERROR) 87 ''Set with null data pointer and length over 0 should return PSA_ERROR_PROGRAMMER_ERROR'' ret (passed ret)
     }"
definition tfm_its_ns_test_002 :: "'s its_api \<Rightarrow> 's its_world test_fun" where
  "tfm_its_ns_test_002 api ret = do {
     status \<leftarrow> its_set api ITS_TEST_UID_2 WRITE_DATA_SIZE (Some (c_array WRITE_DATA)) (PSA_STORAGE_FLAG_NONE api);
     require its_ns_file (status = PSA_SUCCESS) 101 ''Set should not fail'' ret (do {
     status \<leftarrow> its_get_info_null api ITS_TEST_UID_2;
     require its_ns_file (status = PSA_ERROR_INVALID_ARGUMENT) 107 ''Get info with null pointer should return PSA_ERROR_INVALID_ARGUMENT'' ret (do {
     status \<leftarrow> its_remove api ITS_TEST_UID_2;
     require its_ns_file (status = PSA_SUCCESS) 113 ''Remove should not fail with valid UID'' ret (passed ret)
     })})}"
definition tfm_its_ns_test_003 :: "'s its_api \<Rightarrow> 's its_world test_fun" where
  "tfm_its_ns_test_003 api ret = do {
     status \<leftarrow> its_set api ITS_TEST_UID_2 WRITE_DATA_SIZE (Some (c_array WRITE_DATA)) (PSA_STORAGE_FLAG_NONE api);
     require its_ns_file (status = PSA_SUCCESS) 129 ''Failed to set UID with PSA_STORAGE_FLAG_NONE flag.'' ret (do {
     (status, _) \<leftarrow> its_get_null api ITS_TEST_UID_2 0 1 0;
     require its_ns_file (status = PSA_ERROR_PROGRAMMER_ERROR) 135 ''Get with null data pointer and size greater than 0 should return PSA_PROGRAMMER_ERROR'' ret (do {
     status \<leftarrow> its_remove api ITS_TEST_UID_2;
     require its_ns_file (status = PSA_SUCCESS) 142 ''Remove should not fail with valid UID'' ret (passed ret)
     })})}"
text \<open>
  With the RPC test framework the three tests of this file are replaced by ones that only log.
\<close>

definition its_ns_test_skipped :: "'s its_world test_fun" where
  "its_ns_test_skipped ret = do {
     TEST_LOG (''  This test case is not supported by the RPC test framework.'' @ CRLF) [];
     return (ret\<lparr>val := TEST_SKIPPED\<rparr>)
   }"

definition psa_its_ns_tests :: "bool \<Rightarrow> 's its_api \<Rightarrow> 's its_world test_t list" where
  "psa_its_ns_tests rpc api =
     [test_case (tfm_its_test_common_001 api) ''TFM_NS_ITS_TEST_1001'' ''Set interface'',
      test_case (tfm_its_test_common_002 api) ''TFM_NS_ITS_TEST_1002'' ''Set interface with create flags and get latest set flag'',
      test_case (tfm_its_test_common_003 api) ''TFM_NS_ITS_TEST_1003'' ''Set interface with NULL data pointer'',
      test_case (tfm_its_test_common_004 api) ''TFM_NS_ITS_TEST_1004'' ''Set interface with write once UID'',
      test_case (tfm_its_test_common_005 api) ''TFM_NS_ITS_TEST_1005'' ''Get interface with valid data'',
      test_case (tfm_its_test_common_006 api) ''TFM_NS_ITS_TEST_1006'' ''Get interface with zero data length'',
      test_case (tfm_its_test_common_007 api) ''TFM_NS_ITS_TEST_1007'' ''Get interface with invalid UIDs'',
      test_case (tfm_its_test_common_008 api) ''TFM_NS_ITS_TEST_1008'' ''Get interface with invalid data lengths and offsets'',
      test_case (tfm_its_test_common_009 api) ''TFM_NS_ITS_TEST_1009'' ''Get interface with NULL data pointer'',
      test_case (tfm_its_test_common_010 api) ''TFM_NS_ITS_TEST_1010'' ''Get info interface with write once UID'',
      test_case (tfm_its_test_common_011 api) ''TFM_NS_ITS_TEST_1011'' ''Get info interface with valid UID'',
      test_case (tfm_its_test_common_012 api) ''TFM_NS_ITS_TEST_1012'' ''Get info interface with invalid UIDs'',
      test_case (tfm_its_test_common_013 api) ''TFM_NS_ITS_TEST_1013'' ''Remove interface with valid UID'',
      test_case (tfm_its_test_common_014 api) ''TFM_NS_ITS_TEST_1014'' ''Remove interface with write once UID'',
      test_case (tfm_its_test_common_015 api) ''TFM_NS_ITS_TEST_1015'' ''Remove interface with invalid UID'',
      test_case (tfm_its_test_common_016 api) ''TFM_NS_ITS_TEST_1016'' ''Block compaction after remove'',
      test_case (tfm_its_test_common_017 api) ''TFM_NS_ITS_TEST_1017'' ''Multiple partial gets'',
      test_case (tfm_its_test_common_018 api) ''TFM_NS_ITS_TEST_1018'' ''Multiple sets to same UID from same thread'',
      test_case (tfm_its_test_common_019 api) ''TFM_NS_ITS_TEST_1019'' ''Set, get and remove interface with different asset sizes'',
      test_case (tfm_its_test_common_020 api) ''TFM_NS_ITS_TEST_1020'' ''Set with asset size that exceeds the maximum'',
      test_case (tfm_its_test_common_021 api) ''TFM_NS_ITS_TEST_1021'' ''Get interface with data_len over 0 and NULL data length pointer'',
      test_case (if rpc then its_ns_test_skipped else tfm_its_ns_test_001 api) ''TFM_NS_ITS_TEST_001'' ''Set interface with NULL data pointer and length over 0'',
      test_case (if rpc then its_ns_test_skipped else tfm_its_ns_test_002 api) ''TFM_NS_ITS_TEST_002'' ''Get info interface with NULL p_info'',
      test_case (if rpc then its_ns_test_skipped else tfm_its_ns_test_003 api) ''TFM_NS_ITS_TEST_003'' ''Get interface with NULL data pointer and data_size over 0'']"

definition register_testsuite_ns_psa_its_interface ::
  "bool \<Rightarrow> 's its_api \<Rightarrow> 's its_world suite_fields \<Rightarrow> ('s its_world env, 's its_world suite_fields) state" where
  "register_testsuite_ns_psa_its_interface rpc api =
     register_with ''PSA internal trusted storage NS interface tests (TFM_NS_ITS_TEST_1XXX)'' (psa_its_ns_tests rpc api)"

section \<open>The contract of the service\<close>

text \<open>
  The storage as a map from identifiers to assets; a service is seen through \<open>assets_of\<close>, accepts
  the create flags \<open>supported_flags\<close> and holds at most \<open>num_assets\<close> assets.
\<close>

record asset =
  content :: string
  create_flags :: u32

type_synonym assets = "psa_storage_uid_t \<rightharpoonup> asset"

record 's its_service =
  assets_of :: "'s \<Rightarrow> assets"
  supported_flags :: "u32 set"
  num_assets :: nat

definition write_once :: "'s its_api \<Rightarrow> assets \<Rightarrow> psa_storage_uid_t \<Rightarrow> bool" where
  "write_once api m uid \<longleftrightarrow>
     (case m uid of None \<Rightarrow> False | Some a \<Rightarrow> and (create_flags a) (PSA_STORAGE_FLAG_WRITE_ONCE api) \<noteq> 0)"

definition full :: "'s its_service \<Rightarrow> assets \<Rightarrow> psa_storage_uid_t \<Rightarrow> bool" where
  "full v m uid \<longleftrightarrow> uid \<noteq> 0 \<and> m uid = None \<and> num_assets v \<le> card (dom m)"

text \<open>The reasons a call has to fail; the conditions are those the API documents.\<close>

definition reasons :: "(bool \<times> psa_status) list \<Rightarrow> psa_status list" where
  "reasons cs = map snd (filter fst cs)"

definition set_errors ::
  "'s its_api \<Rightarrow> 's its_service \<Rightarrow> assets \<Rightarrow> psa_storage_uid_t \<Rightarrow> nat \<Rightarrow> string option \<Rightarrow> u32 \<Rightarrow> psa_status list"
  where
  "set_errors api v m uid len data flags = reasons
     [(uid = 0, PSA_ERROR_INVALID_ARGUMENT),
      (data = None \<and> len \<noteq> 0, PSA_ERROR_PROGRAMMER_ERROR),
      (flags \<notin> supported_flags v, PSA_ERROR_NOT_SUPPORTED),
      (uid \<noteq> 0 \<and> write_once api m uid, PSA_ERROR_NOT_PERMITTED),
      (ITS_MAX_ASSET_SIZE api < len, PSA_ERROR_INVALID_ARGUMENT),
      (full v m uid, PSA_ERROR_INSUFFICIENT_STORAGE)]"

definition get_errors ::
  "assets \<Rightarrow> psa_storage_uid_t \<Rightarrow> nat \<Rightarrow> nat \<Rightarrow> bool \<Rightarrow> bool \<Rightarrow> psa_status list" where
  "get_errors m uid offset data_size has_data has_length = reasons
     [(uid = 0, PSA_ERROR_INVALID_ARGUMENT),
      (\<not> has_data \<and> data_size \<noteq> 0, PSA_ERROR_PROGRAMMER_ERROR),
      (\<not> has_length, PSA_ERROR_INVALID_ARGUMENT),
      (uid \<noteq> 0 \<and> m uid = None, PSA_ERROR_DOES_NOT_EXIST),
      (uid \<noteq> 0 \<and> (case m uid of None \<Rightarrow> False | Some a \<Rightarrow> length (content a) < offset),
       PSA_ERROR_INVALID_ARGUMENT)]"

definition get_info_errors :: "assets \<Rightarrow> psa_storage_uid_t \<Rightarrow> bool \<Rightarrow> psa_status list" where
  "get_info_errors m uid has_info = reasons
     [(uid = 0, PSA_ERROR_INVALID_ARGUMENT),
      (\<not> has_info, PSA_ERROR_INVALID_ARGUMENT),
      (uid \<noteq> 0 \<and> m uid = None, PSA_ERROR_DOES_NOT_EXIST)]"

definition remove_errors :: "'s its_api \<Rightarrow> assets \<Rightarrow> psa_storage_uid_t \<Rightarrow> psa_status list" where
  "remove_errors api m uid = reasons
     [(uid = 0, PSA_ERROR_INVALID_ARGUMENT),
      (uid \<noteq> 0 \<and> m uid = None, PSA_ERROR_DOES_NOT_EXIST),
      (uid \<noteq> 0 \<and> write_once api m uid, PSA_ERROR_NOT_PERMITTED)]"

definition its_outcome :: "psa_status list \<Rightarrow> psa_status \<Rightarrow> bool" where
  "its_outcome errs status \<longleftrightarrow> (if errs = [] then status = PSA_SUCCESS else status \<in> set errs)"

definition set_conforms :: "'s its_api \<Rightarrow> 's its_service \<Rightarrow> bool" where
  "set_conforms api v \<longleftrightarrow>
     (\<forall>s uid len data flags status s'.
        (\<forall>d. data = Some d \<longrightarrow> length d = len) \<and> psa_its_set api uid len data flags s = (status, s') \<longrightarrow>
        (let errs = set_errors api v (assets_of v s) uid len data flags
         in its_outcome errs status
          \<and> assets_of v s' = (if errs = []
              then (assets_of v s)(uid \<mapsto>
                \<lparr>content = (case data of None \<Rightarrow> [] | Some d \<Rightarrow> d), create_flags = flags\<rparr>)
              else assets_of v s)))"

definition get_conforms :: "'s its_api \<Rightarrow> 's its_service \<Rightarrow> bool" where
  "get_conforms api v \<longleftrightarrow>
     (\<forall>s uid offset data_size has_data has_length status w n s'.
        psa_its_get api uid offset data_size has_data has_length s = ((status, w, n), s') \<longrightarrow>
        (let errs = get_errors (assets_of v s) uid offset data_size has_data has_length
         in its_outcome errs status \<and> assets_of v s' = assets_of v s
          \<and> (if errs = []
             then w = take data_size (drop offset (content (the (assets_of v s uid))))
                \<and> n = Some (length w)
             else w = [])))"

definition get_info_conforms :: "'s its_api \<Rightarrow> 's its_service \<Rightarrow> bool" where
  "get_info_conforms api v \<longleftrightarrow>
     (\<forall>s uid has_info status i s'.
        psa_its_get_info api uid has_info s = ((status, i), s') \<longrightarrow>
        (let errs = get_info_errors (assets_of v s) uid has_info; a = the (assets_of v s uid)
         in its_outcome errs status \<and> assets_of v s' = assets_of v s
          \<and> i = (if errs = []
              then Some \<lparr>info_capacity = length (content a), info_size = length (content a),
                         info_flags = create_flags a\<rparr>
              else None)))"

definition remove_conforms :: "'s its_api \<Rightarrow> 's its_service \<Rightarrow> bool" where
  "remove_conforms api v \<longleftrightarrow>
     (\<forall>s uid status s'.
        psa_its_remove api uid s = (status, s') \<longrightarrow>
        (let errs = remove_errors api (assets_of v s) uid
         in its_outcome errs status
          \<and> assets_of v s' = (if errs = [] then (assets_of v s)(uid := None) else assets_of v s)))"

definition its_conforms :: "'s its_api \<Rightarrow> 's its_service \<Rightarrow> bool" where
  "its_conforms api v \<longleftrightarrow>
     set_conforms api v \<and> get_conforms api v \<and> get_info_conforms api v \<and> remove_conforms api v
     \<and> PSA_STORAGE_FLAG_NONE api = 0 \<and> PSA_STORAGE_FLAG_WRITE_ONCE api \<noteq> 0
     \<and> {PSA_STORAGE_FLAG_NONE api, PSA_STORAGE_FLAG_WRITE_ONCE api} \<subseteq> supported_flags v
     \<and> INVALID_FLAG \<notin> supported_flags v"

section \<open>Stepping through a test\<close>

text \<open>
  The state within a test: the content of the storage, and what no call changes, the mark of
  undefined behaviour and the static buffer.
\<close>

definition its_at :: "'s its_service \<Rightarrow> assets \<Rightarrow> bool \<times> string \<Rightarrow> 's its_world env \<Rightarrow> bool" where
  "its_at v m u e \<longleftrightarrow>
     assets_of v (its_store (world e)) = m \<and> (ub e, read_asset_data (world e)) = u"

abbreviation status_of :: "psa_status list \<Rightarrow> psa_status" where
  "status_of errs \<equiv> (if errs = [] then PSA_SUCCESS else hd errs)"

lemma its_outcome_single:
  "its_outcome errs status \<Longrightarrow> length errs \<le> 1 \<Longrightarrow>
   status = (if errs = [] then PSA_SUCCESS else hd errs)"
  by (cases errs) (auto simp: its_outcome_def)

lemma spec_on_its:
  assumes "\<And>s r s'. assets_of v s = m \<Longrightarrow> g s = (r, s') \<Longrightarrow> spec (its_at v (assets_of v s') u) (f r) Q"
  shows "spec (its_at v m u) (State_Monad.bind (on_its g) f) Q"
  unfolding spec_def
proof (intro allI impI)
  fix e :: "'a its_world env"
  assume at: "its_at v m u e"
  obtain r s' where g: "g (its_store (world e)) = (r, s')" by fastforce
  let ?e = "e\<lparr>world := (world e)\<lparr>its_store := s'\<rparr>\<rparr>"
  have "spec (its_at v (assets_of v s') u) (f r) Q" using assms [OF _ g] at by (simp add: its_at_def)
  moreover have "its_at v (assets_of v s') u ?e" using at by (simp add: its_at_def)
  ultimately show "case run_state (State_Monad.bind (on_its g) f) e of (x, xa) \<Rightarrow> Q x xa"
    using g by (simp add: spec_def on_its_def)
qed

lemma undefined_if_False [simp]: "State_Monad.bind (undefined_if False) f = f ()"
  by (simp add: undefined_if_def)

text \<open>The contract at one call.\<close>

lemma set_law:
  assumes "its_conforms api v" and "psa_its_set api uid len data flags s = (status, s')"
    and "\<And>d. data = Some d \<Longrightarrow> length d = len"
    and "set_errors api v (assets_of v s) uid len data flags = errs" and "length errs \<le> 1"
  shows "status = status_of errs \<and> assets_of v s' = (if errs = []
      then (assets_of v s)(uid \<mapsto> \<lparr>content = (case data of None \<Rightarrow> [] | Some d \<Rightarrow> d), create_flags = flags\<rparr>)
      else assets_of v s)"
proof -
  have "set_conforms api v" using assms(1) by (simp add: its_conforms_def)
  from this [unfolded set_conforms_def Let_def, rule_format, OF conjI, OF _ assms(2)] its_outcome_single [OF _ assms(5)] assms(3,4)
  show ?thesis by blast
qed

lemma get_law:
  assumes "its_conforms api v"
    and "psa_its_get api uid offset data_size has_data has_length s = ((status, w, n), s')"
    and "get_errors (assets_of v s) uid offset data_size has_data has_length = errs" and "length errs \<le> 1"
  shows "status = status_of errs \<and> assets_of v s' = assets_of v s
    \<and> (if errs = [] then w = take data_size (drop offset (content (the (assets_of v s uid)))) \<and> n = Some (length w)
       else w = [])"
proof -
  have "get_conforms api v" using assms(1) by (simp add: its_conforms_def)
  from this [unfolded get_conforms_def Let_def, rule_format, OF assms(2), unfolded assms(3)] its_outcome_single [OF _ assms(4)]
  show ?thesis by blast
qed

lemma get_info_law:
  assumes "its_conforms api v" and "psa_its_get_info api uid has_info s = ((status, i), s')"
    and "get_info_errors (assets_of v s) uid has_info = errs" and "length errs \<le> 1"
  shows "status = status_of errs \<and> assets_of v s' = assets_of v s
    \<and> i = (if errs = [] then Some \<lparr>info_capacity = length (content (the (assets_of v s uid))),
        info_size = length (content (the (assets_of v s uid))),
        info_flags = create_flags (the (assets_of v s uid))\<rparr> else None)"
proof -
  have "get_info_conforms api v" using assms(1) by (simp add: its_conforms_def)
  from this [unfolded get_info_conforms_def Let_def, rule_format, OF assms(2), unfolded assms(3)] its_outcome_single [OF _ assms(4)]
  show ?thesis by blast
qed

lemma remove_law:
  assumes "its_conforms api v" and "psa_its_remove api uid s = (status, s')"
    and "remove_errors api (assets_of v s) uid = errs" and "length errs \<le> 1"
  shows "status = status_of errs
    \<and> assets_of v s' = (if errs = [] then (assets_of v s)(uid := None) else assets_of v s)"
proof -
  have "remove_conforms api v" using assms(1) by (simp add: its_conforms_def)
  from this [unfolded remove_conforms_def Let_def, rule_format, OF assms(2), unfolded assms(3)] its_outcome_single [OF _ assms(4)]
  show ?thesis by blast
qed

text \<open>
  The steps: a call whose reasons to fail are \<open>errs\<close>, at most one, has the status and the effect
  that the contract gives.
\<close>

lemma its_set_step:
  assumes conf: "its_conforms api v"
    and errs: "set_errors api v m uid len (map_option (take len) data) flags = errs" "length errs \<le> 1"
    and len: "case data of None \<Rightarrow> True | Some d \<Rightarrow> len \<le> length d"
    and rest: "spec (its_at v (if errs = []
           then m(uid \<mapsto> \<lparr>content = (case data of None \<Rightarrow> [] | Some d \<Rightarrow> take len d), create_flags = flags\<rparr>)
           else m) u) (f (status_of errs)) Q"
  shows "spec (its_at v m u) (State_Monad.bind (its_set api uid len data flags) f) Q"
proof -
  have len': "length d = len" if "map_option (take len) data = Some d" for d
    using len that by (auto split: option.splits)
  have "spec (its_at v (assets_of v s') u) (f status) Q"
    if s: "assets_of v s = m"
      and g: "psa_its_set api uid len (map_option (take len) data) flags s = (status, s')" for s status s'
    using rest set_law [OF conf g len' errs(1) [folded s] errs(2)] s
    by (cases data; cases "errs = []") simp_all
  then have "spec (its_at v m u) (State_Monad.bind (on_its
      (psa_its_set api uid len (map_option (take len) data) flags)) f) Q"
    by (rule spec_on_its)
  moreover have "\<not> (case data of None \<Rightarrow> False | Some d \<Rightarrow> length d < len)"
    using len by (auto split: option.splits)
  ultimately show ?thesis by (simp add: its_set_def)
qed

lemma its_remove_step:
  assumes conf: "its_conforms api v" and errs: "remove_errors api m uid = errs" "length errs \<le> 1"
    and rest: "spec (its_at v (if errs = [] then m(uid := None) else m) u) (f (status_of errs)) Q"
  shows "spec (its_at v m u) (State_Monad.bind (its_remove api uid) f) Q"
  unfolding its_remove_def
proof (rule spec_on_its)
  fix s status s'
  assume s: "assets_of v s = m" and g: "psa_its_remove api uid s = (status, s')"
  then show "spec (its_at v (assets_of v s') u) (f status) Q"
    using rest remove_law [OF conf g errs(1) [folded s] errs(2)] s by (cases "errs = []") simp_all
qed

lemma its_get_info_step:
  assumes conf: "its_conforms api v" and errs: "get_info_errors m uid True = errs" "length errs \<le> 1"
    and rest: "spec (its_at v m u) (f (status_of errs, if errs = [] then
        \<lparr>info_capacity = length (content (the (m uid))), info_size = length (content (the (m uid))),
         info_flags = create_flags (the (m uid))\<rparr> else info)) Q"
  shows "spec (its_at v m u) (State_Monad.bind (its_get_info api uid info) f) Q"
  unfolding its_get_info_def bind_assoc
proof (rule spec_on_its)
  fix s r s'
  assume s: "assets_of v s = m" and g: "psa_its_get_info api uid True s = (r, s')"
  obtain status i where r: "r = (status, i)" by fastforce
  show "spec (its_at v (assets_of v s') u) (State_Monad.bind (case r of (status, i) \<Rightarrow>
      return (status, case i of None \<Rightarrow> info | Some i \<Rightarrow> i)) f) Q"
    using rest get_info_law [OF conf g [unfolded r] errs(1) [folded s] errs(2)] s r by (cases "errs = []") simp_all
qed

lemma its_get_info_null_step:
  assumes conf: "its_conforms api v" and errs: "get_info_errors m uid False = errs" "length errs \<le> 1"
    and rest: "spec (its_at v m u) (f (status_of errs)) Q"
  shows "spec (its_at v m u) (State_Monad.bind (its_get_info_null api uid) f) Q"
  unfolding its_get_info_null_def bind_assoc
proof (rule spec_on_its)
  fix s r s'
  assume s: "assets_of v s = m" and g: "psa_its_get_info api uid False s = (r, s')"
  obtain status i where r: "r = (status, i)" by fastforce
  show "spec (its_at v (assets_of v s') u) (State_Monad.bind (case r of (status, _) \<Rightarrow> return status) f) Q"
    using rest get_info_law [OF conf g [unfolded r] errs(1) [folded s] errs(2)] s r by (cases "errs = []") simp_all
qed

lemma overwrite_Nil [simp]: "overwrite start [] bytes = bytes"
  by (simp add: overwrite_def)

lemma spec_its_get:
  assumes conf: "its_conforms api v"
    and errs: "get_errors m uid offset data_size has_data has_length = errs" "length errs \<le> 1"
    and ok: "\<And>w. errs = [] \<Longrightarrow> w = take data_size (drop offset (content (the (m uid)))) \<Longrightarrow>
      spec (its_at v m u) (f (PSA_SUCCESS, w, Some (length w))) Q"
    and err: "\<And>n. errs \<noteq> [] \<Longrightarrow> spec (its_at v m u) (f (hd errs, [], n)) Q"
  shows "spec (its_at v m u) (State_Monad.bind (on_its
      (psa_its_get api uid offset data_size has_data has_length)) f) Q"
proof (rule spec_on_its)
  fix s r s'
  assume s: "assets_of v s = m"
    and g: "psa_its_get api uid offset data_size has_data has_length s = (r, s')"
  obtain status d n where r: "r = (status, d, n)" by (cases r)
  show "spec (its_at v (assets_of v s') u) (f r) Q"
    using get_law [OF conf g [unfolded r] errs(1) [folded s] errs(2)] s r ok err by (cases "errs = []") simp_all
qed

lemma its_get_step:
  assumes "its_conforms api v" and "get_errors m uid offset data_size True True = errs" "length errs \<le> 1"
    and "\<And>w. errs = [] \<Longrightarrow> w = take data_size (drop offset (content (the (m uid)))) \<Longrightarrow>
      start + length w \<le> length bytes \<and>
      spec (its_at v m u) (f (PSA_SUCCESS, overwrite start w bytes, length w)) Q"
    and "\<And>n. errs \<noteq> [] \<Longrightarrow> spec (its_at v m u) (f (hd errs, bytes, n)) Q" and "start \<le> length bytes"
  shows "spec (its_at v m u)
    (State_Monad.bind (its_get api uid offset data_size bytes start len) f) Q"
  unfolding its_get_def bind_assoc
  by (rule spec_its_get [OF assms(1-3)])
    (use assms(4-) in \<open>simp_all add: undefined_if_def not_less\<close>)

lemma its_get_uninit_step:
  assumes "its_conforms api v" and "get_errors m uid offset data_size True True = []"
    and "w = take data_size (drop offset (content (the (m uid))))" and "start + length w \<le> length bytes"
    and "spec (its_at v m u) (f (PSA_SUCCESS, overwrite start w bytes, length w)) Q"
  shows "spec (its_at v m u)
    (State_Monad.bind (its_get_uninit api uid offset data_size bytes start) f) Q"
  unfolding its_get_uninit_def bind_assoc
  by (rule spec_its_get [OF assms(1,2)])
    (use assms(3-) in \<open>auto simp: undefined_if_def\<close>)

lemma its_get_null_step:
  assumes "its_conforms api v" and "get_errors m uid offset data_size False True = errs" "length errs \<le> 1"
    and "errs = [] \<Longrightarrow> spec (its_at v m u) (f (PSA_SUCCESS, 0)) Q"
    and "\<And>n. errs \<noteq> [] \<Longrightarrow> spec (its_at v m u) (f (hd errs, n)) Q"
  shows "spec (its_at v m u) (State_Monad.bind (its_get_null api uid offset data_size len) f) Q"
proof -
  have "data_size = 0" if "errs = []"
    using assms(2) that by (auto simp: get_errors_def reasons_def split: if_splits)
  then show ?thesis
    unfolding its_get_null_def bind_assoc
    by (intro spec_its_get [OF assms(1-3)])
      (use assms(4,5) in \<open>auto simp: undefined_if_def\<close>)
qed

lemma its_get_no_length_step:
  assumes "its_conforms api v" and "get_errors m uid offset data_size True False = errs"
    "length errs \<le> 1" "errs \<noteq> []" and "start \<le> length bytes"
    and "spec (its_at v m u) (f (hd errs)) Q"
  shows "spec (its_at v m u)
    (State_Monad.bind (its_get_no_length api uid offset data_size bytes start) f) Q"
  unfolding its_get_no_length_def bind_assoc
  by (rule spec_its_get [OF assms(1-3)]) (use assms(4-) in \<open>auto simp: undefined_if_def\<close>)

lemma its_memcmp_step:
  assumes "n \<le> length a" and "n \<le> length b" and "spec P (f (take n a = take n b)) Q"
  shows "spec P (State_Monad.bind (its_memcmp a b n) f) Q"
  using assms by (simp add: its_memcmp_def undefined_if_def not_less)

lemmas its_steps = its_set_step its_remove_step its_get_info_step its_get_info_null_step
  its_get_step its_get_uninit_step its_get_null_step its_get_no_length_step

text \<open>
  Room for the identifiers of the tests: the assets of others leave four places. It does not
  depend on which of the four are taken.
\<close>

definition its_room :: "'s its_service \<Rightarrow> assets \<Rightarrow> bool" where
  "its_room v m \<longleftrightarrow> finite (dom m) \<and> card (dom m - {1, 2, 3, 4}) + 4 \<le> num_assets v"

lemma its_room_upd [simp]: "uid \<in> {1, 2, 3, 4} \<Longrightarrow> its_room v (m(uid := x)) \<longleftrightarrow> its_room v m"
proof -
  assume uid: "uid \<in> {1, 2, 3, 4}"
  have "dom (m(uid := x)) - {1, 2, 3, 4} = dom m - {1, 2, 3, 4}" using uid by auto
  moreover have "finite (dom (m(uid := x))) \<longleftrightarrow> finite (dom m)" by simp
  ultimately show ?thesis by (simp add: its_room_def)
qed

lemma its_room_not_full:
  assumes "its_room v m" and "uid \<in> {1, 2, 3, 4}"
  shows "\<not> full v m uid"
proof
  assume "full v m uid"
  then have "uid \<notin> dom m" and le: "num_assets v \<le> card (dom m)" by (auto simp: full_def)
  let ?others = "dom m - {1, 2, 3, 4}" and ?tests = "{1, 2, 3, 4} - {uid}"
  have "dom m \<subseteq> ?others \<union> ?tests" using \<open>uid \<notin> dom m\<close> by blast
  then have "card (dom m) \<le> card (?others \<union> ?tests)"
    using assms(1) by (intro card_mono) (simp_all add: its_room_def)
  also have "\<dots> \<le> card ?others + card ?tests" by (rule card_Un_le)
  finally have "card (dom m) \<le> card ?others + card ?tests" .
  moreover have "card ?tests = 3" using assms(2) by (simp add: card_Diff_singleton)
  ultimately show False using assms(1) le by (simp add: its_room_def)
qed

lemma not_full_invalid [simp]: "\<not> full v m 0"
  by (simp add: full_def)

lemmas its_consts = WRITE_ONCE_UID_def ITS_TEST_UID_1_def ITS_TEST_UID_2_def ITS_TEST_UID_3_def
  INVALID_UID_def HALF_PADDING_SIZE_def TEST_019_CYCLES_def WRITE_DATA_SIZE_def WRITE_ONCE_DATA_SIZE_def

text \<open>
  A test does its work: from a content of the storage that suits it, it ends with the verdict
  \<open>r\<close> and changes the content by \<open>eff\<close>.
\<close>

definition its_ready :: "'s its_api \<Rightarrow> 's its_service \<Rightarrow> assets \<Rightarrow> bool" where
  "its_ready api v m \<longleftrightarrow> its_room v m \<and> WRITE_ONCE_DATA_SIZE \<le> ITS_MAX_ASSET_SIZE api
     \<and> \<not> write_once api m 2 \<and> \<not> write_once api m 3 \<and> \<not> write_once api m 4"

definition its_test_ok ::
  "'s its_api \<Rightarrow> 's its_service \<Rightarrow> (assets \<Rightarrow> bool) \<Rightarrow> (assets \<Rightarrow> assets) \<Rightarrow> test_status_t
   \<Rightarrow> 's its_world test_fun \<Rightarrow> bool" where
  "its_test_ok api v pre eff r f \<longleftrightarrow>
     (\<forall>m u ret. its_ready api v m \<and> pre m \<longrightarrow>
        spec (its_at v m u) (f ret) (\<lambda>ret' e. val ret' = r \<and> (\<exists>b. its_at v (eff m) (fst u, b) e)))"

definition write_once_asset :: "'s its_api \<Rightarrow> asset" where
  "write_once_asset api = \<lparr>content = WRITE_ONCE_DATA, create_flags = PSA_STORAGE_FLAG_WRITE_ONCE api\<rparr>"

lemma its_test_okI:
  assumes "\<And>m u ret. \<lbrakk>its_room v m; 36 \<le> ITS_MAX_ASSET_SIZE api; \<not> write_once api m 2;
      \<not> write_once api m 3; \<not> write_once api m 4; pre m\<rbrakk> \<Longrightarrow>
    spec (its_at v m u) (f ret) (\<lambda>ret' e. val ret' = r \<and> its_at v (eff m) u e)"
  shows "its_test_ok api v pre eff r f"
  unfolding its_test_ok_def
proof (intro allI impI, elim conjE)
  fix m u ret
  assume "its_ready api v m" and "pre m"
  then have "spec (its_at v m u) (f ret) (\<lambda>ret' e. val ret' = r \<and> its_at v (eff m) u e)"
    using assms by (simp add: its_ready_def WRITE_ONCE_DATA_SIZE_def WRITE_ONCE_DATA_def c_array_def)
  then show "spec (its_at v m u) (f ret) (\<lambda>ret' e. val ret' = r \<and> (\<exists>b. its_at v (eff m) (fst u, b) e))"
    by (auto simp: spec_def its_at_def)
qed

lemma spec_passed:
  assumes "\<And>e. P e \<Longrightarrow> its_at v m u e"
  shows "spec P (passed ret) (\<lambda>ret' e. val ret' = TEST_PASSED \<and> its_at v m u e)"
  using assms by (simp add: passed_def spec_def)

lemma conforms_flags:
  assumes "its_conforms api v"
  shows "PSA_STORAGE_FLAG_NONE api = 0" and "0 \<in> supported_flags v"
    and "PSA_STORAGE_FLAG_WRITE_ONCE api \<in> supported_flags v" and "PSA_STORAGE_FLAG_WRITE_ONCE api \<noteq> 0"
    and "INVALID_FLAG \<notin> supported_flags v"
  using assms by (auto simp: its_conforms_def)

lemma write_once_upd:
  "write_once api (m(uid := None)) x \<longleftrightarrow> x \<noteq> uid \<and> write_once api m x"
  "write_once api (m(uid \<mapsto> a)) x \<longleftrightarrow>
     (if x = uid then and (create_flags a) (PSA_STORAGE_FLAG_WRITE_ONCE api) \<noteq> 0 else write_once api m x)"
  by (auto simp: write_once_def)

lemmas its_errors = set_errors_def get_errors_def get_info_errors_def remove_errors_def reasons_def

lemmas its_strings = c_array_def WRITE_DATA_def READ_DATA_def RESULT_DATA_def OFFSET_READ_DATA_def
  OFFSET_RESULT_DATA_def WRITE_ONCE_DATA_def WRITE_ONCE_READ_DATA_def WRITE_ONCE_RESULT_DATA_def

lemmas its_test_defs = tfm_its_test_common_001_def tfm_its_test_common_003_def tfm_its_test_common_004_def tfm_its_test_common_005_def tfm_its_test_common_006_def tfm_its_test_common_007_def tfm_its_test_common_008_def tfm_its_test_common_009_def tfm_its_test_common_010_def tfm_its_test_common_011_def tfm_its_test_common_012_def tfm_its_test_common_013_def tfm_its_test_common_014_def tfm_its_test_common_015_def tfm_its_test_common_016_def tfm_its_test_common_018_def tfm_its_test_common_020_def tfm_its_test_common_021_def
  tfm_its_ns_test_001_def tfm_its_ns_test_002_def tfm_its_ns_test_003_def

lemma length_c_array [simp]: "length (c_array s) = Suc (length s)"
  by (simp add: c_array_def)

lemma its_data [simp]:
  "length WRITE_DATA = 33" "length READ_DATA = 41" "length RESULT_DATA = 41"
  "length OFFSET_RESULT_DATA = 41" "length WRITE_ONCE_DATA = 36" "length WRITE_ONCE_READ_DATA = 44"
  "length WRITE_ONCE_RESULT_DATA = 44"
  "take 33 (c_array WRITE_DATA) = WRITE_DATA" "take 36 (c_array WRITE_ONCE_DATA) = WRITE_ONCE_DATA"
  "overwrite 4 WRITE_DATA (c_array READ_DATA) = c_array RESULT_DATA"
  "overwrite 4 (drop (Suc 0) WRITE_DATA) (c_array READ_DATA) = c_array OFFSET_RESULT_DATA"
  "overwrite 4 WRITE_ONCE_DATA (c_array WRITE_ONCE_READ_DATA) = c_array WRITE_ONCE_RESULT_DATA"
  by (simp_all add: its_strings overwrite_def)

lemma its_data_inner:
  "length (overwrite 4 (take 29 (drop 2 WRITE_DATA)) (c_array READ_DATA)) = 42"
  "take 4 (overwrite 4 (take 29 (drop 2 WRITE_DATA)) (c_array READ_DATA)) = take 4 (c_array ''____'')"
  "take 29 (drop 4 (overwrite 4 (take 29 (drop 2 WRITE_DATA)) (c_array READ_DATA))) = take 29 (drop 2 (c_array WRITE_DATA))"
  "take 4 (drop 33 (overwrite 4 (take 29 (drop 2 WRITE_DATA)) (c_array READ_DATA))) = take 4 (c_array ''____'')"
  by (simp_all add: its_strings overwrite_def)

lemma its_tests_ok:
  assumes conf: "its_conforms api v"
  shows
    "its_test_ok api v (\<lambda>m. True) (\<lambda>m. m(4 \<mapsto> \<lparr>content = [], create_flags = 0\<rparr>)) TEST_PASSED (tfm_its_test_common_003 api)"
    "its_test_ok api v (\<lambda>m. m 1 = Some (write_once_asset api)) (\<lambda>m. m) TEST_PASSED (tfm_its_test_common_004 api)"
    "its_test_ok api v (\<lambda>m. True) (\<lambda>m. m(3 := None)) TEST_PASSED (tfm_its_test_common_005 api)"
    "its_test_ok api v (\<lambda>m. True) (\<lambda>m. m(4 := None)) TEST_PASSED (tfm_its_test_common_006 api)"
    "its_test_ok api v (\<lambda>m. m 2 = None) (\<lambda>m. m) TEST_PASSED (tfm_its_test_common_007 api)"
    "its_test_ok api v (\<lambda>m. True) (\<lambda>m. m(3 := None)) TEST_PASSED (tfm_its_test_common_008 api)"
    "its_test_ok api v (\<lambda>m. True) (\<lambda>m. m(4 := None)) TEST_PASSED (tfm_its_test_common_009 api)"
    "its_test_ok api v (\<lambda>m. m 1 = Some (write_once_asset api)) (\<lambda>m. m) TEST_PASSED (tfm_its_test_common_010 api)"
    "its_test_ok api v (\<lambda>m. True) (\<lambda>m. m(2 := None)) TEST_PASSED (tfm_its_test_common_011 api)"
    "its_test_ok api v (\<lambda>m. m 3 = None) (\<lambda>m. m) TEST_PASSED (tfm_its_test_common_012 api)"
    "its_test_ok api v (\<lambda>m. True) (\<lambda>m. m(2 := None)) TEST_PASSED (tfm_its_test_common_013 api)"
    "its_test_ok api v (\<lambda>m. m 1 = Some (write_once_asset api)) (\<lambda>m. m) TEST_PASSED (tfm_its_test_common_014 api)"
    "its_test_ok api v (\<lambda>m. True) (\<lambda>m. m) TEST_PASSED (tfm_its_test_common_015 api)"
    "its_test_ok api v (\<lambda>m. True) (\<lambda>m. m(3 := None, 4 := None)) TEST_PASSED (tfm_its_test_common_016 api)"
    "its_test_ok api v (\<lambda>m. True) (\<lambda>m. m) TEST_PASSED (tfm_its_test_common_020 api)"
    "its_test_ok api v (\<lambda>m. True) (\<lambda>m. m(3 := None)) TEST_PASSED (tfm_its_test_common_021 api)"
    "its_test_ok api v (\<lambda>m. True) (\<lambda>m. m) TEST_PASSED (tfm_its_ns_test_001 api)"
    "its_test_ok api v (\<lambda>m. True) (\<lambda>m. m(3 := None)) TEST_PASSED (tfm_its_ns_test_002 api)"
    "its_test_ok api v (\<lambda>m. True) (\<lambda>m. m(3 := None)) TEST_PASSED (tfm_its_ns_test_003 api)"
  supply conforms_flags [OF conf, simp] its_errors [simp] its_room_not_full [simp] write_once_upd [simp]
    require_def [simp] write_once_asset_def [simp] write_once_def [simp] its_data_inner [simp] no_info_def [simp]
  unfolding its_test_defs its_consts
  by (rule its_test_okI, ((rule its_steps(1-5,7,8) [OF conf refl] its_memcmp_step its_steps(6) [OF conf _ refl]; simp?)+)?,
      rule spec_passed; simp)+

text \<open>The two tests that read back short strings.\<close>

lemma its_string_tests_ok:
  assumes conf: "its_conforms api v"
  shows
    "its_test_ok api v (\<lambda>m. True) (\<lambda>m. m(2 := None, 3 := None)) TEST_PASSED (tfm_its_test_common_001 api)"
    "its_test_ok api v (\<lambda>m. True) (\<lambda>m. m(3 := None)) TEST_PASSED (tfm_its_test_common_018 api)"
  supply conforms_flags [OF conf, simp] its_errors [simp] its_room_not_full [simp] write_once_upd [simp]
    require_def [simp] c_array_def [simp] overwrite_def [simp] READ_DATA_def [simp]
  unfolding its_test_defs its_consts
  by (rule its_test_okI, ((rule its_steps(1-5,7,8) [OF conf refl] its_memcmp_step its_steps(6) [OF conf _ refl]; simp?)+)?,
      rule spec_passed; simp)+

text \<open>The test of the create flags, from the content it finds.\<close>

definition write_once_free :: "'s its_api \<Rightarrow> assets \<Rightarrow> bool" where
  "write_once_free api m \<longleftrightarrow> write_once api m 1 \<longrightarrow> m 1 = Some (write_once_asset api)"

lemma its_log_step:
  assumes "printable fmt []" and "spec (its_at v m u) (f ()) Q"
  shows "spec (its_at v m u) (State_Monad.bind (TEST_LOG fmt []) f) Q"
proof -
  have "its_at v m u (snd (run_state (TEST_LOG fmt []) e)) \<longleftrightarrow> its_at v m u e" for e
    using only_logsD [OF only_logs_TEST_LOG [OF assms(1)], of e] by (simp add: its_at_def)
  then show ?thesis using assms(2) by (simp add: spec_def case_prod_beta)
qed

lemma its_test_002_ok:
  assumes conf: "its_conforms api v"
  shows "its_test_ok api v (write_once_free api) (\<lambda>m. m(1 \<mapsto> write_once_asset api)) TEST_PASSED
    (tfm_its_test_common_002 api)"
proof -
  note [simp] = conforms_flags [OF conf] its_errors its_room_not_full write_once_upd require_def
    write_once_asset_def no_info_def
  have flags: "spec (its_at v m u) (its_test_002_invalid_flags api ret)
      (\<lambda>ret' e. val ret' = TEST_PASSED \<and> its_at v m u e)"
    if "its_room v m" "36 \<le> ITS_MAX_ASSET_SIZE api" "\<not> write_once api m 3" for m u ret
    using that unfolding its_test_002_invalid_flags_def its_consts
    by (intro its_set_step [OF conf refl]) (auto intro: spec_passed)
  show ?thesis
  proof (rule its_test_okI)
    fix m u and ret :: test_result_t
    assume m: "its_room v m" "36 \<le> ITS_MAX_ASSET_SIZE api" "\<not> write_once api m 2"
      "\<not> write_once api m 3" "\<not> write_once api m 4" "write_once_free api m"
    show "spec (its_at v m u) (tfm_its_test_common_002 api ret)
        (\<lambda>ret' e. val ret' = TEST_PASSED \<and> its_at v (m(1 \<mapsto> write_once_asset api)) u e)"
    proof (cases "write_once api m 1")
      case True
      then have "m(1 \<mapsto> write_once_asset api) = m"
        using m(6) by (simp add: write_once_free_def fun_upd_idem)
      with True m show ?thesis
        unfolding tfm_its_test_common_002_def its_consts
        by (intro its_set_step [OF conf refl]) (simp_all add: its_log_step [OF printableI] flags)
    next
      case False
      with m show ?thesis
        unfolding tfm_its_test_common_002_def its_consts
        by (intro its_set_step [OF conf refl])
          (simp_all, (rule its_set_step [OF conf refl]; simp), (rule its_get_info_step [OF conf refl]; simp add: flags))
    qed
  qed
qed

text \<open>Reading one byte at a time fills the buffer from the offset on.\<close>

lemma overwrite_step:
  assumes "offset < length d" and "start + length d \<le> length bytes"
  shows "overwrite (start + Suc offset) (drop (Suc offset) d)
      (overwrite (start + offset) (take 1 (drop offset d)) bytes) = overwrite (start + offset) (drop offset d) bytes"
proof -
  have "drop offset d = d ! offset # drop (Suc offset) d" using assms(1) by (rule Cons_nth_drop_Suc [symmetric])
  moreover have "length d - offset = Suc (length d - Suc offset)" using assms(1) by simp
  ultimately show ?thesis using assms by (simp add: overwrite_def take_Suc_conv_app_nth min_def ac_simps)
qed

lemma its_test_017_loop_step:
  assumes conf: "its_conforms api v" and m: "m 2 = Some a"
    and "offset + n = length (content a)" and "4 + length (content a) \<le> length bytes"
    and "spec (its_at v m u) (f (Some (overwrite (4 + offset) (drop offset (content a)) bytes))) Q"
  shows "spec (its_at v m u) (State_Monad.bind (its_test_017_loop api offset n bytes len) f) Q"
  using assms(3-)
proof (induction n arbitrary: offset bytes len)
  case (Suc n)
  let ?w = "take 1 (drop offset (content a))"
  have off: "offset < length (content a)" using Suc.prems(1) by simp
  have "spec (its_at v m u) (State_Monad.bind (its_test_017_loop api (Suc offset) n
      (overwrite (4 + offset) ?w bytes) 1) f) Q"
    using Suc.prems off overwrite_step [OF off, of 4 bytes]
    by (intro Suc.IH) (simp_all add: overwrite_def min_def)
  then show ?case
    using Suc.prems off m
    by (simp add: bind_assoc ITS_TEST_UID_1_def HALF_PADDING_SIZE_def)
      (rule its_get_step [OF conf refl]; simp add: its_errors)
qed simp

lemma its_test_017_ok:
  assumes conf: "its_conforms api v"
  shows "its_test_ok api v (\<lambda>m. True) (\<lambda>m. m(2 := None)) TEST_PASSED (tfm_its_test_common_017 api)"
  supply conforms_flags [OF conf, simp] its_errors [simp] its_room_not_full [simp] write_once_upd [simp]
    require_def [simp]
  unfolding tfm_its_test_common_017_def its_consts
  by (rule its_test_okI, (rule its_set_step [OF conf refl]; simp),
      (rule its_test_017_loop_step [OF conf, where a = "\<lparr>content = WRITE_DATA, create_flags = 0\<rparr>"]; simp), (rule its_memcmp_step; simp),
      (rule its_remove_step [OF conf refl]; simp), rule spec_passed, simp)

text \<open>The cycles over asset sizes: each leaves its identifier free and the buffer overwritten.\<close>

lemma length_write_asset_data [simp]: "length (write_asset_data api) = ITS_MAX_ASSET_SIZE api"
  by (simp add: write_asset_data_def)

lemma write_buffer_step:
  assumes "spec (its_at v m (fst u, b)) (f ()) Q"
  shows "spec (its_at v m u) (State_Monad.bind
    (modify (\<lambda>e. e\<lparr>world := (world e)\<lparr>read_asset_data := b\<rparr>\<rparr>)) f) Q"
  unfolding spec_def
proof (intro allI impI)
  fix e :: "'a its_world env"
  assume "its_at v m u e"
  then have "its_at v m (fst u, b) (e\<lparr>world := (world e)\<lparr>read_asset_data := b\<rparr>\<rparr>)"
    by (auto simp: its_at_def)
  with assms show "case run_state (State_Monad.bind
      (modify (\<lambda>e. e\<lparr>world := (world e)\<lparr>read_asset_data := b\<rparr>\<rparr>)) f) e of (x, xa) \<Rightarrow> Q x xa"
    by (simp add: spec_def)
qed

lemma read_buffer_step:
  assumes "spec (its_at v m u) (f (snd u)) Q"
  shows "spec (its_at v m u) (State_Monad.bind (gets (\<lambda>e. read_asset_data (world e))) f) Q"
  using assms by (auto simp: spec_def its_at_def)

lemma its_test_019_cycle_step:
  assumes conf: "its_conforms api v" and room: "its_room v m" and uid: "uid \<in> {2, 3, 4}"
    and wo: "\<not> write_once api m uid" and len: "data_size \<le> ITS_MAX_ASSET_SIZE api"
    and rest: "\<And>b n. spec (its_at v (m(uid := None)) (fst u, b)) (rest n) Q"
  shows "spec (its_at v m u) (its_test_019_cycle api uid data_size n ret rest) Q"
proof -
  have uid: "uid \<noteq> 0" "\<not> full v m uid" using uid its_room_not_full [OF room, of uid] by auto
  show ?thesis
    unfolding its_test_019_cycle_def
    supply conforms_flags [OF conf, simp] its_errors [simp] write_once_upd [simp] require_def [simp]
    using uid wo len
    by - (rule write_buffer_step, (rule its_set_step [OF conf refl]; simp),
      (rule its_get_info_step [OF conf refl]; simp), rule read_buffer_step,
      (rule its_get_step [OF conf refl]; simp), rule write_buffer_step,
      (rule its_memcmp_step; simp add: overwrite_def),
      (rule its_remove_step [OF conf refl]; simp add: rest))
qed

lemma its_test_019_ok:
  assumes conf: "its_conforms api v"
  shows "its_test_ok api v (\<lambda>m. True) (\<lambda>m. m(2 := None, 3 := None, 4 := None)) TEST_PASSED
    (tfm_its_test_common_019 api)"
  unfolding its_test_ok_def
proof (intro allI impI, elim conjE)
  fix m and u :: "bool \<times> string" and ret
  assume ready: "its_ready api v m"
  let ?n = "ITS_MAX_ASSET_SIZE api"
  have sizes: "drop_bit 2 ?n \<le> ?n" "drop_bit 1 ?n \<le> ?n" by (simp_all add: drop_bit_eq_div)
  have finish: "spec (its_at v (m(2 := None, 3 := None, 4 := None)) (fst u, b)) (passed ret)
      (\<lambda>ret' e. val ret' = TEST_PASSED \<and> (\<exists>b. its_at v (m(2 := None, 3 := None, 4 := None)) (fst u, b) e))" for b
    by (auto simp: passed_def spec_def)
  show "spec (its_at v m u) (tfm_its_test_common_019 api ret)
      (\<lambda>ret' e. val ret' = TEST_PASSED \<and> (\<exists>b. its_at v (m(2 := None, 3 := None, 4 := None)) (fst u, b) e))"
    unfolding tfm_its_test_common_019_def its_test_019_cycles_def its_consts
    using ready sizes finish
    by (auto simp: its_ready_def write_once_upd intro!: its_test_019_cycle_step [OF conf])
qed

lemma its_skipped_printable:
  "printable (''  This test case is not supported by the RPC test framework.'' @ CRLF) []"
  by (auto intro!: printableI)

lemma its_skipped_ok: "its_test_ok api v (\<lambda>m. True) (\<lambda>m. m) TEST_SKIPPED its_ns_test_skipped"
  unfolding its_ns_test_skipped_def
  by (rule its_test_okI, rule its_log_step, rule its_skipped_printable) (simp add: spec_def)

section \<open>The whole suite\<close>

text \<open>
  What the suite does test by test: what a test asks of the content it finds, its effect, and
  its verdict.
\<close>

type_synonym its_step = "(assets \<Rightarrow> bool) \<times> (assets \<Rightarrow> assets) \<times> test_status_t"

definition its_plan :: "bool \<Rightarrow> 's its_api \<Rightarrow> its_step list" where
  "its_plan rpc api =
     [(\<lambda>m. True, \<lambda>m. m(2 := None, 3 := None), TEST_PASSED),
      (write_once_free api, \<lambda>m. m(1 \<mapsto> write_once_asset api), TEST_PASSED),
      (\<lambda>m. True, \<lambda>m. m(4 \<mapsto> \<lparr>content = [], create_flags = 0\<rparr>), TEST_PASSED),
      (\<lambda>m. m 1 = Some (write_once_asset api), \<lambda>m. m, TEST_PASSED),
      (\<lambda>m. True, \<lambda>m. m(3 := None), TEST_PASSED),
      (\<lambda>m. True, \<lambda>m. m(4 := None), TEST_PASSED),
      (\<lambda>m. m 2 = None, \<lambda>m. m, TEST_PASSED),
      (\<lambda>m. True, \<lambda>m. m(3 := None), TEST_PASSED),
      (\<lambda>m. True, \<lambda>m. m(4 := None), TEST_PASSED),
      (\<lambda>m. m 1 = Some (write_once_asset api), \<lambda>m. m, TEST_PASSED),
      (\<lambda>m. True, \<lambda>m. m(2 := None), TEST_PASSED),
      (\<lambda>m. m 3 = None, \<lambda>m. m, TEST_PASSED),
      (\<lambda>m. True, \<lambda>m. m(2 := None), TEST_PASSED),
      (\<lambda>m. m 1 = Some (write_once_asset api), \<lambda>m. m, TEST_PASSED),
      (\<lambda>m. True, \<lambda>m. m, TEST_PASSED),
      (\<lambda>m. True, \<lambda>m. m(3 := None, 4 := None), TEST_PASSED),
      (\<lambda>m. True, \<lambda>m. m(2 := None), TEST_PASSED),
      (\<lambda>m. True, \<lambda>m. m(3 := None), TEST_PASSED),
      (\<lambda>m. True, \<lambda>m. m(2 := None, 3 := None, 4 := None), TEST_PASSED),
      (\<lambda>m. True, \<lambda>m. m, TEST_PASSED),
      (\<lambda>m. True, \<lambda>m. m(3 := None), TEST_PASSED)]
     @ (if rpc then [(\<lambda>m. True, \<lambda>m. m, TEST_SKIPPED), (\<lambda>m. True, \<lambda>m. m, TEST_SKIPPED),
              (\<lambda>m. True, \<lambda>m. m, TEST_SKIPPED)]
        else [(\<lambda>m. True, \<lambda>m. m, TEST_PASSED), (\<lambda>m. True, \<lambda>m. m(3 := None), TEST_PASSED),
              (\<lambda>m. True, \<lambda>m. m(3 := None), TEST_PASSED)])"

fun its_plan_ok :: "'s its_api \<Rightarrow> 's its_service \<Rightarrow> assets \<Rightarrow> its_step list \<Rightarrow> assets \<Rightarrow> bool" where
  "its_plan_ok api v m [] m' \<longleftrightarrow> m' = m"
| "its_plan_ok api v m ((pre, eff, r) # ps) m' \<longleftrightarrow>
     its_ready api v m \<and> pre m \<and> its_plan_ok api v (eff m) ps m'"

definition its_case_ok :: "'s its_api \<Rightarrow> 's its_service \<Rightarrow> its_step \<Rightarrow> 's its_world test_t \<Rightarrow> bool" where
  "its_case_ok api v p c \<longleftrightarrow> (case p of (pre, eff, r) \<Rightarrow>
     \<exists>f nm ds. c = test_case f nm ds \<and> short nm \<and> short ds \<and> r \<noteq> TEST_FAILED
       \<and> its_test_ok api v pre eff r f)"

lemma exec_its_tests:
  assumes "list_all2 (its_case_ok api v) ps cs"
    and "its_plan_ok api v (assets_of v (its_store (world e))) ps m'"
  shows "case run_state (exec_tests cs ret) e of (vs, e') \<Rightarrow>
    vs = map (snd \<circ> snd) ps \<and> assets_of v (its_store (world e')) = m' \<and> ub e' = ub e"
  using assms
proof (induction ps cs arbitrary: ret e rule: list_all2_induct)
  case (Cons p ps c cs)
  obtain pre eff r where p: "p = (pre, eff, r)" by (cases p)
  with Cons.hyps(1) obtain f nm ds where c: "c = test_case f nm ds" "short nm" "short ds" "r \<noteq> TEST_FAILED"
    and ok: "its_test_ok api v pre eff r f"
    by (auto simp: its_case_ok_def)
  let ?m = "assets_of v (its_store (world e))"
  obtain e1 ret' e2 e3 where w: "world e1 = world e" "ub e1 = ub e"
    and run: "run_state (f (ret\<lparr>val := TEST_PASSED\<rparr>)) e1 = (ret', e2)"
    and w3: "world e3 = world e2" "val ret' \<noteq> TEST_FAILED \<or> reportable ret' \<longrightarrow> ub e3 = ub e2"
    and one: "run_state (run_one_test f (Some nm) (Some ds) ret) e = (ret', e3)"
    by (rule run_one_test_frame [OF c(2,3)])
  have "its_at v ?m (ub e, read_asset_data (world e)) e1" using w by (simp add: its_at_def)
  then have post: "val ret' = r" "assets_of v (its_store (world e3)) = eff ?m" "ub e3 = ub e"
    using ok [unfolded its_test_ok_def spec_def, rule_format, of ?m "(ub e, read_asset_data (world e))" e1
        "ret\<lparr>val := TEST_PASSED\<rparr>"] run w3 Cons.prems p c(4) by (auto simp: its_at_def)
  then have "case run_state (exec_tests cs ret') e3 of (vs, e') \<Rightarrow>
      vs = map (snd \<circ> snd) ps \<and> assets_of v (its_store (world e')) = m' \<and> ub e' = ub e3"
    using Cons.prems p by (intro Cons.IH) simp
  then show ?case using one post p unfolding c(1) exec_tests_Cons
    by (simp add: case_prod_beta Let_def)
qed simp

lemma its_cases_ok:
  assumes "its_conforms api v"
  shows "list_all2 (its_case_ok api v) (its_plan rpc api) (psa_its_ns_tests rpc api)"
proof -
  have ok: "its_test_ok api v pre eff r f \<Longrightarrow> short nm \<Longrightarrow> short ds \<Longrightarrow> r \<noteq> TEST_FAILED \<Longrightarrow>
      its_case_ok api v (pre, eff, r) (test_case f nm ds)"
    for pre eff r f nm ds by (auto simp: its_case_ok_def)
  show ?thesis
    using its_tests_ok [OF assms] its_string_tests_ok [OF assms] its_test_002_ok [OF assms]
      its_test_017_ok [OF assms] its_test_019_ok [OF assms] its_skipped_ok [of api v]
    unfolding its_plan_def psa_its_ns_tests_def
    by (simp add: ok short_def)
qed

abbreviation its_left :: "'s its_api \<Rightarrow> assets \<Rightarrow> assets" where
  "its_left api m \<equiv> m(1 \<mapsto> write_once_asset api, 2 := None, 3 := None, 4 := None)"

lemma its_ready_left:
  assumes "its_conforms api v" and "its_ready api v m"
  shows "its_ready api v (its_left api m)" and "write_once_free api (its_left api m)"
  using assms by (simp_all add: its_ready_def write_once_upd write_once_free_def)

lemma its_plan_runs:
  assumes conf: "its_conforms api v" and "its_ready api v m" and "write_once_free api m"
  shows "its_plan_ok api v m (its_plan rpc api) (its_left api m)"
proof -
  have "its_left api m = m(2 := None, 3 := None, 1 \<mapsto> write_once_asset api, 4 := None)"
    by (simp add: fun_eq_iff)
  moreover have "write_once_free api (m(2 := None, 3 := None))"
    using assms(3) by (simp add: write_once_free_def write_once_upd)
  ultimately show ?thesis
    using assms(2) conforms_flags(1) [OF conf]
    by (cases rpc) (simp_all add: its_plan_def its_ready_def write_once_upd fun_upd_twist)
qed

text \<open>C11. On every storage service that keeps the contract of the API, the whole suite passes
  when it is run by the framework, whatever the storage holds at the start as long as there
  is room for the four identifiers of the tests, an asset may have at least 36 bytes
  (\<open>ITS_MAX_ASSET_SIZE\<close>, for the longest the tests write), the identifiers of the test assets are not held as
  write-once, and that of the write-once asset is free or holds it from an earlier run: the
  run ends without error, the suite is marked passed, no undefined behaviour occurs (all reads
  and writes of the tests stay within their buffers), the write-once asset is there, the
  test assets are gone, every other asset is as it was, and the suite can be run again.\<close>

theorem its_suite_passes:
  assumes "its_conforms api v" and "its_ready api v m" and "write_once_free api m"
    and "assets_of v (its_store (world e)) = m"
    and "ts_freg s = Some (register_testsuite_ns_psa_its_interface rpc api)"
  shows "\<exists>s' e'. run_state (run_testsuite (Some s)) e = ((TEST_SUITE_ERR_NO_ERROR, Some s'), e')
    \<and> ts_val (ts_fields s') = TEST_PASSED \<and> ub e' = ub e
    \<and> assets_of v (its_store (world e')) = m(1 \<mapsto> write_once_asset api, 2 := None, 3 := None, 4 := None)
    \<and> its_ready api v (assets_of v (its_store (world e')))
    \<and> write_once_free api (assets_of v (its_store (world e')))"
proof -
  let ?nm = "''PSA internal trusted storage NS interface tests (TFM_NS_ITS_TEST_1XXX)''"
  let ?cs = "psa_its_ns_tests rpc api"
  let ?e0 = "snd (run_state (suite_banner (Some ?nm)) e)"
  have good: "good_suite s ?nm ?cs"
    using assms(5) by (simp add: good_suite_def register_testsuite_ns_psa_its_interface_def
        psa_its_ns_tests_def valid_tests_def test_case_def)
  obtain vs e1 where run: "run_state (exec_tests ?cs null_result) ?e0 = (vs, e1)" by fastforce
  have w0: "world ?e0 = world e" "ub ?e0 = ub e" by (simp_all add: only_logsD short_def)
  have plan: "its_plan_ok api v (assets_of v (its_store (world ?e0))) (its_plan rpc api) (its_left api m)"
    using its_plan_runs [OF assms(1-3)] assms(4) w0(1) by simp
  have post: "vs = map (snd \<circ> snd) (its_plan rpc api)"
      "assets_of v (its_store (world e1)) = its_left api m" "ub e1 = ub e"
    using exec_its_tests [OF its_cases_ok [OF assms(1)] plan, of null_result] run w0(2) by simp_all
  have "TEST_FAILED \<notin> set vs" unfolding post(1) its_plan_def by (cases rpc) simp_all
  moreover have len: "length ?cs \<le> 100" by (simp add: psa_its_ns_tests_def)
  then have "count_list vs TEST_SKIPPED \<le> 100"
    using count_le_length [of vs TEST_SKIPPED] length_exec_tests [of ?cs null_result ?e0] run by simp
  then have "(of_nat (count_list vs TEST_SKIPPED) :: u32) \<noteq> 0x80000000"
      "(of_nat (length ?cs) :: u32) \<noteq> 0x80000000"
    using len by (intro of_nat_int_min; simp)+
  ultimately show ?thesis
    using run post(2,3) its_ready_left [OF assms(1,2)]
    by (auto simp: run_testsuite_exec [OF good] exec_suite_def case_prod_beta finish_suite_def
        verdict_of_def only_logsD only_logs_report)
qed

text \<open>The contract is that of a service: the map itself, which checks in the order listed.\<close>

definition its_codes :: "assets its_api" where
  "its_codes = \<lparr>PSA_STORAGE_FLAG_NONE = 0, PSA_STORAGE_FLAG_WRITE_ONCE = 1, ITS_MAX_ASSET_SIZE = 512,
     psa_its_set = \<lambda>_ _ _ _ m. (PSA_ERROR_GENERIC_ERROR, m),
     psa_its_get = \<lambda>_ _ _ _ _ m. ((PSA_ERROR_GENERIC_ERROR, [], None), m),
     psa_its_get_info = \<lambda>_ _ m. ((PSA_ERROR_GENERIC_ERROR, None), m),
     psa_its_remove = \<lambda>_ m. (PSA_ERROR_GENERIC_ERROR, m)\<rparr>"

definition ref_service :: "assets its_service" where
  "ref_service = \<lparr>assets_of = id, supported_flags = {0, 1}, num_assets = 10\<rparr>"

definition ref_its :: "assets its_api" where
  "ref_its = its_codes\<lparr>
     psa_its_set := \<lambda>uid len data flags m.
       (case set_errors its_codes ref_service m uid len data flags of
          [] \<Rightarrow> (PSA_SUCCESS, m(uid \<mapsto> \<lparr>content = (case data of None \<Rightarrow> [] | Some d \<Rightarrow> d), create_flags = flags\<rparr>))
        | err # _ \<Rightarrow> (err, m)),
     psa_its_get := \<lambda>uid offset data_size has_data has_length m.
       (case get_errors m uid offset data_size has_data has_length of
          [] \<Rightarrow> let w = take data_size (drop offset (content (the (m uid))))
                in ((PSA_SUCCESS, w, Some (length w)), m)
        | err # _ \<Rightarrow> ((err, [], None), m)),
     psa_its_get_info := \<lambda>uid has_info m.
       (case get_info_errors m uid has_info of
          [] \<Rightarrow> ((PSA_SUCCESS, Some \<lparr>info_capacity = length (content (the (m uid))),
             info_size = length (content (the (m uid))), info_flags = create_flags (the (m uid))\<rparr>), m)
        | err # _ \<Rightarrow> ((err, None), m)),
     psa_its_remove := \<lambda>uid m.
       (case remove_errors its_codes m uid of
          [] \<Rightarrow> (PSA_SUCCESS, m(uid := None))
        | err # _ \<Rightarrow> (err, m))\<rparr>"

lemma ref_its_consts:
  "PSA_STORAGE_FLAG_WRITE_ONCE ref_its = PSA_STORAGE_FLAG_WRITE_ONCE its_codes"
  "ITS_MAX_ASSET_SIZE ref_its = ITS_MAX_ASSET_SIZE its_codes"
  by (simp_all add: ref_its_def)

lemma ref_its_write_once: "write_once ref_its = write_once its_codes"
  by (simp add: fun_eq_iff write_once_def ref_its_consts split: option.split)

lemma ref_its_errors:
  "set_errors ref_its = set_errors its_codes" "remove_errors ref_its = remove_errors its_codes"
  by (simp_all add: fun_eq_iff set_errors_def remove_errors_def ref_its_write_once ref_its_consts)

lemma ref_its_set_get: "set_conforms ref_its ref_service" "get_conforms ref_its ref_service"
  unfolding set_conforms_def get_conforms_def Let_def ref_its_errors
  by (auto simp: ref_its_def ref_service_def its_outcome_def Let_def split: list.splits)

lemma ref_its_info_remove: "get_info_conforms ref_its ref_service" "remove_conforms ref_its ref_service"
  unfolding get_info_conforms_def remove_conforms_def Let_def ref_its_errors
  by (auto simp: ref_its_def ref_service_def its_outcome_def Let_def split: list.splits)

lemma ref_its_conforms: "its_conforms ref_its ref_service"
proof -
  have "INVALID_FLAG \<notin> {0, 1}" by code_simp
  then show ?thesis
    using ref_its_set_get ref_its_info_remove
    by (simp add: its_conforms_def ref_its_def its_codes_def ref_service_def)
qed

definition its_start :: "assets its_world env" where
  "its_start = \<lparr>console = [], ub = False, world = \<lparr>its_store = Map.empty, read_asset_data = []\<rparr>\<rparr>"

theorem its_suite_passes_witness:
  "\<exists>s' e'. run_state (run_testsuite (Some
       \<lparr>ts_freg = Some (register_testsuite_ns_psa_its_interface False ref_its),
        ts_fields = \<lparr>ts_test_list = [], ts_list_size = 0, ts_name = None, ts_val = TEST_PASSED\<rparr>\<rparr>)) its_start
     = ((TEST_SUITE_ERR_NO_ERROR, Some s'), e') \<and> ts_val (ts_fields s') = TEST_PASSED
     \<and> its_store (world e') = [1 \<mapsto> write_once_asset ref_its]"
proof -
  have "its_ready ref_its ref_service Map.empty"
    by (simp add: its_ready_def its_room_def ref_service_def ref_its_def its_codes_def write_once_def
        WRITE_ONCE_DATA_SIZE_def)
  moreover have "write_once_free ref_its Map.empty" by (simp add: write_once_free_def write_once_def)
  ultimately show ?thesis
    using its_suite_passes [OF ref_its_conforms, of Map.empty its_start]
    by (force simp: its_start_def ref_service_def fun_upd_idem)
qed

end
