(* ===== verification/Spec2Isabelle.thy ===== *)
theory Spec2Isabelle
  imports Log_Raw Nsid_Manager Test_Framework Tz_Shim Os_Wrapper Mailbox Erpc Boot
    Psa_Status Nv_Counters Suites Nsid_Tests Erpc_Stubs Erpc_Remote Erpc_Vectors Erpc_Memory
    Rtx_Os Rtx_Config Rtx_Events Thread_Identity Schedules Multi_Core Multi_Core_Results Multi_Core_Progress
    Irq_Tests Its_Tests
begin

text \<open>
  A verification of the TF-M tests repository: the non-secure image that starts an RTOS, runs the
  regression tests against the secure firmware, and the pieces around it.

  \<^bold>\<open>The program.\<close> \<^verbatim>\<open>app_broker/main_ns.c\<close> initialises the board, meets the secure core, creates the
  test thread and starts the kernel. The thread runs the tests of \<^verbatim>\<open>tests_reg\<close> (or the PSA
  architecture tests, or an eRPC server) through the framework of \<^verbatim>\<open>tests_reg/test/framework\<close>, which
  prints through \<^verbatim>\<open>lib/log\<close>. Every thread has a non-secure identifier (NSID): the OS layer
  \<^verbatim>\<open>app_broker/os_wrapper_cmsis_rtos_v2.c\<close> takes it from the table of \<^verbatim>\<open>tfm_nsid_map_table.c\<close> and
  hands it to the kernel, and on every context switch the kernel calls the shim of
  \<^verbatim>\<open>lib/nsid_manager/tz_shim_layer.c\<close>, which keeps the assignment of tokens to identifiers in
  \<^verbatim>\<open>lib/nsid_manager/tfm_nsid_manager.c\<close> and calls the secure client extension. On two cores the calls
  go through a mailbox, for which \<^verbatim>\<open>lib/multi_core\<close> has the RTOS services. With eRPC the tests run on
  a host: \<^verbatim>\<open>erpc\<close> has the wrappers, the generated shims of both sides, and the host programs. The
  kernel itself is a submodule; the repository has its headers and its configuration,
  \<^verbatim>\<open>lib/ext/CMSIS/RTOS2\<close>.

  \<^bold>\<open>Theories.\<close> \<open>Prelude\<close> has the C integer types, array reads and the state monad with their
  lemmas. Then, with the sources below \<^verbatim>\<open>src/\<close>:

  \<^item> \<open>Log_Raw\<close>: \<^verbatim>\<open>lib/log/tfm_log_raw.c\<close>. One definition per function and per loop; the buffer is a record
    that also keeps what was sent. A reference formatter \<open>render\<close>; the text that reaches the console
    is its output, the count that is returned, and that numbers read back. Locale \<open>char_sink\<close>.
  \<^item> \<open>Nsid_Manager\<close>: \<^verbatim>\<open>lib/nsid_manager/tfm_nsid_manager.c\<close> and \<^verbatim>\<open>app_broker/tfm_nsid_map_table.c\<close>. The table is a
    list of pairs; its invariant \<open>nsid_wf\<close>, and the refinement of a bounded partial map, the locale
    \<open>bounded_map\<close>.
  \<^item> \<open>Tz_Shim\<close>: \<^verbatim>\<open>lib/nsid_manager/tz_shim_layer.c\<close>. A step relation over the shim's statics, the token table and
    the state of the extension; invariant of the reachable states, the outcome of an allocation, that
    a context keeps its identifier until it is freed and is dead afterwards.
  \<^item> \<open>Os_Wrapper\<close>: \<^verbatim>\<open>app_broker/os_wrapper_cmsis_rtos_v2.c\<close> over the record \<open>rtos\<close> of the kernel's calls;
    locale \<open>checked_call\<close>.
  \<^item> \<open>Mailbox\<close>: \<^verbatim>\<open>lib/multi_core/tfm_ns_mailbox_rtos_api.c\<close>, \<^verbatim>\<open>tfm_ns_mailbox_test.c\<close>. When a send returns, how
    many hold the lock, and the statistics; locale \<open>retry_loop\<close>.
  \<^item> \<open>Boot\<close>: \<^verbatim>\<open>app_broker/main_ns.c\<close> and the three \<open>test_app\<close> threads, as sequences of calls.
  \<^item> \<open>Erpc\<close>: \<^verbatim>\<open>erpc/client\<close>, \<^verbatim>\<open>erpc/server\<close>, \<^verbatim>\<open>erpc/host_example\<close>, \<^verbatim>\<open>erpc/tfm_reg_tests\<close>: the wrappers between PSA
    vectors and eRPC lists, and the host programs.
  \<^item> \<open>Erpc_Stubs\<close>: \<^verbatim>\<open>erpc/generated_files\<close> and the two \<^verbatim>\<open>erpc_config.h\<close>. \<open>Erpc_Remote\<close>, \<open>Erpc_Vectors\<close>
    and \<open>Erpc_Memory\<close> prove that a remote call answers with what the served function answers, that
    the server's heap is as before after a call, and where the generated code leaves its arrays. Locales
    \<open>client_stub\<close> and \<open>server_stub\<close>, one interpretation per method.
  \<^item> \<open>Rtx_Os\<close>: \<^verbatim>\<open>cmsis_os2.h\<close> and \<^verbatim>\<open>rtx_os.h\<close>, with a small model of structure layout. \<open>Rtx_Config\<close>:
    \<^verbatim>\<open>RTX_Config.h\<close>, \<^verbatim>\<open>RTX_Config.c\<close>, \<^verbatim>\<open>rtx_lib.c\<close>, \<^verbatim>\<open>os_config_cmsis_rtx.c\<close>: from the macros of the build to
    the structure the kernel gets, and the C library's per-thread space. \<open>Rtx_Events\<close>: \<^verbatim>\<open>rtx_evr.h\<close>, the 172
    trace points of the kernel as tables, and which of them a build has.
  \<^item> \<open>Thread_Identity\<close>: \<open>Os_Wrapper\<close>, \<open>Nsid_Manager\<close> and \<open>Tz_Shim\<close> put together: from the name of a new thread to
    the identifier its context is loaded with on every switch.
  \<^item> \<open>Test_Framework\<close>: \<^verbatim>\<open>tests_reg/test/framework\<close>. The verdict of a suite and of a run, where a run stops,
    and that it has no undefined behaviour. \<open>Suites\<close>: the suite lists of the five images.
  \<^item> \<open>Nsid_Tests\<close>: the NSID suite with its 21 tests, run by the framework on any extension that refines
    a reference machine. \<open>Nv_Counters\<close> (over \<open>Psa_Status\<close>): the counters of the rollback tests;
    locale \<open>counter_bank\<close>.
  \<^item> \<open>Its_Tests\<close>: the suite of the internal trusted storage, \<^verbatim>\<open>suites/its/its_tests_common.c\<close> and
    \<^verbatim>\<open>non_secure/psa_its_ns_interface_testsuite.c\<close>: its 24 tests with their buffers. On every service that
    keeps the documented contract (\<open>its_conforms\<close>) the suite passes, stays within its buffers,
    touches no asset but its own and can be run again.

  \<^item> \<open>Multi_Core\<close>: the multi-core suite, \<^verbatim>\<open>multi_core_ns_interface_testsuite.c\<close>: a parent and its children as
    interleaved threads over a kernel and a storage service. When the parent has finished waiting no child
    uses its stack any more; \<open>Multi_Core_Results\<close>: on conforming services every interleaving
    passes; \<open>Multi_Core_Progress\<close>: no interleaving gets stuck. They rest on \<open>Schedules\<close>, which has
    schedules of a transition system and the locales \<open>stable\<close> and \<open>progressing\<close>.

  \<^item> \<open>Irq_Tests\<close>: the interrupt tests, \<^verbatim>\<open>suites/spm/irq\<close> and \<^verbatim>\<open>irq_test.c\<close>: partition, timer interrupt and client as
    interleaved actors. The partition never panics, answers only after ten interrupts, leaves the
    hardware as it found it, and can always end.

  \<^bold>\<open>Conventions.\<close> Integers of the sources are words of their width (\<open>u8\<close>, \<open>u32\<close>, \<open>i32\<close>; \<open>size_t\<close> has
  32 bits); a pointer is a number, \<open>NULL\<close> is 0. An access outside an array, or through a null
  pointer, is \<open>None\<close> or sets the flag \<open>ub\<close>, so that its absence is a theorem. Code outside the
  repository is a record of functions over an abstract state: \<open>rtos\<close> (kernel), \<open>nsce_api\<close> (secure
  client extension), \<open>board\<close> (drivers), \<open>codec_api\<close> and \<open>client_manager\<close> (eRPC runtime),
  \<open>served_api\<close> (PSA framework), \<open>host_env\<close> (C library of the host), \<open>platform\<close> (kernel and services of the
  multi-core suite), \<open>spm\<close> (partition manager and timer). What a theorem needs of them is a
  named hypothesis (\<open>codec_conforms\<close>, \<open>delivers\<close>, \<open>semaphore_kernel\<close>, \<open>nsce_conforms\<close>,
  \<open>token_carries_tid\<close>, \<open>allocates_contexts\<close>, \<open>psa_core_ok\<close>, \<open>served_as\<close>,
  \<open>mutex_laws\<close>, \<open>flag_laws\<close>, \<open>its_laws\<close>, \<open>spm_laws\<close>) with a concrete instance in the witness.

  \<^bold>\<open>Loops.\<close> Loops over arrays and numbers are functions with a measure. The loops that may not end
  (the queue's retry loops, the idle thread, the error callback) are partial functions into
  \<open>option\<close>, and a theorem says when they return. No fuel is used. The counts of eRPC vectors are
  bounded by \<open>2 ^ 29\<close> in the theorems on the server's memory because the size of the array is computed in
  32 bits; beyond that the theorem \<open>server_vector_count_wraps\<close> says what happens.

  \<^bold>\<open>Not modelled.\<close> The kernel, the secure firmware, the mailbox core, the eRPC runtime and the drivers
  (other repositories); the function declarations of \<^verbatim>\<open>cmsis_os2.h\<close>, which have
  no code; \<^verbatim>\<open>syscalls_stub.c\<close>, whose functions are empty, and the
  configuration headers of the PSA tests; the regression suites other than the NSID, storage (non-secure side),
  multi-core and interrupt suites, which are calls of the secure services with a comparison of each result, and
  the partitions they call; build files and documents.
\<close>

end
